(* ===== verification/Prelude.thy ===== *)
theory Prelude
  imports Complex_Main "HOL-Library.AList" "HOL-Library.Char_ord" "HOL-Library.List_Lexorder"
begin

text \<open>
  What every component of the gateway model shares: the JSON values and Python dictionaries of
  the source, HTTP errors as values, the collections of simplification rules, and generic lemmas
  on dictionaries and on lists used as sets.

  A Python \<open>dict\<close> keeps its insertion order, and several loops of the gateway iterate over one,
  so a dictionary is an association list with distinct keys: \<open>map_of d k\<close> is \<open>d.get(k)\<close> and
  \<open>AList.update k v d\<close> is \<open>d[k] = v\<close> (in place for a key that is there, at the end otherwise).
  Strings are compared the way Python compares them, character by character.
\<close>

named_theorems dict_simps \<open>lookup and key set of updated dictionaries\<close>
named_theorems frame_simps \<open>what an operation leaves unchanged\<close>
named_theorems ledger_mono \<open>operations under which the quarantine ledger only grows\<close>

section \<open>Values\<close>

datatype json =
    JNull
  | JBool bool
  | JNum rat
  | JStr string
  | JArr "json list"
  | JObj "(string \<times> json) list"

type_synonym node_id = string
type_synonym utc = string \<comment> \<open>an ISO-8601 time stamp, compared as a string\<close>
type_synonym json_object = "(string \<times> json) list"
type_synonym ('k, 'v) dict = "('k \<times> 'v) list"

datatype http_exception = HTTPException (status_code: nat) (detail: string)

type_synonym 'a result = "http_exception + 'a"

text \<open>Python's truth value of an optional string: \<open>None\<close> and the empty string are false.\<close>

definition truthy :: "string option \<Rightarrow> bool" where
  "truthy s \<longleftrightarrow> (case s of None \<Rightarrow> False | Some x \<Rightarrow> x \<noteq> [])"

lemma truthy_simps [simp]:
  "\<not> truthy None" "truthy (Some x) \<longleftrightarrow> x \<noteq> []"
  by (simp_all add: truthy_def)

lemma truthy_the: "truthy x \<and> the x \<in> A \<longleftrightarrow> (\<exists>y. x = Some y \<and> y \<noteq> [] \<and> y \<in> A)"
  by (cases x) auto

text \<open>Python's truth value of a JSON value.\<close>

fun jtruthy :: "json \<Rightarrow> bool" where
  "jtruthy JNull = False"
| "jtruthy (JBool b) = b"
| "jtruthy (JNum q) = (q \<noteq> 0)"
| "jtruthy (JStr s) = (s \<noteq> [])"
| "jtruthy (JArr xs) = (xs \<noteq> [])"
| "jtruthy (JObj o') = (o' \<noteq> [])"

section \<open>Dictionaries\<close>

definition keys :: "('k, 'v) dict \<Rightarrow> 'k list" where
  "keys d = map fst d"

definition wf_dict :: "('k, 'v) dict \<Rightarrow> bool" where
  "wf_dict d \<longleftrightarrow> distinct (keys d)"

lemma keys_simps [simp]: "keys [] = []" "keys (p # d) = fst p # keys d"
  by (simp_all add: keys_def)

lemma keys_append [simp]: "keys (d @ e) = keys d @ keys e"
  by (simp add: keys_def)

lemma length_keys [simp]: "length (keys d) = length d"
  by (simp add: keys_def)

lemma set_keys_dom: "set (keys d) = dom (map_of d)"
  by (simp add: keys_def dom_map_of_conv_image_fst)

lemma map_of_eq_None_keys: "map_of d k = None \<longleftrightarrow> k \<notin> set (keys d)"
  by (simp add: keys_def map_of_eq_None_iff)

lemma map_of_update [dict_simps]: "map_of (AList.update k v d) = (map_of d)(k \<mapsto> v)"
  by (rule update_conv')

lemma keys_update [dict_simps]: "set (keys (AList.update k v d)) = insert k (set (keys d))"
  by (induction d) auto

lemma wf_dict_update [intro]: "wf_dict d \<Longrightarrow> wf_dict (AList.update k v d)"
  unfolding wf_dict_def keys_def by (rule distinct_update)

lemma wf_dict_Nil [simp]: "wf_dict []"
  by (simp add: wf_dict_def)

lemma wf_dict_snoc: "wf_dict d \<Longrightarrow> k \<notin> set (keys d) \<Longrightarrow> wf_dict (d @ [(k, v)])"
  by (simp add: wf_dict_def)

lemma map_of_snoc: "map_of (d @ [(k, v)]) x = (if map_of d x = None \<and> x = k then Some v else map_of d x)"
  by (auto simp: map_add_def split: option.split)

lemma mem_set_map_of: "wf_dict d \<Longrightarrow> (k, v) \<in> set d \<longleftrightarrow> map_of d k = Some v"
  by (simp add: wf_dict_def keys_def)

lemma mem_key: "(k, v) \<in> set d \<Longrightarrow> k \<in> set (keys d)"
  by (force simp: keys_def)

text \<open>The comprehension \<open>{i: f(i) for i in ids}\<close>.\<close>

lemma map_of_status_fold:
  "map_of (foldl (\<lambda>d i. AList.update i (f i) d) d0 ids) k = (if k \<in> set ids then Some (f k) else map_of d0 k)"
  by (induction ids arbitrary: d0) (auto simp: map_of_update)

lemma wf_dict_status_fold: "wf_dict d0 \<Longrightarrow> wf_dict (foldl (\<lambda>d i. AList.update i (f i) d) d0 ids)"
  by (induction ids arbitrary: d0) auto

lemma mem_status_fold:
  "(k, v) \<in> set (foldl (\<lambda>d i. AList.update i (f i) d) [] ids) \<longleftrightarrow> k \<in> set ids \<and> v = f k"
  using map_of_status_fold [of f "[]" ids k]
  by (auto simp: mem_set_map_of [OF wf_dict_status_fold])

section \<open>Lists used as sets\<close>

definition add_new :: "'a list \<Rightarrow> 'a \<Rightarrow> 'a list" where
  "add_new xs x = (if x \<in> set xs then xs else xs @ [x])"

lemma set_add_new [simp]: "set (add_new xs x) = insert x (set xs)"
  by (auto simp: add_new_def)

lemma distinct_add_new [simp]: "distinct (add_new xs x) = distinct xs"
  by (auto simp: add_new_def)

lemma set_foldl_add_new [simp]: "set (foldl add_new xs ys) = set xs \<union> set ys"
  by (induction ys arbitrary: xs) auto

lemma distinct_foldl_add_new [simp]: "distinct (foldl add_new xs ys) = distinct xs"
  by (induction ys arbitrary: xs) auto

lemma prefix_foldl_add_new: "\<exists>zs. foldl add_new xs ys = xs @ zs"
proof (induction ys arbitrary: xs)
  case Nil
  show ?case by simp
next
  case (Cons y ys)
  obtain zs where zs: "foldl add_new (add_new xs y) ys = add_new xs y @ zs"
    using Cons.IH by blast
  obtain us where us: "add_new xs y = xs @ us"
    by (cases "y \<in> set xs") (auto simp: add_new_def)
  from zs have "foldl add_new xs (y # ys) = xs @ (us @ zs)"
    unfolding us by (simp add: us)
  then show ?case by blast
qed

lemma filter_eq_Nil_iff: "filter P xs = [] \<longleftrightarrow> (\<forall>x\<in>set xs. \<not> P x)"
  by (auto simp: filter_empty_conv)

lemma find_SomeD: "find P xs = Some x \<Longrightarrow> x \<in> set xs \<and> P x"
  by (induction xs) (auto split: if_splits)

lemma find_NoneD: "find P xs = None \<Longrightarrow> x \<in> set xs \<Longrightarrow> \<not> P x"
  by (auto simp: find_None_iff)

end
