(* ===== verification/Payload.thy ===== *)
theory Payload
  imports Prelude
begin

text \<open>
  The data the gateway stores: the state-write payload (the node of the provenance graph) and the
  records of the ledgers, after the JSON schema \<open>schemas/state_write_payload.json\<close>, the dictionary
  literals of \<open>src/governor_service.py\<close> and its pydantic models.

  A key that may be absent is an \<open>option\<close>. For \<open>covers\<close> and
  \<open>parent_dependency_commitments\<close> every read of the source is \<open>.get(key, [])\<close>, so an absent key
  and an empty list cannot be told apart and both are the empty list.
\<close>

section \<open>State-write payloads\<close>

record commitment =
  parent_node_id :: node_id
  parent_content_hash :: "string option"
  edge_class :: "string option"

record nhi =
  identity_id :: "string option"
  session_token :: "string option"
  nhi_expires_at_utc :: "utc option"

record evidence_boundary =
  boundary_id :: string
  fixed_at_utc :: utc
  boundary_digest :: string

record summarizer_info =
  method_id :: "string option"
  config_digest :: "string option"

record payload =
  payload_id :: node_id
  node_type :: "string option"
  timestamp_utc :: "utc option"
  ephemeral_nhi :: "nhi option"
  declared_evidence_boundary :: "evidence_boundary option"
  state_content :: "json_object option"
  content_digest_sha256 :: "string option"
  agent_signature :: "string option"
  signature_algorithm :: "string option"
  covers :: "node_id list"
  covers_interval_gap :: "node_id list option"
  parent_dependency_commitments :: "commitment list"
  summarizer :: "summarizer_info option"
  criticality_weight :: "rat option"
  retry_of :: "string option"

text \<open>The payload \<open>{"payload_id": i, "parent_dependency_commitments": ps}\<close>.\<close>

definition bare_payload :: "node_id \<Rightarrow> commitment list \<Rightarrow> payload" where
  "bare_payload i ps = \<lparr>payload_id = i, node_type = None, timestamp_utc = None,
     ephemeral_nhi = None, declared_evidence_boundary = None, state_content = None,
     content_digest_sha256 = None, agent_signature = None, signature_algorithm = None,
     covers = [], covers_interval_gap = None, parent_dependency_commitments = ps,
     summarizer = None, criticality_weight = None, retry_of = None\<rparr>"

lemma bare_payload_sel [simp]:
  "payload_id (bare_payload i ps) = i"
  "node_type (bare_payload i ps) = None"
  "ephemeral_nhi (bare_payload i ps) = None"
  "state_content (bare_payload i ps) = None"
  "content_digest_sha256 (bare_payload i ps) = None"
  "covers (bare_payload i ps) = []"
  "parent_dependency_commitments (bare_payload i ps) = ps"
  "summarizer (bare_payload i ps) = None"
  "criticality_weight (bare_payload i ps) = None"
  "retry_of (bare_payload i ps) = None"
  by (simp_all add: bare_payload_def)

text \<open>Readers of nested keys, each with the default the source gives.\<close>

definition parent_ids :: "payload \<Rightarrow> node_id list" where
  "parent_ids p = map parent_node_id (parent_dependency_commitments p)"

definition nhi_identity :: "payload \<Rightarrow> string option" where
  "nhi_identity p = Option.bind (ephemeral_nhi p) identity_id"

definition nhi_token :: "payload \<Rightarrow> string option" where
  "nhi_token p = Option.bind (ephemeral_nhi p) session_token"

definition summarizer_method :: "payload \<Rightarrow> string option" where
  "summarizer_method p = Option.bind (summarizer p) method_id"

definition criticality :: "payload \<Rightarrow> rat" where
  "criticality p = (case criticality_weight p of None \<Rightarrow> 0 | Some w \<Rightarrow> w)"

definition content_entry :: "payload \<Rightarrow> string \<Rightarrow> json option" where
  "content_entry p k = (case state_content p of None \<Rightarrow> None | Some c \<Rightarrow> map_of c k)"

section \<open>Records of the ledgers\<close>

record checkpoint =
  checkpoint_id :: string
  target_node_id :: node_id
  declared_at_utc :: utc
  snapshot_data :: json_object

record external_effect =
  effect_node_id :: node_id
  effect_type :: string
  effect_recorded_at_utc :: utc

datatype disposition = REDUCIBLE | IRREDUCIBLE | PENDING_RECONSTRUCTION

record repair_candidate =
  rc_disposition :: disposition
  rc_reason :: "string option"
  rc_escalation_record :: "string option"
  rc_frontier :: "node_id list option"
  rc_method :: "string option"
  rc_checkpoint :: "checkpoint option"
  rc_reconstructed_node_id :: "node_id option"

record quarantine_event =
  quarantine_event_id :: string
  detected_at_utc :: utc
  poisoned_root_id :: node_id
  computed_blast_radius_C_p :: "node_id list"
  monotonic_ledger_digest :: string
  designator_identity :: "string option"
  designation_reason :: "string option"
  detector_source :: "string option"

record horizon_entry =
  admitted_at_utc :: utc
  trust_expires_utc :: utc
  predecessor_id :: node_id
  renewal_count :: nat

record recurrence_event =
  event_id :: string
  rec_node_id :: node_id
  recurrence_class :: string
  rec_detected_at_utc :: utc
  rec_signal_source :: string
  rec_evidence :: json_object
  escalation_reason :: "string option"

record withdrawal =
  withdrawn_at_utc :: utc
  triggering_event_id :: string
  withdrawal_reason :: string

record signal_attempt =
  signal_source :: string
  signal_node_id :: node_id
  signal_kind :: string
  outcome :: string
  recorded_at_utc :: utc

record calibration_run =
  run_id :: string
  run_at_utc :: utc
  seeded_count :: int
  detected_count :: int
  sensitivity_floor :: rat
  monitored_period :: json_object

record exposure =
  exposure_id :: string
  exposure_node_id :: node_id
  substitute_status :: string
  exposed_at_utc :: utc
  quarantine_non_empty :: bool
  mechanism :: "string option" \<comment> \<open>\<open>exposure_record["mechanism"]\<close>\<close>

record substitute_declaration =
  sub_target_node_id :: node_id
  substitute_source_id :: node_id
  sub_declared_at_utc :: utc

record tainted_rejection =
  tr_node_id :: node_id
  tainted_parent_id :: node_id
  rejected_at_utc :: utc
  author_identity :: string
  offered :: bool
  offered_replacement :: "node_id option"
  replacement_type :: "string option"
  completed :: bool
  completed_by :: "node_id option"

record gate_evidence =
  gate :: string
  passed :: bool
  evaluated_at_utc :: utc

record reintegration_evidence_entry =
  pre_state_digest :: string
  post_state_digest :: string
  gate_evidence_list :: "gate_evidence list"
  evidence_recorded_at_utc :: utc

record detector_event =
  detector_event_id :: string
  detector_event_source :: string
  raw_event :: json_object
  received_at_utc :: utc
  detector_outcome :: "string option"

text \<open>
  A repair candidate that no longer changes: the traversal skips a compaction that has one.
\<close>

definition terminal :: "repair_candidate \<Rightarrow> bool" where
  "terminal rc \<longleftrightarrow> rc_disposition rc = REDUCIBLE \<or> rc_disposition rc = IRREDUCIBLE"

end
