(* ===== verification/Memory_Backend.thy ===== *)
theory Memory_Backend
  imports Payload
begin

text \<open>
  \<open>MemoryStateBackend\<close> of \<open>src/governor_service.py\<close>: its fields as a record and one definition per
  method. A method that writes returns the new state; every method of the source runs under
  \<open>self.lock\<close>, so each is one atomic step. The clock is an argument (\<open>now\<close>), as an ISO string.
  The graph searches (\<open>compute_blast_radius\<close>, \<open>compute_covers_interval_gap\<close>,
  \<open>find_continuity_replacement\<close>) have theories of their own.
\<close>

section \<open>State\<close>

record gstate =
  dag :: "(node_id, payload) dict"
  quarantine_ledger :: "node_id list"
  quarantine_events :: "quarantine_event list"
  repair_candidates :: "(node_id, repair_candidate) dict"
  checkpoints :: "(string, checkpoint) dict"
  external_effects :: "(string, external_effect) dict"
  shadow_decisions :: "bool list"
  reintegration_horizon :: "(node_id, horizon_entry) dict"
  recurrence_events :: "recurrence_event list"
  withdrawal_ledger :: "(node_id, withdrawal) dict"
  calibration_runs :: "calibration_run list"
  signal_attempts :: "signal_attempt list"
  continuity_exposures :: "exposure list"
  substitute_declarations :: "(node_id, substitute_declaration) dict"
  detector_events :: "detector_event list"
  tainted_rejections :: "tainted_rejection list"
  reintegration_evidence :: "(node_id, reintegration_evidence_entry) dict"

text \<open>
  \<open>_reset_sync\<close>. The dictionary \<open>_reintegration_evidence\<close> is created on first use and is not
  among the fields the source resets, so it survives.
\<close>

definition reset_sync :: "gstate \<Rightarrow> gstate" where
  "reset_sync s = \<lparr>
     dag = [(''clean-parent-1'', bare_payload ''clean-parent-1'' [])],
     quarantine_ledger = [''quarantined-node-A''],
     quarantine_events = [], repair_candidates = [], checkpoints = [],
     external_effects = [], shadow_decisions = [], reintegration_horizon = [],
     recurrence_events = [], withdrawal_ledger = [], calibration_runs = [],
     signal_attempts = [], continuity_exposures = [], substitute_declarations = [],
     detector_events = [], tainted_rejections = [],
     reintegration_evidence = reintegration_evidence s\<rparr>"

text \<open>The state the constructor leaves: \<open>_reset_sync\<close> on an object without evidence.\<close>

definition init_state :: gstate where
  "init_state = \<lparr>
     dag = [(''clean-parent-1'', bare_payload ''clean-parent-1'' [])],
     quarantine_ledger = [''quarantined-node-A''],
     quarantine_events = [], repair_candidates = [], checkpoints = [],
     external_effects = [], shadow_decisions = [], reintegration_horizon = [],
     recurrence_events = [], withdrawal_ledger = [], calibration_runs = [],
     signal_attempts = [], continuity_exposures = [], substitute_declarations = [],
     detector_events = [], tainted_rejections = [], reintegration_evidence = []\<rparr>"

section \<open>Graph and quarantine ledger\<close>

definition commit_node :: "payload \<Rightarrow> gstate \<Rightarrow> bool \<times> gstate" where
  "commit_node p s =
     (if payload_id p \<in> set (keys (dag s)) then (False, s)
      else (True, s\<lparr>dag := dag s @ [(payload_id p, p)]\<rparr>))"

definition log_quarantine_event :: "quarantine_event \<Rightarrow> gstate \<Rightarrow> gstate" where
  "log_quarantine_event e s = s\<lparr>quarantine_events := quarantine_events s @ [e]\<rparr>"

definition add_to_quarantine_ledger :: "node_id \<Rightarrow> gstate \<Rightarrow> gstate" where
  "add_to_quarantine_ledger n s = s\<lparr>quarantine_ledger := add_new (quarantine_ledger s) n\<rparr>"

definition apply_quarantine_transaction :: "quarantine_event \<Rightarrow> node_id list \<Rightarrow> gstate \<Rightarrow> gstate" where
  "apply_quarantine_transaction e c_p s =
     s\<lparr>quarantine_events := quarantine_events s @ [e],
       quarantine_ledger := foldl add_new (quarantine_ledger s) c_p\<rparr>"

definition nodes_exist :: "node_id list \<Rightarrow> gstate \<Rightarrow> (node_id, bool) dict" where
  "nodes_exist ids s =
     foldl (\<lambda>d i. AList.update i (i \<in> set (keys (dag s))) d) [] ids"

definition are_quarantined :: "node_id list \<Rightarrow> gstate \<Rightarrow> (node_id, bool) dict" where
  "are_quarantined ids s =
     foldl (\<lambda>d i. AList.update i (i \<in> set (quarantine_ledger s)) d) [] ids"

definition get_node_content_hashes :: "node_id list \<Rightarrow> gstate \<Rightarrow> (node_id, string) dict" where
  "get_node_content_hashes ids s =
     foldl (\<lambda>d i. case map_of (dag s) i of None \<Rightarrow> d
        | Some nd \<Rightarrow> AList.update i (case content_digest_sha256 nd of None \<Rightarrow> [] | Some h \<Rightarrow> h) d) [] ids"

definition update_repair_candidate :: "node_id \<Rightarrow> repair_candidate \<Rightarrow> gstate \<Rightarrow> gstate" where
  "update_repair_candidate n rc s = s\<lparr>repair_candidates := AList.update n rc (repair_candidates s)\<rparr>"

text \<open>
  \<open>hashlib.sha256(json.dumps(\<dots>))\<close> is the parameter \<open>digest\<close> on the sorted list of merged
  identifiers; \<open>sorted(set(xs) | set(ys))\<close> is \<open>sort (remdups (xs @ ys))\<close>.
\<close>

definition compute_quarantine_digest ::
    "(node_id list \<Rightarrow> string) \<Rightarrow> node_id list \<Rightarrow> gstate \<Rightarrow> string" where
  "compute_quarantine_digest digest ids s = digest (sort (remdups (quarantine_ledger s @ ids)))"

definition compute_state_digest ::
    "(payload \<Rightarrow> string) \<Rightarrow> ((node_id \<times> string) list \<Rightarrow> node_id list \<Rightarrow> string) \<Rightarrow> gstate \<Rightarrow> string" where
  "compute_state_digest node_digest combine s =
     combine (sort_key fst (map (\<lambda>(i, nd). (i, node_digest nd)) (dag s)))
       (sort (quarantine_ledger s))"

section \<open>Checkpoints, effects, substitutes, exposures\<close>

definition add_checkpoint :: "checkpoint \<Rightarrow> gstate \<Rightarrow> gstate" where
  "add_checkpoint c s = s\<lparr>checkpoints := AList.update (checkpoint_id c) c (checkpoints s)\<rparr>"

definition add_external_effect :: "utc \<Rightarrow> string \<Rightarrow> node_id \<Rightarrow> string \<Rightarrow> gstate \<Rightarrow> gstate" where
  "add_external_effect now key n ty s =
     s\<lparr>external_effects := AList.update key
         \<lparr>effect_node_id = n, effect_type = ty, effect_recorded_at_utc = now\<rparr> (external_effects s)\<rparr>"

definition check_external_effect :: "string \<Rightarrow> gstate \<Rightarrow> bool" where
  "check_external_effect key s \<longleftrightarrow> key \<in> set (keys (external_effects s))"

definition has_external_effects :: "node_id list \<Rightarrow> gstate \<Rightarrow> bool" where
  "has_external_effects ids s \<longleftrightarrow>
     list_ex (\<lambda>(k, e). effect_node_id e \<in> set ids) (external_effects s)"

definition add_substitute_declaration :: "substitute_declaration \<Rightarrow> gstate \<Rightarrow> gstate" where
  "add_substitute_declaration d s =
     s\<lparr>substitute_declarations := AList.update (sub_target_node_id d) d (substitute_declarations s)\<rparr>"

definition record_continuity_exposure ::
    "utc \<Rightarrow> string \<Rightarrow> node_id \<Rightarrow> string \<Rightarrow> bool \<Rightarrow> string option \<Rightarrow> gstate \<Rightarrow> gstate" where
  "record_continuity_exposure now eid n status nonempty mech s =
     s\<lparr>continuity_exposures := continuity_exposures s @
        [\<lparr>exposure_id = eid, exposure_node_id = n, substitute_status = status,
          exposed_at_utc = now, quarantine_non_empty = nonempty, mechanism = mech\<rparr>]\<rparr>"

definition record_detector_event :: "detector_event \<Rightarrow> gstate \<Rightarrow> gstate" where
  "record_detector_event e s = s\<lparr>detector_events := detector_events s @ [e]\<rparr>"

definition record_shadow_decision :: "bool \<Rightarrow> gstate \<Rightarrow> gstate" where
  "record_shadow_decision blocked s = s\<lparr>shadow_decisions := shadow_decisions s @ [blocked]\<rparr>"

section \<open>Reintegration, recurrence, signals\<close>

definition record_reintegration :: "utc \<Rightarrow> utc \<Rightarrow> node_id \<Rightarrow> node_id \<Rightarrow> gstate \<Rightarrow> gstate" where
  "record_reintegration now expires n pred s =
     s\<lparr>reintegration_horizon := AList.update n
        \<lparr>admitted_at_utc = now, trust_expires_utc = expires, predecessor_id = pred, renewal_count = 0\<rparr>
        (reintegration_horizon s)\<rparr>"

definition get_active_horizon_set :: "utc \<Rightarrow> gstate \<Rightarrow> (node_id, horizon_entry) dict" where
  "get_active_horizon_set now s = filter (\<lambda>(k, v). trust_expires_utc v > now) (reintegration_horizon s)"

definition get_expired_horizon_set :: "utc \<Rightarrow> gstate \<Rightarrow> node_id list" where
  "get_expired_horizon_set now s =
     map fst (filter (\<lambda>(k, v). trust_expires_utc v \<le> now) (reintegration_horizon s))"

definition renew_trust :: "utc \<Rightarrow> node_id \<Rightarrow> gstate \<Rightarrow> gstate" where
  "renew_trust expires n s =
     (case map_of (reintegration_horizon s) n of None \<Rightarrow> s
      | Some h \<Rightarrow> s\<lparr>reintegration_horizon := AList.update n
           (h\<lparr>trust_expires_utc := expires, renewal_count := Suc (renewal_count h)\<rparr>)
           (reintegration_horizon s)\<rparr>)"

text \<open>The \<open>for i, node_id in enumerate(w_r)\<close> loop: a node already withdrawn keeps its record.\<close>

fun withdraw_all :: "utc \<Rightarrow> string \<Rightarrow> nat \<Rightarrow> node_id list \<Rightarrow> (node_id, withdrawal) dict \<Rightarrow> (node_id, withdrawal) dict" where
  "withdraw_all now eid i [] led = led"
| "withdraw_all now eid i (n # ns) led =
     withdraw_all now eid (Suc i) ns
       (if n \<in> set (keys led) then led
        else led @ [(n, \<lparr>withdrawn_at_utc = now, triggering_event_id = eid,
               withdrawal_reason = (if i = 0 then ''DIRECTLY_IMPLICATED'' else ''UNEXAMINED_DEPENDENT'')\<rparr>)])"

definition apply_withdrawal_transaction :: "utc \<Rightarrow> recurrence_event \<Rightarrow> node_id list \<Rightarrow> gstate \<Rightarrow> gstate" where
  "apply_withdrawal_transaction now e w_r s =
     s\<lparr>recurrence_events := recurrence_events s @ [e],
       withdrawal_ledger := withdraw_all now (event_id e) 0 w_r (withdrawal_ledger s)\<rparr>"

definition record_calibration_run :: "calibration_run \<Rightarrow> gstate \<Rightarrow> gstate" where
  "record_calibration_run r s = s\<lparr>calibration_runs := calibration_runs s @ [r]\<rparr>"

definition record_signal_attempt :: "utc \<Rightarrow> string \<Rightarrow> node_id \<Rightarrow> string \<Rightarrow> string \<Rightarrow> gstate \<Rightarrow> gstate" where
  "record_signal_attempt now src n kind out s =
     s\<lparr>signal_attempts := signal_attempts s @
        [\<lparr>signal_source = src, signal_node_id = n, signal_kind = kind, outcome = out, recorded_at_utc = now\<rparr>]\<rparr>"

definition count_recent_signals :: "string \<Rightarrow> utc \<Rightarrow> gstate \<Rightarrow> nat" where
  "count_recent_signals src since s =
     length (filter (\<lambda>a. signal_source a = src \<and> recorded_at_utc a \<ge> since) (signal_attempts s))"

definition count_recent_signals_global :: "utc \<Rightarrow> gstate \<Rightarrow> nat" where
  "count_recent_signals_global since s =
     length (filter (\<lambda>a. recorded_at_utc a \<ge> since) (signal_attempts s))"

definition get_signal_outcome_counts :: "gstate \<Rightarrow> (string, nat) dict" where
  "get_signal_outcome_counts s =
     foldl (\<lambda>d a. AList.update (outcome a)
         (Suc (case map_of d (outcome a) of None \<Rightarrow> 0 | Some n \<Rightarrow> n)) d) [] (signal_attempts s)"

definition record_reintegration_evidence ::
    "utc \<Rightarrow> node_id \<Rightarrow> string \<Rightarrow> string \<Rightarrow> gate_evidence list \<Rightarrow> gstate \<Rightarrow> gstate" where
  "record_reintegration_evidence now n pre post ev s =
     s\<lparr>reintegration_evidence := AList.update n
        \<lparr>pre_state_digest = pre, post_state_digest = post, gate_evidence_list = ev,
          evidence_recorded_at_utc = now\<rparr> (reintegration_evidence s)\<rparr>"

section \<open>Status queries\<close>

lemma mem_are_quarantined:
  "(i, q) \<in> set (are_quarantined ids s) \<longleftrightarrow> i \<in> set ids \<and> q = (i \<in> set (quarantine_ledger s))"
  unfolding are_quarantined_def by (rule mem_status_fold)

lemma mem_nodes_exist:
  "(i, q) \<in> set (nodes_exist ids s) \<longleftrightarrow> i \<in> set ids \<and> q = (i \<in> set (keys (dag s)))"
  unfolding nodes_exist_def by (rule mem_status_fold)

lemma tainted_are_quarantined:
  "filter (\<lambda>(k, q). q) (are_quarantined ids s) = [] \<longleftrightarrow> set ids \<inter> set (quarantine_ledger s) = {}"
  by (force simp: filter_empty_conv mem_are_quarantined)

lemma map_of_content_hashes:
  "map_of (get_node_content_hashes ids s) i =
     (if i \<in> set ids then map_option (\<lambda>nd. case content_digest_sha256 nd of None \<Rightarrow> [] | Some h \<Rightarrow> h) (map_of (dag s) i)
      else None)"
proof -
  let ?f = "\<lambda>d i. case map_of (dag s) i of None \<Rightarrow> d
        | Some nd \<Rightarrow> AList.update i (case content_digest_sha256 nd of None \<Rightarrow> [] | Some h \<Rightarrow> h) d"
  have "map_of (foldl ?f d0 ids) i =
     (if i \<in> set ids \<and> map_of (dag s) i \<noteq> None
      then map_option (\<lambda>nd. case content_digest_sha256 nd of None \<Rightarrow> [] | Some h \<Rightarrow> h) (map_of (dag s) i)
      else map_of d0 i)" for d0
    by (induction ids arbitrary: d0) (auto simp: map_of_update split: option.splits)
  from this [of "[]"] show ?thesis by (auto simp: get_node_content_hashes_def)
qed

section \<open>What a commit and a quarantine change\<close>

lemma commit_node_simps [simp]:
  "set (keys (dag (snd (commit_node p s)))) = insert (payload_id p) (set (keys (dag s)))"
  "quarantine_ledger (snd (commit_node p s)) = quarantine_ledger s"
  "quarantine_events (snd (commit_node p s)) = quarantine_events s"
  "repair_candidates (snd (commit_node p s)) = repair_candidates s"
  "shadow_decisions (snd (commit_node p s)) = shadow_decisions s"
  "tainted_rejections (snd (commit_node p s)) = tainted_rejections s"
  "withdrawal_ledger (snd (commit_node p s)) = withdrawal_ledger s"
  "checkpoints (snd (commit_node p s)) = checkpoints s"
  "external_effects (snd (commit_node p s)) = external_effects s"
  "reintegration_horizon (snd (commit_node p s)) = reintegration_horizon s"
  "continuity_exposures (snd (commit_node p s)) = continuity_exposures s"
  "substitute_declarations (snd (commit_node p s)) = substitute_declarations s"
  "detector_events (snd (commit_node p s)) = detector_events s"
  by (auto simp: commit_node_def)

lemma wf_commit_node: "wf_dict (dag s) \<Longrightarrow> wf_dict (dag (snd (commit_node p s)))"
  by (simp add: commit_node_def wf_dict_snoc)

lemma commit_node_new: "fst (commit_node p s) \<longleftrightarrow> payload_id p \<notin> set (keys (dag s))"
  by (simp add: commit_node_def)

lemma commit_node_existing: "payload_id p \<in> set (keys (dag s)) \<Longrightarrow> snd (commit_node p s) = s"
  by (simp add: commit_node_def)

lemma mem_commit_node:
  "(n, nd) \<in> set (dag (snd (commit_node p s))) \<longleftrightarrow>
     (n, nd) \<in> set (dag s) \<or> (payload_id p \<notin> set (keys (dag s)) \<and> n = payload_id p \<and> nd = p)"
  by (auto simp: commit_node_def)

lemma apply_quarantine_simps [simp]:
  "set (quarantine_ledger (apply_quarantine_transaction ev c_p s)) = set (quarantine_ledger s) \<union> set c_p"
  "dag (apply_quarantine_transaction ev c_p s) = dag s"
  "repair_candidates (apply_quarantine_transaction ev c_p s) = repair_candidates s"
  "tainted_rejections (apply_quarantine_transaction ev c_p s) = tainted_rejections s"
  "withdrawal_ledger (apply_quarantine_transaction ev c_p s) = withdrawal_ledger s"
  "checkpoints (apply_quarantine_transaction ev c_p s) = checkpoints s"
  "continuity_exposures (apply_quarantine_transaction ev c_p s) = continuity_exposures s"
  "substitute_declarations (apply_quarantine_transaction ev c_p s) = substitute_declarations s"
  "shadow_decisions (apply_quarantine_transaction ev c_p s) = shadow_decisions s"
  "detector_events (apply_quarantine_transaction ev c_p s) = detector_events s"
  "quarantine_events (apply_quarantine_transaction ev c_p s) = quarantine_events s @ [ev]"
  by (simp_all add: apply_quarantine_transaction_def)

lemma record_shadow_decision_simps [simp]:
  "dag (record_shadow_decision b s) = dag s"
  "quarantine_ledger (record_shadow_decision b s) = quarantine_ledger s"
  "quarantine_events (record_shadow_decision b s) = quarantine_events s"
  "tainted_rejections (record_shadow_decision b s) = tainted_rejections s"
  "shadow_decisions (record_shadow_decision b s) = shadow_decisions s @ [b]"
  by (simp_all add: record_shadow_decision_def)

end
