(* ===== verification/Worklist.thy ===== *)
theory Worklist
  imports Prelude
begin

text \<open>
  The gateway searches its provenance graph in many places, always with the same loop: a queue of
  discovered nodes, a set of visited ones, and for each dequeued node the undiscovered neighbours
  appended to both. This theory proves once what such a loop computes.

  The locale \<open>worklist_loop\<close> is the interface: a loop given by its two equations (empty queue,
  dequeue one node), the list of fresh neighbours it enqueues, and an auxiliary value the loop may
  thread through. Its theorem \<open>loop_result\<close> says that the loop ends and that both the visited
  nodes and the processed nodes are exactly the nodes reachable from the start.
\<close>

section \<open>Reachability\<close>

definition reach_from :: "('a \<Rightarrow> 'a \<Rightarrow> bool) \<Rightarrow> 'a set \<Rightarrow> 'a set" where
  "reach_from E R = {y. \<exists>r\<in>R. E\<^sup>*\<^sup>* r y}"

lemma reach_from_start: "r \<in> R \<Longrightarrow> r \<in> reach_from E R"
  by (auto simp: reach_from_def)

lemma reach_from_step: "x \<in> reach_from E R \<Longrightarrow> E x y \<Longrightarrow> y \<in> reach_from E R"
  by (auto simp: reach_from_def intro: rtranclp.rtrancl_into_rtrancl)

lemma reach_from_least:
  assumes "R \<subseteq> S" and "\<And>x y. x \<in> S \<Longrightarrow> E x y \<Longrightarrow> y \<in> S"
  shows "reach_from E R \<subseteq> S"
proof
  fix y
  assume "y \<in> reach_from E R"
  then obtain r where "r \<in> R" and "E\<^sup>*\<^sup>* r y"
    by (auto simp: reach_from_def)
  from this(2) show "y \<in> S"
  proof induction
    case base
    show ?case using \<open>r \<in> R\<close> assms(1) by blast
  next
    case (step y z)
    then show ?case using assms(2) by blast
  qed
qed

lemma reach_from_mono:
  assumes "\<And>x y. E x y \<Longrightarrow> E' x y" and "R \<subseteq> R'"
  shows "reach_from E R \<subseteq> reach_from E' R'"
  by (rule reach_from_least) (use assms in \<open>auto intro: reach_from_start reach_from_step\<close>)

lemma reach_from_cong:
  assumes "\<And>x y. E x y \<longleftrightarrow> E' x y"
  shows "reach_from E R = reach_from E' R"
  using assms by (intro equalityI reach_from_mono) auto

lemma reach_from_bound:
  assumes "\<And>x y. E x y \<Longrightarrow> y \<in> F"
  shows "reach_from E R \<subseteq> R \<union> F"
  by (rule reach_from_least) (use assms in auto)

section \<open>The loop\<close>

locale worklist_loop =
  fixes E :: "'a \<Rightarrow> 'a \<Rightarrow> bool"
    and F :: "'a set"
    and loop :: "'a list \<Rightarrow> 'a list \<Rightarrow> 'a list \<Rightarrow> 'x \<Rightarrow> 'r"
    and fresh :: "'a \<Rightarrow> 'a list \<Rightarrow> 'a list"
    and aux :: "'a \<Rightarrow> 'a list \<Rightarrow> 'x \<Rightarrow> 'x"
    and res :: "'a list \<Rightarrow> 'a list \<Rightarrow> 'x \<Rightarrow> 'r"
  assumes finite_F: "finite F"
    and edge_F: "E c y \<Longrightarrow> y \<in> F"
    and set_fresh: "set (fresh c V) = {y. E c y} - set V"
    and distinct_fresh: "distinct (fresh c V)"
    and loop_Nil: "loop V [] D x = res V D x"
    and loop_Cons:
      "loop V (c # Q) D x = loop (V @ fresh c V) (Q @ fresh c V) (D @ [c]) (aux c V x)"
begin

definition search_inv :: "'a list \<Rightarrow> 'a list \<Rightarrow> 'a list \<Rightarrow> 'a list \<Rightarrow> bool" where
  "search_inv R V Q D \<longleftrightarrow>
     set V = set D \<union> set Q \<and> (distinct R \<longrightarrow> distinct (D @ Q)) \<and> set R \<subseteq> set V \<and>
     set V \<subseteq> reach_from E (set R) \<and> (\<forall>x\<in>set D. \<forall>y. E x y \<longrightarrow> y \<in> set V)"

lemma search_inv_start: "search_inv R R R []"
  by (auto simp: search_inv_def intro: reach_from_start)

lemma search_inv_step:
  assumes "search_inv R V (c # Q) D"
  shows "search_inv R (V @ fresh c V) (Q @ fresh c V) (D @ [c])"
proof -
  have c: "c \<in> reach_from E (set R)"
    using assms by (auto simp: search_inv_def)
  have "{y. E c y} \<subseteq> reach_from E (set R)"
    using reach_from_step [OF c] by blast
  then show ?thesis
    using assms distinct_fresh [of c V] unfolding search_inv_def by (auto simp: set_fresh)
qed

lemma search_inv_final:
  assumes "search_inv R V [] D"
  shows "set V = reach_from E (set R)" and "set D = reach_from E (set R)" and "distinct R \<Longrightarrow> distinct D"
proof -
  have "reach_from E (set R) \<subseteq> set V"
    by (rule reach_from_least) (use assms in \<open>auto simp: search_inv_def\<close>)
  then show "set V = reach_from E (set R)" and "set D = reach_from E (set R)"
    and "distinct R \<Longrightarrow> distinct D"
    using assms by (auto simp: search_inv_def)
qed

definition work :: "'a list \<Rightarrow> 'a list \<Rightarrow> nat" where
  "work V Q = card (F - set V) + length Q"

lemma work_step: "work (V @ fresh c V) (Q @ fresh c V) < work V (c # Q)"
proof -
  have sub: "set (fresh c V) \<subseteq> F - set V"
    using edge_F by (auto simp: set_fresh)
  have "F - set (V @ fresh c V) = (F - set V) - set (fresh c V)"
    by auto
  then have "card (F - set (V @ fresh c V)) = card (F - set V) - card (set (fresh c V))"
    using sub by (simp add: card_Diff_subset)
  moreover have "card (set (fresh c V)) = length (fresh c V)"
    by (rule distinct_card) (rule distinct_fresh)
  moreover have "card (set (fresh c V)) \<le> card (F - set V)"
    using finite_F sub by (intro card_mono) auto
  ultimately show ?thesis
    by (simp add: work_def)
qed

lemma loop_from_inv:
  "search_inv R V Q D \<Longrightarrow> \<exists>V' D' x'. loop V Q D x = res V' D' x' \<and> search_inv R V' [] D'"
proof (induction "work V Q" arbitrary: V Q D x rule: less_induct)
  case less
  show ?case
  proof (cases Q)
    case Nil
    then show ?thesis using less.prems by (auto simp: loop_Nil)
  next
    case (Cons c Q')
    have "work (V @ fresh c V) (Q' @ fresh c V) < work V Q"
      unfolding Cons by (rule work_step)
    from this have IH: "\<And>D x. search_inv R (V @ fresh c V) (Q' @ fresh c V) D \<Longrightarrow>
        \<exists>V' D' x'. loop (V @ fresh c V) (Q' @ fresh c V) D x = res V' D' x' \<and> search_inv R V' [] D'"
      by (rule less.hyps)
    have "search_inv R (V @ fresh c V) (Q' @ fresh c V) (D @ [c])"
      using less.prems unfolding Cons by (rule search_inv_step)
    from IH [OF this] show ?thesis
      unfolding Cons loop_Cons .
  qed
qed

theorem loop_result:
  "\<exists>V D x'. loop R R [] x = res V D x' \<and>
    set V = reach_from E (set R) \<and> set D = reach_from E (set R) \<and> (distinct R \<longrightarrow> distinct D)"
  using loop_from_inv [OF search_inv_start, of R x] search_inv_final by blast

end

end
