(* ===== verification/Blast_Radius.thy ===== *)
theory Blast_Radius
  imports Memory_Backend Worklist
begin

text \<open>
  \<open>MemoryStateBackend.compute_blast_radius\<close>: the breadth-first search for every node that derives
  from a poisoned root, through parent edges and through the \<open>covers\<close> of a compaction, and the
  repair planner (R1 and R2) it runs on the compactions reached through a \<open>CARRIED\<close> edge.

  The search is total (\<open>br_loop\<close> has a termination proof) and computes the exact forward closure
  of the root; the planner touches nothing but the repair candidates, leaves terminal dispositions
  alone, and only ever marks a compaction as reconstructible with a clean, non-empty frontier and
  a checkpoint inside it.
\<close>

section \<open>The search\<close>

definition is_carried :: "node_id \<Rightarrow> payload \<Rightarrow> bool" where
  "is_carried cur nd \<longleftrightarrow>
     list_ex (\<lambda>p. parent_node_id p = cur \<and> edge_class p = Some ''CARRIED'')
       (parent_dependency_commitments nd)"

text \<open>The \<open>for node_id, node_data in self.dag.items()\<close> loop on (visited, queue, affected).\<close>

fun br_scan :: "node_id \<Rightarrow> (node_id, payload) dict \<Rightarrow> node_id list \<times> node_id list \<times> node_id list
    \<Rightarrow> node_id list \<times> node_id list \<times> node_id list" where
  "br_scan cur [] st = st"
| "br_scan cur ((nid, nd) # rest) (visited, queue, affected) =
     (if nid \<in> set visited then br_scan cur rest (visited, queue, affected)
      else if cur \<in> set (parent_ids nd)
      then br_scan cur rest (visited @ [nid], queue @ [nid],
             if is_carried cur nd then affected @ [nid] else affected)
      else if cur \<in> set (covers nd)
      then br_scan cur rest (visited @ [nid], queue @ [nid], affected)
      else br_scan cur rest (visited, queue, affected))"

text \<open>What one scan adds: the undiscovered neighbours, and those of them reached by a carried edge.\<close>

definition touches :: "node_id \<Rightarrow> payload \<Rightarrow> bool" where
  "touches cur nd \<longleftrightarrow> cur \<in> set (parent_ids nd) \<or> cur \<in> set (covers nd)"

fun br_fresh :: "node_id \<Rightarrow> (node_id, payload) dict \<Rightarrow> node_id list \<Rightarrow> (node_id, payload) dict" where
  "br_fresh cur [] visited = []"
| "br_fresh cur ((nid, nd) # rest) visited =
     (if nid \<notin> set visited \<and> touches cur nd then (nid, nd) # br_fresh cur rest (visited @ [nid])
      else br_fresh cur rest visited)"

lemma is_carried_parent: "is_carried cur nd \<Longrightarrow> cur \<in> set (parent_ids nd)"
  by (auto simp: is_carried_def parent_ids_def list_ex_iff)

lemma br_scan_eq:
  "br_scan cur d (V, Q, A) =
     (V @ keys (br_fresh cur d V), Q @ keys (br_fresh cur d V),
      A @ keys (filter (\<lambda>(n, nd). is_carried cur nd) (br_fresh cur d V)))"
  by (induction cur d V arbitrary: Q A rule: br_fresh.induct)
    (auto simp: touches_def dest: is_carried_parent)

lemma set_br_fresh:
  "set (keys (br_fresh cur d V)) = {n. \<exists>nd. (n, nd) \<in> set d \<and> touches cur nd} - set V"
  by (induction cur d V rule: br_fresh.induct) auto

lemma br_fresh_subset: "set (br_fresh cur d V) \<subseteq> set d"
  by (induction cur d V rule: br_fresh.induct) auto

lemma distinct_br_fresh: "distinct (keys (br_fresh cur d V))"
  by (induction cur d V rule: br_fresh.induct) (auto simp: set_br_fresh)

lemma br_scan_measure:
  assumes "br_scan cur d (V, Q, A) = (V', Q', A')"
  shows "card (set (keys d) - set V') + length Q' = card (set (keys d) - set V) + length Q"
proof -
  let ?N = "keys (br_fresh cur d V)"
  have V': "V' = V @ ?N" and Q': "Q' = Q @ ?N"
    using assms by (simp_all add: br_scan_eq)
  have sub: "set ?N \<subseteq> set (keys d) - set V"
    by (auto simp: set_br_fresh intro: mem_key)
  have "set (keys d) - set V' = (set (keys d) - set V) - set ?N"
    by (auto simp: V')
  then have "card (set (keys d) - set V') = card (set (keys d) - set V) - card (set ?N)"
    using sub by (simp add: card_Diff_subset)
  moreover have "card (set ?N) \<le> card (set (keys d) - set V)"
    using sub by (intro card_mono) auto
  moreover have "card (set ?N) = length ?N"
    by (rule distinct_card) (rule distinct_br_fresh)
  ultimately show ?thesis by (simp add: Q')
qed

text \<open>The \<open>while queue\<close> loop; it returns \<open>c_p\<close> in discovery order and the affected compactions.\<close>

function br_loop :: "(node_id, payload) dict \<Rightarrow> node_id list \<Rightarrow> node_id list \<Rightarrow> node_id list \<Rightarrow> node_id list
    \<Rightarrow> node_id list \<times> node_id list" where
  "br_loop d visited [] c_p affected = (c_p, affected)"
| "br_loop d visited (cur # queue) c_p affected =
     (let (visited', queue', affected') = br_scan cur d (visited, queue, affected)
      in br_loop d visited' queue' (c_p @ [cur]) affected')"
  by pat_completeness auto
termination
  by (relation "measure (\<lambda>(d, V, Q, _, _). card (set (keys d) - set V) + length Q)")
    (auto dest!: sym [of "(_, _, _)"] dest: br_scan_measure)

definition search :: "(node_id, payload) dict \<Rightarrow> node_id \<Rightarrow> node_id list \<times> node_id list" where
  "search d proot = br_loop d [proot] [proot] [] []"

section \<open>The repair planner\<close>

definition irreducible_candidate :: "string \<Rightarrow> string \<Rightarrow> repair_candidate" where
  "irreducible_candidate reason record = \<lparr>rc_disposition = IRREDUCIBLE, rc_reason = Some reason,
     rc_escalation_record = Some record, rc_frontier = None, rc_method = None,
     rc_checkpoint = None, rc_reconstructed_node_id = None\<rparr>"

definition pending_candidate :: "node_id list \<Rightarrow> checkpoint \<Rightarrow> repair_candidate" where
  "pending_candidate frontier cp = \<lparr>rc_disposition = PENDING_RECONSTRUCTION, rc_reason = None,
     rc_escalation_record = None, rc_frontier = Some frontier,
     rc_method = Some ''verified_checkpoint_reconstruction'',
     rc_checkpoint = Some cp, rc_reconstructed_node_id = None\<rparr>"

definition frontier_of :: "node_id list \<Rightarrow> payload \<Rightarrow> node_id list" where
  "frontier_of c_p nd = filter (\<lambda>n. n \<notin> set c_p) (covers nd)"

text \<open>
  The decision for one compaction node: R1 computes the admissible frontier, R2 selects
  checkpoint reconstruction or escalates.
\<close>

definition plan_candidate ::
    "bool \<Rightarrow> node_id list \<Rightarrow> (string, checkpoint) dict \<Rightarrow> payload \<Rightarrow> repair_candidate" where
  "plan_candidate semantic_rollback c_p cps nd =
     (if semantic_rollback
      then irreducible_candidate ''semantic_rollback_hazard''
             ''Quarantined subgraph contains irreversible external effects''
      else let frontier = frontier_of c_p nd in
        if frontier = [] then irreducible_candidate ''empty_frontier'' ''Requires human review''
        else if summarizer_method nd = Some ''llm-v1''
        then (case find (\<lambda>(k, cp). target_node_id cp \<in> set frontier) cps of
                None \<Rightarrow> irreducible_candidate ''no_admissible_checkpoint'' ''Requires human review''
              | Some (k, cp) \<Rightarrow> pending_candidate frontier cp)
        else irreducible_candidate ''no_reconstruction_backend'' ''Unknown summarizer method'')"

definition has_terminal :: "gstate \<Rightarrow> node_id \<Rightarrow> bool" where
  "has_terminal s n = (case map_of (repair_candidates s) n of None \<Rightarrow> False | Some rc \<Rightarrow> terminal rc)"

text \<open>
  One turn of \<open>for comp_node in affected_compactions\<close>. The affected nodes are keys of the graph
  (\<open>search_affected_keys\<close>), so the last case never arises.
\<close>

definition plan_repair :: "bool \<Rightarrow> node_id list \<Rightarrow> gstate \<Rightarrow> node_id \<Rightarrow> gstate" where
  "plan_repair semantic_rollback c_p s comp_node =
     (if has_terminal s comp_node then s
      else case map_of (dag s) comp_node of
        Some nd \<Rightarrow> update_repair_candidate comp_node (plan_candidate semantic_rollback c_p (checkpoints s) nd) s
      | None \<Rightarrow> s)"

definition compute_blast_radius :: "node_id \<Rightarrow> gstate \<Rightarrow> node_id list \<times> gstate" where
  "compute_blast_radius proot s =
     (let (c_p, affected) = search (dag s) proot;
          semantic_rollback = has_external_effects c_p s
      in (sort c_p, foldl (plan_repair semantic_rollback c_p) s affected))"

section \<open>The search computes the forward closure\<close>

text \<open>The taint relation of a graph: \<open>n\<close> declares \<open>c\<close> as a parent, or covers it.\<close>

definition derives :: "(node_id, payload) dict \<Rightarrow> node_id \<Rightarrow> node_id \<Rightarrow> bool" where
  "derives d c n \<longleftrightarrow> (\<exists>nd. (n, nd) \<in> set d \<and> touches c nd)"

lemma derives_key: "derives d c n \<Longrightarrow> n \<in> set (keys d)"
  by (auto simp: derives_def intro: mem_key)

text \<open>The loop with its visited set in the result, in the form the interface asks for.\<close>

interpretation br: worklist_loop "derives d" "set (keys d)"
  "\<lambda>V Q D A. br_loop d V Q D A" "\<lambda>c V. keys (br_fresh c d V)"
  "\<lambda>c V A. A @ keys (filter (\<lambda>(n, nd). is_carried c nd) (br_fresh c d V))"
  "\<lambda>V D A. (D, A)" for d
  by unfold_locales (auto simp: derives_def set_br_fresh br_scan_eq distinct_br_fresh intro: mem_key)

lemma search_closure:
  assumes "search d proot = (c_p, affected)"
  shows "set c_p = reach_from (derives d) {proot}" and "distinct c_p"
  using br.loop_result [of d "[proot]" "[]"] assms by (auto simp: search_def)

lemma br_loop_affected:
  assumes "br_loop d V Q D A = (c_p, affected)" and "set A \<subseteq> set (keys d)"
    and "\<forall>n\<in>set A. \<exists>nd c. (n, nd) \<in> set d \<and> is_carried c nd \<and> c \<in> set D"
  shows "set affected \<subseteq> set (keys d) \<and>
    (\<forall>n\<in>set affected. \<exists>nd c. (n, nd) \<in> set d \<and> is_carried c nd \<and> c \<in> set c_p)"
  using assms
proof (induction d V Q D A rule: br_loop.induct)
  case (1 d V D A)
  then show ?case by simp
next
  case (2 d V c Q D A)
  let ?F = "br_fresh c d V"
  let ?A = "A @ keys (filter (\<lambda>(n, nd). is_carried c nd) ?F)"
  have F: "\<And>n nd. (n, nd) \<in> set ?F \<Longrightarrow> (n, nd) \<in> set d"
    using br_fresh_subset [of c d V] by blast
  have rec: "br_loop d (V @ keys ?F) (Q @ keys ?F) (D @ [c]) ?A = (c_p, affected)"
    using 2(2) by (simp add: br_scan_eq)
  have new: "\<exists>nd. (n, nd) \<in> set ?F \<and> is_carried c nd"
    if "n \<in> set (keys (filter (\<lambda>(n, nd). is_carried c nd) ?F))" for n
    using that by (auto simp: keys_def)
  show ?case
  proof (rule 2(1) [OF br_scan_eq [symmetric] refl refl rec])
    show "set ?A \<subseteq> set (keys d)"
      using 2(3) new F mem_key by fastforce
    show "\<forall>n\<in>set ?A. \<exists>nd c'. (n, nd) \<in> set d \<and> is_carried c' nd \<and> c' \<in> set (D @ [c])"
      using 2(4) new F by fastforce
  qed
qed

lemma search_affected_keys:
  assumes "search d proot = (c_p, affected)"
  shows "set affected \<subseteq> set (keys d)"
  using br_loop_affected [OF assms [unfolded search_def]] by simp

lemma search_affected_carried:
  assumes "search d proot = (c_p, affected)" and "n \<in> set affected"
  shows "\<exists>nd c. (n, nd) \<in> set d \<and> is_carried c nd \<and> c \<in> set c_p"
  using br_loop_affected [OF assms(1) [unfolded search_def]] assms(2) by simp

section \<open>What the planner touches\<close>

lemma update_repair_candidate_frame [frame_simps]:
  "update_repair_candidate n rc s = s\<lparr>repair_candidates := AList.update n rc (repair_candidates s)\<rparr>"
  by (rule update_repair_candidate_def)

lemma same_candidates: "\<exists>rcs. s = s\<lparr>repair_candidates := rcs\<rparr>"
  by (rule exI [of _ "repair_candidates s"]) simp

lemma plan_repair_only_candidates:
  "\<exists>rcs. plan_repair sr c_p s n = s\<lparr>repair_candidates := rcs\<rparr>"
  by (auto simp: plan_repair_def update_repair_candidate_def same_candidates split: option.split)

lemma plan_all_only_candidates:
  "\<exists>rcs. foldl (plan_repair sr c_p) s ns = s\<lparr>repair_candidates := rcs\<rparr>"
proof (induction ns arbitrary: s)
  case Nil
  show ?case by (simp add: same_candidates)
next
  case (Cons n ns)
  obtain rcs where 1: "plan_repair sr c_p s n = s\<lparr>repair_candidates := rcs\<rparr>"
    using plan_repair_only_candidates by blast
  obtain rcs' where "foldl (plan_repair sr c_p) (s\<lparr>repair_candidates := rcs\<rparr>) ns
      = s\<lparr>repair_candidates := rcs\<rparr>\<lparr>repair_candidates := rcs'\<rparr>"
    using Cons.IH by blast
  then show ?case by (auto simp: 1)
qed

lemma compute_blast_radius_only_candidates:
  "\<exists>rcs. snd (compute_blast_radius p s) = s\<lparr>repair_candidates := rcs\<rparr>"
  by (simp add: compute_blast_radius_def split: prod.split) (metis plan_all_only_candidates)

text \<open>The fields a traversal leaves alone, one rewrite rule per field.\<close>

lemma compute_blast_radius_frame [simp]:
  "dag (snd (compute_blast_radius p s)) = dag s"
  "quarantine_ledger (snd (compute_blast_radius p s)) = quarantine_ledger s"
  "quarantine_events (snd (compute_blast_radius p s)) = quarantine_events s"
  "checkpoints (snd (compute_blast_radius p s)) = checkpoints s"
  "external_effects (snd (compute_blast_radius p s)) = external_effects s"
  "shadow_decisions (snd (compute_blast_radius p s)) = shadow_decisions s"
  "reintegration_horizon (snd (compute_blast_radius p s)) = reintegration_horizon s"
  "recurrence_events (snd (compute_blast_radius p s)) = recurrence_events s"
  "withdrawal_ledger (snd (compute_blast_radius p s)) = withdrawal_ledger s"
  "signal_attempts (snd (compute_blast_radius p s)) = signal_attempts s"
  "continuity_exposures (snd (compute_blast_radius p s)) = continuity_exposures s"
  "substitute_declarations (snd (compute_blast_radius p s)) = substitute_declarations s"
  "tainted_rejections (snd (compute_blast_radius p s)) = tainted_rejections s"
  "detector_events (snd (compute_blast_radius p s)) = detector_events s"
  "calibration_runs (snd (compute_blast_radius p s)) = calibration_runs s"
  "reintegration_evidence (snd (compute_blast_radius p s)) = reintegration_evidence s"
  using compute_blast_radius_only_candidates [of p s] by auto

lemma fst_compute_blast_radius: "fst (compute_blast_radius p s) = sort (fst (search (dag s) p))"
  by (simp add: compute_blast_radius_def split: prod.split)

lemma set_blast_radius:
  "set (fst (compute_blast_radius p s)) = reach_from (derives (dag s)) {p}"
  by (simp add: fst_compute_blast_radius) (metis prod.collapse search_closure(1))

lemma distinct_blast_radius: "distinct (fst (compute_blast_radius p s))"
  by (simp add: fst_compute_blast_radius) (metis prod.collapse search_closure(2))

lemma blast_radius_root: "p \<in> set (fst (compute_blast_radius p s))"
  by (simp add: set_blast_radius reach_from_start)

lemma blast_radius_step:
  "c \<in> set (fst (compute_blast_radius p s)) \<Longrightarrow> derives (dag s) c n \<Longrightarrow>
   n \<in> set (fst (compute_blast_radius p s))"
  unfolding set_blast_radius by (rule reach_from_step)

lemma blast_radius_bound:
  "set (fst (compute_blast_radius p s)) \<subseteq> insert p (set (keys (dag s)))"
  unfolding set_blast_radius using reach_from_bound [of "derives (dag s)" "set (keys (dag s))" "{p}"]
  by (auto dest: derives_key)

section \<open>What the planner decides\<close>

definition candidate_ok :: "node_id list \<Rightarrow> (string, checkpoint) dict \<Rightarrow> payload \<Rightarrow> repair_candidate \<Rightarrow> bool" where
  "candidate_ok c_p cps nd rc \<longleftrightarrow>
     (rc_disposition rc = IRREDUCIBLE \<and> rc_reason rc \<noteq> None) \<or>
     (rc_disposition rc = PENDING_RECONSTRUCTION \<and> summarizer_method nd = Some ''llm-v1'' \<and>
      (\<exists>frontier k cp. rc_frontier rc = Some frontier \<and> frontier \<noteq> [] \<and>
         set frontier = set (covers nd) - set c_p \<and>
         rc_checkpoint rc = Some cp \<and> (k, cp) \<in> set cps \<and> target_node_id cp \<in> set frontier))"

lemma plan_candidate_ok: "candidate_ok c_p cps nd (plan_candidate sr c_p cps nd)"
proof (cases "find (\<lambda>(k, cp). target_node_id cp \<in> set (frontier_of c_p nd)) cps")
  case None
  then show ?thesis
    by (auto simp: candidate_ok_def plan_candidate_def irreducible_candidate_def Let_def)
next
  case (Some kcp)
  obtain k cp where kcp: "kcp = (k, cp)" by (cases kcp)
  let ?f = "frontier_of c_p nd"
  have "(k, cp) \<in> set cps" and t: "target_node_id cp \<in> set ?f"
    using find_SomeD [OF Some] by (auto simp: kcp)
  moreover have "set ?f = set (covers nd) - set c_p"
    by (auto simp: frontier_of_def)
  moreover have "?f \<noteq> []" using t by auto
  ultimately show ?thesis using Some
    by (auto simp: kcp candidate_ok_def plan_candidate_def irreducible_candidate_def
        pending_candidate_def Let_def)
qed

lemma plan_repair_lookup:
  assumes "map_of (dag s) n = Some nd"
  shows "map_of (repair_candidates (plan_repair sr c_p s n)) m =
    (if m = n \<and> \<not> has_terminal s n then Some (plan_candidate sr c_p (checkpoints s) nd)
     else map_of (repair_candidates s) m)"
  using assms by (simp add: plan_repair_def update_repair_candidate_def map_of_update)

lemma plan_all_lookup:
  assumes "set ns \<subseteq> set (keys (dag s))"
  shows "map_of (repair_candidates (foldl (plan_repair sr c_p) s ns)) m =
    (if m \<in> set ns \<and> \<not> has_terminal s m
     then Some (plan_candidate sr c_p (checkpoints s) (the (map_of (dag s) m)))
     else map_of (repair_candidates s) m)"
  using assms
proof (induction ns arbitrary: s)
  case Nil
  then show ?case by simp
next
  case (Cons n ns)
  obtain nd where nd: "map_of (dag s) n = Some nd"
    using Cons.prems map_of_eq_None_keys [of "dag s" n] by auto
  let ?s = "plan_repair sr c_p s n"
  have same: "dag ?s = dag s" "checkpoints ?s = checkpoints s"
    using plan_repair_only_candidates [of sr c_p s n] by auto
  have sub: "set ns \<subseteq> set (keys (dag ?s))" using Cons.prems by (simp add: same)
  note step = plan_repair_lookup [OF nd, of sr c_p]
  have other: "has_terminal ?s m = has_terminal s m" if "m \<noteq> n \<or> has_terminal s n"
    using that by (auto simp: has_terminal_def step)
  show ?case
    unfolding foldl_Cons Cons.IH [OF sub] same step
    using nd other by (cases "m = n") simp_all
qed

text \<open>
  The outcome of a traversal for one node, with \<open>c_p\<close> in the sorted form it is returned in.
\<close>

lemma plan_candidate_cong:
  "set c_p = set c_p' \<Longrightarrow> plan_candidate sr c_p cps nd = plan_candidate sr c_p' cps nd"
  by (simp add: plan_candidate_def frontier_of_def Let_def)

lemma has_external_effects_cong:
  "set ids = set ids' \<Longrightarrow> has_external_effects ids s = has_external_effects ids' s"
  by (simp add: has_external_effects_def)

lemma blast_radius_candidate:
  assumes "map_of (repair_candidates (snd (compute_blast_radius p s))) m = Some rc"
    and "map_of (repair_candidates s) m \<noteq> Some rc" and wf: "wf_dict (dag s)"
  shows "\<not> has_terminal s m"
    and "\<exists>nd. map_of (dag s) m = Some nd \<and> (\<exists>c\<in>set (fst (compute_blast_radius p s)). is_carried c nd) \<and>
      rc = plan_candidate (has_external_effects (fst (compute_blast_radius p s)) s)
             (fst (compute_blast_radius p s)) (checkpoints s) nd"
proof -
  obtain c_p affected where se: "search (dag s) p = (c_p, affected)"
    by (cases "search (dag s) p")
  have sorted_cp: "fst (compute_blast_radius p s) = sort c_p"
    by (simp add: fst_compute_blast_radius se)
  have look: "map_of (repair_candidates (snd (compute_blast_radius p s))) m =
    (if m \<in> set affected \<and> \<not> has_terminal s m
     then Some (plan_candidate (has_external_effects c_p s) c_p (checkpoints s) (the (map_of (dag s) m)))
     else map_of (repair_candidates s) m)"
    using plan_all_lookup [OF search_affected_keys [OF se]] by (simp add: compute_blast_radius_def se)
  from assms look have m: "m \<in> set affected" and t: "\<not> has_terminal s m"
    and rc: "rc = plan_candidate (has_external_effects c_p s) c_p (checkpoints s) (the (map_of (dag s) m))"
    by (auto split: if_splits)
  show "\<not> has_terminal s m" by (rule t)
  have "m \<in> set (keys (dag s))"
    using search_affected_keys [OF se] m by blast
  then obtain nd where nd: "map_of (dag s) m = Some nd"
    using map_of_eq_None_keys [of "dag s" m] by auto
  show "\<exists>nd. map_of (dag s) m = Some nd \<and> (\<exists>c\<in>set (fst (compute_blast_radius p s)). is_carried c nd) \<and>
      rc = plan_candidate (has_external_effects (fst (compute_blast_radius p s)) s)
             (fst (compute_blast_radius p s)) (checkpoints s) nd"
    using nd search_affected_carried [OF se m] rc plan_candidate_cong [of "sort c_p" c_p]
      has_external_effects_cong [of "sort c_p" c_p]
    by (auto simp: mem_set_map_of [OF wf] sorted_cp)
qed

section \<open>Properties\<close>

lemma reach_from_rtranclp: "n \<in> reach_from R {p} \<longleftrightarrow> R\<^sup>*\<^sup>* p n"
  by (simp add: reach_from_def)

text \<open>C1: The blast radius of a root is exactly the set of nodes that derive from it, in any number of steps,
  through a declared parent or through the covers of a compaction: no contaminated node is missed and
  no clean node is included. It is returned sorted and without duplicates, for every graph (cyclic
  ones and dangling roots included), and has at most one node more than the graph.\<close>

theorem blast_radius_exact:
  "let c_p = fst (compute_blast_radius p s) in
     (\<forall>n. n \<in> set c_p \<longleftrightarrow> (derives (dag s))\<^sup>*\<^sup>* p n) \<and> sorted c_p \<and> distinct c_p \<and>
     length c_p \<le> Suc (length (dag s))"
proof -
  let ?c = "fst (compute_blast_radius p s)"
  have "length ?c \<le> card (insert p (set (keys (dag s))))"
    unfolding distinct_card [OF distinct_blast_radius, symmetric] by (rule card_mono) (simp_all add: blast_radius_bound)
  also have "\<dots> \<le> Suc (length (dag s))"
    using card_insert_le_m1 [of "Suc (length (dag s))" "set (keys (dag s))" p] card_length [of "keys (dag s)"] by simp
  finally have "length ?c \<le> Suc (length (dag s))" .
  then show ?thesis
    by (simp add: Let_def set_blast_radius reach_from_rtranclp distinct_blast_radius) (simp add: fst_compute_blast_radius)
qed

text \<open>C30: The repair planner of a traversal is conservative. A disposition that is already terminal is kept.
  A candidate it writes belongs to a compaction with a carried edge into the contaminated set, and is
  either escalated with a reason, or pending with the whole clean part of its covers as a non-empty
  frontier and a stored checkpoint inside that frontier; and if any contaminated node has an external
  effect, everything it writes is escalated as a rollback hazard. Nothing but the candidates changes.\<close>

theorem repair_planner_sound:
  assumes "wf_dict (dag s)"
  shows "let c_p = fst (compute_blast_radius p s); s' = snd (compute_blast_radius p s) in
    s'\<lparr>repair_candidates := repair_candidates s\<rparr> = s \<and>
    (\<forall>m. has_terminal s m \<longrightarrow> map_of (repair_candidates s') m = map_of (repair_candidates s) m) \<and>
    (\<forall>m rc. map_of (repair_candidates s') m = Some rc \<and> map_of (repair_candidates s) m \<noteq> Some rc \<longrightarrow>
       (\<exists>nd. map_of (dag s) m = Some nd \<and> (\<exists>c\<in>set c_p. is_carried c nd) \<and>
          candidate_ok c_p (checkpoints s) nd rc \<and>
          (has_external_effects c_p s \<longrightarrow> rc_reason rc = Some ''semantic_rollback_hazard'')))"
proof -
  let ?s' = "snd (compute_blast_radius p s)"
  have frame: "?s'\<lparr>repair_candidates := repair_candidates s\<rparr> = s"
    using compute_blast_radius_only_candidates [of p s] by auto
  obtain c_p affected where se: "search (dag s) p = (c_p, affected)"
    by (cases "search (dag s) p")
  have kept: "has_terminal s m \<Longrightarrow> map_of (repair_candidates ?s') m = map_of (repair_candidates s) m" for m
    using plan_all_lookup [OF search_affected_keys [OF se]] by (simp add: compute_blast_radius_def se)
  have hazard: "rc_reason (plan_candidate True c cps nd) = Some ''semantic_rollback_hazard''" for c cps nd
    by (simp add: plan_candidate_def irreducible_candidate_def)
  show ?thesis
    using frame kept blast_radius_candidate(2) [OF _ _ assms, of p] plan_candidate_ok
    by (simp add: Let_def) (metis hazard)
qed

text \<open>A summary of two nodes, one of them poisoned, with a checkpoint on the clean one.\<close>

definition demo_repair_state :: gstate where
  "demo_repair_state = init_state\<lparr>
     dag := [(''bad'', bare_payload ''bad'' []), (''good'', bare_payload ''good'' []),
       (''sum'', (bare_payload ''sum'' [\<lparr>parent_node_id = ''bad'', parent_content_hash = None,
            edge_class = Some ''CARRIED''\<rparr>])
          \<lparr>covers := [''bad'', ''good''], summarizer := Some \<lparr>method_id = Some ''llm-v1'', config_digest = None\<rparr>\<rparr>)],
     checkpoints := [(''c1'', \<lparr>checkpoint_id = ''c1'', target_node_id = ''good'',
        declared_at_utc = ''t'', snapshot_data = []\<rparr>)]\<rparr>"

theorem repair_planner_sound_witness:
  "wf_dict (dag demo_repair_state) \<and>
   (\<exists>rc. map_of (repair_candidates (snd (compute_blast_radius ''bad'' demo_repair_state))) ''sum'' = Some rc \<and>
      rc_disposition rc = PENDING_RECONSTRUCTION \<and>
      (\<exists>nd. map_of (dag demo_repair_state) ''sum'' = Some nd \<and>
         candidate_ok (fst (compute_blast_radius ''bad'' demo_repair_state)) (checkpoints demo_repair_state) nd rc))"
proof -
  have wf: "wf_dict (dag demo_repair_state)" by (simp add: demo_repair_state_def wf_dict_def)
  have now: "map_of (repair_candidates (snd (compute_blast_radius ''bad'' demo_repair_state))) ''sum'' =
     Some (pending_candidate [''good''] \<lparr>checkpoint_id = ''c1'', target_node_id = ''good'',
        declared_at_utc = ''t'', snapshot_data = []\<rparr>)"
    by (simp add: demo_repair_state_def init_state_def compute_blast_radius_def search_def parent_ids_def
        is_carried_def has_external_effects_def plan_repair_def has_terminal_def plan_candidate_def frontier_of_def
        summarizer_method_def update_repair_candidate_def bare_payload_def)
  have before: "map_of (repair_candidates demo_repair_state) ''sum'' = None"
    by (simp add: demo_repair_state_def init_state_def)
  have "\<exists>nd. map_of (dag demo_repair_state) ''sum'' = Some nd \<and>
      candidate_ok (fst (compute_blast_radius ''bad'' demo_repair_state)) (checkpoints demo_repair_state) nd
        (pending_candidate [''good''] \<lparr>checkpoint_id = ''c1'', target_node_id = ''good'',
           declared_at_utc = ''t'', snapshot_data = []\<rparr>)"
    using repair_planner_sound [OF wf, of "''bad''", unfolded Let_def, THEN conjunct2, THEN conjunct2, rule_format, OF conjI [OF now]]
      before by auto
  then show ?thesis using wf now by (simp add: pending_candidate_def)
qed

end
