(* ===== verification/Identity.thy ===== *)
theory Identity
  imports Memory_Backend
begin

text \<open>
  Who may do what: session tokens, role tokens and content signatures, after the section
  \<open>Security Checks\<close> of \<open>src/governor_service.py\<close>. Key and signature decoding is modelled down to the
  bytes; what the cryptographic and JWT libraries compute, the clock and the source of fresh
  identifiers are fields of the record \<open>env\<close>, an argument of every definition that uses them.
\<close>

section \<open>Environment\<close>

type_synonym bytes = "nat list"
type_synonym point = "nat \<times> nat"

record env =
  now_us :: int \<comment> \<open>the clock, in microseconds; one reading per request\<close>
  iso :: "int \<Rightarrow> utc" \<comment> \<open>\<open>isoformat() + "Z"\<close> of a clock reading\<close>
  uuid4 :: "nat \<Rightarrow> string" \<comment> \<open>the n-th identifier \<open>uuid.uuid4()\<close> hands out\<close>
  jwt_decode :: "string \<Rightarrow> json_object option" \<comment> \<open>\<open>jwt.decode\<close> with the configured key; \<open>None\<close> if it raises\<close>
  dumps :: "json_object \<Rightarrow> string" \<comment> \<open>\<open>json.dumps\<close>\<close>
  float_of :: "string \<Rightarrow> rat option" \<comment> \<open>\<open>float\<close> of a string; \<open>None\<close> if it raises\<close>
  set_iter :: "node_id list \<Rightarrow> node_id list" \<comment> \<open>the order in which Python iterates over a set with these elements\<close>
  content_hash :: "json_object \<Rightarrow> string" \<comment> \<open>\<open>sha256(json.dumps(c, sort_keys=True))\<close>\<close>
  ids_digest :: "node_id list \<Rightarrow> string"
  node_digest :: "payload \<Rightarrow> string"
  state_digest :: "(node_id \<times> string) list \<Rightarrow> node_id list \<Rightarrow> string"
  on_curve :: "point \<Rightarrow> bool"
  ecdsa_verify :: "point \<Rightarrow> bytes \<Rightarrow> string \<Rightarrow> bool"
  encode_dss :: "nat \<Rightarrow> nat \<Rightarrow> bytes"
  keygen :: "nat \<Rightarrow> point" \<comment> \<open>public point of the n-th generated key\<close>
  key_sign :: "nat \<Rightarrow> string \<Rightarrow> nat \<times> nat" \<comment> \<open>signature of the n-th generated key\<close>

definition now_utc :: "env \<Rightarrow> utc" where
  "now_utc e = iso e (now_us e)"

section \<open>Bytes and hexadecimal\<close>

definition hex_value :: "char \<Rightarrow> nat option" where
  "hex_value c = (let n = of_char c in
     if 48 \<le> n \<and> n \<le> 57 then Some (n - 48)
     else if 97 \<le> n \<and> n \<le> 102 then Some (n - 87)
     else if 65 \<le> n \<and> n \<le> 70 then Some (n - 55)
     else None)"

definition is_space :: "char \<Rightarrow> bool" where
  "is_space c = (let n = (of_char c :: nat) in n = 32 \<or> (9 \<le> n \<and> n \<le> 13))"

text \<open>\<open>bytes.fromhex\<close>: white space is allowed between bytes; anything else that is no pair of digits raises.\<close>

fun fromhex :: "string \<Rightarrow> bytes option" where
  "fromhex [] = Some []"
| "fromhex [c] = (if is_space c then Some [] else None)"
| "fromhex (c # d # cs) =
     (if is_space c then fromhex (d # cs)
      else case (hex_value c, hex_value d) of
        (Some a, Some b) \<Rightarrow> map_option (\<lambda>bs. (16 * a + b) # bs) (fromhex cs)
      | _ \<Rightarrow> None)"

definition hex_digit :: "nat \<Rightarrow> char" where
  "hex_digit n = char_of (if n < 10 then n + 48 else n + 87)"

definition bytes_hex :: "bytes \<Rightarrow> string" where
  "bytes_hex bs = concat (map (\<lambda>b. [hex_digit (b div 16), hex_digit (b mod 16)]) bs)"

definition from_bytes_big :: "bytes \<Rightarrow> nat" where
  "from_bytes_big bs = foldl (\<lambda>a b. a * 256 + b) 0 bs"

fun to_bytes_big :: "nat \<Rightarrow> nat \<Rightarrow> bytes" where
  "to_bytes_big 0 x = []"
| "to_bytes_big (Suc k) x = to_bytes_big k (x div 256) @ [x mod 256]"

section \<open>Keys and signatures\<close>

text \<open>\<open>_load_public_key\<close>; \<open>None\<close> where it raises.\<close>

definition load_public_key :: "env \<Rightarrow> string \<Rightarrow> point option" where
  "load_public_key e hex =
     (case fromhex hex of None \<Rightarrow> None
      | Some raw \<Rightarrow>
          (if length raw = 64
           then (let pt = (from_bytes_big (take 32 raw), from_bytes_big (drop 32 raw))
                 in if on_curve e pt then Some pt else None)
           else if length raw = 65 \<and> raw ! 0 = 4
           then (let pt = (from_bytes_big (take 32 (drop 1 raw)), from_bytes_big (drop 33 raw))
                 in if on_curve e pt then Some pt else None)
           else None))"

text \<open>\<open>_raw_signature_to_der\<close>.\<close>

definition raw_signature_to_der :: "env \<Rightarrow> string \<Rightarrow> bytes option" where
  "raw_signature_to_der e hex =
     (case fromhex hex of None \<Rightarrow> None
      | Some raw \<Rightarrow>
          (if length raw = 64
           then Some (encode_dss e (from_bytes_big (take 32 raw)) (from_bytes_big (drop 32 raw)))
           else if raw \<noteq> [] \<and> raw ! 0 = 48 then Some raw
           else None))"

text \<open>The check of a decoded key and signature, shared by content signatures and adapter signatures.\<close>

definition signature_valid :: "env \<Rightarrow> string option \<Rightarrow> string option \<Rightarrow> string \<Rightarrow> bool" where
  "signature_valid e key sig msg \<longleftrightarrow>
     (case Option.bind key (load_public_key e) of None \<Rightarrow> False
      | Some pt \<Rightarrow> (case Option.bind sig (raw_signature_to_der e) of None \<Rightarrow> False
          | Some der \<Rightarrow> ecdsa_verify e pt der msg))"

definition payload_hash :: "env \<Rightarrow> payload \<Rightarrow> string" where
  "payload_hash e p = content_hash e (case state_content p of None \<Rightarrow> [] | Some c \<Rightarrow> c)"

definition verify_cryptographic_signature :: "env \<Rightarrow> payload \<Rightarrow> bool" where
  "verify_cryptographic_signature e p \<longleftrightarrow>
     (if \<not> truthy (agent_signature p) then False
      else if Some (payload_hash e p) \<noteq> content_digest_sha256 p then False
      else signature_valid e (nhi_identity p) (agent_signature p) (payload_hash e p))"

text \<open>The gateway's own keys: raw coordinates \<open>x || y\<close> in hexadecimal, and raw signatures \<open>r || s\<close>.\<close>

definition encode_raw :: "nat \<times> nat \<Rightarrow> string" where
  "encode_raw xy = bytes_hex (to_bytes_big 32 (fst xy) @ to_bytes_big 32 (snd xy))"

section \<open>Tokens\<close>

definition verify_nhi_jwt :: "env \<Rightarrow> string option \<Rightarrow> string option \<Rightarrow> json_object result" where
  "verify_nhi_jwt e token ident =
     (case Option.bind token (jwt_decode e) of
        None \<Rightarrow> Inl (HTTPException 401 ''Invalid Session Token'')
      | Some claims \<Rightarrow>
          (if map_of claims ''sub'' = map_option JStr ident then Inr claims
           else Inl (HTTPException 401 ''Invalid Session Token: JWT subject does not match payload identity'')))"

definition bearer_token :: "string \<Rightarrow> string" where
  "bearer_token h = takeWhile (\<lambda>c. c \<noteq> CHR '' '') (drop 7 h)"

definition verify_role_jwt :: "env \<Rightarrow> string option \<Rightarrow> string \<Rightarrow> json_object result" where
  "verify_role_jwt e header role =
     (case header of None \<Rightarrow> Inl (HTTPException 401 ''Missing or invalid token'')
      | Some h \<Rightarrow>
          (if take 7 h \<noteq> ''Bearer '' then Inl (HTTPException 401 ''Missing or invalid token'')
           else case jwt_decode e (bearer_token h) of
               None \<Rightarrow> Inl (HTTPException 401 ''Unauthorized'')
             | Some claims \<Rightarrow>
                 (if map_of claims ''role'' = Some (JStr role) then Inr claims
                  else Inl (HTTPException 401 (''Unauthorized: Token must have '' @ role @ '' role'')))))"

definition claim_sub :: "json_object \<Rightarrow> string \<Rightarrow> string" where
  "claim_sub claims dflt = (case map_of claims ''sub'' of Some (JStr x) \<Rightarrow> x | _ \<Rightarrow> dflt)"

section \<open>Round trips\<close>

lemma hex_value_digit: "n < 16 \<Longrightarrow> hex_value (hex_digit n) = Some n \<and> \<not> is_space (hex_digit n)"
  by (auto simp: hex_value_def hex_digit_def is_space_def Let_def)

lemma fromhex_hex: "(\<forall>b\<in>set bs. b < 256) \<Longrightarrow> fromhex (bytes_hex bs) = Some bs"
proof (induction bs)
  case Nil
  show ?case by (simp add: bytes_hex_def)
next
  case (Cons b bs)
  have "b div 16 < 16" "b mod 16 < 16" using Cons.prems by auto
  then have "fromhex (bytes_hex (b # bs)) = map_option (\<lambda>cs. b # cs) (fromhex (bytes_hex bs))"
    using hex_value_digit [of "b div 16"] hex_value_digit [of "b mod 16"] by (simp add: bytes_hex_def)
  then show ?case using Cons by simp
qed

lemma length_to_bytes_big [simp]: "length (to_bytes_big k x) = k"
  by (induction k arbitrary: x) auto

lemma to_bytes_big_byte: "b \<in> set (to_bytes_big k x) \<Longrightarrow> b < 256"
  by (induction k arbitrary: x) auto

lemma from_to_bytes_big: "x < 256 ^ k \<Longrightarrow> from_bytes_big (to_bytes_big k x) = x"
proof (induction k arbitrary: x)
  case 0
  then show ?case by (simp add: from_bytes_big_def)
next
  case (Suc k)
  have "x div 256 < 256 ^ k"
    using Suc.prems by (simp add: div_less_iff_less_mult mult.commute)
  then have "from_bytes_big (to_bytes_big k (x div 256)) = x div 256" by (rule Suc.IH)
  then show ?case by (simp add: from_bytes_big_def)
qed

lemma fromhex_encode_raw:
  "fromhex (encode_raw xy) = Some (to_bytes_big 32 (fst xy) @ to_bytes_big 32 (snd xy))"
  unfolding encode_raw_def by (rule fromhex_hex) (auto dest: to_bytes_big_byte)

lemma raw_decode:
  assumes "x < 2 ^ 256" and "y < 2 ^ 256"
  shows "raw_signature_to_der e (encode_raw (x, y)) = Some (encode_dss e x y)"
    and "on_curve e (x, y) \<Longrightarrow> load_public_key e (encode_raw (x, y)) = Some (x, y)"
proof -
  have "x < 256 ^ 32" "y < 256 ^ 32" using assms by (simp_all add: power_mult [of 2 8 32, symmetric])
  then show "raw_signature_to_der e (encode_raw (x, y)) = Some (encode_dss e x y)"
    and "on_curve e (x, y) \<Longrightarrow> load_public_key e (encode_raw (x, y)) = Some (x, y)"
    by (simp_all add: load_public_key_def raw_signature_to_der_def fromhex_encode_raw from_to_bytes_big)
qed

lemma encode_raw_not_Nil: "encode_raw xy \<noteq> []"
  using fromhex_encode_raw [of xy] by (cases "encode_raw xy") (auto dest: arg_cong [where f = length])

text \<open>The raw key encoding of the gateway's own keys (seed roots, continuity records, inline
  reconstruction) and the decoder of submitted keys are inverse: a curve point with 256-bit
  coordinates decodes to itself, and a raw signature decodes to the DER form of its two numbers.\<close>

theorem raw_key_roundtrip:
  assumes "x < 2 ^ 256" and "y < 2 ^ 256" and "on_curve e (x, y)"
  shows "load_public_key e (encode_raw (x, y)) = Some (x, y) \<and>
    raw_signature_to_der e (encode_raw (x, y)) = Some (encode_dss e x y)"
  using raw_decode [OF assms(1,2)] assms(3) by simp

definition demo_env :: env where
  "demo_env = \<lparr>now_us = 0, iso = (\<lambda>_. ''2026''), uuid4 = (\<lambda>n. ''uuid-'' @ replicate n CHR ''1''),
     jwt_decode = (\<lambda>_. None), dumps = concat \<circ> map fst, float_of = (\<lambda>_. None),
     set_iter = (\<lambda>ns. ns), content_hash = (\<lambda>_. ''h''), ids_digest = concat,
     node_digest = payload_id, state_digest = (\<lambda>ns q. concat q), on_curve = (\<lambda>_. True),
     ecdsa_verify = (\<lambda>_ _ _. True), encode_dss = (\<lambda>r s. [48]), keygen = (\<lambda>n. (n, n)),
     key_sign = (\<lambda>n m. (n, n))\<rparr>"

theorem raw_key_roundtrip_witness:
  "(7::nat) < 2 ^ 256 \<and> load_public_key demo_env (encode_raw (7, 9)) = Some (7, 9)"
proof -
  have "on_curve demo_env (7, 9)" by (simp add: demo_env_def)
  then show ?thesis using raw_key_roundtrip [of 7 9 demo_env] by simp
qed

text \<open>A payload passes the signature check only if it carries a signature, its declared digest is the
  hash of its own content, and the signature over that digest verifies under the public key that is
  the payload's identity; a payload whose content was changed after signing fails.\<close>

theorem signature_binds_content:
  "verify_cryptographic_signature e p \<longleftrightarrow>
     (\<exists>sig key pt der. agent_signature p = Some sig \<and> sig \<noteq> [] \<and> nhi_identity p = Some key \<and>
        content_digest_sha256 p = Some (payload_hash e p) \<and>
        load_public_key e key = Some pt \<and> raw_signature_to_der e sig = Some der \<and>
        ecdsa_verify e pt der (payload_hash e p))"
  by (cases "agent_signature p"; cases "nhi_identity p")
    (auto simp: verify_cryptographic_signature_def signature_valid_def split: option.splits)

end
