(* ===== verification/Gateway_State.thy ===== *)
theory Gateway_State
  imports Blast_Radius Identity
begin

text \<open>
  What the request handlers share: the settings of \<open>src/config.py\<close>, the mutable state of the
  process (the backend, the one setting the handlers overwrite, the supply of fresh identifiers and
  keys), and the transaction of \<open>SqliteStateBackend.transaction\<close> that brackets a handler's writes.
\<close>

section \<open>Settings and process state\<close>

record settings =
  ENFORCEMENT_MODE :: string
  DEBUG_MODE :: bool
  CONTINUITY_ENABLED :: bool
  CONTINUATION_HORIZON_SECONDS :: int
  MAX_WITHDRAWAL_AMPLIFICATION :: nat
  RECURRENCE_SIGNAL_RATE_LIMIT :: nat
  RECURRENCE_SIGNAL_GLOBAL_LIMIT :: nat
  DESIGNATION_RATE_LIMIT :: nat
  MAX_IN_FLIGHT_REQUESTS :: nat
  MAX_PAYLOAD_BYTES :: nat
  RECOVERY_ADAPTER_URL :: "string option"
  OPA_URL :: "string option"
  OPA_POLICY_BUNDLE :: "string option"

definition default_settings :: settings where
  "default_settings = \<lparr>ENFORCEMENT_MODE = ''shadow'', DEBUG_MODE = False, CONTINUITY_ENABLED = True,
     CONTINUATION_HORIZON_SECONDS = 86400, MAX_WITHDRAWAL_AMPLIFICATION = 100,
     RECURRENCE_SIGNAL_RATE_LIMIT = 10, RECURRENCE_SIGNAL_GLOBAL_LIMIT = 100,
     DESIGNATION_RATE_LIMIT = 20, MAX_IN_FLIGHT_REQUESTS = 100, MAX_PAYLOAD_BYTES = 2 * 1024 * 1024,
     RECOVERY_ADAPTER_URL = None, OPA_URL = None, OPA_POLICY_BUNDLE = None\<rparr>"

record world =
  gs :: gstate
  RECOVERY_ADAPTER_PUBLIC_KEY :: "string option"
  drawn :: nat \<comment> \<open>how many fresh identifiers and keys were drawn\<close>

definition init_world :: world where
  "init_world = \<lparr>gs = init_state, RECOVERY_ADAPTER_PUBLIC_KEY = None, drawn = 0\<rparr>"

definition on_gs :: "(gstate \<Rightarrow> gstate) \<Rightarrow> world \<Rightarrow> world" where
  "on_gs f w = w\<lparr>gs := f (gs w)\<rparr>"

definition draw :: "world \<Rightarrow> nat \<times> world" where
  "draw w = (drawn w, w\<lparr>drawn := Suc (drawn w)\<rparr>)"

definition fresh_uuid :: "env \<Rightarrow> world \<Rightarrow> string \<times> world" where
  "fresh_uuid e w = (uuid4 e (drawn w), w\<lparr>drawn := Suc (drawn w)\<rparr>)"

lemma on_gs_simps [simp]:
  "gs (on_gs f w) = f (gs w)" "drawn (on_gs f w) = drawn w"
  "RECOVERY_ADAPTER_PUBLIC_KEY (on_gs f w) = RECOVERY_ADAPTER_PUBLIC_KEY w"
  by (simp_all add: on_gs_def)

lemma fresh_uuid_simps [simp]:
  "fst (fresh_uuid e w) = uuid4 e (drawn w)" "gs (snd (fresh_uuid e w)) = gs w"
  by (simp_all add: fresh_uuid_def)

section \<open>Transactions\<close>

text \<open>
  \<open>async with backend.transaction()\<close>: a body that raises rolls the store back, one that returns
  commits. The settings of the process are not part of the store.
\<close>

definition transaction :: "(world \<Rightarrow> 'a result \<times> world) \<Rightarrow> world \<Rightarrow> 'a result \<times> world" where
  "transaction body w =
     (case body w of
        (Inl ex, w') \<Rightarrow> (Inl ex, w'\<lparr>gs := gs w\<rparr>)
      | (Inr r, w') \<Rightarrow> (Inr r, w'))"

lemma transaction_rollback: "fst (transaction body w) = Inl ex \<Longrightarrow> gs (snd (transaction body w)) = gs w"
  by (auto simp: transaction_def split: prod.splits sum.splits)

section \<open>Time windows\<close>

definition horizon_start :: "settings \<Rightarrow> env \<Rightarrow> utc" where
  "horizon_start cfg e = iso e (now_us e - CONTINUATION_HORIZON_SECONDS cfg * 1000000)"

definition horizon_end :: "settings \<Rightarrow> env \<Rightarrow> utc" where
  "horizon_end cfg e = iso e (now_us e + CONTINUATION_HORIZON_SECONDS cfg * 1000000)"

section \<open>Extensions of the graph\<close>

text \<open>
  \<open>adds Q s s'\<close>: between \<open>s\<close> and \<open>s'\<close> the ledger and the log of quarantine events stayed the same and
  the graph only got new nodes at its end, each with property \<open>Q\<close>.
\<close>

definition adds :: "(node_id \<Rightarrow> payload \<Rightarrow> bool) \<Rightarrow> gstate \<Rightarrow> gstate \<Rightarrow> bool" where
  "adds Q s s' \<longleftrightarrow> quarantine_ledger s' = quarantine_ledger s \<and> quarantine_events s' = quarantine_events s \<and>
     (\<exists>new. dag s' = dag s @ new \<and> (\<forall>(n, nd)\<in>set new. n \<notin> set (keys (dag s)) \<and> Q n nd))"

lemma adds_refl [simp]: "adds Q s s"
  by (simp add: adds_def)

lemma adds_same:
  "dag s' = dag s \<Longrightarrow> quarantine_ledger s' = quarantine_ledger s \<Longrightarrow> quarantine_events s' = quarantine_events s \<Longrightarrow> adds Q s s'"
  by (simp add: adds_def)

lemma adds_trans: "adds Q s t \<Longrightarrow> adds Q t u \<Longrightarrow> adds Q s u"
  unfolding adds_def by fastforce

lemma adds_mono: "adds Q s t \<Longrightarrow> (\<And>n nd. Q n nd \<Longrightarrow> R n nd) \<Longrightarrow> adds R s t"
  unfolding adds_def by fastforce

lemma adds_commit: "Q (payload_id p) p \<Longrightarrow> adds Q s (snd (commit_node p s))"
  by (auto simp: adds_def commit_node_def)

lemma adds_ledger: "adds Q s s' \<Longrightarrow> quarantine_ledger s' = quarantine_ledger s"
  by (simp add: adds_def)

lemma adds_wf: "adds Q s s' \<Longrightarrow> map_of (dag s) n = Some nd \<Longrightarrow> map_of (dag s') n = Some nd"
  by (auto simp: adds_def map_add_def split: option.splits dest: map_of_SomeD mem_key)

lemma adds_foldl:
  assumes "\<And>x w. x \<in> set xs \<Longrightarrow> I w \<Longrightarrow> adds Q (gs w) (gs (f w x)) \<and> I (f w x)" and "I w"
  shows "adds Q (gs w) (gs (foldl f w xs))"
  using assms
proof (induction xs arbitrary: w)
  case Nil
  show ?case by simp
next
  case (Cons x xs)
  have "adds Q (gs w) (gs (f w x)) \<and> I (f w x)" using Cons.prems by simp
  moreover from this have "adds Q (gs (f w x)) (gs (foldl f (f w x) xs))" using Cons.IH Cons.prems(1) by simp
  ultimately show ?case using adds_trans by fastforce
qed

end
