(* ===== verification/Recurrence.thy ===== *)
theory Recurrence
  imports Gateway_State
begin

text \<open>
  Recurrence control (R6): \<open>process_recurrence\<close> of \<open>src/r6_utils.py\<close>, the hooks that call it, and the
  handlers \<open>/observe\<close>, \<open>/renew-trust\<close>, \<open>/calibrate\<close> and \<open>/declare-external-effect\<close>. A recurrence withdraws the
  whole forward closure of a node, unless the closure is larger than the amplification bound, in
  which case nothing is withdrawn and the event is escalated; a signal is counted before it is
  processed; trust that is not renewed expires.
\<close>

section \<open>Withdrawal\<close>

definition make_recurrence_event ::
    "string \<Rightarrow> node_id \<Rightarrow> string \<Rightarrow> utc \<Rightarrow> string \<Rightarrow> json_object \<Rightarrow> recurrence_event" where
  "make_recurrence_event eid n cls when src ev = \<lparr>event_id = eid, rec_node_id = n, recurrence_class = cls,
     rec_detected_at_utc = when, rec_signal_source = src, rec_evidence = ev, escalation_reason = None\<rparr>"

definition process_recurrence ::
    "settings \<Rightarrow> env \<Rightarrow> node_id \<Rightarrow> string \<Rightarrow> string \<Rightarrow> json_object \<Rightarrow> world \<Rightarrow> world" where
  "process_recurrence cfg e n cls src ev w =
     (let (w_r, s1) = compute_blast_radius n (gs w);
          (eid, w2) = fresh_uuid e (w\<lparr>gs := s1\<rparr>);
          event = make_recurrence_event eid n cls (now_utc e) src ev
      in if length w_r > MAX_WITHDRAWAL_AMPLIFICATION cfg
         then on_gs (apply_withdrawal_transaction (now_utc e)
                (event\<lparr>escalation_reason := Some ''MAX_WITHDRAWAL_AMPLIFICATION_EXCEEDED''\<rparr>) []) w2
         else on_gs (apply_withdrawal_transaction (now_utc e) event w_r) w2)"

text \<open>
  The loop \<open>for n in c_p: if n in active_horizons: await process_recurrence(\<dots>)\<close> of the designation
  and admission paths; the active set is read once, before the loop.
\<close>

fun recurrence_hooks :: "settings \<Rightarrow> env \<Rightarrow> string \<Rightarrow> node_id list \<Rightarrow> node_id list \<Rightarrow> world \<Rightarrow> world" where
  "recurrence_hooks cfg e cls active [] w = w"
| "recurrence_hooks cfg e cls active (n # ns) w =
     recurrence_hooks cfg e cls active ns
       (if n \<in> set active then process_recurrence cfg e n cls ''internal_hook'' [] w else w)"

definition run_hooks :: "settings \<Rightarrow> env \<Rightarrow> string \<Rightarrow> node_id list \<Rightarrow> world \<Rightarrow> world" where
  "run_hooks cfg e cls c_p w =
     recurrence_hooks cfg e cls (keys (get_active_horizon_set (now_utc e) (gs w))) c_p w"

section \<open>Handlers\<close>

record observe_event =
  ob_node_id :: node_id
  ob_recurrence_class :: string
  ob_evidence :: json_object
  adapter_signature :: "string option"

definition signal_limited :: "utc \<Rightarrow> string \<Rightarrow> node_id \<Rightarrow> string \<Rightarrow> string \<Rightarrow> world \<Rightarrow> 'a result \<times> world" where
  "signal_limited now src n kind msg w =
     (Inl (HTTPException 429 msg), on_gs (record_signal_attempt now src n kind ''RATE_LIMITED'') w)"

definition check_adapter_signature :: "env \<Rightarrow> world \<Rightarrow> observe_event \<Rightarrow> unit result" where
  "check_adapter_signature e w ev =
     (if ob_recurrence_class ev \<noteq> ''VERIFIER_CONTRADICTION'' then Inr ()
      else if \<not> truthy (adapter_signature ev)
      then Inl (HTTPException 403 ''adapter_signature required for VERIFIER_CONTRADICTION'')
      else if \<not> truthy (RECOVERY_ADAPTER_PUBLIC_KEY w)
      then Inl (HTTPException 500 ''RECOVERY_ADAPTER_PUBLIC_KEY not configured'')
      else if signature_valid e (RECOVERY_ADAPTER_PUBLIC_KEY w) (adapter_signature ev) (ob_node_id ev)
      then Inr () else Inl (HTTPException 403 ''Invalid adapter signature''))"

definition observe_recurrence ::
    "settings \<Rightarrow> env \<Rightarrow> string option \<Rightarrow> observe_event \<Rightarrow> world \<Rightarrow> unit result \<times> world" where
  "observe_recurrence cfg e hdr ev w =
     (case verify_role_jwt e hdr ''designator'' of Inl ex \<Rightarrow> (Inl ex, w)
      | Inr claims \<Rightarrow>
        (let src = claim_sub claims ''unknown'' in
         if ob_recurrence_class ev \<notin> {''FUNCTIONAL_FAILURE'', ''VERIFIER_CONTRADICTION''}
         then (Inl (HTTPException 400 ''Invalid recurrence class''), w)
         else if count_recent_signals src (horizon_start cfg e) (gs w) \<ge> RECURRENCE_SIGNAL_RATE_LIMIT cfg
         then signal_limited (now_utc e) src (ob_node_id ev) ''recurrence'' ''Rate limit exceeded for recurrence signals'' w
         else if count_recent_signals_global (horizon_start cfg e) (gs w) \<ge> RECURRENCE_SIGNAL_GLOBAL_LIMIT cfg
         then signal_limited (now_utc e) src (ob_node_id ev) ''recurrence'' ''Global rate limit exceeded for recurrence signals'' w
         else (let w1 = on_gs (record_signal_attempt (now_utc e) src (ob_node_id ev) ''recurrence'' ''PENDING'') w
               in case check_adapter_signature e w1 ev of Inl ex \<Rightarrow> (Inl ex, w1)
                  | Inr _ \<Rightarrow> (Inr (), process_recurrence cfg e (ob_node_id ev) (ob_recurrence_class ev) src (ob_evidence ev) w1))))"

text \<open>The handler \<open>/renew-trust\<close>; it re-checks the node and its direct parents against the ledger.\<close>

definition renew_trust_handler ::
    "settings \<Rightarrow> env \<Rightarrow> string option \<Rightarrow> node_id \<Rightarrow> world \<Rightarrow> unit result \<times> world" where
  "renew_trust_handler cfg e hdr n w =
     (case verify_role_jwt e hdr ''designator'' of Inl ex \<Rightarrow> (Inl ex, w)
      | Inr claims \<Rightarrow>
        (if n \<in> set (quarantine_ledger (gs w))
         then (Inl (HTTPException 403 ''Cannot renew trust: Prohibited path from historical quarantine exists (node is tainted)''), w)
         else (let pids = (case map_of (dag (gs w)) n of None \<Rightarrow> [] | Some nd \<Rightarrow> parent_ids nd) in
           if filter (\<lambda>(k, q). q) (are_quarantined pids (gs w)) \<noteq> []
           then (Inl (HTTPException 403 ''Cannot renew trust: parent(s) are now quarantined (R5 predicate failed)''), w)
           else (Inr (), on_gs (renew_trust (horizon_end cfg e) n) w))))"

definition calibrate_harness ::
    "settings \<Rightarrow> env \<Rightarrow> string option \<Rightarrow> calibration_run \<Rightarrow> world \<Rightarrow> unit result \<times> world" where
  "calibrate_harness cfg e hdr run w =
     (case verify_role_jwt e hdr ''admin'' of Inl ex \<Rightarrow> (Inl ex, w)
      | Inr claims \<Rightarrow>
        (if \<not> DEBUG_MODE cfg then (Inl (HTTPException 403 ''Calibration requires DEBUG_MODE''), w)
         else (Inr (), on_gs (record_calibration_run run) w)))"

definition declare_external_effect ::
    "env \<Rightarrow> string option \<Rightarrow> string \<Rightarrow> node_id \<Rightarrow> string \<Rightarrow> world \<Rightarrow> unit result \<times> world" where
  "declare_external_effect e hdr key n ty w =
     (case verify_role_jwt e hdr ''admin'' of Inl ex \<Rightarrow> (Inl ex, w)
      | Inr claims \<Rightarrow> (Inr (), on_gs (add_external_effect (now_utc e) key n ty) w))"

section \<open>What a withdrawal writes\<close>

lemma withdraw_all_append: "\<exists>new. withdraw_all now eid i ns led = led @ new"
  by (induction ns arbitrary: i led) (auto, (metis append_assoc)+)

lemma withdraw_all_keys: "set (keys (withdraw_all now eid i ns led)) = set (keys led) \<union> set ns"
  by (induction ns arbitrary: i led) auto

lemma withdraw_all_keeps: "map_of led n = Some x \<Longrightarrow> map_of (withdraw_all now eid i ns led) n = Some x"
  by (metis withdraw_all_append map_of_append map_add_Some_iff map_add_def option.simps(5))

lemma process_recurrence_gs:
  "gs (process_recurrence cfg e n cls src ev w) =
    (let w_r = fst (compute_blast_radius n (gs w)); s1 = snd (compute_blast_radius n (gs w));
         event = make_recurrence_event (uuid4 e (drawn w)) n cls (now_utc e) src ev
     in if length w_r > MAX_WITHDRAWAL_AMPLIFICATION cfg
        then apply_withdrawal_transaction (now_utc e)
               (event\<lparr>escalation_reason := Some ''MAX_WITHDRAWAL_AMPLIFICATION_EXCEEDED''\<rparr>) [] s1
        else apply_withdrawal_transaction (now_utc e) event w_r s1)"
  by (simp add: process_recurrence_def fresh_uuid_def Let_def split: prod.split)

lemma process_recurrence_frame [simp]:
  "dag (gs (process_recurrence cfg e n cls src ev w)) = dag (gs w)"
  "quarantine_ledger (gs (process_recurrence cfg e n cls src ev w)) = quarantine_ledger (gs w)"
  "quarantine_events (gs (process_recurrence cfg e n cls src ev w)) = quarantine_events (gs w)"
  "checkpoints (gs (process_recurrence cfg e n cls src ev w)) = checkpoints (gs w)"
  "substitute_declarations (gs (process_recurrence cfg e n cls src ev w)) = substitute_declarations (gs w)"
  "continuity_exposures (gs (process_recurrence cfg e n cls src ev w)) = continuity_exposures (gs w)"
  "tainted_rejections (gs (process_recurrence cfg e n cls src ev w)) = tainted_rejections (gs w)"
  "detector_events (gs (process_recurrence cfg e n cls src ev w)) = detector_events (gs w)"
  "signal_attempts (gs (process_recurrence cfg e n cls src ev w)) = signal_attempts (gs w)"
  "reintegration_horizon (gs (process_recurrence cfg e n cls src ev w)) = reintegration_horizon (gs w)"
  by (simp_all add: process_recurrence_gs Let_def apply_withdrawal_transaction_def)

lemma recurrence_hooks_frame [simp]:
  "dag (gs (recurrence_hooks cfg e cls active ns w)) = dag (gs w)"
  "quarantine_ledger (gs (recurrence_hooks cfg e cls active ns w)) = quarantine_ledger (gs w)"
  "quarantine_events (gs (recurrence_hooks cfg e cls active ns w)) = quarantine_events (gs w)"
  "checkpoints (gs (recurrence_hooks cfg e cls active ns w)) = checkpoints (gs w)"
  "substitute_declarations (gs (recurrence_hooks cfg e cls active ns w)) = substitute_declarations (gs w)"
  "continuity_exposures (gs (recurrence_hooks cfg e cls active ns w)) = continuity_exposures (gs w)"
  "tainted_rejections (gs (recurrence_hooks cfg e cls active ns w)) = tainted_rejections (gs w)"
  "detector_events (gs (recurrence_hooks cfg e cls active ns w)) = detector_events (gs w)"
  "signal_attempts (gs (recurrence_hooks cfg e cls active ns w)) = signal_attempts (gs w)"
  "reintegration_horizon (gs (recurrence_hooks cfg e cls active ns w)) = reintegration_horizon (gs w)"
  by (induction ns arbitrary: w) auto

lemma run_hooks_frame [simp]:
  "dag (gs (run_hooks cfg e cls c_p w)) = dag (gs w)"
  "quarantine_ledger (gs (run_hooks cfg e cls c_p w)) = quarantine_ledger (gs w)"
  "quarantine_events (gs (run_hooks cfg e cls c_p w)) = quarantine_events (gs w)"
  "checkpoints (gs (run_hooks cfg e cls c_p w)) = checkpoints (gs w)"
  "substitute_declarations (gs (run_hooks cfg e cls c_p w)) = substitute_declarations (gs w)"
  "continuity_exposures (gs (run_hooks cfg e cls c_p w)) = continuity_exposures (gs w)"
  "tainted_rejections (gs (run_hooks cfg e cls c_p w)) = tainted_rejections (gs w)"
  "detector_events (gs (run_hooks cfg e cls c_p w)) = detector_events (gs w)"
  "signal_attempts (gs (run_hooks cfg e cls c_p w)) = signal_attempts (gs w)"
  "reintegration_horizon (gs (run_hooks cfg e cls c_p w)) = reintegration_horizon (gs w)"
  by (simp_all add: run_hooks_def)

text \<open>C10: A recurrence withdraws the complete forward closure of the node or nothing: if the closure is
  within the amplification bound, every node of it is in the withdrawal ledger afterwards; if it is
  larger, the ledger is unchanged and the event carries the escalation reason. Either way records
  already in the ledger keep their content, and neither the graph nor the quarantine ledger changes.\<close>

theorem recurrence_all_or_escalate:
  "let s = gs w; s' = gs (process_recurrence cfg e n cls src ev w);
       closure = reach_from (derives (dag s)) {n}
   in (if card closure \<le> MAX_WITHDRAWAL_AMPLIFICATION cfg
       then set (keys (withdrawal_ledger s')) = set (keys (withdrawal_ledger s)) \<union> closure \<and>
            escalation_reason (last (recurrence_events s')) = None
       else withdrawal_ledger s' = withdrawal_ledger s \<and>
            escalation_reason (last (recurrence_events s')) = Some ''MAX_WITHDRAWAL_AMPLIFICATION_EXCEEDED'') \<and>
      length (recurrence_events s') = Suc (length (recurrence_events s)) \<and>
      map_of (withdrawal_ledger s) \<subseteq>\<^sub>m map_of (withdrawal_ledger s') \<and>
      dag s' = dag s \<and> quarantine_ledger s' = quarantine_ledger s"
proof -
  let ?w_r = "fst (compute_blast_radius n (gs w))"
  have len: "length ?w_r = card (reach_from (derives (dag (gs w))) {n})"
    using distinct_card [OF distinct_blast_radius [of n "gs w"]] by (simp add: set_blast_radius)
  have keep: "map_of led \<subseteq>\<^sub>m map_of (withdraw_all now eid i ns led)" for now eid i ns and led :: "(node_id, withdrawal) dict"
    by (auto simp: map_le_def withdraw_all_keeps)
  show ?thesis
    using len keep
    by (simp add: Let_def process_recurrence_gs apply_withdrawal_transaction_def withdraw_all_keys
        set_blast_radius make_recurrence_event_def not_le [symmetric])
qed

text \<open>The withdrawal record of the node a signal names depends on its name, not on its role: the closure
  is sorted before the ledger loop labels position 0, so a node that has a dependent with a smaller
  identifier is recorded as an unexamined dependent, and the dependent as directly implicated.\<close>

theorem direct_implication_mislabelled:
  assumes "m \<in> reach_from (derives (dag (gs w))) {n}" and "m < n"
    and "card (reach_from (derives (dag (gs w))) {n}) \<le> MAX_WITHDRAWAL_AMPLIFICATION cfg"
    and "n \<notin> set (keys (withdrawal_ledger (gs w)))"
  shows "\<exists>r. map_of (withdrawal_ledger (gs (process_recurrence cfg e n cls src ev w))) n = Some r \<and>
    withdrawal_reason r = ''UNEXAMINED_DEPENDENT''"
proof -
  let ?w_r = "fst (compute_blast_radius n (gs w))"
  have len: "length ?w_r = card (reach_from (derives (dag (gs w))) {n})"
    using distinct_card [OF distinct_blast_radius [of n "gs w"]] by (simp add: set_blast_radius)
  have m: "m \<in> set ?w_r" and n: "n \<in> set ?w_r"
    using assms(1) by (simp_all add: set_blast_radius reach_from_start)
  have sorted: "sorted ?w_r" by (simp add: fst_compute_blast_radius)
  then obtain x xs where xs: "?w_r = x # xs" using m by (cases ?w_r) auto
  have "x \<le> m" using sorted m by (auto simp: xs)
  then have nx: "n \<in> set xs" "x \<noteq> n" using n assms(2) by (auto simp: xs)
  have later: "\<exists>r. map_of (withdraw_all now eid (Suc i) ns led) k = Some r \<and> withdrawal_reason r = ''UNEXAMINED_DEPENDENT''"
    if "k \<in> set ns" "k \<notin> set (keys led)" for k ns now eid i and led :: "(node_id, withdrawal) dict"
    using that
  proof (induction ns arbitrary: i led)
    case Nil
    then show ?case by simp
  next
    case (Cons a ns)
    show ?case
    proof (cases "a = k")
      case True
      have "map_of (led @ [(k, r)]) k = Some r" for r
        using Cons.prems(2) map_of_eq_None_keys [of led k] by (simp add: map_of_snoc del: map_of_append)
      then show ?thesis using True Cons.prems(2)
        by (simp add: withdraw_all_keeps [where n = k])
    next
      case False
      then show ?thesis using Cons by simp
    qed
  qed
  show ?thesis
    using later [OF nx(1)] nx(2) assms(3,4) len
    by (simp add: process_recurrence_gs Let_def apply_withdrawal_transaction_def xs)
qed

text \<open>A graph in which the node \<open>b\<close> has the dependent \<open>a\<close>.\<close>

definition demo_recurrence_world :: world where
  "demo_recurrence_world = init_world\<lparr>gs := init_state\<lparr>dag :=
     [(''b'', bare_payload ''b'' []),
      (''a'', bare_payload ''a'' [\<lparr>parent_node_id = ''b'', parent_content_hash = None, edge_class = None\<rparr>])]\<rparr>\<rparr>"

theorem direct_implication_mislabelled_witness:
  "\<exists>r. map_of (withdrawal_ledger (gs (process_recurrence default_settings demo_env ''b''
      ''FUNCTIONAL_FAILURE'' ''alice'' [] demo_recurrence_world))) ''b'' = Some r \<and>
    withdrawal_reason r = ''UNEXAMINED_DEPENDENT''"
proof (rule direct_implication_mislabelled [of "''a''"])
  let ?d = "dag (gs demo_recurrence_world)"
  have "derives ?d ''b'' ''a''"
    by (auto simp: demo_recurrence_world_def init_world_def derives_def touches_def parent_ids_def)
  then show "''a'' \<in> reach_from (derives ?d) {''b''}"
    by (metis reach_from_start reach_from_step singletonI)
  have "reach_from (derives ?d) {''b''} \<subseteq> insert ''b'' (set (keys ?d))"
    using blast_radius_bound [of "''b''" "gs demo_recurrence_world"] by (simp add: set_blast_radius)
  then have "card (reach_from (derives ?d) {''b''}) \<le> card {''a'', ''b''}"
    by (intro card_mono) (auto simp: demo_recurrence_world_def init_world_def)
  then show "card (reach_from (derives ?d) {''b''}) \<le> MAX_WITHDRAWAL_AMPLIFICATION default_settings"
    by (simp add: default_settings_def)
qed (simp_all add: demo_recurrence_world_def init_world_def init_state_def)

section \<open>Guards of the handlers\<close>

lemma signal_limited_simps [simp]:
  "fst (signal_limited now src n k m w) = Inl (HTTPException 429 m)"
  "gs (snd (signal_limited now src n k m w)) = record_signal_attempt now src n k ''RATE_LIMITED'' (gs w)"
  by (simp_all add: signal_limited_def)

lemma record_signal_attempt_frame [simp]:
  "dag (record_signal_attempt now src n k out s) = dag s"
  "quarantine_ledger (record_signal_attempt now src n k out s) = quarantine_ledger s"
  "withdrawal_ledger (record_signal_attempt now src n k out s) = withdrawal_ledger s"
  "recurrence_events (record_signal_attempt now src n k out s) = recurrence_events s"
  "repair_candidates (record_signal_attempt now src n k out s) = repair_candidates s"
  "reintegration_horizon (record_signal_attempt now src n k out s) = reintegration_horizon s"
  "quarantine_events (record_signal_attempt now src n k out s) = quarantine_events s"
  "detector_events (record_signal_attempt now src n k out s) = detector_events s"
  by (simp_all add: record_signal_attempt_def)

text \<open>A recurrence signal takes effect only from a designator, for one of the two observable classes,
  below both rate limits of the horizon, and, for a contradiction of the verifier, with a signature
  over the node that verifies under the configured adapter key.\<close>

theorem observe_accepts_only_authorised:
  assumes "fst (observe_recurrence cfg e hdr ev w) = Inr ()"
  shows "\<exists>claims. verify_role_jwt e hdr ''designator'' = Inr claims \<and>
    ob_recurrence_class ev \<in> {''FUNCTIONAL_FAILURE'', ''VERIFIER_CONTRADICTION''} \<and>
    count_recent_signals (claim_sub claims ''unknown'') (horizon_start cfg e) (gs w) < RECURRENCE_SIGNAL_RATE_LIMIT cfg \<and>
    count_recent_signals_global (horizon_start cfg e) (gs w) < RECURRENCE_SIGNAL_GLOBAL_LIMIT cfg \<and>
    (ob_recurrence_class ev = ''VERIFIER_CONTRADICTION'' \<longrightarrow>
       truthy (adapter_signature ev) \<and> truthy (RECOVERY_ADAPTER_PUBLIC_KEY w) \<and>
       signature_valid e (RECOVERY_ADAPTER_PUBLIC_KEY w) (adapter_signature ev) (ob_node_id ev))"
  using assms
  by (auto simp: observe_recurrence_def check_adapter_signature_def Let_def not_le
      split: sum.splits if_splits)

definition role_env :: "string \<Rightarrow> env" where
  "role_env r = demo_env\<lparr>jwt_decode := \<lambda>_. Some [(''role'', JStr r), (''sub'', JStr ''alice'')]\<rparr>"

definition demo_signal :: observe_event where
  "demo_signal = \<lparr>ob_node_id = ''b'', ob_recurrence_class = ''FUNCTIONAL_FAILURE'', ob_evidence = [],
     adapter_signature = None\<rparr>"

theorem observe_accepts_only_authorised_witness:
  "\<exists>claims. verify_role_jwt (role_env ''designator'') (Some ''Bearer t'') ''designator'' = Inr claims \<and>
    count_recent_signals (claim_sub claims ''unknown'') (horizon_start default_settings (role_env ''designator''))
      (gs demo_recurrence_world) < RECURRENCE_SIGNAL_RATE_LIMIT default_settings"
proof -
  have "fst (observe_recurrence default_settings (role_env ''designator'') (Some ''Bearer t'') demo_signal
      demo_recurrence_world) = Inr ()"
    by (simp add: observe_recurrence_def verify_role_jwt_def role_env_def demo_signal_def check_adapter_signature_def
        count_recent_signals_def count_recent_signals_global_def default_settings_def demo_recurrence_world_def
        init_world_def init_state_def Let_def)
  from observe_accepts_only_authorised [OF this] show ?thesis by blast
qed

text \<open>A refused recurrence signal changes no ledger: the graph, the quarantine ledger, the withdrawal
  ledger, the recurrence events and the repair candidates are as before; the only trace a refusal may
  leave is the signal attempt that the rate limit counts.\<close>

theorem observe_refusal_is_inert:
  assumes "fst (observe_recurrence cfg e hdr ev w) = Inl ex"
  shows "let s' = gs (snd (observe_recurrence cfg e hdr ev w)) in
    dag s' = dag (gs w) \<and> quarantine_ledger s' = quarantine_ledger (gs w) \<and>
    withdrawal_ledger s' = withdrawal_ledger (gs w) \<and> recurrence_events s' = recurrence_events (gs w) \<and>
    repair_candidates s' = repair_candidates (gs w) \<and>
    (status_code ex = 429 \<longrightarrow> length (signal_attempts s') = Suc (length (signal_attempts (gs w))))"
  using assms
  by (auto simp: observe_recurrence_def Let_def record_signal_attempt_def [of _ _ _ _ _ "gs w"] check_adapter_signature_def
      verify_role_jwt_def split: sum.splits if_splits option.splits)

theorem observe_refusal_is_inert_witness:
  "withdrawal_ledger (gs (snd (observe_recurrence default_settings demo_env None demo_signal demo_recurrence_world)))
     = withdrawal_ledger (gs demo_recurrence_world)"
proof -
  have "fst (observe_recurrence default_settings demo_env None demo_signal demo_recurrence_world) =
      Inl (HTTPException 401 ''Missing or invalid token'')"
    by (simp add: observe_recurrence_def verify_role_jwt_def)
  from observe_refusal_is_inert [OF this] show ?thesis by (simp add: Let_def)
qed

section \<open>Trust horizons\<close>

text \<open>Trust is renewed only for a node that is not quarantined and none of whose direct parents is; a
  renewal of a node in the horizon moves its expiry to the end of a fresh horizon and counts, and a
  renewal never admits, quarantines or withdraws a node.\<close>

theorem renewal_needs_clean_parents:
  assumes "fst (renew_trust_handler cfg e hdr n w) = Inr ()"
  shows "let s = gs w; s' = gs (snd (renew_trust_handler cfg e hdr n w)) in
    n \<notin> set (quarantine_ledger s) \<and>
    (\<forall>nd p. map_of (dag s) n = Some nd \<longrightarrow> p \<in> set (parent_ids nd) \<longrightarrow> p \<notin> set (quarantine_ledger s)) \<and>
    map_of (reintegration_horizon s') = (map_of (reintegration_horizon s))(n := map_option
       (\<lambda>h. h\<lparr>trust_expires_utc := horizon_end cfg e, renewal_count := Suc (renewal_count h)\<rparr>)
       (map_of (reintegration_horizon s) n)) \<and>
    s'\<lparr>reintegration_horizon := reintegration_horizon s\<rparr> = s"
  using assms
  by (auto simp: renew_trust_handler_def renew_trust_def Let_def tainted_are_quarantined dict_simps fun_eq_iff
      split: sum.splits if_splits option.splits)

theorem renewal_needs_clean_parents_witness:
  "''a'' \<notin> set (quarantine_ledger (gs demo_recurrence_world))"
proof -
  have "fst (renew_trust_handler default_settings (role_env ''designator'') (Some ''Bearer t'') ''a'' demo_recurrence_world) = Inr ()"
    by (simp add: renew_trust_handler_def verify_role_jwt_def role_env_def tainted_are_quarantined
        demo_recurrence_world_def init_world_def init_state_def parent_ids_def)
  from renewal_needs_clean_parents [OF this] show ?thesis by (simp add: Let_def)
qed

text \<open>The trust of a reintegrated node lapses by itself: it is in the active horizon set up to the end of
  its horizon and in the expired set from then on, whatever else is in the horizon. The hypothesis is
  that ISO time stamps are ordered as the times they denote.\<close>

theorem trust_expires:
  assumes "strict_mono (iso e)" and "wf_dict (reintegration_horizon s)"
  shows "let s' = record_reintegration (now_utc e) (horizon_end cfg e) n pred s;
             end_us = now_us e + CONTINUATION_HORIZON_SECONDS cfg * 1000000 in
    (n \<in> set (keys (get_active_horizon_set (iso e t) s')) \<longleftrightarrow> t < end_us) \<and>
    (n \<in> set (get_expired_horizon_set (iso e t) s') \<longleftrightarrow> end_us \<le> t)"
proof -
  let ?s' = "record_reintegration (now_utc e) (horizon_end cfg e) n pred s"
  have mem: "(n, v) \<in> set (reintegration_horizon ?s') \<longleftrightarrow>
      v = \<lparr>admitted_at_utc = now_utc e, trust_expires_utc = horizon_end cfg e, predecessor_id = pred, renewal_count = 0\<rparr>" for v
    using assms(2) by (auto simp: record_reintegration_def mem_set_map_of wf_dict_update dict_simps)
  show ?thesis
    using strict_mono_less [OF assms(1)] strict_mono_less_eq [OF assms(1)]
    by (auto simp: get_active_horizon_set_def get_expired_horizon_set_def keys_def image_iff mem Let_def)
      (simp_all add: horizon_end_def)
qed

text \<open>Time stamps ordered like the integers: \<open>-n\<close> is \<open>n\<close> times \<open>a\<close> and then \<open>b\<close>, \<open>n\<close> is \<open>n + 1\<close> times \<open>c\<close>.\<close>

definition unary_stamp :: "int \<Rightarrow> utc" where
  "unary_stamp t = (if t < 0 then replicate (nat (- t)) (CHR ''a'') @ ''b'' else replicate (nat t + 1) (CHR ''c''))"

lemma less_replicate_extend: "m < n \<Longrightarrow> replicate m (c::char) < replicate n c"
  by (induction m arbitrary: n) (auto simp: gr0_conv_Suc Suc_less_eq2)

lemma less_replicate_stop: "m < n \<Longrightarrow> replicate n (CHR ''a'') @ ''b'' < replicate m (CHR ''a'') @ ''b''"
proof (induction m arbitrary: n)
  case 0
  then show ?case by (cases n) (auto simp: less_char_def)
next
  case (Suc m)
  then show ?case by (cases n) auto
qed

lemma strict_mono_unary_stamp: "strict_mono unary_stamp"
proof (rule strict_monoI)
  fix x y :: int
  assume "x < y"
  show "unary_stamp x < unary_stamp y"
  proof (cases "x < 0 \<and> 0 \<le> y")
    case True
    then obtain k where "nat (- x) = Suc k" by (metis gr0_implies_Suc neg_0_less_iff_less zero_less_nat_eq)
    with True show ?thesis by (simp add: unary_stamp_def less_char_def)
  next
    case False
    then show ?thesis using \<open>x < y\<close>
      by (auto simp: unary_stamp_def intro!: less_replicate_stop less_replicate_extend [of "Suc _" "Suc _", simplified])
  qed
qed

theorem trust_expires_witness:
  "''n'' \<notin> set (keys (get_active_horizon_set (unary_stamp 86400000000)
     (record_reintegration (unary_stamp 0) (unary_stamp 86400000000) ''n'' ''p'' init_state)))"
proof -
  let ?e = "demo_env\<lparr>iso := unary_stamp\<rparr>"
  have "strict_mono (iso ?e)" by (simp add: strict_mono_unary_stamp)
  moreover have "wf_dict (reintegration_horizon init_state)" by (simp add: init_state_def)
  ultimately show ?thesis
    using trust_expires [of ?e init_state default_settings "''n''" "''p''" 86400000000]
    by (simp add: Let_def now_utc_def horizon_end_def default_settings_def demo_env_def)
qed

end
