(* ===== verification/Policy.thy ===== *)
theory Policy
  imports Memory_Backend
begin

text \<open>
  The admission policy: the Rego rules of \<open>policies/\<close> and \<open>evaluate_admission\<close> of
  \<open>src/governor_service.py\<close>, which builds their inputs and interprets their answers. The policy
  engine is a parameter \<open>opa\<close> of \<open>evaluate_admission\<close>, because a deployment may run the rules in
  WASM, over REST or in a subprocess, and may fail; \<open>rego_engine\<close> is the engine that evaluates the
  repository's own rules. A Rego rule whose body is undefined does not hold, so an absent field
  makes the rule that reads it fail.
\<close>

section \<open>Inputs and answers\<close>

record parent_status =
  ps_parent_node_id :: node_id
  ps_exists :: bool
  ps_quarantined :: bool

record integrity_input =
  write_request :: payload
  parent_status_list :: "parent_status list"

record verification_input =
  new_candidate_node_id :: node_id
  target_replaced_node_id :: node_id
  admissible_frontier_parent_ids :: "node_id list"
  justification :: "json option"
  quarantine_set_Q :: "node_id list"
  auth_context :: json_object
  request_timestamp_epoch :: int
  verifier_execution_status :: json

datatype policy_query = Combined_Query | Integrity_Query | Verification_Query

datatype policy_input =
    Integrity_Input integrity_input
  | Verification_Input verification_input
  | Combined_Input integrity_input verification_input

text \<open>
  What \<open>evaluate_opa_policy\<close> does: raise \<open>PolicyEvaluationError\<close>, raise another exception, or return a Boolean or a
  dictionary.
\<close>

datatype policy_result =
    PolicyEvaluationError string
  | PolicyCrash string
  | PBool bool
  | PDict "(string, bool) dict"

type_synonym engine = "policy_query \<Rightarrow> policy_input \<Rightarrow> policy_result"

text \<open>An exception that leaves \<open>evaluate_admission\<close>: the one its caller handles, or another one.\<close>

datatype policy_failure = Engine_Unavailable string | Engine_Crash string

section \<open>The Rego rules\<close>

text \<open>\<open>gasc_quarantine_integrity.rego\<close>; the combined policy repeats the same rules.\<close>

definition declared_dependencies_resolved :: "integrity_input \<Rightarrow> bool" where
  "declared_dependencies_resolved i \<longleftrightarrow> list_all ps_exists (parent_status_list i)"

definition any_parent_quarantined :: "integrity_input \<Rightarrow> bool" where
  "any_parent_quarantined i \<longleftrightarrow> list_ex ps_quarantined (parent_status_list i)"

definition boundary_fixed :: "payload \<Rightarrow> bool" where
  "boundary_fixed p \<longleftrightarrow>
     (case declared_evidence_boundary p of None \<Rightarrow> False | Some b \<Rightarrow> fixed_at_utc b \<noteq> [])"

definition allow_state_write :: "integrity_input \<Rightarrow> bool" where
  "allow_state_write i \<longleftrightarrow> declared_dependencies_resolved i \<and> \<not> any_parent_quarantined i \<and>
     boundary_fixed (write_request i)"

text \<open>
  \<open>gasc_verification_separation.rego\<close>. Of the four evaluative keys the gateway only ever forwards
  \<open>justification\<close>; a forwarded value blocks unless it is the literal \<open>false\<close>.
\<close>

definition has_evaluative_planner_output :: "verification_input \<Rightarrow> bool" where
  "has_evaluative_planner_output v \<longleftrightarrow>
     (case justification v of None \<Rightarrow> False | Some j \<Rightarrow> j \<noteq> JBool False)"

definition fresh_identity_valid :: "verification_input \<Rightarrow> bool" where
  "fresh_identity_valid v \<longleftrightarrow> new_candidate_node_id v \<noteq> target_replaced_node_id v"

definition frontier_contains_quarantined_ancestors :: "verification_input \<Rightarrow> bool" where
  "frontier_contains_quarantined_ancestors v \<longleftrightarrow>
     list_ex (\<lambda>i. i \<in> set (quarantine_set_Q v)) (admissible_frontier_parent_ids v)"

text \<open>Rego orders values of different types: null, Booleans, numbers, strings, arrays, objects.\<close>

fun rego_gt_num :: "json \<Rightarrow> rat \<Rightarrow> bool" where
  "rego_gt_num (JNum x) n = (x > n)"
| "rego_gt_num JNull n = False"
| "rego_gt_num (JBool b) n = False"
| "rego_gt_num _ n = True"

definition ephemeral_identity_valid :: "verification_input \<Rightarrow> bool" where
  "ephemeral_identity_valid v \<longleftrightarrow>
     map_of (auth_context v) ''is_nhi'' = Some (JBool True) \<and>
     (case map_of (auth_context v) ''expires_at_epoch'' of None \<Rightarrow> False
      | Some e \<Rightarrow> rego_gt_num e (of_int (request_timestamp_epoch v))) \<and>
     map_of (auth_context v) ''scope'' = Some (JStr ''agent:state:reconstruct'')"

definition allow_reintegration :: "verification_input \<Rightarrow> bool" where
  "allow_reintegration v \<longleftrightarrow> \<not> has_evaluative_planner_output v \<and> fresh_identity_valid v \<and>
     \<not> frontier_contains_quarantined_ancestors v \<and> ephemeral_identity_valid v \<and>
     verifier_execution_status v = JStr ''PASSED''"

definition is_irreducible :: "verification_input \<Rightarrow> bool" where
  "is_irreducible v \<longleftrightarrow> frontier_contains_quarantined_ancestors v \<or>
     verifier_execution_status v = JStr ''FAILED_UNRESOLVABLE_DEPENDENCY''"

text \<open>An engine that evaluates these rules; a query on the wrong input leaves its rule undefined.\<close>

fun rego_engine :: engine where
  "rego_engine Combined_Query (Combined_Input i v) =
     PDict [(''allow_state_write'', allow_state_write i),
            (''allow_reintegration'', allow_reintegration v),
            (''is_irreducible'', is_irreducible v)]"
| "rego_engine Integrity_Query (Integrity_Input i) = PBool (allow_state_write i)"
| "rego_engine Verification_Query (Verification_Input v) = PBool (allow_reintegration v)"
| "rego_engine _ _ = PolicyEvaluationError ''undefined''"

text \<open>The same rules in a deployment without the combined policy.\<close>

definition sequential_engine :: engine where
  "sequential_engine q i = (if q = Combined_Query then PolicyEvaluationError ''no combined policy'' else rego_engine q i)"

section \<open>Admission\<close>

datatype decision = Admit | Deny (reason: string) (poisoned_root: "node_id option")

definition get_bool :: "(node_id, bool) dict \<Rightarrow> node_id \<Rightarrow> bool" where
  "get_bool d k = (case map_of d k of None \<Rightarrow> False | Some b \<Rightarrow> b)"

definition tainted_parents :: "node_id list \<Rightarrow> (node_id, bool) dict \<Rightarrow> node_id list" where
  "tainted_parents pids qmap = filter (get_bool qmap) pids"

definition integrity_denial :: "node_id list \<Rightarrow> (node_id, bool) dict \<Rightarrow> decision" where
  "integrity_denial pids qmap =
     (case tainted_parents pids qmap of
        t # _ \<Rightarrow> Deny ''TAINTED_PARENT'' (Some t)
      | [] \<Rightarrow> Deny ''Lineage or Monotonicity Invalid'' None)"

definition make_integrity_input ::
    "payload \<Rightarrow> node_id list \<Rightarrow> (node_id, bool) dict \<Rightarrow> (node_id, bool) dict \<Rightarrow> integrity_input" where
  "make_integrity_input p pids emap qmap = \<lparr>write_request = p,
     parent_status_list = map (\<lambda>i. \<lparr>ps_parent_node_id = i, ps_exists = get_bool emap i,
       ps_quarantined = get_bool qmap i\<rparr>) pids\<rparr>"

definition make_verification_input ::
    "int \<Rightarrow> payload \<Rightarrow> node_id list \<Rightarrow> (node_id, bool) dict \<Rightarrow> json_object \<Rightarrow> verification_input" where
  "make_verification_input epoch p pids qmap auth = \<lparr>
     new_candidate_node_id = payload_id p, target_replaced_node_id = ''none'',
     admissible_frontier_parent_ids = pids, justification = content_entry p ''justification'',
     quarantine_set_Q = tainted_parents pids qmap, auth_context = auth,
     request_timestamp_epoch = epoch,
     verifier_execution_status = (case map_of auth ''verifier_execution_status'' of
       None \<Rightarrow> JStr ''PENDING'' | Some st \<Rightarrow> st)\<rparr>"

definition py_truth :: "policy_result \<Rightarrow> bool" where
  "py_truth r = (case r of PBool b \<Rightarrow> b | PDict d \<Rightarrow> d \<noteq> [] | _ \<Rightarrow> False)"

text \<open>
  The two sequential calls. \<open>Inl\<close> is an exception that leaves \<open>evaluate_admission\<close>.
\<close>

definition sequential_admission ::
    "engine \<Rightarrow> integrity_input \<Rightarrow> verification_input \<Rightarrow> node_id list \<Rightarrow> (node_id, bool) dict \<Rightarrow> policy_failure + decision" where
  "sequential_admission opa i v pids qmap =
     (case opa Integrity_Query (Integrity_Input i) of
        PolicyEvaluationError e \<Rightarrow> Inl (Engine_Unavailable e)
      | PolicyCrash e \<Rightarrow> Inl (Engine_Crash e)
      | r \<Rightarrow> if \<not> py_truth r then Inr (integrity_denial pids qmap)
        else case opa Verification_Query (Verification_Input v) of
            PolicyEvaluationError e \<Rightarrow> Inl (Engine_Unavailable e)
          | PolicyCrash e \<Rightarrow> Inl (Engine_Crash e)
          | r' \<Rightarrow> if \<not> py_truth r' then Inr (Deny ''Verification Separation Policy Failed'' None)
                  else Inr Admit)"

definition evaluate_admission ::
    "engine \<Rightarrow> int \<Rightarrow> payload \<Rightarrow> node_id list \<Rightarrow> (node_id, bool) dict \<Rightarrow> (node_id, bool) dict
     \<Rightarrow> json_object \<Rightarrow> policy_failure + decision" where
  "evaluate_admission opa epoch p pids emap qmap auth =
     (let i = make_integrity_input p pids emap qmap;
          v = make_verification_input epoch p pids qmap auth
      in case opa Combined_Query (Combined_Input i v) of
           PDict d \<Rightarrow>
             (if \<not> get_bool d ''allow_state_write'' then Inr (integrity_denial pids qmap)
              else if \<not> get_bool d ''allow_reintegration''
              then Inr (Deny ''Verification Separation Policy Failed'' None)
              else Inr Admit)
         | PolicyCrash e \<Rightarrow> Inl (Engine_Crash e)
         | _ \<Rightarrow> sequential_admission opa i v pids qmap)"

section \<open>What the policy guarantees\<close>

lemma get_bool_are_quarantined [simp]:
  "get_bool (are_quarantined ids s) k \<longleftrightarrow> k \<in> set ids \<and> k \<in> set (quarantine_ledger s)"
  by (simp add: get_bool_def are_quarantined_def map_of_status_fold)

lemma get_bool_nodes_exist [simp]:
  "get_bool (nodes_exist ids s) k \<longleftrightarrow> k \<in> set ids \<and> k \<in> set (keys (dag s))"
  by (simp add: get_bool_def nodes_exist_def map_of_status_fold)

lemma allow_state_write_iff:
  "allow_state_write (make_integrity_input p pids emap qmap) \<longleftrightarrow>
     (\<forall>i\<in>set pids. get_bool emap i \<and> \<not> get_bool qmap i) \<and> boundary_fixed p"
  by (auto simp: allow_state_write_def make_integrity_input_def declared_dependencies_resolved_def
      any_parent_quarantined_def list_all_iff list_ex_iff)

lemma evaluate_admission_rego:
  "evaluate_admission rego_engine epoch p pids emap qmap auth =
    Inr (if \<not> allow_state_write (make_integrity_input p pids emap qmap) then integrity_denial pids qmap
         else if \<not> allow_reintegration (make_verification_input epoch p pids qmap auth)
         then Deny ''Verification Separation Policy Failed'' None else Admit)"
  by (simp add: evaluate_admission_def Let_def get_bool_def)

lemma admission_iff:
  "evaluate_admission rego_engine epoch p pids (nodes_exist pids s) (are_quarantined pids s) auth = Inr Admit \<longleftrightarrow>
     set pids \<subseteq> set (keys (dag s)) \<and> set pids \<inter> set (quarantine_ledger s) = {} \<and> boundary_fixed p \<and>
     (content_entry p ''justification'' = None \<or> content_entry p ''justification'' = Some (JBool False)) \<and>
     payload_id p \<noteq> ''none'' \<and>
     map_of auth ''is_nhi'' = Some (JBool True) \<and>
     (\<exists>e. map_of auth ''expires_at_epoch'' = Some e \<and> rego_gt_num e (of_int epoch)) \<and>
     map_of auth ''scope'' = Some (JStr ''agent:state:reconstruct'') \<and>
     map_of auth ''verifier_execution_status'' = Some (JStr ''PASSED'')"
proof -
  have nq: "\<not> frontier_contains_quarantined_ancestors (make_verification_input epoch p pids (are_quarantined pids s) auth)"
    if "set pids \<inter> set (quarantine_ledger s) = {}"
    using that by (auto simp: frontier_contains_quarantined_ancestors_def make_verification_input_def
        tainted_parents_def list_ex_iff)
  have denial: "integrity_denial pids qmap \<noteq> Admit" for qmap
    by (simp add: integrity_denial_def split: list.split)
  have "allow_state_write (make_integrity_input p pids (nodes_exist pids s) (are_quarantined pids s)) \<longleftrightarrow>
      set pids \<subseteq> set (keys (dag s)) \<and> set pids \<inter> set (quarantine_ledger s) = {} \<and> boundary_fixed p"
    by (auto simp: allow_state_write_iff)
  then show ?thesis
    using nq denial
    by (auto simp: evaluate_admission_rego allow_reintegration_def has_evaluative_planner_output_def
        fresh_identity_valid_def ephemeral_identity_valid_def make_verification_input_def
        split: option.splits)
qed

text \<open>C8: With the repository's own rules, a write is admitted exactly when every declared parent is stored,
  none is quarantined, the evidence boundary is fixed, no forwarded justification is present, the
  candidate is not named \<open>none\<close>, the session is an unexpired machine identity with the
  reconstruction scope, and its verifier reported \<open>PASSED\<close>.\<close>

theorem admission_characterised:
  "evaluate_admission rego_engine epoch p pids (nodes_exist pids s) (are_quarantined pids s) auth = Inr Admit \<longleftrightarrow>
     set pids \<subseteq> set (keys (dag s)) \<and> set pids \<inter> set (quarantine_ledger s) = {} \<and> boundary_fixed p \<and>
     (content_entry p ''justification'' = None \<or> content_entry p ''justification'' = Some (JBool False)) \<and>
     payload_id p \<noteq> ''none'' \<and>
     map_of auth ''is_nhi'' = Some (JBool True) \<and>
     (\<exists>e. map_of auth ''expires_at_epoch'' = Some e \<and> rego_gt_num e (of_int epoch)) \<and>
     map_of auth ''scope'' = Some (JStr ''agent:state:reconstruct'') \<and>
     map_of auth ''verifier_execution_status'' = Some (JStr ''PASSED'')"
  by (rule admission_iff)

text \<open>Deployments with and without the combined policy decide every write alike: the single-call
  evaluation is an optimisation of the two sequential calls.\<close>

theorem combined_equals_sequential:
  "evaluate_admission rego_engine epoch p pids emap qmap auth =
   evaluate_admission sequential_engine epoch p pids emap qmap auth"
  by (simp add: evaluate_admission_rego)
    (simp add: evaluate_admission_def sequential_admission_def sequential_engine_def Let_def py_truth_def)

text \<open>A write with a quarantined parent is refused as tainted, naming the first quarantined parent in
  the order it was declared, whatever else is wrong with it.\<close>

theorem tainted_parent_denied:
  assumes "p1 \<in> set pids" and "p1 \<in> set (quarantine_ledger s)"
  shows "\<exists>r. evaluate_admission rego_engine epoch p pids (nodes_exist pids s) (are_quarantined pids s) auth
        = Inr (Deny ''TAINTED_PARENT'' (Some r)) \<and>
      find (\<lambda>i. i \<in> set (quarantine_ledger s)) pids = Some r"
proof -
  have "tainted_parents pids (are_quarantined pids s) = filter (\<lambda>i. i \<in> set (quarantine_ledger s)) pids"
    unfolding tainted_parents_def by (rule filter_cong) auto
  moreover obtain r rs where f: "filter (\<lambda>i. i \<in> set (quarantine_ledger s)) pids = r # rs"
    using assms by (cases "filter (\<lambda>i. i \<in> set (quarantine_ledger s)) pids") (auto simp: filter_empty_conv)
  moreover have "find (\<lambda>i. i \<in> set (quarantine_ledger s)) pids = Some r"
    using f by (induction pids) (auto split: if_splits)
  moreover have "\<not> allow_state_write (make_integrity_input p pids (nodes_exist pids s) (are_quarantined pids s))"
    using assms by (auto simp: allow_state_write_iff)
  ultimately show ?thesis
    by (simp add: evaluate_admission_rego integrity_denial_def)
qed

theorem tainted_parent_denied_witness:
  "''quarantined-node-A'' \<in> set [''clean-parent-1'', ''quarantined-node-A''] \<and>
   (\<exists>r. evaluate_admission rego_engine 0 (bare_payload ''x'' []) [''clean-parent-1'', ''quarantined-node-A'']
        (nodes_exist [''clean-parent-1'', ''quarantined-node-A''] init_state)
        (are_quarantined [''clean-parent-1'', ''quarantined-node-A''] init_state) []
      = Inr (Deny ''TAINTED_PARENT'' (Some r)) \<and> r = ''quarantined-node-A'')"
  using tainted_parent_denied [of "''quarantined-node-A''" "[''clean-parent-1'', ''quarantined-node-A'']"
      init_state 0 "bare_payload ''x'' []" "[]"]
  by (auto simp: init_state_def)

text \<open>If the policy engine cannot answer any query, no write is admitted: the failure leaves
  \<open>evaluate_admission\<close> as an exception.\<close>

definition answers :: "policy_result \<Rightarrow> bool" where
  "answers r = (case r of PBool b \<Rightarrow> True | PDict d \<Rightarrow> True | _ \<Rightarrow> False)"

lemma not_answers: "\<not> answers r \<longleftrightarrow> (\<exists>err. r = PolicyEvaluationError err \<or> r = PolicyCrash err)"
  by (cases r) (simp_all add: answers_def)

theorem policy_failure_not_admitted:
  assumes "\<And>q i. \<not> answers (opa q i)"
  shows "\<exists>e. evaluate_admission opa epoch p pids emap qmap auth = Inl e"
proof -
  let ?i = "make_integrity_input p pids emap qmap" and ?v = "make_verification_input epoch p pids qmap auth"
  have "\<exists>e. sequential_admission opa ?i ?v pids qmap = Inl e"
    using assms [of Integrity_Query "Integrity_Input ?i"] by (auto simp: not_answers sequential_admission_def)
  then show ?thesis
    using assms [of Combined_Query "Combined_Input ?i ?v"] by (auto simp: not_answers evaluate_admission_def Let_def)
qed

end
