(* ===== verification/Interval_Gap.thy ===== *)
theory Interval_Gap
  imports Memory_Backend Worklist
begin

text \<open>
  \<open>_compute_covers_interval_gap\<close>: the nodes that lie between covered nodes of a compaction, below
  one and above another, but are not covered themselves. Two worklist loops, one down the parent
  edges and one up, each an instance of \<open>worklist_loop\<close>; the result is characterised by
  reachability alone.
\<close>

section \<open>Definitions\<close>

text \<open>The inner \<open>for node_id, data in dag.items()\<close> loop of the downward search.\<close>

fun child_scan :: "node_id \<Rightarrow> (node_id, payload) dict \<Rightarrow> node_id list \<times> node_id list
    \<Rightarrow> node_id list \<times> node_id list" where
  "child_scan cur [] st = st"
| "child_scan cur ((nid, nd) # rest) (seen, queue) =
     (if cur \<in> set (parent_ids nd) \<and> nid \<notin> set seen
      then child_scan cur rest (seen @ [nid], queue @ [nid])
      else child_scan cur rest (seen, queue))"

text \<open>The inner \<open>for p_id in parents\<close> loop of the upward search.\<close>

fun parent_scan :: "(node_id, payload) dict \<Rightarrow> node_id list \<Rightarrow> node_id list \<times> node_id list
    \<Rightarrow> node_id list \<times> node_id list" where
  "parent_scan d [] st = st"
| "parent_scan d (p # ps) (seen, queue) =
     (if p \<in> set (keys d) \<and> p \<notin> set seen then parent_scan d ps (seen @ [p], queue @ [p])
      else parent_scan d ps (seen, queue))"

fun fresh_children :: "node_id \<Rightarrow> (node_id, payload) dict \<Rightarrow> node_id list \<Rightarrow> node_id list" where
  "fresh_children cur [] seen = []"
| "fresh_children cur ((nid, nd) # rest) seen =
     (if cur \<in> set (parent_ids nd) \<and> nid \<notin> set seen then nid # fresh_children cur rest (seen @ [nid])
      else fresh_children cur rest seen)"

fun fresh_parents :: "(node_id, payload) dict \<Rightarrow> node_id list \<Rightarrow> node_id list \<Rightarrow> node_id list" where
  "fresh_parents d [] seen = []"
| "fresh_parents d (p # ps) seen =
     (if p \<in> set (keys d) \<and> p \<notin> set seen then p # fresh_parents d ps (seen @ [p])
      else fresh_parents d ps seen)"

lemma child_scan_eq:
  "child_scan cur d (V, Q) = (V @ fresh_children cur d V, Q @ fresh_children cur d V)"
  by (induction cur d V arbitrary: Q rule: fresh_children.induct) auto

lemma parent_scan_eq:
  "parent_scan d ps (V, Q) = (V @ fresh_parents d ps V, Q @ fresh_parents d ps V)"
  by (induction d ps V arbitrary: Q rule: fresh_parents.induct) auto

lemma set_fresh_children:
  "set (fresh_children cur d V) = {n. \<exists>nd. (n, nd) \<in> set d \<and> cur \<in> set (parent_ids nd)} - set V"
  by (induction cur d V rule: fresh_children.induct) auto

lemma set_fresh_parents: "set (fresh_parents d ps V) = (set ps \<inter> set (keys d)) - set V"
  by (induction d ps V rule: fresh_parents.induct) auto

lemma distinct_fresh_children: "distinct (fresh_children cur d V)"
  by (induction cur d V rule: fresh_children.induct) (auto simp: set_fresh_children)

lemma distinct_fresh_parents: "distinct (fresh_parents d ps V)"
  by (induction d ps V rule: fresh_parents.induct) (auto simp: set_fresh_parents)

text \<open>Each iteration moves as many nodes into the queue as it marks, all of them keys of the graph.\<close>

lemma enqueue_measure:
  assumes "set N \<subseteq> K - set V" and "distinct N" and "finite K"
  shows "card (K - set (V @ N)) + length (Q @ N) = card (K - set V) + length Q"
proof -
  have "K - set (V @ N) = (K - set V) - set N" by auto
  then have "card (K - set (V @ N)) = card (K - set V) - card (set N)"
    using assms by (simp add: card_Diff_subset)
  moreover have "card (set N) \<le> card (K - set V)"
    using assms by (intro card_mono) auto
  ultimately show ?thesis using distinct_card [OF assms(2)] by simp
qed

lemma fresh_children_keys: "set (fresh_children cur d V) \<subseteq> set (keys d) - set V"
  by (auto simp: set_fresh_children intro: mem_key)

lemma fresh_parents_keys: "set (fresh_parents d ps V) \<subseteq> set (keys d) - set V"
  by (auto simp: set_fresh_parents)

function descend_loop :: "(node_id, payload) dict \<Rightarrow> node_id list \<Rightarrow> node_id list \<Rightarrow> node_id list" where
  "descend_loop d seen [] = seen"
| "descend_loop d seen (cur # queue) =
     (let (seen', queue') = child_scan cur d (seen, queue) in descend_loop d seen' queue')"
  by pat_completeness auto
termination
  by (relation "measure (\<lambda>(d, V, Q). card (set (keys d) - set V) + length Q)")
    (use enqueue_measure [OF fresh_children_keys distinct_fresh_children] in
      \<open>auto simp: child_scan_eq\<close>)

definition node_parents :: "(node_id, payload) dict \<Rightarrow> node_id \<Rightarrow> node_id list" where
  "node_parents d n = (case map_of d n of None \<Rightarrow> [] | Some nd \<Rightarrow> parent_ids nd)"

function ascend_loop :: "(node_id, payload) dict \<Rightarrow> node_id list \<Rightarrow> node_id list \<Rightarrow> node_id list" where
  "ascend_loop d seen [] = seen"
| "ascend_loop d seen (cur # queue) =
     (let (seen', queue') = parent_scan d (node_parents d cur) (seen, queue)
      in ascend_loop d seen' queue')"
  by pat_completeness auto
termination
  by (relation "measure (\<lambda>(d, V, Q). card (set (keys d) - set V) + length Q)")
    (use enqueue_measure [OF fresh_parents_keys distinct_fresh_parents] in
      \<open>auto simp: parent_scan_eq\<close>)

text \<open>
  The Python sets \<open>d_covers\<close>, \<open>a_covers\<close> and \<open>covers_set\<close> start from the same list, which may
  repeat an identifier; only membership in them is used, and the difference is made duplicate-free
  before it is sorted.
\<close>

definition compute_covers_interval_gap :: "(node_id, payload) dict \<Rightarrow> node_id list \<Rightarrow> node_id list" where
  "compute_covers_interval_gap d cs =
     (if cs = [] then []
      else let d_covers = descend_loop d cs cs; a_covers = ascend_loop d cs cs
        in sort (remdups (filter (\<lambda>n. n \<in> set a_covers \<and> n \<notin> set cs) d_covers)))"

section \<open>Characterisation\<close>

definition child_of :: "(node_id, payload) dict \<Rightarrow> node_id \<Rightarrow> node_id \<Rightarrow> bool" where
  "child_of d c n \<longleftrightarrow> (\<exists>nd. (n, nd) \<in> set d \<and> c \<in> set (parent_ids nd))"

definition parent_in :: "(node_id, payload) dict \<Rightarrow> node_id \<Rightarrow> node_id \<Rightarrow> bool" where
  "parent_in d c n \<longleftrightarrow> n \<in> set (node_parents d c) \<and> n \<in> set (keys d)"

interpretation down: worklist_loop "child_of d" "set (keys d)"
  "\<lambda>V Q D (x::unit). descend_loop d V Q" "\<lambda>c V. fresh_children c d V" "\<lambda>c V x. x" "\<lambda>V D x. V" for d
  by unfold_locales
    (auto simp: child_of_def set_fresh_children child_scan_eq distinct_fresh_children intro: mem_key)

interpretation up: worklist_loop "parent_in d" "set (keys d)"
  "\<lambda>V Q D (x::unit). ascend_loop d V Q" "\<lambda>c V. fresh_parents d (node_parents d c) V" "\<lambda>c V x. x" "\<lambda>V D x. V" for d
  by unfold_locales
    (auto simp: parent_in_def set_fresh_parents parent_scan_eq distinct_fresh_parents)

lemma set_descend_loop: "set (descend_loop d cs cs) = reach_from (child_of d) (set cs)"
  using down.loop_result [of d cs] by auto

lemma set_ascend_loop: "set (ascend_loop d cs cs) = reach_from (parent_in d) (set cs)"
  using up.loop_result [of d cs] by auto

lemma set_interval_gap:
  "set (compute_covers_interval_gap d cs) =
     reach_from (child_of d) (set cs) \<inter> reach_from (parent_in d) (set cs) - set cs"
  by (auto simp: compute_covers_interval_gap_def Let_def set_descend_loop set_ascend_loop reach_from_def)

lemma sorted_interval_gap:
  "sorted (compute_covers_interval_gap d cs)" "distinct (compute_covers_interval_gap d cs)"
  by (simp_all add: compute_covers_interval_gap_def Let_def)

text \<open>
  An upward edge of the graph is a downward edge read backwards when the graph is a dictionary
  and the upper node is stored in it.
\<close>

lemma parent_in_child_of:
  assumes "wf_dict d"
  shows "parent_in d c n \<longleftrightarrow> child_of d n c \<and> n \<in> set (keys d)"
  unfolding parent_in_def child_of_def node_parents_def
  by (cases "map_of d c") (auto simp: mem_set_map_of [OF assms])

lemma ascend_reaches_down:
  assumes "wf_dict d" and "n \<in> reach_from (parent_in d) R"
  shows "\<exists>c\<in>R. (child_of d)\<^sup>*\<^sup>* n c"
proof -
  obtain c where c: "c \<in> R" and "(parent_in d)\<^sup>*\<^sup>* c n"
    using assms(2) by (auto simp: reach_from_def)
  from this(2) have "(child_of d)\<^sup>*\<^sup>* n c"
  proof induction
    case base
    show ?case by simp
  next
    case (step y z)
    then have "child_of d z y" by (simp add: parent_in_child_of [OF assms(1)])
    then show ?case using step.IH by (rule converse_rtranclp_into_rtranclp)
  qed
  with c show ?thesis by blast
qed

lemma down_reaches_ascend:
  assumes wf: "wf_dict d" and "(child_of d)\<^sup>*\<^sup>* n c" and "c \<in> R" and "n \<in> set (keys d)"
  shows "n \<in> reach_from (parent_in d) R"
  using assms(2,4)
proof (induction rule: converse_rtranclp_induct)
  case base
  then show ?case using assms(3) by (simp add: reach_from_start)
next
  case (step y z)
  have "z \<in> set (keys d)" using step.hyps(1) by (auto simp: child_of_def intro: mem_key)
  then have "z \<in> reach_from (parent_in d) R" by (rule step.IH)
  moreover have "parent_in d z y"
    using step.hyps(1) step.prems by (simp add: parent_in_child_of [OF wf])
  ultimately show ?case by (rule reach_from_step)
qed

text \<open>C31: The interval gap of a compaction is exactly the set of stored nodes that lie strictly between
  covered nodes: below a covered node and above a covered node along parent edges, and not covered
  themselves. It is returned sorted and without duplicates.\<close>

theorem interval_gap_between:
  assumes "wf_dict d"
  shows "set (compute_covers_interval_gap d cs) =
      {n \<in> set (keys d). n \<notin> set cs \<and> (\<exists>a\<in>set cs. (child_of d)\<^sup>*\<^sup>* a n) \<and> (\<exists>b\<in>set cs. (child_of d)\<^sup>*\<^sup>* n b)}
    \<and> sorted (compute_covers_interval_gap d cs) \<and> distinct (compute_covers_interval_gap d cs)"
proof -
  have key: "n \<in> set (keys d)" if "n \<in> reach_from (child_of d) (set cs)" "n \<notin> set cs" for n
    using that reach_from_bound [of "child_of d" "set (keys d)" "set cs"]
    by (auto simp: child_of_def dest: mem_key)
  have "set (compute_covers_interval_gap d cs) =
      {n \<in> set (keys d). n \<notin> set cs \<and> (\<exists>a\<in>set cs. (child_of d)\<^sup>*\<^sup>* a n) \<and> (\<exists>b\<in>set cs. (child_of d)\<^sup>*\<^sup>* n b)}"
    (is "?L = ?R")
  proof
    show "?L \<subseteq> ?R"
    proof
      fix n
      assume "n \<in> ?L"
      then have n: "n \<in> reach_from (child_of d) (set cs)" "n \<notin> set cs"
        and "n \<in> reach_from (parent_in d) (set cs)"
        by (auto simp: set_interval_gap)
      from ascend_reaches_down [OF assms this(3)] n key show "n \<in> ?R"
        by (auto simp: reach_from_def)
    qed
    show "?R \<subseteq> ?L"
      using down_reaches_ascend [OF assms] by (auto simp: set_interval_gap reach_from_def)
  qed
  then show ?thesis by (simp add: sorted_interval_gap)
qed

theorem interval_gap_between_witness:
  "let d = [(''a'', bare_payload ''a'' []),
            (''b'', bare_payload ''b'' [\<lparr>parent_node_id = ''a'', parent_content_hash = None, edge_class = None\<rparr>]),
            (''c'', bare_payload ''c'' [\<lparr>parent_node_id = ''b'', parent_content_hash = None, edge_class = None\<rparr>])]
   in wf_dict d \<and> compute_covers_interval_gap d [''a'', ''c''] = [''b''] \<and>
      (\<exists>a\<in>{''a'', ''c''}. (child_of d)\<^sup>*\<^sup>* a ''b'')"
proof -
  let ?d = "[(''a'', bare_payload ''a'' []),
            (''b'', bare_payload ''b'' [\<lparr>parent_node_id = ''a'', parent_content_hash = None, edge_class = None\<rparr>]),
            (''c'', bare_payload ''c'' [\<lparr>parent_node_id = ''b'', parent_content_hash = None, edge_class = None\<rparr>])]"
  have wf: "wf_dict ?d" by (simp add: wf_dict_def)
  have gap: "compute_covers_interval_gap ?d [''a'', ''c''] = [''b'']"
    by (simp add: compute_covers_interval_gap_def node_parents_def parent_ids_def)
  from interval_gap_between [OF wf, of "[''a'', ''c'']"] gap
  have "\<exists>a\<in>{''a'', ''c''}. (child_of ?d)\<^sup>*\<^sup>* a ''b''" by auto
  with wf gap show ?thesis by (simp add: Let_def)
qed

end
