(* ===== verification/Tainted_Actions.thy ===== *)
theory Tainted_Actions
  imports Memory_Backend Worklist Interval_Gap
begin

text \<open>
  Tracking of rejected writes (B.8) and the search for a continuity replacement, as methods of
  \<open>MemoryStateBackend\<close>. The invariant \<open>rejections_ok\<close> ties the flags of a rejection together; the
  completion metric derived from them stays between 0 and 1 and below the offer rate. The ancestor
  walk behind \<open>find_continuity_replacement\<close> terminates and finds exactly the quarantined ancestors
  reachable through quarantined nodes.
\<close>

section \<open>Rejections, offers, completions\<close>

definition record_tainted_rejection :: "node_id \<Rightarrow> node_id \<Rightarrow> utc \<Rightarrow> string \<Rightarrow> gstate \<Rightarrow> gstate" where
  "record_tainted_rejection n par when author s =
     s\<lparr>tainted_rejections := tainted_rejections s @
        [\<lparr>tr_node_id = n, tainted_parent_id = par, rejected_at_utc = when, author_identity = author,
          offered = False, offered_replacement = None, replacement_type = None,
          completed = False, completed_by = None\<rparr>]\<rparr>"

text \<open>Loops that update the first matching entry and \<open>break\<close>.\<close>

fun offer_first :: "node_id \<Rightarrow> node_id \<Rightarrow> string \<Rightarrow> tainted_rejection list \<Rightarrow> tainted_rejection list" where
  "offer_first rid rep ty [] = []"
| "offer_first rid rep ty (r # rs) =
     (if tr_node_id r = rid \<and> \<not> offered r
      then r\<lparr>offered := True, offered_replacement := Some rep, replacement_type := Some ty\<rparr> # rs
      else r # offer_first rid rep ty rs)"

definition record_tainted_offer :: "node_id \<Rightarrow> node_id \<Rightarrow> string \<Rightarrow> gstate \<Rightarrow> gstate" where
  "record_tainted_offer rid rep ty s =
     s\<lparr>tainted_rejections := offer_first rid rep ty (tainted_rejections s)\<rparr>"

fun complete_first :: "node_id \<Rightarrow> node_id \<Rightarrow> tainted_rejection list \<Rightarrow> tainted_rejection list" where
  "complete_first rid by_id [] = []"
| "complete_first rid by_id (r # rs) =
     (if tr_node_id r = rid \<and> \<not> completed r
      then r\<lparr>completed := True, completed_by := Some by_id\<rparr> # rs
      else r # complete_first rid by_id rs)"

definition record_tainted_completion :: "node_id \<Rightarrow> node_id \<Rightarrow> gstate \<Rightarrow> gstate" where
  "record_tainted_completion rid by_id s =
     s\<lparr>tainted_rejections := complete_first rid by_id (tainted_rejections s)\<rparr>"

text \<open>One turn of the loop of \<open>check_retry_completion\<close>; each \<open>continue\<close> leaves the entry alone.\<close>

definition submitter_of :: "payload \<Rightarrow> string" where
  "submitter_of p = (case nhi_identity p of None \<Rightarrow> [] | Some i \<Rightarrow> i)"

definition retry_credit :: "payload \<Rightarrow> tainted_rejection \<Rightarrow> tainted_rejection" where
  "retry_credit p r =
     (if completed r then r
      else if \<not> offered r then r
      else if \<not> (truthy (offered_replacement r) \<and> the (offered_replacement r) \<in> set (parent_ids p)) then r
      else if truthy (retry_of p) \<and> retry_of p = Some (tr_node_id r) \<and>
              author_identity r \<noteq> [] \<and> submitter_of p \<noteq> author_identity r then r
      else r\<lparr>completed := True, completed_by := Some (payload_id p)\<rparr>)"

definition check_retry_completion :: "payload \<Rightarrow> gstate \<Rightarrow> gstate" where
  "check_retry_completion p s = s\<lparr>tainted_rejections := map (retry_credit p) (tainted_rejections s)\<rparr>"

record tainted_stats =
  total_rejections :: nat
  offered_count :: nat
  completed_count :: nat
  completion_rate :: rat
  offer_rate :: rat
  direct_offered :: nat
  direct_completed :: nat
  ancestor_offered :: nat
  ancestor_completed :: nat

definition count_rej :: "(tainted_rejection \<Rightarrow> bool) \<Rightarrow> gstate \<Rightarrow> nat" where
  "count_rej P s = length (filter P (tainted_rejections s))"

definition get_tainted_action_stats :: "gstate \<Rightarrow> tainted_stats" where
  "get_tainted_action_stats s =
     (let total = length (tainted_rejections s);
          off = count_rej offered s; com = count_rej completed s
      in \<lparr>total_rejections = total, offered_count = off, completed_count = com,
          completion_rate = (if total > 0 then of_nat com / of_nat total else 0),
          offer_rate = (if total > 0 then of_nat off / of_nat total else 0),
          direct_offered = count_rej (\<lambda>r. offered r \<and> replacement_type r = Some ''direct'') s,
          direct_completed = count_rej (\<lambda>r. completed r \<and> replacement_type r = Some ''direct'') s,
          ancestor_offered = count_rej (\<lambda>r. offered r \<and> replacement_type r = Some ''ancestor'') s,
          ancestor_completed = count_rej (\<lambda>r. completed r \<and> replacement_type r = Some ''ancestor'') s\<rparr>)"

section \<open>Continuity replacement\<close>

text \<open>
  The ancestor walk: an identifier is marked when it is dequeued, and its parents are enqueued
  only if it is quarantined. Where the parents come from (the stored payload here, the edges table
  in the database backends) is the argument \<open>par\<close>; the walk ends whatever they are, because each turn
  that enqueues anything marks another identifier of the finite ledger.
\<close>

function anc_loop :: "(node_id \<Rightarrow> node_id list) \<Rightarrow> node_id list \<Rightarrow> node_id list \<Rightarrow> node_id list \<Rightarrow> node_id list
    \<Rightarrow> node_id list" where
  "anc_loop par ledger visited [] candidates = candidates"
| "anc_loop par ledger visited (nid # queue) candidates =
     (if nid \<in> set visited then anc_loop par ledger visited queue candidates
      else if nid \<in> set ledger
      then anc_loop par ledger (nid # visited) (queue @ par nid) (candidates @ [nid])
      else anc_loop par ledger (nid # visited) queue candidates)"
  by pat_completeness auto
termination
proof (relation "measures [\<lambda>(par, l, V, Q, C). card (set l - set V), \<lambda>(par, l, V, Q, C). length Q]",
    goal_cases)
  case (3 par ledger visited nid queue candidates)
  then have "set ledger - set (nid # visited) \<subset> set ledger - set visited" by auto
  then show ?case by (simp add: psubset_card_mono)
next
  case (4 par ledger visited nid queue candidates)
  have "card (set ledger - set (nid # visited)) \<le> card (set ledger - set visited)"
    by (intro card_mono) auto
  then show ?case by auto
qed auto

record replacement =
  replacement_node_id :: node_id
  replacement_for :: node_id
  replacement_exposure_id :: "string option"
  replacement_mechanism :: string

definition exposed_replacement :: "gstate \<Rightarrow> node_id \<Rightarrow> replacement option" where
  "exposed_replacement s cand =
     map_option (\<lambda>e. \<lparr>replacement_node_id = exposure_node_id e, replacement_for = cand,
          replacement_exposure_id = Some (exposure_id e),
          replacement_mechanism = (case mechanism e of None \<Rightarrow> ''unknown'' | Some m \<Rightarrow> m)\<rparr>)
       (find (\<lambda>e. (case map_of (dag s) (exposure_node_id e) of None \<Rightarrow> None
                    | Some nd \<Rightarrow> content_entry nd ''original_target'') = Some (JStr cand))
          (continuity_exposures s))"

definition declared_replacement :: "gstate \<Rightarrow> node_id \<Rightarrow> replacement option" where
  "declared_replacement s cand =
     (case map_of (substitute_declarations s) cand of None \<Rightarrow> None
      | Some sd \<Rightarrow> (let src = substitute_source_id sd in
          if src \<noteq> [] \<and> src \<in> set (keys (dag s)) \<and> src \<notin> set (quarantine_ledger s)
          then Some \<lparr>replacement_node_id = src, replacement_for = cand,
                 replacement_exposure_id = None, replacement_mechanism = ''M3_DECLARED_SUBSTITUTE''\<rparr>
          else None))"

fun first_replacement :: "gstate \<Rightarrow> node_id list \<Rightarrow> replacement option" where
  "first_replacement s [] = None"
| "first_replacement s (cand # cands) =
     (case exposed_replacement s cand of Some r \<Rightarrow> Some r
      | None \<Rightarrow> (case declared_replacement s cand of Some r \<Rightarrow> Some r
          | None \<Rightarrow> first_replacement s cands))"

definition quarantined_ancestors :: "gstate \<Rightarrow> node_id \<Rightarrow> node_id list" where
  "quarantined_ancestors s n = anc_loop (node_parents (dag s)) (quarantine_ledger s) [] [n] []"

definition find_continuity_replacement :: "node_id \<Rightarrow> gstate \<Rightarrow> replacement option" where
  "find_continuity_replacement n s = first_replacement s (quarantined_ancestors s n)"

section \<open>The flags of a rejection\<close>

definition rejection_ok :: "tainted_rejection \<Rightarrow> bool" where
  "rejection_ok r \<longleftrightarrow> (completed r \<longrightarrow> offered r \<and> completed_by r \<noteq> None) \<and>
     (offered r \<longleftrightarrow> offered_replacement r \<noteq> None) \<and> (offered r \<longleftrightarrow> replacement_type r \<noteq> None)"

definition rejections_ok :: "gstate \<Rightarrow> bool" where
  "rejections_ok s \<longleftrightarrow> list_all rejection_ok (tainted_rejections s)"

lemma retry_credit_ok: "rejection_ok r \<Longrightarrow> rejection_ok (retry_credit p r)"
  by (auto simp: rejection_ok_def retry_credit_def)

lemma offer_first_ok: "list_all rejection_ok rs \<Longrightarrow> list_all rejection_ok (offer_first rid rep ty rs)"
  by (induction rs) (auto simp: rejection_ok_def)

lemma rejections_ok_record [intro]:
  "rejections_ok s \<Longrightarrow> rejections_ok (record_tainted_rejection n par when author s)"
  by (simp add: rejections_ok_def record_tainted_rejection_def) (simp add: rejection_ok_def)

lemma rejections_ok_offer [intro]:
  "rejections_ok s \<Longrightarrow> rejections_ok (record_tainted_offer rid rep ty s)"
  by (simp add: rejections_ok_def record_tainted_offer_def offer_first_ok)

lemma rejections_ok_retry [intro]: "rejections_ok s \<Longrightarrow> rejections_ok (check_retry_completion p s)"
  by (simp add: rejections_ok_def check_retry_completion_def list_all_iff retry_credit_ok)

lemma count_rej_mono: "(\<And>r. r \<in> set (tainted_rejections s) \<Longrightarrow> P r \<Longrightarrow> Q r) \<Longrightarrow> count_rej P s \<le> count_rej Q s"
proof -
  have "length (filter P xs) \<le> length (filter Q xs)" if "\<And>r. r \<in> set xs \<Longrightarrow> P r \<Longrightarrow> Q r"
    for xs :: "tainted_rejection list"
    using that by (induction xs) (simp_all add: le_SucI)
  then show "(\<And>r. r \<in> set (tainted_rejections s) \<Longrightarrow> P r \<Longrightarrow> Q r) \<Longrightarrow> count_rej P s \<le> count_rej Q s"
    by (simp add: count_rej_def)
qed

text \<open>Once the rejection log is consistent, the completion metric is too: completed actions are among
  the offered ones, offered ones among all rejections, and the two rates lie between 0 and 1 in
  that order.\<close>

theorem tainted_stats_bounds:
  assumes "rejections_ok s"
  shows "let st = get_tainted_action_stats s in
    completed_count st \<le> offered_count st \<and> offered_count st \<le> total_rejections st \<and>
    0 \<le> completion_rate st \<and> completion_rate st \<le> offer_rate st \<and> offer_rate st \<le> 1 \<and>
    direct_completed st \<le> direct_offered st \<and> ancestor_completed st \<le> ancestor_offered st"
proof -
  have imp: "completed r \<Longrightarrow> offered r" if "r \<in> set (tainted_rejections s)" for r
    using assms that by (auto simp: rejections_ok_def rejection_ok_def list_all_iff)
  have co: "count_rej completed s \<le> count_rej offered s"
    and d: "count_rej (\<lambda>r. completed r \<and> replacement_type r = Some ''direct'') s
      \<le> count_rej (\<lambda>r. offered r \<and> replacement_type r = Some ''direct'') s"
    and a: "count_rej (\<lambda>r. completed r \<and> replacement_type r = Some ''ancestor'') s
      \<le> count_rej (\<lambda>r. offered r \<and> replacement_type r = Some ''ancestor'') s"
    by (intro count_rej_mono; use imp in blast)+
  have ot: "count_rej offered s \<le> length (tainted_rejections s)"
    by (simp add: count_rej_def)
  show ?thesis
    using co d a ot by (auto simp: get_tainted_action_stats_def Let_def divide_le_eq_1 intro: divide_right_mono)
qed

theorem tainted_stats_bounds_witness:
  "let s = record_tainted_offer ''w'' ''r'' ''direct'' (record_tainted_rejection ''w'' ''p'' ''t'' ''me'' init_state)
   in rejections_ok s \<and> offered_count (get_tainted_action_stats s) = 1 \<and>
      completion_rate (get_tainted_action_stats s) \<le> offer_rate (get_tainted_action_stats s)"
proof -
  let ?s = "record_tainted_offer ''w'' ''r'' ''direct'' (record_tainted_rejection ''w'' ''p'' ''t'' ''me'' init_state)"
  have ok: "rejections_ok ?s"
    by (intro rejections_ok_offer rejections_ok_record) (simp add: rejections_ok_def init_state_def)
  have "offered_count (get_tainted_action_stats ?s) = 1"
    by (simp add: get_tainted_action_stats_def Let_def count_rej_def record_tainted_offer_def
        record_tainted_rejection_def init_state_def)
  then show ?thesis using ok tainted_stats_bounds [OF ok] by (simp add: Let_def)
qed

section \<open>Who gets credit for a retry\<close>

text \<open>A write completes a rejected action only through the gateway's own records: the action had been
  offered a replacement, that replacement is a declared parent of the write, and if the write
  claims to retry this action, it comes from the rejected author. Nothing else about the log
  changes, and an action once completed keeps the write that completed it.\<close>

theorem retry_completion_structural:
  assumes "i < length (tainted_rejections s)"
  shows "let r = tainted_rejections s ! i; r' = tainted_rejections (check_retry_completion p s) ! i in
    length (tainted_rejections (check_retry_completion p s)) = length (tainted_rejections s) \<and>
    (completed r \<longrightarrow> r' = r) \<and>
    (\<not> completed r \<and> completed r' \<longrightarrow>
       offered r \<and> completed_by r' = Some (payload_id p) \<and>
       (\<exists>rep. offered_replacement r = Some rep \<and> rep \<in> set (parent_ids p)) \<and>
       (truthy (retry_of p) \<and> retry_of p = Some (tr_node_id r) \<and> author_identity r \<noteq> [] \<longrightarrow>
          submitter_of p = author_identity r)) \<and>
    (\<not> completed r' \<longrightarrow> r' = r)"
  using assms by (auto simp: check_retry_completion_def retry_credit_def Let_def truthy_the)

theorem retry_completion_structural_witness:
  "let s = record_tainted_offer ''w'' ''r'' ''direct'' (record_tainted_rejection ''w'' ''p'' ''t'' ''me'' init_state);
       q = bare_payload ''w2'' [\<lparr>parent_node_id = ''r'', parent_content_hash = None, edge_class = None\<rparr>]
   in 0 < length (tainted_rejections s) \<and> completed (tainted_rejections (check_retry_completion q s) ! 0) \<and>
      completed_by (tainted_rejections (check_retry_completion q s) ! 0) = Some ''w2''"
proof -
  let ?s = "record_tainted_offer ''w'' ''r'' ''direct'' (record_tainted_rejection ''w'' ''p'' ''t'' ''me'' init_state)"
  let ?q = "bare_payload ''w2'' [\<lparr>parent_node_id = ''r'', parent_content_hash = None, edge_class = None\<rparr>]"
  have len: "0 < length (tainted_rejections ?s)"
    by (simp add: record_tainted_offer_def record_tainted_rejection_def init_state_def)
  have "completed (tainted_rejections (check_retry_completion ?q ?s) ! 0)"
    and "\<not> completed (tainted_rejections ?s ! 0)"
    by (simp_all add: record_tainted_offer_def record_tainted_rejection_def init_state_def
        check_retry_completion_def retry_credit_def parent_ids_def)
  then show ?thesis using len retry_completion_structural [OF len, of ?q] by (simp add: Let_def)
qed

section \<open>The ancestor walk\<close>

definition quarantined_step :: "(node_id \<Rightarrow> node_id list) \<Rightarrow> node_id list \<Rightarrow> node_id \<Rightarrow> node_id \<Rightarrow> bool" where
  "quarantined_step par ledger c p \<longleftrightarrow> c \<in> set ledger \<and> p \<in> set (par c)"

definition quarantined_parent :: "(node_id, payload) dict \<Rightarrow> node_id list \<Rightarrow> node_id \<Rightarrow> node_id \<Rightarrow> bool" where
  "quarantined_parent d = quarantined_step (node_parents d)"

definition anc_inv :: "(node_id \<Rightarrow> node_id list) \<Rightarrow> node_id list \<Rightarrow> node_id \<Rightarrow> node_id list \<Rightarrow> node_id list \<Rightarrow> node_id list \<Rightarrow> bool" where
  "anc_inv par ledger n V Q C \<longleftrightarrow>
     n \<in> set V \<union> set Q \<and> set C = set V \<inter> set ledger \<and>
     set V \<union> set Q \<subseteq> reach_from (quarantined_step par ledger) {n} \<and>
     (\<forall>x\<in>set V. \<forall>y. quarantined_step par ledger x y \<longrightarrow> y \<in> set V \<union> set Q)"

lemma anc_inv_step:
  assumes "anc_inv par ledger n V (c # Q) C" and "c \<in> set ledger"
  shows "anc_inv par ledger n (c # V) (Q @ par c) (C @ [c])"
proof -
  have c: "c \<in> reach_from (quarantined_step par ledger) {n}"
    using assms(1) by (auto simp: anc_inv_def)
  have "y \<in> reach_from (quarantined_step par ledger) {n}" if "y \<in> set (par c)" for y
    using that assms(2) by (intro reach_from_step [OF c]) (simp add: quarantined_step_def)
  with assms show ?thesis
    by (auto simp: anc_inv_def quarantined_step_def)
qed

lemma anc_loop_result:
  "anc_inv par ledger n V Q C \<Longrightarrow>
   set (anc_loop par ledger V Q C) = reach_from (quarantined_step par ledger) {n} \<inter> set ledger"
proof (induction par ledger V Q C rule: anc_loop.induct)
  case (1 par ledger V C)
  have "reach_from (quarantined_step par ledger) {n} \<subseteq> set V"
    by (rule reach_from_least) (use 1 in \<open>auto simp: anc_inv_def\<close>)
  then show ?case using 1 by (auto simp: anc_inv_def)
next
  case (2 par ledger V c Q C)
  consider "c \<in> set V" | "c \<notin> set V" "c \<in> set ledger" | "c \<notin> set V" "c \<notin> set ledger" by blast
  then show ?case
  proof cases
    case 1
    then have "anc_inv par ledger n V Q C"
      using 2(4) by (auto simp: anc_inv_def)
    with 1 2(1) show ?thesis by simp
  next
    case b: 2
    then show ?thesis using 2(2) anc_inv_step [OF 2(4)] by simp
  next
    case c: 3
    then have "anc_inv par ledger n (c # V) Q C"
      using 2(4) by (auto simp: anc_inv_def quarantined_step_def)
    with c 2(3) show ?thesis by simp
  qed
qed

lemma set_anc_loop: "set (anc_loop par ledger [] [n] []) = reach_from (quarantined_step par ledger) {n} \<inter> set ledger"
  by (rule anc_loop_result) (simp add: anc_inv_def reach_from_start)

lemma set_quarantined_ancestors:
  "set (quarantined_ancestors s n) =
     reach_from (quarantined_parent (dag s) (quarantine_ledger s)) {n} \<inter> set (quarantine_ledger s)"
  unfolding quarantined_ancestors_def quarantined_parent_def by (rule set_anc_loop)

lemma first_replacement_cases:
  assumes "first_replacement s cands = Some r"
  shows "\<exists>c\<in>set cands. exposed_replacement s c = Some r \<or> declared_replacement s c = Some r"
  using assms by (induction cands) (auto split: option.splits)

lemma exposed_replacementD:
  assumes "exposed_replacement s c = Some r"
  shows "replacement_for r = c \<and> replacement_exposure_id r \<noteq> None \<and>
    (\<exists>nd. map_of (dag s) (replacement_node_id r) = Some nd \<and>
          content_entry nd ''original_target'' = Some (JStr c))"
  using assms by (auto simp: exposed_replacement_def split: option.splits dest!: find_SomeD)

lemma declared_replacementD:
  assumes "declared_replacement s c = Some r"
  shows "replacement_for r = c \<and> replacement_exposure_id r = None \<and>
    replacement_node_id r \<in> set (keys (dag s)) \<and> replacement_node_id r \<notin> set (quarantine_ledger s) \<and>
    (\<exists>sd. map_of (substitute_declarations s) c = Some sd \<and> substitute_source_id sd = replacement_node_id r)"
  using assms by (auto simp: declared_replacement_def Let_def split: option.splits if_splits)

text \<open>A replacement is only offered for a quarantined ancestor of the tainted parent that is linked to
  it through quarantined nodes. A replacement taken from a declaration is a stored node outside the
  quarantine ledger; one taken from a continuity exposure is a stored node whose content names the
  ancestor it stands in for.\<close>

theorem replacement_sound:
  assumes "find_continuity_replacement n s = Some r"
  shows "replacement_for r \<in> set (quarantine_ledger s) \<and>
    (quarantined_parent (dag s) (quarantine_ledger s))\<^sup>*\<^sup>* n (replacement_for r) \<and>
    replacement_node_id r \<in> set (keys (dag s)) \<and>
    (replacement_exposure_id r = None \<longrightarrow>
      replacement_node_id r \<notin> set (quarantine_ledger s) \<and>
      (\<exists>sd. map_of (substitute_declarations s) (replacement_for r) = Some sd \<and>
            substitute_source_id sd = replacement_node_id r)) \<and>
    (replacement_exposure_id r \<noteq> None \<longrightarrow>
      (\<exists>nd. map_of (dag s) (replacement_node_id r) = Some nd \<and>
           content_entry nd ''original_target'' = Some (JStr (replacement_for r))))"
proof -
  obtain c where c: "c \<in> set (quarantined_ancestors s n)"
    and r: "exposed_replacement s c = Some r \<or> declared_replacement s c = Some r"
    using first_replacement_cases [of s "quarantined_ancestors s n" r] assms
    by (auto simp: find_continuity_replacement_def)
  show ?thesis
    using r c exposed_replacementD [of s c r] declared_replacementD [of s c r]
    by (auto simp: set_quarantined_ancestors reach_from_def set_keys_dom)
qed

definition demo_replacement_state :: gstate where
  "demo_replacement_state = init_state\<lparr>quarantine_ledger := [''p''],
     substitute_declarations := [(''p'', \<lparr>sub_target_node_id = ''p'',
       substitute_source_id = ''clean-parent-1'', sub_declared_at_utc = ''t0''\<rparr>)]\<rparr>"

theorem replacement_sound_witness:
  "\<exists>r. find_continuity_replacement ''p'' demo_replacement_state = Some r \<and>
     replacement_for r = ''p'' \<and> replacement_node_id r = ''clean-parent-1'' \<and>
     replacement_node_id r \<notin> set (quarantine_ledger demo_replacement_state)"
proof -
  let ?r = "\<lparr>replacement_node_id = ''clean-parent-1'', replacement_for = ''p'',
     replacement_exposure_id = None, replacement_mechanism = ''M3_DECLARED_SUBSTITUTE''\<rparr>"
  have "find_continuity_replacement ''p'' demo_replacement_state = Some ?r"
    by (simp add: find_continuity_replacement_def quarantined_ancestors_def demo_replacement_state_def
        init_state_def node_parents_def exposed_replacement_def declared_replacement_def)
  then show ?thesis using replacement_sound [of "''p''" demo_replacement_state ?r] by auto
qed

end
