(* ===== verification/Submit.thy ===== *)
theory Submit
  imports Recurrence Policy Tainted_Actions
begin

text \<open>
  The commit paths of the gateway: the handler \<open>/submit-candidate\<close> (\<open>submit_candidate\<close>) from the size
  check of the body to the JSON response, and \<open>/context-compacted\<close> (\<open>declare_context_compacted\<close>).

  An \<open>HTTPException\<close> raised inside the transaction rolls the store back; a \<open>JSONResponse\<close> with status
  403 that is returned commits it, which is how a refused write stays on record. Text that
  the source interpolates into a detail message is left out of the message. The JSON-schema validator
  and the policy engine are parameters.
\<close>

section \<open>Requests and responses\<close>

record request_body =
  body_length :: nat
  body_json :: "payload option" \<comment> \<open>\<open>None\<close> if \<open>json.loads\<close> raises\<close>

datatype schema_error = SchemaError (names_signature_algorithm: bool) (message: string)

record tainted_info =
  tainted_event :: quarantine_event
  continuity :: "replacement option"

datatype submit_response =
    Null_Response \<comment> \<open>the handler returns \<open>None\<close>: status 200, body \<open>null\<close>\<close>
  | Committed (idempotent: bool)
  | Refused_Tainted tainted_info
  | Refused_Policy nat string

section \<open>The transaction of an admission\<close>

definition make_quarantine_event ::
    "string \<Rightarrow> utc \<Rightarrow> node_id \<Rightarrow> node_id list \<Rightarrow> string \<Rightarrow> quarantine_event" where
  "make_quarantine_event qid when proot c_p dig = \<lparr>quarantine_event_id = qid, detected_at_utc = when,
     poisoned_root_id = proot, computed_blast_radius_C_p = c_p, monotonic_ledger_digest = dig,
     designator_identity = None, designation_reason = None, detector_source = None\<rparr>"

definition offer_replacement :: "node_id \<Rightarrow> node_id \<Rightarrow> replacement option \<Rightarrow> gstate \<Rightarrow> gstate" where
  "offer_replacement n proot rep s =
     (case rep of None \<Rightarrow> s
      | Some r \<Rightarrow> record_tainted_offer n (replacement_node_id r)
          (if replacement_for r = proot then ''direct'' else ''ancestor'') s)"

text \<open>
  A write with a quarantined parent: it is committed for the record, its own identifier enters the
  ledger, the rejection is tracked and a continuity replacement of the tainted parent is offered.
\<close>

definition refuse_tainted :: "settings \<Rightarrow> env \<Rightarrow> payload \<Rightarrow> node_id \<Rightarrow> world \<Rightarrow> submit_response \<times> world" where
  "refuse_tainted cfg e p proot w =
     (let w1 = on_gs (snd \<circ> commit_node p) w;
          (c_p, s2) = compute_blast_radius proot (gs w1);
          w3 = run_hooks cfg e ''PROHIBITED_PATH'' c_p (w1\<lparr>gs := s2\<rparr>);
          dig = compute_quarantine_digest (ids_digest e) (c_p @ [payload_id p]) (gs w3);
          (qid, w4) = fresh_uuid e w3;
          ev = make_quarantine_event qid (now_utc e) proot c_p dig;
          w5 = on_gs (apply_quarantine_transaction ev [payload_id p]) w4;
          w6 = on_gs (record_tainted_rejection (payload_id p) proot (now_utc e) (submitter_of p)) w5;
          rep = find_continuity_replacement proot (gs w6)
      in (Refused_Tainted \<lparr>tainted_event = ev, continuity = rep\<rparr>,
          on_gs (record_shadow_decision True \<circ> offer_replacement (payload_id p) proot rep) w6))"

definition hash_or_empty :: "string option \<Rightarrow> string" where
  "hash_or_empty h = (case h of None \<Rightarrow> [] | Some x \<Rightarrow> x)"

definition hash_mismatch :: "(node_id, string) dict \<Rightarrow> payload \<Rightarrow> bool" where
  "hash_mismatch hashes p \<longleftrightarrow> list_ex (\<lambda>c.
      let stored = hash_or_empty (map_of hashes (parent_node_id c))
      in stored \<noteq> [] \<and> hash_or_empty (parent_content_hash c) \<noteq> stored) (parent_dependency_commitments p)"

definition enforce_decision ::
    "settings \<Rightarrow> env \<Rightarrow> payload \<Rightarrow> (node_id, string) dict \<Rightarrow> decision \<Rightarrow> world \<Rightarrow> submit_response result \<times> world" where
  "enforce_decision cfg e p hashes d w =
     (case d of
        Deny r proot \<Rightarrow>
          (if r = ''TAINTED_PARENT''
           then let (resp, w') = refuse_tainted cfg e p (case proot of None \<Rightarrow> [] | Some x \<Rightarrow> x) w in (Inr resp, w')
           else (Inr (Refused_Policy (if r = ''Verification Separation Policy Failed'' then 403 else 400) r),
                 on_gs (record_shadow_decision True) w))
      | Admit \<Rightarrow>
          (if hash_mismatch hashes p then (Inl (HTTPException 403 ''Content hash mismatch for parent''), w)
           else let (is_new, s1) = commit_node p (gs w)
                in (Inr (Committed (\<not> is_new)),
                    w\<lparr>gs := if is_new then check_retry_completion p (record_shadow_decision False s1) else s1\<rparr>)))"

definition with_gap :: "gstate \<Rightarrow> payload \<Rightarrow> payload" where
  "with_gap s p = (if node_type p = Some ''COMPACTION''
     then p\<lparr>covers_interval_gap := Some (compute_covers_interval_gap (dag s) (covers p))\<rparr> else p)"

definition tainted_covers :: "gstate \<Rightarrow> payload \<Rightarrow> node_id list" where
  "tainted_covers s p = (if node_type p = Some ''COMPACTION''
     then filter (get_bool (are_quarantined (covers p) s)) (covers p) else [])"

definition epoch_of :: "env \<Rightarrow> int" where
  "epoch_of e = now_us e div 1000000"

text \<open>The handler turns a \<open>PolicyEvaluationError\<close> into 503; any other exception ends in the framework's 500.\<close>

definition policy_exception :: "policy_failure \<Rightarrow> http_exception" where
  "policy_exception f = (case f of
       Engine_Unavailable err \<Rightarrow> HTTPException 503 (''Policy engine unavailable: '' @ err)
     | Engine_Crash err \<Rightarrow> HTTPException 500 err)"

definition admission_transaction ::
    "settings \<Rightarrow> env \<Rightarrow> engine \<Rightarrow> payload \<Rightarrow> json_object \<Rightarrow> world \<Rightarrow> submit_response result \<times> world" where
  "admission_transaction cfg e opa p auth w =
     (let s = gs w; pids = parent_ids p in
      if get_bool (are_quarantined [payload_id p] s) (payload_id p)
      then (Inl (HTTPException 409 ''payload_id is quarantined; cannot reuse a quarantined identity''), w)
      else if tainted_covers s p \<noteq> [] then (Inl (HTTPException 403 ''TAINTED_COVERS''), w)
      else let p' = with_gap s p in
        case evaluate_admission opa (epoch_of e) p' pids (nodes_exist pids s) (are_quarantined pids s) auth of
          Inl err \<Rightarrow> (Inl (policy_exception err), w)
        | Inr d \<Rightarrow>
            (if ENFORCEMENT_MODE cfg = ''shadow'' then (Inr Null_Response, on_gs (snd \<circ> commit_node p') w)
             else enforce_decision cfg e p' (get_node_content_hashes pids s) d w))"

section \<open>The handlers\<close>

text \<open>The part of the handler before the lock: size, JSON, schema, token, signature, fan-in.\<close>

definition submit_gate ::
    "settings \<Rightarrow> env \<Rightarrow> (payload \<Rightarrow> schema_error option) \<Rightarrow> request_body \<Rightarrow> (payload \<times> json_object) result" where
  "submit_gate cfg e validate req =
     (if body_length req > MAX_PAYLOAD_BYTES cfg
      then Inl (HTTPException 413 ''Payload exceeds maximum allowed size'')
      else case body_json req of
        None \<Rightarrow> Inl (HTTPException 400 ''Invalid JSON format'')
      | Some p \<Rightarrow>
        (case validate p of
           Some er \<Rightarrow> Inl (HTTPException 400
             (if names_signature_algorithm er then ''signature_algorithm is required and must be ECDSA-P256-SHA256''
              else ''Schema validation failed: '' @ message er))
         | None \<Rightarrow>
           (if signature_algorithm p \<noteq> Some ''ECDSA-P256-SHA256''
            then Inl (HTTPException 400 ''Unsupported signature_algorithm'')
            else case verify_nhi_jwt e (nhi_token p) (nhi_identity p) of
              Inl ex \<Rightarrow> Inl ex
            | Inr auth \<Rightarrow>
              (if \<not> verify_cryptographic_signature e p
               then Inl (HTTPException 401 ''Cryptographic signature verification failed'')
               else if length (parent_ids p) > 256
               then Inl (HTTPException 400 ''Too many declared parents'')
               else Inr (p, auth)))))"

definition submit_candidate ::
    "settings \<Rightarrow> env \<Rightarrow> engine \<Rightarrow> (payload \<Rightarrow> schema_error option) \<Rightarrow> request_body \<Rightarrow> world
     \<Rightarrow> submit_response result \<times> world" where
  "submit_candidate cfg e opa validate req w =
     (case submit_gate cfg e validate req of
        Inl ex \<Rightarrow> (Inl ex, w)
      | Inr (p, auth) \<Rightarrow> transaction (admission_transaction cfg e opa p auth) (snd (fresh_uuid e w)))"

record compacted_event =
  compaction_node_id :: node_id
  compacted_node_ids :: "node_id list"
  ce_timestamp_utc :: utc
  ce_ephemeral_nhi :: nhi
  ce_state_content :: json_object
  ce_agent_signature :: string
  ce_signature_algorithm :: string
  ce_method_id :: string

definition zero_digest :: string where
  "zero_digest = replicate 64 (CHR ''0'')"

definition carried_commitment :: "(node_id, payload) dict \<Rightarrow> node_id \<Rightarrow> commitment" where
  "carried_commitment d n = \<lparr>parent_node_id = n,
     parent_content_hash = Some (case Option.bind (map_of d n) content_digest_sha256 of None \<Rightarrow> zero_digest | Some h \<Rightarrow> h),
     edge_class = Some ''CARRIED''\<rparr>"

definition compacted_payload :: "env \<Rightarrow> (node_id, payload) dict \<Rightarrow> compacted_event \<Rightarrow> payload" where
  "compacted_payload e d ev = \<lparr>payload_id = compaction_node_id ev, node_type = Some ''COMPACTION'',
     timestamp_utc = Some (ce_timestamp_utc ev), ephemeral_nhi = Some (ce_ephemeral_nhi ev),
     declared_evidence_boundary = Some \<lparr>boundary_id = ''bnd-'' @ compaction_node_id ev,
       fixed_at_utc = ce_timestamp_utc ev, boundary_digest = zero_digest\<rparr>,
     state_content = Some (ce_state_content ev),
     content_digest_sha256 = Some (content_hash e (ce_state_content ev)),
     agent_signature = Some (ce_agent_signature ev), signature_algorithm = Some (ce_signature_algorithm ev),
     covers = compacted_node_ids ev, covers_interval_gap = None,
     parent_dependency_commitments = map (carried_commitment d) (compacted_node_ids ev),
     summarizer = Some \<lparr>method_id = Some (ce_method_id ev), config_digest = Some zero_digest\<rparr>,
     criticality_weight = None, retry_of = None\<rparr>"

text \<open>The checks of \<open>/context-compacted\<close> before it takes the lock; they return the payload to commit.\<close>

definition compacted_check :: "env \<Rightarrow> compacted_event \<Rightarrow> gstate \<Rightarrow> payload result" where
  "compacted_check e ev s =
     (if \<not> list_all (\<lambda>n. n \<in> set (keys (dag s))) (compacted_node_ids ev)
      then Inl (HTTPException 400 ''Compacted node not found in DAG'')
      else let p = compacted_payload e (dag s) ev in
        case verify_nhi_jwt e (nhi_token p) (nhi_identity p) of
          Inl ex \<Rightarrow> Inl ex
        | Inr _ \<Rightarrow>
          (if \<not> verify_cryptographic_signature e p
           then Inl (HTTPException 401 ''Cryptographic signature verification failed'')
           else if filter (get_bool (are_quarantined (compacted_node_ids ev) s)) (compacted_node_ids ev) \<noteq> []
           then Inl (HTTPException 403 ''TAINTED_COVERS'')
           else Inr p))"

definition declare_context_compacted :: "env \<Rightarrow> compacted_event \<Rightarrow> world \<Rightarrow> unit result \<times> world" where
  "declare_context_compacted e ev w =
     (case compacted_check e ev (gs w) of
        Inl ex \<Rightarrow> (Inl ex, w)
      | Inr p \<Rightarrow> (Inr (), on_gs (snd \<circ> commit_node p) w))"

section \<open>Decomposition\<close>

lemma with_gap_simps [simp]:
  "payload_id (with_gap s p) = payload_id p" "parent_ids (with_gap s p) = parent_ids p"
  "parent_dependency_commitments (with_gap s p) = parent_dependency_commitments p"
  "covers (with_gap s p) = covers p" "node_type (with_gap s p) = node_type p"
  "state_content (with_gap s p) = state_content p"
  "declared_evidence_boundary (with_gap s p) = declared_evidence_boundary p"
  "ephemeral_nhi (with_gap s p) = ephemeral_nhi p"
  by (simp_all add: with_gap_def parent_ids_def)

lemma tainted_covers_Nil:
  "tainted_covers s p = [] \<longleftrightarrow> (node_type p = Some ''COMPACTION'' \<longrightarrow> set (covers p) \<inter> set (quarantine_ledger s) = {})"
  by (auto simp: tainted_covers_def filter_empty_conv)

lemma hash_or_empty_simps [simp]: "hash_or_empty None = []" "hash_or_empty (Some h) = h"
  by (simp_all add: hash_or_empty_def)

lemma hash_mismatch_iff:
  "hash_mismatch (get_node_content_hashes (parent_ids p) s) p \<longleftrightarrow>
     (\<exists>c\<in>set (parent_dependency_commitments p). \<exists>nd h. map_of (dag s) (parent_node_id c) = Some nd \<and>
        content_digest_sha256 nd = Some h \<and> h \<noteq> [] \<and> hash_or_empty (parent_content_hash c) \<noteq> h)"
proof -
  have "(let stored = hash_or_empty (map_of (get_node_content_hashes (parent_ids p) s) (parent_node_id c))
      in stored \<noteq> [] \<and> hash_or_empty (parent_content_hash c) \<noteq> stored) \<longleftrightarrow>
     (\<exists>nd h. map_of (dag s) (parent_node_id c) = Some nd \<and>
        content_digest_sha256 nd = Some h \<and> h \<noteq> [] \<and> hash_or_empty (parent_content_hash c) \<noteq> h)"
    if "c \<in> set (parent_dependency_commitments p)" for c
    using that
    by (cases "map_of (dag s) (parent_node_id c)"; cases "content_digest_sha256 (the (map_of (dag s) (parent_node_id c)))")
      (auto simp: map_of_content_hashes parent_ids_def Let_def)
  then show ?thesis by (auto simp: hash_mismatch_def list_ex_iff)
qed

lemma hash_mismatch_with_gap [simp]: "hash_mismatch h (with_gap s p) = hash_mismatch h p"
  by (simp add: hash_mismatch_def)

lemma submit_gate_passed:
  "submit_gate cfg e validate req = Inr (p, auth) \<longleftrightarrow>
     body_length req \<le> MAX_PAYLOAD_BYTES cfg \<and> body_json req = Some p \<and>
     validate p = None \<and> signature_algorithm p = Some ''ECDSA-P256-SHA256'' \<and>
     verify_nhi_jwt e (nhi_token p) (nhi_identity p) = Inr auth \<and> verify_cryptographic_signature e p \<and>
     length (parent_ids p) \<le> 256"
  by (auto simp: submit_gate_def split: option.splits sum.splits if_splits)

lemma transaction_ok: "fst (body w) = Inr r \<Longrightarrow> transaction body w = body w"
  by (auto simp: transaction_def split: prod.splits)

lemma fst_transaction: "fst (transaction body w) = fst (body w)"
  by (simp add: transaction_def split: prod.split sum.split)

lemma submit_InrE:
  assumes "fst (submit_candidate cfg e opa validate req w) = Inr r"
  obtains p auth where "submit_gate cfg e validate req = Inr (p, auth)"
    "fst (admission_transaction cfg e opa p auth (snd (fresh_uuid e w))) = Inr r"
    "submit_candidate cfg e opa validate req w = admission_transaction cfg e opa p auth (snd (fresh_uuid e w))"
  using assms by (auto simp: submit_candidate_def fst_transaction transaction_ok split: sum.splits)

text \<open>When the transaction commits a node, and what it then does.\<close>

lemma admission_committed:
  assumes "fst (admission_transaction cfg e rego_engine p auth w) = Inr (Committed b)"
  shows "payload_id p \<notin> set (quarantine_ledger (gs w))" and "tainted_covers (gs w) p = []"
    and "set (parent_ids p) \<subseteq> set (keys (dag (gs w)))" and "set (parent_ids p) \<inter> set (quarantine_ledger (gs w)) = {}"
    and "\<not> hash_mismatch (get_node_content_hashes (parent_ids p) (gs w)) p"
    and "b \<longleftrightarrow> payload_id p \<in> set (keys (dag (gs w)))" and "ENFORCEMENT_MODE cfg \<noteq> ''shadow''"
    and "evaluate_admission rego_engine (epoch_of e) (with_gap (gs w) p) (parent_ids p)
          (nodes_exist (parent_ids p) (gs w)) (are_quarantined (parent_ids p) (gs w)) auth = Inr Admit"
    and "gs (snd (admission_transaction cfg e rego_engine p auth w)) =
      (let (is_new, s1) = commit_node (with_gap (gs w) p) (gs w)
       in if is_new then check_retry_completion (with_gap (gs w) p) (record_shadow_decision False s1) else s1)"
proof -
  let ?d = "evaluate_admission rego_engine (epoch_of e) (with_gap (gs w) p) (parent_ids p)
          (nodes_exist (parent_ids p) (gs w)) (are_quarantined (parent_ids p) (gs w)) auth"
  from assms show pre: "payload_id p \<notin> set (quarantine_ledger (gs w))" and "tainted_covers (gs w) p = []"
    and "ENFORCEMENT_MODE cfg \<noteq> ''shadow''"
    by (auto simp: admission_transaction_def Let_def split: if_splits sum.splits)
  with assms show adm: "?d = Inr Admit"
    by (auto simp: admission_transaction_def Let_def enforce_decision_def refuse_tainted_def
        split: sum.splits decision.splits prod.splits if_splits)
  then show "set (parent_ids p) \<subseteq> set (keys (dag (gs w)))" "set (parent_ids p) \<inter> set (quarantine_ledger (gs w)) = {}"
    by (simp_all only: admission_iff)
  note r = assms pre \<open>tainted_covers (gs w) p = []\<close> adm \<open>ENFORCEMENT_MODE cfg \<noteq> ''shadow''\<close>
  from r show "\<not> hash_mismatch (get_node_content_hashes (parent_ids p) (gs w)) p"
    by (auto simp: admission_transaction_def Let_def enforce_decision_def split: if_splits)
  with r have "b = (\<not> fst (commit_node (with_gap (gs w) p) (gs w)))"
    by (simp add: admission_transaction_def Let_def enforce_decision_def split: prod.splits)
  then show "b \<longleftrightarrow> payload_id p \<in> set (keys (dag (gs w)))" by (simp add: commit_node_new)
  from r \<open>\<not> hash_mismatch (get_node_content_hashes (parent_ids p) (gs w)) p\<close>
  show "gs (snd (admission_transaction cfg e rego_engine p auth w)) =
      (let (is_new, s1) = commit_node (with_gap (gs w) p) (gs w)
       in if is_new then check_retry_completion (with_gap (gs w) p) (record_shadow_decision False s1) else s1)"
    by (simp add: admission_transaction_def Let_def enforce_decision_def split: prod.split)
qed

lemma check_retry_completion_simps [simp]:
  "dag (check_retry_completion p s) = dag s"
  "quarantine_ledger (check_retry_completion p s) = quarantine_ledger s"
  "quarantine_events (check_retry_completion p s) = quarantine_events s"
  "shadow_decisions (check_retry_completion p s) = shadow_decisions s"
  by (simp_all add: check_retry_completion_def)

lemma offer_replacement_simps [simp]:
  "dag (offer_replacement n r rep s) = dag s"
  "quarantine_ledger (offer_replacement n r rep s) = quarantine_ledger s"
  "quarantine_events (offer_replacement n r rep s) = quarantine_events s"
  by (simp_all add: offer_replacement_def record_tainted_offer_def split: option.split)

lemma record_tainted_rejection_simps [simp]:
  "dag (record_tainted_rejection n par t a s) = dag s"
  "quarantine_ledger (record_tainted_rejection n par t a s) = quarantine_ledger s"
  "quarantine_events (record_tainted_rejection n par t a s) = quarantine_events s"
  by (simp_all add: record_tainted_rejection_def)

text \<open>The effect of a refusal on graph and ledger.\<close>

lemma refuse_tainted_effect:
  "dag (gs (snd (refuse_tainted cfg e p proot w))) = dag (snd (commit_node p (gs w)))"
  "set (quarantine_ledger (gs (snd (refuse_tainted cfg e p proot w)))) =
     insert (payload_id p) (set (quarantine_ledger (gs w)))"
  "\<exists>info. fst (refuse_tainted cfg e p proot w) = Refused_Tainted info \<and>
     quarantine_events (gs (snd (refuse_tainted cfg e p proot w))) = quarantine_events (gs w) @ [tainted_event info] \<and>
     poisoned_root_id (tainted_event info) = proot"
  by (simp_all add: refuse_tainted_def fresh_uuid_def make_quarantine_event_def Let_def split_beta)

lemma enforce_decision_effect:
  "dag (gs (snd (enforce_decision cfg e p hs d w))) \<in> {dag (gs w), dag (snd (commit_node p (gs w)))}"
  "set (quarantine_ledger (gs (snd (enforce_decision cfg e p hs d w)))) \<in>
     {set (quarantine_ledger (gs w)), insert (payload_id p) (set (quarantine_ledger (gs w)))}"
  by (cases d; simp add: enforce_decision_def refuse_tainted_effect split_beta Let_def)+

lemma admission_effect:
  "dag (gs (snd (admission_transaction cfg e opa p auth w))) \<in>
      {dag (gs w), dag (snd (commit_node (with_gap (gs w) p) (gs w)))}"
  "set (quarantine_ledger (gs (snd (admission_transaction cfg e opa p auth w)))) \<in>
      {set (quarantine_ledger (gs w)), insert (payload_id p) (set (quarantine_ledger (gs w)))}"
  using enforce_decision_effect [of cfg e "with_gap (gs w) p" "get_node_content_hashes (parent_ids p) (gs w)" _ w]
  by (simp_all add: admission_transaction_def Let_def split: sum.split)

section \<open>Properties\<close>

text \<open>C3: A write is acknowledged as committed only if it passed every check: the body is within the size
  limit and valid, the session token belongs to the identity in the payload, the content is signed by
  that identity, every declared parent is stored, none is quarantined, each declared parent hash is the
  stored one where the parent has one, a compaction covers no quarantined node, and the identifier is
  not quarantined. The node is then in the graph and the quarantine ledger is as before.\<close>

theorem submit_commits_only_verified:
  assumes "fst (submit_candidate cfg e rego_engine validate req w) = Inr (Committed b)"
  shows "\<exists>p auth. let s = gs w; s' = gs (snd (submit_candidate cfg e rego_engine validate req w)) in
    body_json req = Some p \<and> body_length req \<le> MAX_PAYLOAD_BYTES cfg \<and> validate p = None \<and>
    verify_nhi_jwt e (nhi_token p) (nhi_identity p) = Inr auth \<and> verify_cryptographic_signature e p \<and>
    set (parent_ids p) \<subseteq> set (keys (dag s)) \<and> set (parent_ids p) \<inter> set (quarantine_ledger s) = {} \<and>
    (\<forall>c\<in>set (parent_dependency_commitments p). \<forall>nd h. map_of (dag s) (parent_node_id c) = Some nd \<longrightarrow>
       content_digest_sha256 nd = Some h \<longrightarrow> h \<noteq> [] \<longrightarrow> parent_content_hash c = Some h) \<and>
    (node_type p = Some ''COMPACTION'' \<longrightarrow> set (covers p) \<inter> set (quarantine_ledger s) = {}) \<and>
    payload_id p \<notin> set (quarantine_ledger s) \<and>
    set (keys (dag s')) = insert (payload_id p) (set (keys (dag s))) \<and> quarantine_ledger s' = quarantine_ledger s"
proof -
  obtain p auth where g: "submit_gate cfg e validate req = Inr (p, auth)"
    and c: "fst (admission_transaction cfg e rego_engine p auth (snd (fresh_uuid e w))) = Inr (Committed b)"
    and eq: "submit_candidate cfg e rego_engine validate req w = admission_transaction cfg e rego_engine p auth (snd (fresh_uuid e w))"
    using assms by (rule submit_InrE)
  note ac = admission_committed [OF c, simplified]
  have s': "set (keys (dag (gs (snd (submit_candidate cfg e rego_engine validate req w))))) = insert (payload_id p) (set (keys (dag (gs w))))"
    "quarantine_ledger (gs (snd (submit_candidate cfg e rego_engine validate req w))) = quarantine_ledger (gs w)"
    unfolding eq ac(9)
    by (simp_all add: split_beta)
  have hash: "parent_content_hash c = Some h"
    if "c \<in> set (parent_dependency_commitments p)" "map_of (dag (gs w)) (parent_node_id c) = Some nd"
      "content_digest_sha256 nd = Some h" "h \<noteq> []" for c nd h
    using ac(5) that unfolding hash_mismatch_iff by (cases "parent_content_hash c") auto
  show ?thesis
    using g ac(1-4) s' hash
    by (intro exI [of _ p] exI [of _ auth]) (auto simp: submit_gate_passed tainted_covers_Nil Let_def)
qed

text \<open>A submission that ends in an error, at any point of the handler, leaves the whole store as it was.\<close>

theorem submit_error_rolls_back:
  assumes "fst (submit_candidate cfg e opa validate req w) = Inl ex"
  shows "gs (snd (submit_candidate cfg e opa validate req w)) = gs w"
  using assms transaction_rollback
  by (fastforce simp: submit_candidate_def split: sum.splits)

theorem submit_error_rolls_back_witness:
  "gs (snd (submit_candidate default_settings demo_env rego_engine (\<lambda>_. None) \<lparr>body_length = 3, body_json = None\<rparr> init_world))
     = gs init_world"
  by (rule submit_error_rolls_back [of _ _ _ _ _ _ "HTTPException 400 ''Invalid JSON format''"])
    (simp add: submit_candidate_def submit_gate_def default_settings_def)

text \<open>Fail closed: while the policy engine answers no query, unreachable or crashing, every submission ends in an error and
  none is stored, in enforcing and in shadow mode alike.\<close>

theorem submit_fails_closed:
  assumes "\<And>q i. \<not> answers (opa q i)"
  shows "(\<exists>ex. fst (submit_candidate cfg e opa validate req w) = Inl ex) \<and>
    gs (snd (submit_candidate cfg e opa validate req w)) = gs w"
proof -
  have no: "\<exists>err. evaluate_admission opa ep p pids em qm auth = Inl err" for ep p pids em qm auth
    by (rule policy_failure_not_admitted) (rule assms)
  have "\<exists>ex. fst (admission_transaction cfg e opa p auth w') = Inl ex" for p auth w'
    using no [of "epoch_of e" "with_gap (gs w') p" "parent_ids p" "nodes_exist (parent_ids p) (gs w')"
        "are_quarantined (parent_ids p) (gs w')" auth]
    by (auto simp: admission_transaction_def Let_def)
  then have "\<exists>ex. fst (submit_candidate cfg e opa validate req w) = Inl ex"
    by (simp add: submit_candidate_def fst_transaction split: sum.split)
  then show ?thesis using transaction_rollback by (fastforce simp: submit_candidate_def split: sum.splits)
qed

theorem submit_fails_closed_witness:
  "gs (snd (submit_candidate default_settings demo_env (\<lambda>q i. PolicyEvaluationError ''down'') (\<lambda>_. None)
     \<lparr>body_length = 3, body_json = Some (bare_payload ''x'' [])\<rparr> init_world)) = gs init_world"
  using submit_fails_closed [of "\<lambda>q i. PolicyEvaluationError ''down''"] by (simp add: not_answers)

text \<open>A signed write with one parent, and an environment whose token and curve accept it.\<close>

definition submit_env :: env where
  "submit_env = demo_env\<lparr>jwt_decode := \<lambda>_. Some [(''sub'', JStr (encode_raw (7, 9))), (''is_nhi'', JBool True),
     (''expires_at_epoch'', JNum 10), (''scope'', JStr ''agent:state:reconstruct''),
     (''verifier_execution_status'', JStr ''PASSED'')]\<rparr>"

definition demo_write :: "node_id list \<Rightarrow> node_id \<Rightarrow> node_id \<Rightarrow> payload" where
  "demo_write cs i par = (bare_payload i [\<lparr>parent_node_id = par, parent_content_hash = None, edge_class = None\<rparr>])\<lparr>
     ephemeral_nhi := Some \<lparr>identity_id = Some (encode_raw (7, 9)), session_token = Some ''t'', nhi_expires_at_utc = None\<rparr>,
     declared_evidence_boundary := Some \<lparr>boundary_id = ''b'', fixed_at_utc = ''t'', boundary_digest = ''d''\<rparr>,
     state_content := Some [], content_digest_sha256 := Some ''h'', agent_signature := Some (encode_raw (7, 9)),
     signature_algorithm := Some ''ECDSA-P256-SHA256'', covers := cs\<rparr>"

definition demo_request :: "node_id list \<Rightarrow> node_id \<Rightarrow> node_id \<Rightarrow> request_body" where
  "demo_request cs i par = \<lparr>body_length = 10, body_json = Some (demo_write cs i par)\<rparr>"

definition enforcing :: settings where
  "enforcing = default_settings\<lparr>ENFORCEMENT_MODE := ''enforce''\<rparr>"

lemma enforcing_mode: "ENFORCEMENT_MODE enforcing \<noteq> ''shadow''"
  by (simp add: enforcing_def)

lemma enforcing_size: "MAX_PAYLOAD_BYTES enforcing = 2 * 1024 * 1024"
  by (simp add: enforcing_def default_settings_def)

lemma default_size: "MAX_PAYLOAD_BYTES default_settings = 2 * 1024 * 1024"
  by (simp add: default_settings_def)

lemma init_world_sel:
  "quarantine_ledger (gs init_world) = [''quarantined-node-A'']" "keys (dag (gs init_world)) = [''clean-parent-1'']"
  by (simp_all add: init_world_def init_state_def)

lemma demo_write_sel [simp]:
  "payload_id (demo_write cs i par) = i" "parent_ids (demo_write cs i par) = [par]" "covers (demo_write cs i par) = cs"
  "node_type (demo_write cs i par) = None" "content_entry (demo_write cs i par) k = None"
  "boundary_fixed (demo_write cs i par)" "with_gap s (demo_write cs i par) = demo_write cs i par"
  "parent_dependency_commitments (demo_write cs i par) = [\<lparr>parent_node_id = par, parent_content_hash = None, edge_class = None\<rparr>]"
  "signature_algorithm (demo_write cs i par) = Some ''ECDSA-P256-SHA256''"
  "nhi_token (demo_write cs i par) = Some ''t''" "nhi_identity (demo_write cs i par) = Some (encode_raw (7, 9))"
  by (simp_all add: demo_write_def bare_payload_def parent_ids_def content_entry_def boundary_fixed_def with_gap_def
      nhi_token_def nhi_identity_def)

lemma demo_signature: "verify_cryptographic_signature submit_env (demo_write cs i par)"
  by (simp add: verify_cryptographic_signature_def signature_valid_def load_public_key_def raw_signature_to_der_def
      fromhex_encode_raw payload_hash_def demo_write_def [of cs i par] nhi_identity_def bare_payload_def submit_env_def demo_env_def
      encode_raw_not_Nil)

lemma jwt_submit_env:
  "jwt_decode submit_env t = Some [(''sub'', JStr (encode_raw (7, 9))), (''is_nhi'', JBool True),
     (''expires_at_epoch'', JNum 10), (''scope'', JStr ''agent:state:reconstruct''),
     (''verifier_execution_status'', JStr ''PASSED'')]"
  by (simp add: submit_env_def)

lemma demo_gate:
  "MAX_PAYLOAD_BYTES cfg = 2 * 1024 * 1024 \<Longrightarrow> \<exists>auth. submit_gate cfg submit_env (\<lambda>_. None) (demo_request cs i par) = Inr (demo_write cs i par, auth) \<and>
     map_of auth = [''sub'' \<mapsto> JStr (encode_raw (7, 9)), ''is_nhi'' \<mapsto> JBool True,
     ''expires_at_epoch'' \<mapsto> JNum 10, ''scope'' \<mapsto> JStr ''agent:state:reconstruct'',
     ''verifier_execution_status'' \<mapsto> JStr ''PASSED'']"
  by (intro exI [of _ "[(''sub'', JStr (encode_raw (7, 9))), (''is_nhi'', JBool True),
     (''expires_at_epoch'', JNum 10), (''scope'', JStr ''agent:state:reconstruct''),
     (''verifier_execution_status'', JStr ''PASSED'')]"] conjI)
    (simp_all add: submit_gate_passed demo_request_def demo_signature verify_nhi_jwt_def jwt_submit_env fun_eq_iff)

lemma demo_commit:
  assumes "map_of (dag (gs w)) par = Some nd" "content_digest_sha256 nd = None" "par \<notin> set (quarantine_ledger (gs w))"
    and "i \<notin> set (quarantine_ledger (gs w))" "i \<noteq> ''none''"
  shows "fst (submit_candidate enforcing submit_env rego_engine (\<lambda>_. None) (demo_request cs i par) w)
     = Inr (Committed (i \<in> set (keys (dag (gs w)))))"
proof -
  obtain auth where g: "submit_gate enforcing submit_env (\<lambda>_. None) (demo_request cs i par) = Inr (demo_write cs i par, auth)"
    and a: "map_of auth = [''sub'' \<mapsto> JStr (encode_raw (7, 9)), ''is_nhi'' \<mapsto> JBool True,
     ''expires_at_epoch'' \<mapsto> JNum 10, ''scope'' \<mapsto> JStr ''agent:state:reconstruct'',
     ''verifier_execution_status'' \<mapsto> JStr ''PASSED'']"
    using demo_gate [OF enforcing_size] by blast
  let ?p = "demo_write cs i par"
  have "par \<in> set (keys (dag (gs w)))"
    using assms(1) map_of_eq_None_keys [of "dag (gs w)" par] by auto
  then have adm: "evaluate_admission rego_engine (epoch_of submit_env) ?p [par] (nodes_exist [par] (gs w))
      (are_quarantined [par] (gs w)) auth = Inr Admit"
    unfolding admission_iff using assms
    by (simp add: a epoch_of_def submit_env_def demo_env_def)
  have nm: "\<not> hash_mismatch (get_node_content_hashes [par] (gs w)) ?p"
    using hash_mismatch_iff [of ?p "gs w"] assms by simp
  show ?thesis
    using adm nm assms(4)
    by (simp add: submit_candidate_def g fst_transaction admission_transaction_def Let_def enforce_decision_def
        tainted_covers_def enforcing_mode split_beta commit_node_new)
qed

lemma demo_commit_init:
  "fst (submit_candidate enforcing submit_env rego_engine (\<lambda>_. None) (demo_request [] ''x'' ''clean-parent-1'') init_world)
     = Inr (Committed False)"
  using demo_commit [of init_world "''clean-parent-1''" "bare_payload ''clean-parent-1'' []" "''x''" "[]"]
  by (simp add: init_world_sel) (simp add: init_world_def init_state_def)

theorem submit_commits_only_verified_witness:
  "\<exists>p. body_json (demo_request [] ''x'' ''clean-parent-1'') = Some p \<and> verify_cryptographic_signature submit_env p \<and>
     set (parent_ids p) \<inter> set (quarantine_ledger init_state) = {}"
  using submit_commits_only_verified [OF demo_commit_init] by (auto simp: Let_def init_world_def)

text \<open>C25: Submissions are idempotent: sending a committed write again is acknowledged as a duplicate and
  changes nothing.\<close>

theorem submit_idempotent:
  assumes "fst (submit_candidate cfg e rego_engine validate req w) = Inr (Committed b)"
  shows "let w' = snd (submit_candidate cfg e rego_engine validate req w) in
    fst (submit_candidate cfg e rego_engine validate req w') = Inr (Committed True) \<and>
    gs (snd (submit_candidate cfg e rego_engine validate req w')) = gs w'"
proof -
  obtain p auth where g: "submit_gate cfg e validate req = Inr (p, auth)"
    and c: "fst (admission_transaction cfg e rego_engine p auth (snd (fresh_uuid e w))) = Inr (Committed b)"
    and eq: "submit_candidate cfg e rego_engine validate req w = admission_transaction cfg e rego_engine p auth (snd (fresh_uuid e w))"
    using assms by (rule submit_InrE)
  note ac = admission_committed [OF c, simplified]
  let ?w' = "snd (submit_candidate cfg e rego_engine validate req w)"
  let ?s = "gs w" and ?s' = "gs ?w'"
  have led: "quarantine_ledger ?s' = quarantine_ledger ?s"
    and dag: "dag ?s' = dag (snd (commit_node (with_gap ?s p) ?s))"
    unfolding eq ac(9) by (simp_all add: split_beta)
  have same: "map_of (dag ?s') i = map_of (dag ?s) i" if "i \<in> set (parent_ids p)" for i
    using ac(3) that map_of_eq_None_keys [of "dag ?s" i]
    by (auto simp: dag commit_node_def map_add_def split: option.split)
  have "evaluate_admission rego_engine (epoch_of e) (with_gap ?s' p) (parent_ids p)
          (nodes_exist (parent_ids p) ?s') (are_quarantined (parent_ids p) ?s') auth = Inr Admit"
    using ac(8) unfolding admission_iff by (auto simp: led dag boundary_fixed_def content_entry_def)
  moreover have "\<not> hash_mismatch (get_node_content_hashes (parent_ids p) ?s') (with_gap ?s' p)"
  proof -
    have "parent_node_id c \<in> set (parent_ids p)" if "c \<in> set (parent_dependency_commitments p)" for c
      using that by (simp add: parent_ids_def)
    then show ?thesis
      using ac(5) same unfolding hash_mismatch_with_gap hash_mismatch_iff by fastforce
  qed
  moreover have "commit_node (with_gap ?s' p) ?s' = (False, ?s')"
    by (simp add: commit_node_def [of _ ?s']) (simp add: dag)
  moreover have "tainted_covers ?s' p = []" using ac(2) by (simp add: tainted_covers_Nil led)
  ultimately have "admission_transaction cfg e rego_engine p auth (snd (fresh_uuid e ?w')) = (Inr (Committed True), snd (fresh_uuid e ?w'))"
    using ac(1,7) by (simp add: admission_transaction_def Let_def led enforce_decision_def)
  then have "submit_candidate cfg e rego_engine validate req ?w' = (Inr (Committed True), snd (fresh_uuid e ?w'))"
    by (simp add: submit_candidate_def g transaction_def)
  then show ?thesis by (simp add: Let_def)
qed

theorem submit_idempotent_witness:
  "fst (submit_candidate enforcing submit_env rego_engine (\<lambda>_. None) (demo_request [] ''x'' ''clean-parent-1'')
     (snd (submit_candidate enforcing submit_env rego_engine (\<lambda>_. None) (demo_request [] ''x'' ''clean-parent-1'') init_world)))
   = Inr (Committed True)"
  using submit_idempotent [OF demo_commit_init] by (simp add: Let_def)

text \<open>What a refusal as tainted tells about the run.\<close>

lemma submit_taintedE:
  assumes "fst (submit_candidate cfg e rego_engine validate req w) = Inr (Refused_Tainted info)"
  obtains p t where "body_json req = Some p" "t \<in> set (parent_ids p) \<inter> set (quarantine_ledger (gs w))"
    "fst (refuse_tainted cfg e (with_gap (gs w) p) t (snd (fresh_uuid e w))) = Refused_Tainted info"
    "snd (submit_candidate cfg e rego_engine validate req w) = snd (refuse_tainted cfg e (with_gap (gs w) p) t (snd (fresh_uuid e w)))"
proof -
  obtain p auth where g: "submit_gate cfg e validate req = Inr (p, auth)"
    and c: "fst (admission_transaction cfg e rego_engine p auth (snd (fresh_uuid e w))) = Inr (Refused_Tainted info)"
    and eq: "submit_candidate cfg e rego_engine validate req w = admission_transaction cfg e rego_engine p auth (snd (fresh_uuid e w))"
    using assms by (rule submit_InrE)
  let ?w = "snd (fresh_uuid e w)" and ?p = "with_gap (gs w) p"
  obtain d where d: "evaluate_admission rego_engine (epoch_of e) ?p (parent_ids p)
          (nodes_exist (parent_ids p) (gs w)) (are_quarantined (parent_ids p) (gs w)) auth = Inr d"
    by (simp add: evaluate_admission_rego)
  have tx: "admission_transaction cfg e rego_engine p auth ?w =
      enforce_decision cfg e ?p (get_node_content_hashes (parent_ids p) (gs w)) d ?w"
    using c by (auto simp: admission_transaction_def Let_def d split: if_splits)
  then obtain r where r: "d = Deny ''TAINTED_PARENT'' r"
    using c by (cases d) (auto simp: enforce_decision_def Let_def split: if_splits prod.splits)
  have "r = (case tainted_parents (parent_ids p) (are_quarantined (parent_ids p) (gs w)) of [] \<Rightarrow> None | t # _ \<Rightarrow> Some t) \<and> r \<noteq> None"
    using d by (auto simp: r evaluate_admission_rego integrity_denial_def split: if_splits list.splits)
  then obtain t where t: "r = Some t" "t \<in> set (tainted_parents (parent_ids p) (are_quarantined (parent_ids p) (gs w)))"
    by (auto split: list.splits)
  have run: "admission_transaction cfg e rego_engine p auth ?w = (Inr (fst (refuse_tainted cfg e ?p t ?w)), snd (refuse_tainted cfg e ?p t ?w))"
    by (simp add: tx r t enforce_decision_def split_beta Let_def)
  show ?thesis
    by (rule that [of p t]) (use g t(2) c run in \<open>simp_all add: submit_gate_passed tainted_parents_def eq\<close>)
qed

text \<open>C24: A write with a quarantined parent is refused but stays on record: the refusal names a declared parent
  that is quarantined, the write is in the graph, exactly its identifier is added to the ledger, and one
  quarantine event, the one in the response, is logged.\<close>

theorem submit_tainted_recorded:
  assumes "fst (submit_candidate cfg e rego_engine validate req w) = Inr (Refused_Tainted info)"
  shows "\<exists>p. let s = gs w; s' = gs (snd (submit_candidate cfg e rego_engine validate req w)) in
    body_json req = Some p \<and> poisoned_root_id (tainted_event info) \<in> set (parent_ids p) \<inter> set (quarantine_ledger s) \<and>
    set (keys (dag s')) = insert (payload_id p) (set (keys (dag s))) \<and>
    set (quarantine_ledger s') = insert (payload_id p) (set (quarantine_ledger s)) \<and>
    quarantine_events s' = quarantine_events s @ [tainted_event info]"
proof -
  obtain p t where run: "body_json req = Some p" "t \<in> set (parent_ids p) \<inter> set (quarantine_ledger (gs w))"
    "fst (refuse_tainted cfg e (with_gap (gs w) p) t (snd (fresh_uuid e w))) = Refused_Tainted info"
    "snd (submit_candidate cfg e rego_engine validate req w) = snd (refuse_tainted cfg e (with_gap (gs w) p) t (snd (fresh_uuid e w)))"
    using assms by (rule submit_taintedE)
  show ?thesis
    using refuse_tainted_effect [of cfg e "with_gap (gs w) p" t "snd (fresh_uuid e w)"] run
    by (intro exI [of _ p]) (auto simp: Let_def)
qed

lemma demo_refusal:
  assumes "par \<in> set (quarantine_ledger (gs w))" "i \<notin> set (quarantine_ledger (gs w))"
  shows "\<exists>info. fst (submit_candidate enforcing submit_env rego_engine (\<lambda>_. None) (demo_request cs i par) w) = Inr (Refused_Tainted info)"
proof -
  obtain auth where g: "submit_gate enforcing submit_env (\<lambda>_. None) (demo_request cs i par) = Inr (demo_write cs i par, auth)"
    using demo_gate [OF enforcing_size] by blast
  have "fst (admission_transaction enforcing submit_env rego_engine (demo_write cs i par) auth (snd (fresh_uuid submit_env w)))
    = Inr (fst (refuse_tainted enforcing submit_env (demo_write cs i par) par (snd (fresh_uuid submit_env w))))"
    using assms by (simp add: admission_transaction_def Let_def tainted_covers_def evaluate_admission_rego allow_state_write_iff
        integrity_denial_def tainted_parents_def enforce_decision_def split_beta enforcing_mode)
  then show ?thesis
    using refuse_tainted_effect(3) [of enforcing submit_env "demo_write cs i par" par "snd (fresh_uuid submit_env w)"]
    by (auto simp: submit_candidate_def g fst_transaction)
qed

theorem submit_tainted_recorded_witness:
  "\<exists>p. body_json (demo_request [] ''x'' ''quarantined-node-A'') = Some p \<and>
    payload_id p \<in> set (quarantine_ledger (gs (snd (submit_candidate enforcing submit_env rego_engine (\<lambda>_. None)
      (demo_request [] ''x'' ''quarantined-node-A'') init_world))))"
proof -
  obtain info where "fst (submit_candidate enforcing submit_env rego_engine (\<lambda>_. None) (demo_request [] ''x'' ''quarantined-node-A'') init_world)
     = Inr (Refused_Tainted info)" using demo_refusal [of "''quarantined-node-A''" init_world "''x''" "[]"] by (auto simp: init_world_sel)
  from submit_tainted_recorded [OF this] show ?thesis by (auto simp: Let_def)
qed

text \<open>In shadow mode every write that passes the gate is stored, also one that the policy would refuse, and the
  decision is not recorded: the audit of shadow decisions sits in the branch for the enforcing mode, so
  the handler returns no response body and the shadow log stays as it was.\<close>

theorem shadow_mode_commits_unaudited:
  assumes "ENFORCEMENT_MODE cfg = ''shadow''" and "fst (submit_candidate cfg e opa validate req w) = Inr r"
  shows "r = Null_Response \<and>
    (\<exists>p. body_json req = Some p \<and>
       payload_id p \<in> set (keys (dag (gs (snd (submit_candidate cfg e opa validate req w)))))) \<and>
    shadow_decisions (gs (snd (submit_candidate cfg e opa validate req w))) = shadow_decisions (gs w) \<and>
    quarantine_ledger (gs (snd (submit_candidate cfg e opa validate req w))) = quarantine_ledger (gs w)"
proof -
  obtain p auth where g: "submit_gate cfg e validate req = Inr (p, auth)"
    and c: "fst (admission_transaction cfg e opa p auth (snd (fresh_uuid e w))) = Inr r"
    and eq: "submit_candidate cfg e opa validate req w = admission_transaction cfg e opa p auth (snd (fresh_uuid e w))"
    using assms(2) by (rule submit_InrE)
  have "r = Null_Response \<and> admission_transaction cfg e opa p auth (snd (fresh_uuid e w)) =
      (Inr Null_Response, on_gs (snd \<circ> commit_node (with_gap (gs w) p)) (snd (fresh_uuid e w)))"
    using c by (auto simp: admission_transaction_def Let_def assms(1) split: if_splits sum.splits)
  then show ?thesis using g by (auto simp: eq submit_gate_passed)
qed

theorem shadow_mode_commits_unaudited_witness:
  "\<exists>p. body_json (demo_request [] ''x'' ''quarantined-node-A'') = Some p \<and>
    payload_id p \<in> set (keys (dag (gs (snd (submit_candidate default_settings submit_env rego_engine (\<lambda>_. None)
      (demo_request [] ''x'' ''quarantined-node-A'') init_world)))))"
proof -
  obtain auth where g: "submit_gate default_settings submit_env (\<lambda>_. None) (demo_request [] ''x'' ''quarantined-node-A'') = Inr (demo_write [] ''x'' ''quarantined-node-A'', auth)"
    using demo_gate [OF default_size] by blast
  have "fst (submit_candidate default_settings submit_env rego_engine (\<lambda>_. None) (demo_request [] ''x'' ''quarantined-node-A'') init_world)
     = Inr Null_Response"
    by (simp add: submit_candidate_def g fst_transaction admission_transaction_def Let_def tainted_covers_def evaluate_admission_rego)
      (simp add: default_settings_def init_world_def init_state_def)
  from shadow_mode_commits_unaudited [OF _ this] show ?thesis by (simp add: default_settings_def)
qed

end
