(* ===== verification/Continuity.thy ===== *)
theory Continuity
  imports Submit
begin

text \<open>
  Safe continuity (mechanisms M3 and M4): \<open>get_critical_dependents\<close> and \<open>_attempt_safe_continuity\<close>. For every
  critical function hit by a quarantine a replacement record with a fresh identity is emitted, from a
  checkpoint that predates the containment or from a substitute declared before it; the quarantine
  itself is not touched. Python iterates over the set of relevant tainted nodes in an order that the
  model takes from the environment (\<open>set_iter\<close>).
\<close>

section \<open>Critical functions\<close>

record critical_dep =
  cd_node_id :: node_id
  cd_weight :: rat
  cd_tainted_parents :: "node_id list"

definition critical_dep_of :: "node_id list \<Rightarrow> node_id \<times> payload \<Rightarrow> critical_dep option" where
  "critical_dep_of q nn = (let nid = fst nn; nd = snd nn;
       tainted = filter (\<lambda>p. p \<in> set q) (parent_ids nd)
     in if criticality nd \<le> 0 then None
        else if nid \<in> set q \<or> tainted \<noteq> []
        then Some \<lparr>cd_node_id = nid, cd_weight = criticality nd,
               cd_tainted_parents = (if tainted \<noteq> [] then tainted else [nid])\<rparr>
        else None)"

definition get_critical_dependents :: "node_id list \<Rightarrow> gstate \<Rightarrow> critical_dep list" where
  "get_critical_dependents ids s = List.map_filter (critical_dep_of ids) (dag s)"

section \<open>Replacement records\<close>

definition generate_key :: "env \<Rightarrow> world \<Rightarrow> nat \<times> string \<times> world" where
  "generate_key e w = (let (k, w') = draw w in (k, encode_raw (keygen e k), w'))"

definition sign_content :: "env \<Rightarrow> nat \<Rightarrow> json_object \<Rightarrow> string" where
  "sign_content e k c = encode_raw (key_sign e k (content_hash e c))"

definition continuity_payload ::
    "env \<Rightarrow> utc \<Rightarrow> string \<Rightarrow> rat \<Rightarrow> node_id \<Rightarrow> nat \<Rightarrow> string \<Rightarrow> json_object \<Rightarrow> commitment list \<Rightarrow> payload" where
  "continuity_payload e ctime tok weight i k pub content parents = \<lparr>payload_id = i, node_type = Some ''STANDARD'',
     timestamp_utc = Some (now_utc e),
     ephemeral_nhi = Some \<lparr>identity_id = Some pub, session_token = Some tok,
       nhi_expires_at_utc = Some ''2099-01-01T00:00:00Z''\<rparr>,
     declared_evidence_boundary = Some \<lparr>boundary_id = ''cont-'' @ i, fixed_at_utc = ctime, boundary_digest = zero_digest\<rparr>,
     state_content = Some content, content_digest_sha256 = Some (content_hash e content),
     agent_signature = Some (sign_content e k content), signature_algorithm = Some ''ECDSA-P256-SHA256'',
     covers = [], covers_interval_gap = None, parent_dependency_commitments = parents,
     summarizer = None, criticality_weight = Some weight, retry_of = None\<rparr>"

definition e_digest :: string where
  "e_digest = replicate 64 (CHR ''e'')"

text \<open>What the loop reads once, before its first turn.\<close>

record continuity_view =
  cv_checkpoints :: "(string, checkpoint) dict"
  cv_substitutes :: "(node_id, substitute_declaration) dict"
  cv_ledger :: "node_id list"
  cv_dag :: "(node_id, payload) dict"
  containment_time :: utc

definition view_of :: "utc \<Rightarrow> gstate \<Rightarrow> continuity_view" where
  "view_of ctime s = \<lparr>cv_checkpoints = checkpoints s, cv_substitutes = substitute_declarations s,
     cv_ledger = quarantine_ledger s, cv_dag = dag s, containment_time = ctime\<rparr>"

definition relevant_tainted :: "continuity_view \<Rightarrow> critical_dep \<Rightarrow> node_id list" where
  "relevant_tainted v dep = remdups (cd_tainted_parents dep @
     (if cd_node_id dep \<in> set (cv_ledger v) then [cd_node_id dep] else []) @
     filter (\<lambda>p. p \<in> set (cv_ledger v)) (node_parents (cv_dag v) (cd_node_id dep)))"

text \<open>M4: the first checkpoint of a relevant node that predates the containment and has a clean, non-empty snapshot.\<close>

definition replayable :: "continuity_view \<Rightarrow> node_id list \<Rightarrow> checkpoint \<Rightarrow> bool" where
  "replayable v relevant cp \<longleftrightarrow> target_node_id cp \<in> set relevant \<and> declared_at_utc cp < containment_time v \<and>
     snapshot_data cp \<noteq> [] \<and> \<not> list_ex (\<lambda>k. k \<in> set (cv_ledger v)) (keys (snapshot_data cp))"

definition clean_parents :: "continuity_view \<Rightarrow> node_id \<Rightarrow> node_id list" where
  "clean_parents v n = (let ps = filter (\<lambda>p. p \<notin> set (cv_ledger v)) (node_parents (cv_dag v) n)
     in if ps = [] then [''clean-parent-1''] else ps)"

definition emit_replay :: "env \<Rightarrow> continuity_view \<Rightarrow> critical_dep \<Rightarrow> string \<Rightarrow> checkpoint \<Rightarrow> world \<Rightarrow> node_id \<times> world" where
  "emit_replay e v dep cp_id cp w =
     (let (k, pub, w1) = generate_key e w;
          (u, w2) = fresh_uuid e w1;
          replay_id = ''continuity-cp-'' @ u;
          content = [(''checkpoint_replay'', JObj (snapshot_data cp)), (''source_checkpoint'', JStr cp_id),
            (''original_target'', JStr (target_node_id cp))];
          p = continuity_payload e (containment_time v) ''continuity_m4'' (cd_weight dep) replay_id k pub content
                (map (\<lambda>c. \<lparr>parent_node_id = c, parent_content_hash = Some e_digest, edge_class = None\<rparr>)
                  (clean_parents v (cd_node_id dep)));
          w3 = on_gs (snd \<circ> commit_node p) (w2\<lparr>RECOVERY_ADAPTER_PUBLIC_KEY := Some pub\<rparr>);
          (eid, w4) = fresh_uuid e w3
      in (replay_id, on_gs (Memory_Backend.record_continuity_exposure (now_utc e) eid replay_id ''CHECKPOINT_REPLAY'' True (Some ''M4'')) w4))"

text \<open>M3: a substitute declared before the containment whose source is stored and clean.\<close>

definition usable_substitute :: "continuity_view \<Rightarrow> node_id \<Rightarrow> (substitute_declaration \<times> payload) option" where
  "usable_substitute v t =
     (case map_of (cv_substitutes v) t of None \<Rightarrow> None
      | Some sd \<Rightarrow>
          (if sub_declared_at_utc sd \<ge> containment_time v then None
           else if substitute_source_id sd = [] then None
           else case map_of (cv_dag v) (substitute_source_id sd) of None \<Rightarrow> None
             | Some nd \<Rightarrow> if substitute_source_id sd \<in> set (cv_ledger v) then None else Some (sd, nd)))"

definition emit_substitute ::
    "env \<Rightarrow> continuity_view \<Rightarrow> critical_dep \<Rightarrow> node_id \<Rightarrow> substitute_declaration \<Rightarrow> payload \<Rightarrow> world \<Rightarrow> node_id \<times> world" where
  "emit_substitute e v dep t sd nd w =
     (let (k, pub, w1) = generate_key e w;
          (u, w2) = fresh_uuid e w1;
          sub_id = ''continuity-sub-'' @ u;
          content = [(''substituted_from'', JStr (substitute_source_id sd)), (''original_target'', JStr t),
            (''substitute_declaration'', JStr (sub_declared_at_utc sd))];
          p = continuity_payload e (containment_time v) ''continuity_m3'' (cd_weight dep) sub_id k pub content
                [\<lparr>parent_node_id = substitute_source_id sd,
                  parent_content_hash = Some (case content_digest_sha256 nd of None \<Rightarrow> e_digest | Some h \<Rightarrow> h),
                  edge_class = None\<rparr>];
          w3 = on_gs (snd \<circ> commit_node p) (w2\<lparr>RECOVERY_ADAPTER_PUBLIC_KEY := Some pub\<rparr>);
          (eid, w4) = fresh_uuid e w3
      in (sub_id, on_gs (Memory_Backend.record_continuity_exposure (now_utc e) eid sub_id ''BOUNDED_SUBSTITUTE'' True (Some ''M3'')) w4))"

section \<open>The loop\<close>

datatype served = Replayed node_id node_id string | Substituted node_id node_id node_id | Escalated node_id

definition first_usable :: "continuity_view \<Rightarrow> node_id list \<Rightarrow> (node_id \<times> substitute_declaration \<times> payload) option" where
  "first_usable v ts =
     (case find (\<lambda>t. usable_substitute v t \<noteq> None) ts of None \<Rightarrow> None
      | Some t \<Rightarrow> map_option (\<lambda>x. (t, x)) (usable_substitute v t))"

definition serve_dep :: "env \<Rightarrow> continuity_view \<Rightarrow> critical_dep \<Rightarrow> world \<Rightarrow> served \<times> world" where
  "serve_dep e v dep w =
     (let relevant = relevant_tainted v dep in
      case find (\<lambda>(cp_id, cp). replayable v relevant cp) (cv_checkpoints v) of
        Some (cp_id, cp) \<Rightarrow>
          (let (i, w') = emit_replay e v dep cp_id cp w in (Replayed i (cd_node_id dep) cp_id, w'))
      | None \<Rightarrow>
          (case first_usable v (set_iter e relevant) of
             Some (t, sd, nd) \<Rightarrow>
               (let (i, w') = emit_substitute e v dep t sd nd w
                in (Substituted i (cd_node_id dep) (substitute_source_id sd), w'))
           | None \<Rightarrow> (Escalated (cd_node_id dep), w)))"

fun serve_all :: "env \<Rightarrow> continuity_view \<Rightarrow> critical_dep list \<Rightarrow> world \<Rightarrow> served list \<times> world" where
  "serve_all e v [] w = ([], w)"
| "serve_all e v (dep # deps) w =
     (let (r, w1) = serve_dep e v dep w; (rs, w2) = serve_all e v deps w1 in (r # rs, w2))"

definition attempt_safe_continuity ::
    "settings \<Rightarrow> env \<Rightarrow> node_id list \<Rightarrow> utc \<Rightarrow> world \<Rightarrow> served list \<times> world" where
  "attempt_safe_continuity cfg e c_p ctime w =
     (if \<not> CONTINUITY_ENABLED cfg then ([], w)
      else serve_all e (view_of ctime (gs w)) (get_critical_dependents c_p (gs w)) w)"

section \<open>What continuity changes\<close>

lemma generate_key_simps [simp]:
  "gs (snd (snd (generate_key e w))) = gs w"
  "fst (snd (generate_key e w)) = encode_raw (keygen e (fst (generate_key e w)))"
  by (simp_all add: generate_key_def draw_def)

lemma record_continuity_exposure_simps [simp]:
  "dag (Memory_Backend.record_continuity_exposure t i n st b m s) = dag s"
  "quarantine_ledger (Memory_Backend.record_continuity_exposure t i n st b m s) = quarantine_ledger s"
  "quarantine_events (Memory_Backend.record_continuity_exposure t i n st b m s) = quarantine_events s"
  "repair_candidates (Memory_Backend.record_continuity_exposure t i n st b m s) = repair_candidates s"
  "detector_events (Memory_Backend.record_continuity_exposure t i n st b m s) = detector_events s"
  "continuity_exposures (Memory_Backend.record_continuity_exposure t i n st b m s) = continuity_exposures s @
     [\<lparr>exposure_id = i, exposure_node_id = n, substitute_status = st, exposed_at_utc = t, quarantine_non_empty = b, mechanism = m\<rparr>]"
  by (simp_all add: Memory_Backend.record_continuity_exposure_def)

lemma continuity_payload_simps [simp]:
  "payload_id (continuity_payload e ct tok wt i k pub c ps) = i"
  "covers (continuity_payload e ct tok wt i k pub c ps) = []"
  "parent_ids (continuity_payload e ct tok wt i k pub c ps) = map parent_node_id ps"
  by (simp_all add: continuity_payload_def parent_ids_def)

text \<open>A record that continuity may emit while \<open>q\<close> is quarantined.\<close>

definition continuity_record :: "node_id list \<Rightarrow> node_id \<Rightarrow> payload \<Rightarrow> bool" where
  "continuity_record q n nd \<longleftrightarrow> payload_id nd = n \<and> covers nd = [] \<and>
     (\<forall>p\<in>set (parent_ids nd). p \<notin> set q \<or> p = ''clean-parent-1'')"

lemma clean_parents_clean: "p \<in> set (clean_parents v n) \<Longrightarrow> p \<notin> set (cv_ledger v) \<or> p = ''clean-parent-1''"
  by (auto simp: clean_parents_def Let_def split: if_splits)

lemma usable_substitute_clean: "usable_substitute v t = Some (sd, nd) \<Longrightarrow> substitute_source_id sd \<notin> set (cv_ledger v)"
  by (auto simp: usable_substitute_def split: option.splits if_splits)

lemma emit_replay_adds: "adds (continuity_record (cv_ledger v)) (gs w) (gs (snd (emit_replay e v dep cp_id cp w)))"
proof -
  define p where "p = continuity_payload e (containment_time v) ''continuity_m4'' (cd_weight dep)
      (''continuity-cp-'' @ uuid4 e (drawn (snd (snd (generate_key e w))))) (fst (generate_key e w)) (fst (snd (generate_key e w)))
      [(''checkpoint_replay'', JObj (snapshot_data cp)), (''source_checkpoint'', JStr cp_id), (''original_target'', JStr (target_node_id cp))]
      (map (\<lambda>c. \<lparr>parent_node_id = c, parent_content_hash = Some e_digest, edge_class = None\<rparr>) (clean_parents v (cd_node_id dep)))"
  have "continuity_record (cv_ledger v) (payload_id p) p"
    by (auto simp: continuity_record_def p_def dest: clean_parents_clean)
  moreover have "adds Q (snd (commit_node p (gs w))) (gs (snd (emit_replay e v dep cp_id cp w)))" for Q
    by (rule adds_same) (simp_all add: emit_replay_def Let_def split_beta fresh_uuid_def p_def)
  ultimately show ?thesis by (blast intro: adds_trans adds_commit)
qed

lemma emit_substitute_adds:
  assumes "substitute_source_id sd \<notin> set (cv_ledger v)"
  shows "adds (continuity_record (cv_ledger v)) (gs w) (gs (snd (emit_substitute e v dep t sd nd w)))"
proof -
  define p where "p = continuity_payload e (containment_time v) ''continuity_m3'' (cd_weight dep)
      (''continuity-sub-'' @ uuid4 e (drawn (snd (snd (generate_key e w))))) (fst (generate_key e w)) (fst (snd (generate_key e w)))
      [(''substituted_from'', JStr (substitute_source_id sd)), (''original_target'', JStr t), (''substitute_declaration'', JStr (sub_declared_at_utc sd))]
      [\<lparr>parent_node_id = substitute_source_id sd,
         parent_content_hash = Some (case content_digest_sha256 nd of None \<Rightarrow> e_digest | Some h \<Rightarrow> h), edge_class = None\<rparr>]"
  have "continuity_record (cv_ledger v) (payload_id p) p"
    using assms by (simp add: continuity_record_def p_def)
  moreover have "adds Q (snd (commit_node p (gs w))) (gs (snd (emit_substitute e v dep t sd nd w)))" for Q
    by (rule adds_same) (simp_all add: emit_substitute_def Let_def split_beta fresh_uuid_def p_def)
  ultimately show ?thesis by (blast intro: adds_trans adds_commit)
qed

lemma emit_other [simp]:
  "repair_candidates (gs (snd (emit_replay e v dep cp_id cp w))) = repair_candidates (gs w)"
  "repair_candidates (gs (snd (emit_substitute e v dep t sd nd w))) = repair_candidates (gs w)"
  "detector_events (gs (snd (emit_replay e v dep cp_id cp w))) = detector_events (gs w)"
  "detector_events (gs (snd (emit_substitute e v dep t sd nd w))) = detector_events (gs w)"
  by (simp_all add: emit_replay_def emit_substitute_def Let_def split_beta fresh_uuid_def)

lemma serve_dep_other [simp]:
  "repair_candidates (gs (snd (serve_dep e v dep w))) = repair_candidates (gs w)"
  "detector_events (gs (snd (serve_dep e v dep w))) = detector_events (gs w)"
  by (simp_all add: serve_dep_def Let_def split_beta split: option.split)

lemma serve_all_other [simp]:
  "repair_candidates (gs (snd (serve_all e v deps w))) = repair_candidates (gs w)"
  "detector_events (gs (snd (serve_all e v deps w))) = detector_events (gs w)"
  by (induction deps arbitrary: w) (simp_all add: Let_def split_beta)

lemma continuity_other [simp]:
  "repair_candidates (gs (snd (attempt_safe_continuity cfg e c_p ct w))) = repair_candidates (gs w)"
  "detector_events (gs (snd (attempt_safe_continuity cfg e c_p ct w))) = detector_events (gs w)"
  by (simp_all add: attempt_safe_continuity_def)

lemma first_usable_Some:
  "first_usable v ts = Some (t, sd, nd) \<Longrightarrow> usable_substitute v t = Some (sd, nd) \<and> t \<in> set ts"
  by (auto simp: first_usable_def split: option.splits dest: find_SomeD)

lemma first_usable_None: "first_usable v ts = None \<longleftrightarrow> (\<forall>t\<in>set ts. usable_substitute v t = None)"
  by (auto simp: first_usable_def find_None_iff split: option.splits dest: find_SomeD) (metis not_Some_eq surj_pair)

lemma serve_dep_adds: "adds (continuity_record (cv_ledger v)) (gs w) (gs (snd (serve_dep e v dep w)))"
  by (auto simp: serve_dep_def Let_def split_beta emit_replay_adds split: option.split
      intro!: emit_substitute_adds dest!: first_usable_Some usable_substitute_clean)

lemma serve_all_adds: "adds (continuity_record (cv_ledger v)) (gs w) (gs (snd (serve_all e v deps w)))"
proof (induction deps arbitrary: w)
  case Nil
  show ?case by simp
next
  case (Cons dep deps)
  show ?case
    using adds_trans [OF serve_dep_adds Cons.IH] by (simp add: Let_def split_beta)
qed

lemma continuity_adds:
  "adds (continuity_record (quarantine_ledger (gs w))) (gs w) (gs (snd (attempt_safe_continuity cfg e c_p ct w)))"
  using serve_all_adds [of "view_of ct (gs w)" w e] by (simp add: attempt_safe_continuity_def view_of_def)

section \<open>Who is served\<close>

lemma serve_dep_escalates:
  assumes "set (set_iter e (relevant_tainted v dep)) = set (relevant_tainted v dep)"
  shows "fst (serve_dep e v dep w) = Escalated (cd_node_id dep) \<longleftrightarrow>
    (\<forall>i cp. (i, cp) \<in> set (cv_checkpoints v) \<longrightarrow> \<not> replayable v (relevant_tainted v dep) cp) \<and>
    (\<forall>t\<in>set (relevant_tainted v dep). usable_substitute v t = None)"
proof (cases "find (\<lambda>(i, cp). replayable v (relevant_tainted v dep) cp) (cv_checkpoints v)")
  case None
  then have "\<not> replayable v (relevant_tainted v dep) cp" if "(i, cp) \<in> set (cv_checkpoints v)" for i cp
    using find_NoneD [OF None that] by simp
  moreover have "fst (serve_dep e v dep w) = Escalated (cd_node_id dep) \<longleftrightarrow>
      first_usable v (set_iter e (relevant_tainted v dep)) = None"
    using None by (simp add: serve_dep_def Let_def split_beta split: option.split)
  ultimately show ?thesis
    using assms by (simp add: first_usable_None)
next
  case (Some x)
  then have "fst (serve_dep e v dep w) \<noteq> Escalated (cd_node_id dep)"
    by (simp add: serve_dep_def Let_def split_beta)
  moreover have "(fst x, snd x) \<in> set (cv_checkpoints v) \<and> replayable v (relevant_tainted v dep) (snd x)"
    using find_SomeD [OF Some] by (simp add: split_beta)
  ultimately show ?thesis by blast
qed

lemma serve_all_length: "length (fst (serve_all e v deps w)) = length deps"
  by (induction deps arbitrary: w) (simp_all add: Let_def split_beta)

lemma serve_all_nth: "i < length deps \<Longrightarrow> \<exists>w'. fst (serve_all e v deps w) ! i = fst (serve_dep e v (deps ! i) w')"
proof (induction deps arbitrary: i w)
  case Nil
  then show ?case by simp
next
  case (Cons dep deps)
  show ?case
  proof (cases i)
    case 0
    show ?thesis by (rule exI [of _ w]) (simp add: 0 Let_def split_beta)
  next
    case (Suc j)
    then show ?thesis using Cons.IH [of j "snd (serve_dep e v dep w)"] Cons.prems by (simp add: Let_def split_beta)
  qed
qed

lemma critical_dep_of_Some:
  "(\<exists>dep. critical_dep_of q (n, nd) = Some dep) \<longleftrightarrow>
     criticality nd > 0 \<and> (n \<in> set q \<or> set (parent_ids nd) \<inter> set q \<noteq> {})"
  by (auto simp: critical_dep_of_def Let_def filter_empty_conv not_le)

lemma critical_dep_of_id: "critical_dep_of q nn = Some dep \<Longrightarrow> cd_node_id dep = fst nn"
  by (auto simp: critical_dep_of_def Let_def split: if_splits)

lemma critical_dependents_ids:
  "cd_node_id ` set (get_critical_dependents q s) =
     {n. \<exists>nd. (n, nd) \<in> set (dag s) \<and> criticality nd > 0 \<and> (n \<in> set q \<or> set (parent_ids nd) \<inter> set q \<noteq> {})}"
proof -
  have "n \<in> cd_node_id ` set (List.map_filter (critical_dep_of q) d) \<longleftrightarrow>
      (\<exists>nd. (n, nd) \<in> set d \<and> (\<exists>dep. critical_dep_of q (n, nd) = Some dep))" for n d
  proof
    assume "n \<in> cd_node_id ` set (List.map_filter (critical_dep_of q) d)"
    then obtain x dep where "x \<in> set d" "critical_dep_of q x = Some dep" "n = cd_node_id dep"
      by (auto simp: map_filter_def)
    then show "\<exists>nd. (n, nd) \<in> set d \<and> (\<exists>dep. critical_dep_of q (n, nd) = Some dep)"
      using critical_dep_of_id by (metis prod.collapse)
  next
    assume "\<exists>nd. (n, nd) \<in> set d \<and> (\<exists>dep. critical_dep_of q (n, nd) = Some dep)"
    then obtain nd dep where "(n, nd) \<in> set d" and dep: "critical_dep_of q (n, nd) = Some dep" by blast
    then have "dep \<in> set (List.map_filter (critical_dep_of q) d)" by (force simp: map_filter_def)
    then show "n \<in> cd_node_id ` set (List.map_filter (critical_dep_of q) d)"
      using critical_dep_of_id [OF dep] by (auto intro: rev_image_eqI)
  qed
  then show ?thesis unfolding get_critical_dependents_def critical_dep_of_Some by blast
qed

section \<open>Properties\<close>

text \<open>C27: Continuity never clears taint: the quarantine ledger and its event log are exactly as before, no stored
  node is changed, and every record it adds is new, covers nothing, and takes its parents from
  outside the quarantine, the built-in fallback parent \<open>clean-parent-1\<close> excepted.\<close>

theorem continuity_adds_only_clean_records:
  "let s = gs w; s' = gs (snd (attempt_safe_continuity cfg e c_p ctime w)) in
     quarantine_ledger s' = quarantine_ledger s \<and> quarantine_events s' = quarantine_events s \<and>
     (\<exists>new. dag s' = dag s @ new \<and>
        (\<forall>n nd. (n, nd) \<in> set new \<longrightarrow> n \<notin> set (keys (dag s)) \<and> covers nd = [] \<and>
           (\<forall>p. p \<in> set (parent_ids nd) \<longrightarrow> p \<notin> set (quarantine_ledger s) \<or> p = ''clean-parent-1'')))"
  using continuity_adds [of w cfg e c_p ctime]
  by (fastforce simp: adds_def continuity_record_def Let_def)

text \<open>A critical node whose parent is quarantined, with an old checkpoint of that parent.\<close>

definition demo_critical_world :: world where
  "demo_critical_world = init_world\<lparr>gs := init_state\<lparr>
     dag := dag init_state @ [(''crit'', (bare_payload ''crit'' [\<lparr>parent_node_id = ''quarantined-node-A'',
        parent_content_hash = None, edge_class = None\<rparr>])\<lparr>criticality_weight := Some 1\<rparr>)],
     checkpoints := [(''c1'', \<lparr>checkpoint_id = ''c1'', target_node_id = ''quarantined-node-A'',
        declared_at_utc = ''2025'', snapshot_data = [(''k'', JNull)]\<rparr>)]\<rparr>\<rparr>"

theorem continuity_adds_only_clean_records_witness:
  "quarantine_ledger (gs (snd (attempt_safe_continuity default_settings demo_env [''quarantined-node-A''] ''2026'' demo_critical_world)))
     = [''quarantined-node-A'']"
  using continuity_adds_only_clean_records [of demo_critical_world default_settings demo_env "[''quarantined-node-A'']" "''2026''"]
  by (simp add: Let_def demo_critical_world_def init_world_def init_state_def)



end
