(* ===== verification/Reconstruction.thy ===== *)
theory Reconstruction
  imports Continuity
begin

text \<open>
  Reconstruction of compactions (R3 to R5): \<open>_attempt_reconstruction\<close>. A pending repair candidate is sent to
  the recovery adapter, a separate service and hence a parameter here, or rebuilt inline from its
  checkpoint; the reintegration gate checks signature, identity and frontier before the new node is
  committed with a trust horizon. \<open>get_repair_candidates\<close> hands out the stored dictionaries themselves
  (a shallow copy), so the assignments of the two \<open>except\<close> branches reach the store of this backend.
\<close>

section \<open>The adapter\<close>

record reconstruct_request =
  graph_snapshot :: "(node_id, payload) dict" \<comment> \<open>without \<open>state_content\<close>\<close>
  rr_quarantine_ledger :: "node_id list"
  rr_poisoned_root_id :: node_id
  compaction_covers :: "node_id list"
  requested_frontier :: "node_id list"
  rr_method :: string
  rr_checkpoint :: checkpoint

datatype adapter_reply =
    Adapter_OK "payload option" \<comment> \<open>status 200; \<open>None\<close> if the reply holds no candidate\<close>
  | Adapter_Status nat \<comment> \<open>any other status\<close>
  | Adapter_Timeout
  | Adapter_Failure \<comment> \<open>any other exception of the client\<close>

definition dag_projection :: "(node_id, payload) dict \<Rightarrow> (node_id, payload) dict" where
  "dag_projection d = map (\<lambda>(i, nd). (i, nd\<lparr>state_content := None\<rparr>)) d"

section \<open>Inline reconstruction\<close>

definition inline_candidate :: "env \<Rightarrow> node_id list \<Rightarrow> json_object \<Rightarrow> nat \<Rightarrow> string \<Rightarrow> node_id \<Rightarrow> payload" where
  "inline_candidate e frontier snap k pub i =
     (let content = [(''data'', JStr (dumps e snap)), (''reconstructed'', JBool True)] in
      (bare_payload i (map (\<lambda>fn. \<lparr>parent_node_id = fn, parent_content_hash = Some e_digest,
           edge_class = Some ''COMPACTION''\<rparr>) frontier))\<lparr>
        node_type := Some ''COMPACTION'', state_content := Some content, covers := frontier,
        content_digest_sha256 := Some (content_hash e content),
        agent_signature := Some (sign_content e k content), signature_algorithm := Some ''ECDSA-P256-SHA256'',
        ephemeral_nhi := Some \<lparr>identity_id = Some pub, session_token = Some ''inline_adapter'', nhi_expires_at_utc = None\<rparr>\<rparr>)"

definition rebuild_inline :: "env \<Rightarrow> node_id list \<Rightarrow> repair_candidate \<Rightarrow> world \<Rightarrow> payload \<times> world" where
  "rebuild_inline e frontier rc w =
     (let (k, pub, w1) = generate_key e w;
          (u, w2) = fresh_uuid e w1;
          snap = (case rc_checkpoint rc of None \<Rightarrow> [] | Some cp \<Rightarrow> snapshot_data cp)
      in (inline_candidate e frontier snap k pub (''reconstructed-'' @ u),
          w2\<lparr>RECOVERY_ADAPTER_PUBLIC_KEY := Some pub\<rparr>))"

section \<open>The gate\<close>

definition gate_refusal :: "env \<Rightarrow> string option \<Rightarrow> node_id list \<Rightarrow> payload \<Rightarrow> string option" where
  "gate_refusal e adapter_key frontier cand =
     (if \<not> verify_cryptographic_signature e cand then Some ''invalid_signature''
      else if \<not> truthy adapter_key \<or> nhi_identity cand \<noteq> adapter_key then Some ''invalid_identity''
      else if set (covers cand) \<noteq> set frontier then Some ''frontier_mismatch''
      else None)"

definition mark_irreducible :: "string \<Rightarrow> node_id \<Rightarrow> repair_candidate \<Rightarrow> world \<Rightarrow> world" where
  "mark_irreducible why n rc w = on_gs (update_repair_candidate n (rc\<lparr>rc_disposition := IRREDUCIBLE, rc_reason := Some why\<rparr>)) w"

definition gate_record :: "env \<Rightarrow> gate_evidence list" where
  "gate_record e = map (\<lambda>g. \<lparr>gate = g, passed = True, evaluated_at_utc = now_utc e\<rparr>)
     [''signature_verification'', ''identity_verification'', ''frontier_verification'', ''quarantine_ancestry_check'']"

definition reintegrate :: "settings \<Rightarrow> env \<Rightarrow> node_id \<Rightarrow> repair_candidate \<Rightarrow> payload \<Rightarrow> world \<Rightarrow> world" where
  "reintegrate cfg e n rc cand w =
     (let pre = compute_state_digest (node_digest e) (state_digest e) (gs w);
          w1 = on_gs (snd \<circ> commit_node cand) w;
          post = compute_state_digest (node_digest e) (state_digest e) (gs w1)
      in on_gs (update_repair_candidate n (rc\<lparr>rc_disposition := REDUCIBLE, rc_reconstructed_node_id := Some (payload_id cand)\<rparr>)
           \<circ> record_reintegration_evidence (now_utc e) (payload_id cand) pre post (gate_record e)
           \<circ> record_reintegration (now_utc e) (horizon_end cfg e) (payload_id cand) n) w1)"

definition judge_candidate :: "settings \<Rightarrow> env \<Rightarrow> node_id list \<Rightarrow> node_id \<Rightarrow> repair_candidate \<Rightarrow> payload option \<Rightarrow> world \<Rightarrow> world" where
  "judge_candidate cfg e frontier n rc cand w =
     (case cand of None \<Rightarrow> mark_irreducible ''backend_unavailable'' n rc w
      | Some p \<Rightarrow>
          (case gate_refusal e (RECOVERY_ADAPTER_PUBLIC_KEY w) frontier p of
             Some why \<Rightarrow> mark_irreducible why n rc w
           | None \<Rightarrow> reintegrate cfg e n rc p w))"

section \<open>The loop\<close>

definition ask_adapter ::
    "(reconstruct_request \<Rightarrow> adapter_reply) \<Rightarrow> gstate \<Rightarrow> node_id \<Rightarrow> payload \<Rightarrow> node_id list \<Rightarrow> string \<Rightarrow> checkpoint \<Rightarrow> adapter_reply" where
  "ask_adapter adapter snap proot nd frontier meth cp = adapter \<lparr>graph_snapshot = dag_projection (dag snap),
     rr_quarantine_ledger = quarantine_ledger snap, rr_poisoned_root_id = proot, compaction_covers = covers nd,
     requested_frontier = frontier, rr_method = meth, rr_checkpoint = cp\<rparr>"

text \<open>
  One turn. \<open>snap\<close> is the state at the first pending candidate, whose graph and ledger the loop caches; a missing
  key raises and ends in the \<open>except Exception\<close> branch.
\<close>

definition reconstruct_one ::
    "settings \<Rightarrow> env \<Rightarrow> (reconstruct_request \<Rightarrow> adapter_reply) \<Rightarrow> gstate \<Rightarrow> node_id
     \<Rightarrow> world \<Rightarrow> node_id \<times> repair_candidate \<Rightarrow> world" where
  "reconstruct_one cfg e adapter snap proot w nrc =
     (case nrc of (n, rc) \<Rightarrow>
      if rc_disposition rc \<noteq> PENDING_RECONSTRUCTION then w
      else case (map_of (dag snap) n, rc_frontier rc) of
        (Some nd, Some frontier) \<Rightarrow>
          (if truthy (RECOVERY_ADAPTER_URL cfg)
           then (case (rc_method rc, rc_checkpoint rc) of
                   (Some meth, Some cp) \<Rightarrow>
                     (case ask_adapter adapter snap proot nd frontier meth cp of
                        Adapter_OK cand \<Rightarrow> judge_candidate cfg e frontier n rc cand w
                      | Adapter_Status st \<Rightarrow> judge_candidate cfg e frontier n rc None w
                      | Adapter_Timeout \<Rightarrow> mark_irreducible ''backend_timeout'' n rc w
                      | Adapter_Failure \<Rightarrow> mark_irreducible ''backend_unavailable'' n rc w)
                 | _ \<Rightarrow> mark_irreducible ''backend_unavailable'' n rc w)
           else (let (cand, w1) = rebuild_inline e frontier rc w in judge_candidate cfg e frontier n rc (Some cand) w1))
      | _ \<Rightarrow> mark_irreducible ''backend_unavailable'' n rc w)"

definition attempt_reconstruction ::
    "settings \<Rightarrow> env \<Rightarrow> (reconstruct_request \<Rightarrow> adapter_reply) \<Rightarrow> node_id \<Rightarrow> world \<Rightarrow> world" where
  "attempt_reconstruction cfg e adapter proot w =
     foldl (reconstruct_one cfg e adapter (gs w) proot) w (repair_candidates (gs w))"

section \<open>Gateway signatures\<close>

text \<open>What the gateway relies on of the cryptography library: generated keys are curve points, and signatures verify.\<close>

definition gateway_crypto :: "env \<Rightarrow> bool" where
  "gateway_crypto e \<longleftrightarrow>
     (\<forall>k. fst (keygen e k) < 2 ^ 256 \<and> snd (keygen e k) < 2 ^ 256 \<and> on_curve e (keygen e k)) \<and>
     (\<forall>k m. fst (key_sign e k m) < 2 ^ 256 \<and> snd (key_sign e k m) < 2 ^ 256 \<and>
        ecdsa_verify e (keygen e k) (encode_dss e (fst (key_sign e k m)) (snd (key_sign e k m))) m)"

lemma gateway_signature:
  assumes "gateway_crypto e" and "state_content p = Some c" and "content_digest_sha256 p = Some (content_hash e c)"
    and "agent_signature p = Some (sign_content e k c)" and "nhi_identity p = Some (encode_raw (keygen e k))"
  shows "verify_cryptographic_signature e p"
  using assms raw_decode [of "fst (keygen e k)" "snd (keygen e k)" e]
    raw_decode [of "fst (key_sign e k (content_hash e c))" "snd (key_sign e k (content_hash e c))" e]
  by (simp add: verify_cryptographic_signature_def signature_valid_def payload_hash_def sign_content_def
      gateway_crypto_def encode_raw_not_Nil)

lemma inline_candidate_simps [simp]:
  "payload_id (inline_candidate e f sn k pub i) = i" "covers (inline_candidate e f sn k pub i) = f"
  "parent_ids (inline_candidate e f sn k pub i) = f" "nhi_identity (inline_candidate e f sn k pub i) = Some pub"
  by (simp_all add: inline_candidate_def parent_ids_def nhi_identity_def Let_def comp_def)

lemma inline_candidate_signed:
  "gateway_crypto e \<Longrightarrow> verify_cryptographic_signature e (inline_candidate e f sn k (encode_raw (keygen e k)) i)"
  by (rule gateway_signature) (simp_all add: inline_candidate_def Let_def nhi_identity_def)

section \<open>What a turn changes\<close>

lemma mark_irreducible_simps [simp]:
  "dag (gs (mark_irreducible why n rc w)) = dag (gs w)"
  "quarantine_ledger (gs (mark_irreducible why n rc w)) = quarantine_ledger (gs w)"
  "quarantine_events (gs (mark_irreducible why n rc w)) = quarantine_events (gs w)"
  "detector_events (gs (mark_irreducible why n rc w)) = detector_events (gs w)"
  "RECOVERY_ADAPTER_PUBLIC_KEY (mark_irreducible why n rc w) = RECOVERY_ADAPTER_PUBLIC_KEY w"
  "map_of (repair_candidates (gs (mark_irreducible why n rc w))) =
     (map_of (repair_candidates (gs w)))(n \<mapsto> rc\<lparr>rc_disposition := IRREDUCIBLE, rc_reason := Some why\<rparr>)"
  by (simp_all add: mark_irreducible_def update_repair_candidate_def map_of_update)

lemma mark_irreducible_adds: "adds Q (gs w) (gs (mark_irreducible why n rc w))"
  by (rule adds_same) simp_all

lemma reintegrate_simps [simp]:
  "dag (gs (reintegrate cfg e n rc p w)) = dag (snd (commit_node p (gs w)))"
  "quarantine_ledger (gs (reintegrate cfg e n rc p w)) = quarantine_ledger (gs w)"
  "quarantine_events (gs (reintegrate cfg e n rc p w)) = quarantine_events (gs w)"
  "detector_events (gs (reintegrate cfg e n rc p w)) = detector_events (gs w)"
  "RECOVERY_ADAPTER_PUBLIC_KEY (reintegrate cfg e n rc p w) = RECOVERY_ADAPTER_PUBLIC_KEY w"
  "map_of (repair_candidates (gs (reintegrate cfg e n rc p w))) = (map_of (repair_candidates (gs w)))
     (n \<mapsto> rc\<lparr>rc_disposition := REDUCIBLE, rc_reconstructed_node_id := Some (payload_id p)\<rparr>)"
  by (simp_all add: reintegrate_def update_repair_candidate_def map_of_update record_reintegration_def
      record_reintegration_evidence_def Let_def)

lemma reintegrate_adds: "Q (payload_id p) p \<Longrightarrow> adds Q (gs w) (gs (reintegrate cfg e n rc p w))"
  using adds_commit [of Q p "gs w"] by (simp add: adds_def)

lemma judge_candidate_adds:
  assumes "\<And>p. cand = Some p \<Longrightarrow> gate_refusal e (RECOVERY_ADAPTER_PUBLIC_KEY w) f p = None \<Longrightarrow> Q (payload_id p) p"
  shows "adds Q (gs w) (gs (judge_candidate cfg e f n rc cand w))"
  using assms by (auto simp: judge_candidate_def mark_irreducible_adds reintegrate_adds split: option.split)

lemma judge_candidate_key [simp]:
  "RECOVERY_ADAPTER_PUBLIC_KEY (judge_candidate cfg e f n rc cand w) = RECOVERY_ADAPTER_PUBLIC_KEY w"
  by (simp add: judge_candidate_def split: option.split)

text \<open>A turn that decides \<open>n\<close>: it writes one terminal candidate and no other.\<close>

definition decides :: "node_id \<Rightarrow> world \<Rightarrow> world \<Rightarrow> bool" where
  "decides n w w' \<longleftrightarrow> (\<exists>rc'. terminal rc' \<and>
     map_of (repair_candidates (gs w')) = (map_of (repair_candidates (gs w)))(n \<mapsto> rc'))"

lemma mark_irreducible_decides: "decides n w (mark_irreducible why n rc w)"
  unfolding decides_def by (rule exI [of _ "rc\<lparr>rc_disposition := IRREDUCIBLE, rc_reason := Some why\<rparr>"]) (simp add: terminal_def)

lemma reintegrate_decides: "decides n w (reintegrate cfg e n rc p w)"
  unfolding decides_def
  by (rule exI [of _ "rc\<lparr>rc_disposition := REDUCIBLE, rc_reconstructed_node_id := Some (payload_id p)\<rparr>"]) (simp add: terminal_def)

lemma judge_candidate_decides: "decides n w (judge_candidate cfg e f n rc cand w)"
  by (simp add: judge_candidate_def mark_irreducible_decides reintegrate_decides split: option.split)

lemma rebuild_inline_simps [simp]:
  "gs (snd (rebuild_inline e f rc w)) = gs w"
  "\<exists>k sn i. fst (rebuild_inline e f rc w) = inline_candidate e f sn k (encode_raw (keygen e k)) i \<and>
     RECOVERY_ADAPTER_PUBLIC_KEY (snd (rebuild_inline e f rc w)) = Some (encode_raw (keygen e k))"
  by (auto simp: rebuild_inline_def Let_def split_beta fresh_uuid_def)

lemma reconstruct_one_skip [simp]:
  "rc_disposition rc \<noteq> PENDING_RECONSTRUCTION \<Longrightarrow> reconstruct_one cfg e ad snap r w (n, rc) = w"
  by (simp add: reconstruct_one_def)

lemma reconstruct_one_decides:
  assumes "rc_disposition rc = PENDING_RECONSTRUCTION"
  shows "decides n w (reconstruct_one cfg e ad snap r w (n, rc))"
proof -
  have "decides n w (judge_candidate cfg e f n rc cand (snd (rebuild_inline e f' rc w)))" for f f' cand
    using judge_candidate_decides [of n "snd (rebuild_inline e f' rc w)"] by (simp add: decides_def)
  then show ?thesis using assms
    by (simp add: reconstruct_one_def mark_irreducible_decides judge_candidate_decides split_beta
        split: option.split adapter_reply.split)
qed

text \<open>A node the loop may add: signed, over exactly the frontier of a candidate, and under the configured key.\<close>

definition reconstructed_record ::
    "settings \<Rightarrow> env \<Rightarrow> string option \<Rightarrow> (node_id, repair_candidate) dict \<Rightarrow> node_id \<Rightarrow> payload \<Rightarrow> bool" where
  "reconstructed_record cfg e key rcs i nd \<longleftrightarrow> payload_id nd = i \<and> verify_cryptographic_signature e nd \<and>
     (truthy (RECOVERY_ADAPTER_URL cfg) \<longrightarrow> truthy key \<and> nhi_identity nd = key) \<and>
     (\<exists>n rc f. (n, rc) \<in> set rcs \<and> rc_frontier rc = Some f \<and> set (covers nd) = set f \<and>
        (\<not> truthy (RECOVERY_ADAPTER_URL cfg) \<longrightarrow> parent_ids nd = f))"

lemma judge_candidate_detectors [simp]:
  "detector_events (gs (judge_candidate cfg e f n rc cand w)) = detector_events (gs w)"
  by (simp add: judge_candidate_def split: option.split)

lemma reconstruct_one_detectors [simp]:
  "detector_events (gs (reconstruct_one cfg e ad snap r w nrc)) = detector_events (gs w)"
  by (cases nrc) (simp add: reconstruct_one_def split_beta split: option.split adapter_reply.split)

lemma reconstruction_detectors [simp]:
  "detector_events (gs (attempt_reconstruction cfg e ad r w)) = detector_events (gs w)"
proof -
  have "detector_events (gs (foldl (reconstruct_one cfg e ad snap r) w xs)) = detector_events (gs w)" for snap xs
    by (induction xs arbitrary: w) simp_all
  then show ?thesis by (simp add: attempt_reconstruction_def)
qed

lemma gate_refusal_None:
  "gate_refusal e key f p = None \<longleftrightarrow> verify_cryptographic_signature e p \<and> truthy key \<and> nhi_identity p = key \<and> set (covers p) = set f"
  by (auto simp: gate_refusal_def)

lemma reconstruct_one_adds:
  assumes "(n, rc) \<in> set rcs" and "truthy (RECOVERY_ADAPTER_URL cfg) \<Longrightarrow> RECOVERY_ADAPTER_PUBLIC_KEY w = key"
  shows "adds (reconstructed_record cfg e key rcs) (gs w) (gs (reconstruct_one cfg e ad snap r w (n, rc))) \<and>
    (truthy (RECOVERY_ADAPTER_URL cfg) \<longrightarrow> RECOVERY_ADAPTER_PUBLIC_KEY (reconstruct_one cfg e ad snap r w (n, rc)) = key)"
proof (cases "rc_disposition rc = PENDING_RECONSTRUCTION \<and> (\<exists>nd f. map_of (dag snap) n = Some nd \<and> rc_frontier rc = Some f)")
  case False
  then show ?thesis using assms(2)
    by (auto simp: reconstruct_one_def mark_irreducible_adds split: option.split)
next
  case True
  then obtain nd f where nf: "map_of (dag snap) n = Some nd" "rc_frontier rc = Some f" by blast
  show ?thesis
  proof (cases "truthy (RECOVERY_ADAPTER_URL cfg)")
    case ext: True
    have "adds (reconstructed_record cfg e key rcs) (gs w) (gs (judge_candidate cfg e f n rc cand w))" for cand
      using assms nf(2) ext by (intro judge_candidate_adds) (auto simp: gate_refusal_None reconstructed_record_def)
    then show ?thesis using True ext assms(2) nf
      by (auto simp: reconstruct_one_def mark_irreducible_adds split: option.split adapter_reply.split)
  next
    case inl: False
    let ?w = "snd (rebuild_inline e f rc w)" and ?c = "fst (rebuild_inline e f rc w)"
    obtain k sn i where c: "?c = inline_candidate e f sn k (encode_raw (keygen e k)) i"
      using rebuild_inline_simps(2) by blast
    have "adds (reconstructed_record cfg e key rcs) (gs ?w) (gs (judge_candidate cfg e f n rc (Some ?c) ?w))"
      using assms(1) nf(2) inl by (intro judge_candidate_adds) (clarsimp simp: gate_refusal_None reconstructed_record_def c, blast)
    then show ?thesis using True inl nf by (simp add: reconstruct_one_def split_beta)
  qed
qed

lemma reconstruction_adds:
  "adds (reconstructed_record cfg e (RECOVERY_ADAPTER_PUBLIC_KEY w) (repair_candidates (gs w))) (gs w)
     (gs (attempt_reconstruction cfg e ad r w))"
  unfolding attempt_reconstruction_def
  by (rule adds_foldl [where I = "\<lambda>w'. truthy (RECOVERY_ADAPTER_URL cfg) \<longrightarrow> RECOVERY_ADAPTER_PUBLIC_KEY w' = RECOVERY_ADAPTER_PUBLIC_KEY w"])
    (use reconstruct_one_adds in \<open>fast+\<close>)

section \<open>What the loop achieves\<close>

lemma reconstruct_fold_decides:
  assumes "distinct (keys xs)" and "\<forall>(n, rc)\<in>set xs. map_of (repair_candidates (gs w)) n = Some rc"
  shows "(\<forall>n\<in>set (keys xs). \<exists>rc. map_of (repair_candidates (gs (foldl (reconstruct_one cfg e ad snap r) w xs))) n = Some rc \<and> terminal rc) \<and>
    (\<forall>n. n \<notin> set (keys xs) \<longrightarrow>
       map_of (repair_candidates (gs (foldl (reconstruct_one cfg e ad snap r) w xs))) n = map_of (repair_candidates (gs w)) n)"
  using assms
proof (induction xs arbitrary: w)
  case Nil
  then show ?case by simp
next
  case (Cons x xs)
  obtain n rc where x: "x = (n, rc)" by (cases x)
  let ?w = "reconstruct_one cfg e ad snap r w (n, rc)"
  have step: "(\<exists>rc'. map_of (repair_candidates (gs ?w)) n = Some rc' \<and> terminal rc') \<and>
      (\<forall>m. m \<noteq> n \<longrightarrow> map_of (repair_candidates (gs ?w)) m = map_of (repair_candidates (gs w)) m)"
  proof (cases "rc_disposition rc = PENDING_RECONSTRUCTION")
    case True
    then obtain rc' where "terminal rc'" "map_of (repair_candidates (gs ?w)) = (map_of (repair_candidates (gs w)))(n \<mapsto> rc')"
      using reconstruct_one_decides [of rc n w cfg e ad snap r] unfolding decides_def by blast
    then show ?thesis by simp
  next
    case False
    then have "terminal rc" by (cases "rc_disposition rc") (simp_all add: terminal_def)
    then show ?thesis using False Cons.prems(2) by (simp add: x)
  qed
  have "\<forall>(m, rc)\<in>set xs. map_of (repair_candidates (gs ?w)) m = Some rc"
    using Cons.prems step by (fastforce simp: x dest: mem_key)
  with Cons.IH [of ?w] Cons.prems(1) step show ?case by (auto simp: x)
qed

section \<open>Properties\<close>

text \<open>C9: The reintegration gate. Whatever the recovery adapter answers, reconstruction leaves the quarantine ledger and
  every stored node alone, and each node it adds carries a signature that verifies over its own content and covers
  exactly the frontier of a repair candidate; with an external adapter it is signed by the key configured
  for the adapter.\<close>

theorem reconstruction_gate:
  "let s = gs w; s' = gs (attempt_reconstruction cfg e adapter proot w) in
     quarantine_ledger s' = quarantine_ledger s \<and> quarantine_events s' = quarantine_events s \<and>
     (\<exists>new. dag s' = dag s @ new \<and>
        (\<forall>i nd. (i, nd) \<in> set new \<longrightarrow> i \<notin> set (keys (dag s)) \<and> verify_cryptographic_signature e nd \<and>
           (truthy (RECOVERY_ADAPTER_URL cfg) \<longrightarrow> nhi_identity nd = RECOVERY_ADAPTER_PUBLIC_KEY w) \<and>
           (\<exists>n rc f. (n, rc) \<in> set (repair_candidates s) \<and> rc_frontier rc = Some f \<and> set (covers nd) = set f)))"
  using reconstruction_adds [of cfg e w adapter proot]
  by (fastforce simp: adds_def reconstructed_record_def Let_def)

text \<open>The compaction of the planner's example, pending with a checkpoint on its clean part.\<close>

definition demo_pending_world :: world where
  "demo_pending_world = init_world\<lparr>gs := demo_repair_state\<lparr>repair_candidates :=
     [(''sum'', pending_candidate [''good''] \<lparr>checkpoint_id = ''c1'', target_node_id = ''good'',
        declared_at_utc = ''t'', snapshot_data = []\<rparr>)]\<rparr>\<rparr>"

theorem reconstruction_gate_witness:
  "\<exists>new. dag (gs (attempt_reconstruction default_settings demo_env (\<lambda>_. Adapter_Timeout) ''bad'' demo_pending_world)) = dag demo_repair_state @ new \<and>
     (\<forall>i nd. (i, nd) \<in> set new \<longrightarrow> verify_cryptographic_signature demo_env nd \<and> set (covers nd) = {''good''}) \<and>
     quarantine_ledger (gs (attempt_reconstruction default_settings demo_env (\<lambda>_. Adapter_Timeout) ''bad'' demo_pending_world)) = [''quarantined-node-A'']"
proof -
  have sel: "dag (gs demo_pending_world) = dag demo_repair_state" "quarantine_ledger (gs demo_pending_world) = [''quarantined-node-A'']"
    "repair_candidates (gs demo_pending_world) = [(''sum'', pending_candidate [''good'']
       \<lparr>checkpoint_id = ''c1'', target_node_id = ''good'', declared_at_utc = ''t'', snapshot_data = []\<rparr>)]"
    by (simp_all add: demo_pending_world_def init_world_def demo_repair_state_def init_state_def)
  show ?thesis
    using reconstruction_gate [of demo_pending_world default_settings demo_env "\<lambda>_. Adapter_Timeout" "''bad''"]
    unfolding Let_def sel by (fastforce simp: pending_candidate_def)
qed



text \<open>Without an external adapter, the inline reconstruction of a pending candidate always succeeds: the candidate
  becomes reducible and the node it names is stored. The hypothesis on the cryptography library is that generated
  keys are points of the curve and that their signatures verify.\<close>

theorem inline_reconstruction_succeeds:
  assumes "gateway_crypto e" and "\<not> truthy (RECOVERY_ADAPTER_URL cfg)"
    and "rc_disposition rc = PENDING_RECONSTRUCTION" and "rc_frontier rc = Some f" and "n \<in> set (keys (dag snap))"
  shows "let s' = gs (reconstruct_one cfg e adapter snap proot w (n, rc)) in
    \<exists>rc' i. map_of (repair_candidates s') n = Some rc' \<and> rc_disposition rc' = REDUCIBLE \<and>
      rc_reconstructed_node_id rc' = Some i \<and> i \<in> set (keys (dag s'))"
proof -
  obtain nd where nd: "map_of (dag snap) n = Some nd"
    using assms(5) map_of_eq_None_keys [of "dag snap" n] by auto
  let ?w = "snd (rebuild_inline e f rc w)" and ?c = "fst (rebuild_inline e f rc w)"
  obtain k sn i where c: "?c = inline_candidate e f sn k (encode_raw (keygen e k)) i"
    and key: "RECOVERY_ADAPTER_PUBLIC_KEY ?w = Some (encode_raw (keygen e k))"
    using rebuild_inline_simps(2) by blast
  have "gate_refusal e (RECOVERY_ADAPTER_PUBLIC_KEY ?w) f ?c = None"
    using inline_candidate_signed [OF assms(1)] by (simp add: gate_refusal_None c key encode_raw_not_Nil)
  then have "reconstruct_one cfg e adapter snap proot w (n, rc) = reintegrate cfg e n rc ?c ?w"
    using assms(2-4) nd by (simp add: reconstruct_one_def judge_candidate_def split_beta)
  then show ?thesis by (simp add: Let_def)
qed

theorem inline_reconstruction_succeeds_witness:
  "\<exists>rc'. map_of (repair_candidates (gs (reconstruct_one default_settings (demo_env\<lparr>keygen := \<lambda>k. (7, 9), key_sign := \<lambda>k m. (7, 9)\<rparr>)
      (\<lambda>_. Adapter_Timeout) demo_repair_state ''bad'' demo_pending_world (hd (repair_candidates (gs demo_pending_world)))))) ''sum'' = Some rc' \<and>
    rc_disposition rc' = REDUCIBLE"
proof -
  let ?e = "demo_env\<lparr>keygen := \<lambda>k. (7, 9), key_sign := \<lambda>k m. (7, 9)\<rparr>"
  have hd: "hd (repair_candidates (gs demo_pending_world)) = (''sum'', pending_candidate [''good'']
      \<lparr>checkpoint_id = ''c1'', target_node_id = ''good'', declared_at_utc = ''t'', snapshot_data = []\<rparr>)"
    by (simp add: demo_pending_world_def)
  have "gateway_crypto ?e" by (simp add: gateway_crypto_def demo_env_def)
  moreover have "\<not> truthy (RECOVERY_ADAPTER_URL default_settings)" by (simp add: default_settings_def)
  moreover have "rc_disposition (pending_candidate fr cp) = PENDING_RECONSTRUCTION" "rc_frontier (pending_candidate fr cp) = Some fr" for fr cp
    by (simp_all add: pending_candidate_def)
  moreover have "''sum'' \<in> set (keys (dag demo_repair_state))" by (simp add: demo_repair_state_def)
  ultimately show ?thesis
    using inline_reconstruction_succeeds [of ?e default_settings] unfolding hd Let_def by blast
qed

end
