(* ===== verification/Designate.thy ===== *)
theory Designate
  imports Reconstruction
begin

text \<open>
  The containment path and the administrative handlers: \<open>/designate\<close> (\<open>designate_poison\<close>), \<open>/checkpoint\<close>,
  \<open>/declare-substitute\<close>, \<open>/continuity-expose\<close>, \<open>/seed-root\<close> and \<open>/reset-db\<close>. A designation counts the attempt, then quarantines the
  whole forward closure of the designated node in one transaction and runs continuity and
  reconstruction inside it.
\<close>

section \<open>Designation\<close>

record designation_event =
  poisoned_node_id :: node_id
  de_reason :: string

datatype designate_response =
    Node_Not_Found \<comment> \<open>status 404, returned\<close>
  | Already_Quarantined
  | Designated quarantine_event "served list"

definition designation_qevent ::
    "string \<Rightarrow> utc \<Rightarrow> node_id \<Rightarrow> node_id list \<Rightarrow> string \<Rightarrow> string \<Rightarrow> string \<Rightarrow> string option \<Rightarrow> quarantine_event" where
  "designation_qevent qid when proot c_p dig who why src =
     (make_quarantine_event qid when proot c_p dig)\<lparr>designator_identity := Some who, designation_reason := Some why,
        detector_source := src\<rparr>"

text \<open>Blast radius, hooks, digest, event, ledger: what both designation paths do under the exclusive lock.\<close>

definition contain ::
    "settings \<Rightarrow> env \<Rightarrow> designation_event \<Rightarrow> string \<Rightarrow> string option \<Rightarrow> world \<Rightarrow> quarantine_event \<times> world" where
  "contain cfg e ev who src w =
     (let (c_p, s1) = compute_blast_radius (poisoned_node_id ev) (gs w);
          w2 = run_hooks cfg e ''RENEWED_DESIGNATION'' c_p (w\<lparr>gs := s1\<rparr>);
          dig = compute_quarantine_digest (ids_digest e) c_p (gs w2);
          (qid, w3) = fresh_uuid e w2;
          qe = designation_qevent qid (now_utc e) (poisoned_node_id ev) c_p dig who (de_reason ev) src
      in (qe, on_gs (apply_quarantine_transaction qe c_p) w3))"

definition designation_transaction ::
    "settings \<Rightarrow> env \<Rightarrow> (reconstruct_request \<Rightarrow> adapter_reply) \<Rightarrow> designation_event \<Rightarrow> string \<Rightarrow> world
     \<Rightarrow> designate_response result \<times> world" where
  "designation_transaction cfg e adapter ev who w =
     (let n = poisoned_node_id ev in
      if \<not> get_bool (nodes_exist [n] (gs w)) n then (Inr Node_Not_Found, w)
      else if get_bool (are_quarantined [n] (gs w)) n then (Inr Already_Quarantined, w)
      else let (qe, w1) = contain cfg e ev who None w;
               (served, w2) = attempt_safe_continuity cfg e (computed_blast_radius_C_p qe) (detected_at_utc qe) w1;
               w3 = attempt_reconstruction cfg e adapter n w2
           in (Inr (Designated qe served), w3))"

definition designate_poison ::
    "settings \<Rightarrow> env \<Rightarrow> (reconstruct_request \<Rightarrow> adapter_reply) \<Rightarrow> string option \<Rightarrow> designation_event \<Rightarrow> world
     \<Rightarrow> designate_response result \<times> world" where
  "designate_poison cfg e adapter hdr ev w =
     (case verify_role_jwt e hdr ''designator'' of Inl ex \<Rightarrow> (Inl ex, w)
      | Inr claims \<Rightarrow>
        (let who = claim_sub claims ''unknown'' in
         if count_recent_signals who (horizon_start cfg e) (gs w) \<ge> DESIGNATION_RATE_LIMIT cfg
         then signal_limited (now_utc e) who (poisoned_node_id ev) ''designation'' ''Rate limit exceeded for designations'' w
         else transaction (designation_transaction cfg e adapter ev who)
                (on_gs (record_signal_attempt (now_utc e) who (poisoned_node_id ev) ''designation'' ''PENDING'') w)))"

section \<open>Administrative handlers\<close>

definition declare_checkpoint :: "env \<Rightarrow> string option \<Rightarrow> checkpoint \<Rightarrow> world \<Rightarrow> unit result \<times> world" where
  "declare_checkpoint e hdr cp w =
     (case verify_role_jwt e hdr ''admin'' of Inl ex \<Rightarrow> (Inl ex, w)
      | Inr _ \<Rightarrow> (Inr (), on_gs (add_checkpoint cp) w))"

definition continuity_expose ::
    "env \<Rightarrow> string option \<Rightarrow> string option \<Rightarrow> string option \<Rightarrow> world \<Rightarrow> string result \<times> world" where
  "continuity_expose e hdr node status w =
     (case verify_role_jwt e hdr ''designator'' of Inl ex \<Rightarrow> (Inl ex, w)
      | Inr _ \<Rightarrow>
        (let st = (case status of None \<Rightarrow> ''ORIGINAL'' | Some x \<Rightarrow> x) in
         if \<not> truthy node then (Inl (HTTPException 400 ''node_id required''), w)
         else if st \<notin> {''ORIGINAL'', ''BOUNDED_SUBSTITUTE'', ''DEGRADED'', ''CHECKPOINT''}
         then (Inl (HTTPException 400 ''substitute_status must be one of: ORIGINAL, BOUNDED_SUBSTITUTE, DEGRADED, CHECKPOINT''), w)
         else if the node \<in> set (quarantine_ledger (gs w))
         then (Inl (HTTPException 403 ''Cannot expose quarantined node''), w)
         else let (eid, w1) = fresh_uuid e w
              in (Inr eid, on_gs (Memory_Backend.record_continuity_exposure (now_utc e) eid (the node) st
                    (quarantine_ledger (gs w) \<noteq> []) None) w1)))"

definition declare_substitute ::
    "env \<Rightarrow> string option \<Rightarrow> string option \<Rightarrow> string option \<Rightarrow> utc option \<Rightarrow> world \<Rightarrow> unit result \<times> world" where
  "declare_substitute e hdr target source declared w =
     (case verify_role_jwt e hdr ''admin'' of Inl ex \<Rightarrow> (Inl ex, w)
      | Inr _ \<Rightarrow>
        (if \<not> (truthy target \<and> truthy source \<and> truthy declared)
         then (Inl (HTTPException 400 ''target_node_id, substitute_source_id, and declared_at_utc are required''), w)
         else if \<not> get_bool (nodes_exist [the source] (gs w)) (the source)
         then (Inl (HTTPException 404 ''Substitute source not found in DAG''), w)
         else if get_bool (are_quarantined [the source] (gs w)) (the source)
         then (Inl (HTTPException 403 ''Substitute source is quarantined''), w)
         else (Inr (), on_gs (add_substitute_declaration \<lparr>sub_target_node_id = the target,
                 substitute_source_id = the source, sub_declared_at_utc = the declared\<rparr>) w)))"

text \<open>The time stamps of a seed node lack the final \<open>Z\<close> that \<open>iso\<close> appends.\<close>

definition seed_payload :: "env \<Rightarrow> string \<Rightarrow> nat \<Rightarrow> string \<Rightarrow> node_id \<Rightarrow> payload" where
  "seed_payload e admin k pub i =
     (let content = [(''type'', JStr ''seed_root''), (''seeded_by'', JStr admin)] in
      (bare_payload i [])\<lparr>timestamp_utc := Some (butlast (now_utc e)),
        ephemeral_nhi := Some \<lparr>identity_id = Some pub, session_token = Some ''gateway_seed'',
          nhi_expires_at_utc = Some ''9999-12-31T23:59:59Z''\<rparr>,
        declared_evidence_boundary := Some \<lparr>boundary_id = ''seed-'' @ i, fixed_at_utc = butlast (now_utc e), boundary_digest = zero_digest\<rparr>,
        state_content := Some content, content_digest_sha256 := Some (content_hash e content),
        agent_signature := Some (sign_content e k content), signature_algorithm := Some ''ECDSA-P256-SHA256''\<rparr>)"

definition seed_root :: "env \<Rightarrow> string option \<Rightarrow> string option \<Rightarrow> world \<Rightarrow> (node_id \<times> string) result \<times> world" where
  "seed_root e hdr root_id w =
     (case verify_role_jwt e hdr ''admin'' of Inl ex \<Rightarrow> (Inl ex, w)
      | Inr claims \<Rightarrow>
        (if \<not> truthy root_id then (Inl (HTTPException 400 ''root_id required''), w)
         else if get_bool (nodes_exist [the root_id] (gs w)) (the root_id)
         then (Inl (HTTPException 409 ''Node already exists''), w)
         else let (k, pub, w1) = generate_key e w
              in (Inr (the root_id, pub),
                  on_gs (snd \<circ> commit_node (seed_payload e (claim_sub claims ''unknown'') k pub (the root_id))) w1)))"

definition reset_db :: "settings \<Rightarrow> env \<Rightarrow> string option \<Rightarrow> world \<Rightarrow> unit result \<times> world" where
  "reset_db cfg e hdr w =
     (case verify_role_jwt e hdr ''admin'' of Inl ex \<Rightarrow> (Inl ex, w)
      | Inr _ \<Rightarrow>
        (if \<not> DEBUG_MODE cfg then (Inl (HTTPException 403 ''Debug endpoints disabled in production''), w)
         else (Inr (), on_gs reset_sync w)))"

section \<open>What a designation changes\<close>

lemma contain_simps:
  "dag (gs (snd (contain cfg e ev who src w))) = dag (gs w)"
  "set (quarantine_ledger (gs (snd (contain cfg e ev who src w)))) =
     set (quarantine_ledger (gs w)) \<union> reach_from (derives (dag (gs w))) {poisoned_node_id ev}"
  "computed_blast_radius_C_p (fst (contain cfg e ev who src w)) = fst (compute_blast_radius (poisoned_node_id ev) (gs w))"
  "poisoned_root_id (fst (contain cfg e ev who src w)) = poisoned_node_id ev"
  "detected_at_utc (fst (contain cfg e ev who src w)) = now_utc e"
  "detector_events (gs (snd (contain cfg e ev who src w))) = detector_events (gs w)"
  "quarantine_events (gs (snd (contain cfg e ev who src w))) = quarantine_events (gs w) @ [fst (contain cfg e ev who src w)]"
  by (simp_all add: contain_def Let_def split_beta fresh_uuid_def set_blast_radius designation_qevent_def make_quarantine_event_def)

text \<open>Continuity and reconstruction after a containment only add nodes.\<close>

definition aftermath :: "settings \<Rightarrow> env \<Rightarrow> (reconstruct_request \<Rightarrow> adapter_reply) \<Rightarrow> quarantine_event \<Rightarrow> world \<Rightarrow> world" where
  "aftermath cfg e adapter qe w = attempt_reconstruction cfg e adapter (poisoned_root_id qe)
     (snd (attempt_safe_continuity cfg e (computed_blast_radius_C_p qe) (detected_at_utc qe) w))"

lemma aftermath_adds: "adds (\<lambda>_ _. True) (gs w) (gs (aftermath cfg e adapter qe w))"
  unfolding aftermath_def
  using adds_trans [OF adds_mono [OF continuity_adds, where R = "\<lambda>_ _. True"] adds_mono [OF reconstruction_adds, where R = "\<lambda>_ _. True"]]
  by simp

lemma aftermath_detectors [simp]: "detector_events (gs (aftermath cfg e adapter qe w)) = detector_events (gs w)"
  by (simp add: aftermath_def)

lemma designation_transaction_run:
  "designation_transaction cfg e adapter ev who w =
    (if poisoned_node_id ev \<notin> set (keys (dag (gs w))) then (Inr Node_Not_Found, w)
     else if poisoned_node_id ev \<in> set (quarantine_ledger (gs w)) then (Inr Already_Quarantined, w)
     else let (qe, w1) = contain cfg e ev who None w
          in (Inr (Designated qe (fst (attempt_safe_continuity cfg e (computed_blast_radius_C_p qe) (detected_at_utc qe) w1))),
              aftermath cfg e adapter qe w1))"
  by (simp add: designation_transaction_def aftermath_def Let_def split_beta contain_simps)

lemma designate_poison_run:
  assumes "fst (designate_poison cfg e adapter hdr ev w) = Inr r"
  obtains claims w1 where "verify_role_jwt e hdr ''designator'' = Inr claims"
    and "count_recent_signals (claim_sub claims ''unknown'') (horizon_start cfg e) (gs w) < DESIGNATION_RATE_LIMIT cfg"
    and "w1 = on_gs (record_signal_attempt (now_utc e) (claim_sub claims ''unknown'') (poisoned_node_id ev) ''designation'' ''PENDING'') w"
    and "designate_poison cfg e adapter hdr ev w = designation_transaction cfg e adapter ev (claim_sub claims ''unknown'') w1"
proof -
  obtain claims where c: "verify_role_jwt e hdr ''designator'' = Inr claims"
    using assms by (cases "verify_role_jwt e hdr ''designator''") (auto simp: designate_poison_def)
  have lim: "count_recent_signals (claim_sub claims ''unknown'') (horizon_start cfg e) (gs w) < DESIGNATION_RATE_LIMIT cfg"
    using assms by (auto simp: designate_poison_def c Let_def signal_limited_def split: if_splits)
  let ?w = "on_gs (record_signal_attempt (now_utc e) (claim_sub claims ''unknown'') (poisoned_node_id ev) ''designation'' ''PENDING'') w"
  have "designate_poison cfg e adapter hdr ev w = transaction (designation_transaction cfg e adapter ev (claim_sub claims ''unknown'')) ?w"
    using lim by (simp add: designate_poison_def c Let_def)
  moreover have "\<exists>r. fst (designation_transaction cfg e adapter ev (claim_sub claims ''unknown'') ?w) = Inr r"
    by (simp add: designation_transaction_run Let_def split_beta)
  ultimately show ?thesis using that [OF c lim refl] transaction_ok by metis
qed

lemma designated_effect:
  assumes "fst (designate_poison cfg e adapter hdr ev w) = Inr (Designated qe served)"
  shows "let s = gs w; s' = gs (snd (designate_poison cfg e adapter hdr ev w)); n = poisoned_node_id ev in
    (\<exists>claims. verify_role_jwt e hdr ''designator'' = Inr claims \<and>
       count_recent_signals (claim_sub claims ''unknown'') (horizon_start cfg e) s < DESIGNATION_RATE_LIMIT cfg) \<and>
    n \<in> set (keys (dag s)) \<and> n \<notin> set (quarantine_ledger s) \<and>
    set (quarantine_ledger s') = set (quarantine_ledger s) \<union> {m. (derives (dag s))\<^sup>*\<^sup>* n m} \<and>
    computed_blast_radius_C_p qe = fst (compute_blast_radius n s) \<and>
    quarantine_events s' = quarantine_events s @ [qe] \<and> (\<exists>new. dag s' = dag s @ new)"
proof -
  obtain claims w1 where c: "verify_role_jwt e hdr ''designator'' = Inr claims"
    "count_recent_signals (claim_sub claims ''unknown'') (horizon_start cfg e) (gs w) < DESIGNATION_RATE_LIMIT cfg"
    and w1: "w1 = on_gs (record_signal_attempt (now_utc e) (claim_sub claims ''unknown'') (poisoned_node_id ev) ''designation'' ''PENDING'') w"
    and run: "designate_poison cfg e adapter hdr ev w = designation_transaction cfg e adapter ev (claim_sub claims ''unknown'') w1"
    using assms by (rule designate_poison_run)
  have same: "dag (gs w1) = dag (gs w)" "quarantine_ledger (gs w1) = quarantine_ledger (gs w)"
    "quarantine_events (gs w1) = quarantine_events (gs w)"
    by (simp_all add: w1)
  have radius: "fst (compute_blast_radius m (gs w1)) = fst (compute_blast_radius m (gs w))" for m
    by (simp add: fst_compute_blast_radius same)
  have n: "poisoned_node_id ev \<in> set (keys (dag (gs w)))" "poisoned_node_id ev \<notin> set (quarantine_ledger (gs w))"
    and qe: "qe = fst (contain cfg e ev (claim_sub claims ''unknown'') None w1)"
    and w': "snd (designate_poison cfg e adapter hdr ev w) =
      aftermath cfg e adapter qe (snd (contain cfg e ev (claim_sub claims ''unknown'') None w1))"
    using assms unfolding run by (auto simp: designation_transaction_run same Let_def split_beta split: if_splits)
  note a = aftermath_adds [of "snd (contain cfg e ev (claim_sub claims ''unknown'') None w1)" cfg e adapter qe, unfolded adds_def contain_simps]
  show ?thesis
    using a c n unfolding Let_def w'
    by (auto simp: contain_simps same radius qe reach_from_def)
qed

section \<open>Properties\<close>

text \<open>C4: A successful designation contains the whole contamination: it comes from a designator below the rate limit, for a
  stored node that was not yet quarantined; afterwards the ledger is the old one plus exactly the nodes that
  derive from the designated one, the event logged and returned lists them in order, and no stored node was changed.\<close>

theorem designation_contains_closure:
  assumes "fst (designate_poison cfg e adapter hdr ev w) = Inr (Designated qe served)"
  shows "let s = gs w; s' = gs (snd (designate_poison cfg e adapter hdr ev w)); n = poisoned_node_id ev in
    (\<exists>claims. verify_role_jwt e hdr ''designator'' = Inr claims \<and>
       count_recent_signals (claim_sub claims ''unknown'') (horizon_start cfg e) s < DESIGNATION_RATE_LIMIT cfg) \<and>
    n \<in> set (keys (dag s)) \<and> n \<notin> set (quarantine_ledger s) \<and>
    set (quarantine_ledger s') = set (quarantine_ledger s) \<union> {m. (derives (dag s))\<^sup>*\<^sup>* n m} \<and>
    computed_blast_radius_C_p qe = fst (compute_blast_radius n s) \<and>
    quarantine_events s' = quarantine_events s @ [qe] \<and> (\<exists>new. dag s' = dag s @ new)"
  using assms by (rule designated_effect)

lemma designate_demo:
  "\<exists>qe sv. fst (designate_poison default_settings (role_env ''designator'') (\<lambda>_. Adapter_Timeout) (Some ''Bearer t'')
     \<lparr>poisoned_node_id = ''b'', de_reason = ''r''\<rparr> demo_recurrence_world) = Inr (Designated qe sv)"
  by (simp add: designate_poison_def verify_role_jwt_def role_env_def demo_recurrence_world_def init_world_def init_state_def
      count_recent_signals_def default_settings_def fst_transaction designation_transaction_run Let_def split_beta)

theorem designation_contains_closure_witness:
  "{m. (derives (dag (gs demo_recurrence_world)))\<^sup>*\<^sup>* ''b'' m} \<subseteq>
    set (quarantine_ledger (gs (snd (designate_poison default_settings (role_env ''designator'') (\<lambda>_. Adapter_Timeout) (Some ''Bearer t'')
     \<lparr>poisoned_node_id = ''b'', de_reason = ''r''\<rparr> demo_recurrence_world))))"
proof -
  obtain qe sv where "fst (designate_poison default_settings (role_env ''designator'') (\<lambda>_. Adapter_Timeout) (Some ''Bearer t'')
     \<lparr>poisoned_node_id = ''b'', de_reason = ''r''\<rparr> demo_recurrence_world) = Inr (Designated qe sv)" using designate_demo by blast
  from designation_contains_closure [OF this] show ?thesis by (simp add: Let_def)
qed

text \<open>Every record the gateway issues itself (seed roots, continuity records, inline reconstructions) passes the
  signature check that submitted writes pass, under the same hypothesis on the cryptography library.\<close>

theorem gateway_records_verify:
  assumes "gateway_crypto e"
  shows "verify_cryptographic_signature e (seed_payload e admin k (encode_raw (keygen e k)) i) \<and>
    verify_cryptographic_signature e (continuity_payload e ct tok wt i k (encode_raw (keygen e k)) c ps) \<and>
    verify_cryptographic_signature e (inline_candidate e f sn k (encode_raw (keygen e k)) i)"
proof (intro conjI)
  show "verify_cryptographic_signature e (seed_payload e admin k (encode_raw (keygen e k)) i)"
    by (rule gateway_signature [OF assms]) (simp_all add: seed_payload_def Let_def nhi_identity_def)
  show "verify_cryptographic_signature e (continuity_payload e ct tok wt i k (encode_raw (keygen e k)) c ps)"
    by (rule gateway_signature [OF assms]) (simp_all add: continuity_payload_def nhi_identity_def)
  show "verify_cryptographic_signature e (inline_candidate e f sn k (encode_raw (keygen e k)) i)"
    by (rule inline_candidate_signed [OF assms])
qed

theorem gateway_records_verify_witness:
  "verify_cryptographic_signature (demo_env\<lparr>keygen := \<lambda>k. (7, 9), key_sign := \<lambda>k m. (7, 9)\<rparr>)
     (seed_payload (demo_env\<lparr>keygen := \<lambda>k. (7, 9), key_sign := \<lambda>k m. (7, 9)\<rparr>) ''alice'' 0 (encode_raw (7, 9)) ''root-2'')"
proof -
  have "gateway_crypto (demo_env\<lparr>keygen := \<lambda>k. (7, 9), key_sign := \<lambda>k m. (7, 9)\<rparr>)"
    by (simp add: gateway_crypto_def demo_env_def)
  from gateway_records_verify [OF this, of "''alice''" 0 "''root-2''"] show ?thesis by simp
qed

end
