(* ===== verification/Detectors.thy ===== *)
theory Detectors
  imports Designate
begin

text \<open>
  Detector ingestion: the adapters of \<open>src/detectors\<close> (\<open>HumanReportAdapter\<close>, \<open>AMGAdapter\<close>, the registry) and the handler
  \<open>/detector/{source}\<close> (\<open>ingest_detector_event\<close>). A raw event is a JSON object; where the source calls a method
  that the value lacks, or builds a \<open>DesignationEvent\<close> from a value of the wrong type, the request ends in status 500.
  Every inbound event is recorded before it is interpreted.
\<close>

section \<open>Reading JSON\<close>

definition lower_char :: "char \<Rightarrow> char" where
  "lower_char c = (let n = (of_char c :: nat) in if 65 \<le> n \<and> n \<le> 90 then char_of (n + 32) else c)"

definition lower :: "string \<Rightarrow> string" where
  "lower s = map lower_char s"

definition server_error :: "'a result" where
  "server_error = Inl (HTTPException 500 ''Internal Server Error'')"

text \<open>\<open>raw_event.get(k, d).lower()\<close>.\<close>

definition get_lower :: "json_object \<Rightarrow> string \<Rightarrow> string \<Rightarrow> string result" where
  "get_lower ev k d = (case map_of ev k of None \<Rightarrow> Inr (lower d) | Some (JStr s) \<Rightarrow> Inr (lower s) | _ \<Rightarrow> server_error)"

text \<open>\<open>raw_event.get("gasc_node_id") or metadata.get("gasc_node_id")\<close>, with \<open>metadata\<close> defaulting to an empty object.\<close>

definition metadata_get :: "json_object \<Rightarrow> string \<Rightarrow> json option result" where
  "metadata_get ev k = (case map_of ev ''metadata'' of None \<Rightarrow> Inr None | Some (JObj m) \<Rightarrow> Inr (map_of m k) | _ \<Rightarrow> server_error)"

definition falsy :: "json option \<Rightarrow> bool" where
  "falsy x = (case x of None \<Rightarrow> True | Some j \<Rightarrow> \<not> jtruthy j)"

definition amg_node_id :: "json_object \<Rightarrow> json option result" where
  "amg_node_id ev = (if \<not> falsy (map_of ev ''gasc_node_id'') then Inr (map_of ev ''gasc_node_id'') else metadata_get ev ''gasc_node_id'')"

section \<open>Adapters\<close>

datatype adapted = Dropped string | Fields (f_node: json) (f_detected_at: json) (f_source: string) (f_confidence: rat) (f_reason: json)

definition human_report :: "env \<Rightarrow> json_object \<Rightarrow> adapted result" where
  "human_report e ev =
     (if falsy (map_of ev ''node_id'') then Inr (Dropped ''missing required field: node_id'')
      else case (case map_of ev ''confidence_score'' of None \<Rightarrow> Some 1 | Some (JNum q) \<Rightarrow> Some q
                   | Some (JBool b) \<Rightarrow> Some (if b then 1 else 0) | Some (JStr x) \<Rightarrow> float_of e x | _ \<Rightarrow> None) of
        None \<Rightarrow> server_error
      | Some conf \<Rightarrow> Inr (Fields (the (map_of ev ''node_id''))
          (case map_of ev ''detected_at_utc'' of None \<Rightarrow> JStr (now_utc e) | Some t \<Rightarrow> t) ''human_report'' conf
          (case map_of ev ''reason'' of None \<Rightarrow> JStr ''Human-reported incident'' | Some r \<Rightarrow> r)))"

text \<open>Which of the retroactive detections an event shows; the strings are the parts of the reason.\<close>

definition amg_reasons :: "string \<Rightarrow> string \<Rightarrow> json option \<Rightarrow> bool \<Rightarrow> string list" where
  "amg_reasons action operation detector retired =
     (if detector = Some (JStr ''protected_key'') then [''SHA-256 baseline tampering detected by protected_key''] else []) @
     (if action = ''quarantine'' \<and> operation \<noteq> ''write'' then [''quarantine of stored content (operation='' @ operation @ '')''] else []) @
     (if detector = Some (JStr ''self_reinforcement'') \<and> action \<noteq> ''block''
      then [''self-reinforcement loop detected (action='' @ action @ '')''] else []) @
     (if operation = ''lifecycle'' \<and> retired then [''retire_if predicate fired''] else [])"

text \<open>\<open>detector in _TAMPER_DETECTORS\<close> raises for a list or an object.\<close>

definition unhashable :: "json option \<Rightarrow> bool" where
  "unhashable d = (case d of Some (JArr xs) \<Rightarrow> True | Some (JObj o') \<Rightarrow> True | _ \<Rightarrow> False)"

definition severity_confidence :: "json option \<Rightarrow> rat" where
  "severity_confidence sev =
     (case sev of Some (JStr s) \<Rightarrow>
        (case map_of [(''critical'', 1), (''high'', 9 / 10), (''medium'', 7 / 10), (''low'', 1 / 2), (''info'', 3 / 10)] (lower s) of
           None \<Rightarrow> 7 / 10 | Some c \<Rightarrow> c)
      | _ \<Rightarrow> 7 / 10)"

fun join_reasons :: "string list \<Rightarrow> string" where
  "join_reasons [] = []"
| "join_reasons [r] = r"
| "join_reasons (r # rs) = r @ ''; '' @ join_reasons rs"

text \<open>
  \<open>AMGAdapter.to_designation\<close>. A numeric \<open>timestamp\<close> is converted with the clock function of the environment (in
  seconds), any other event keeps its \<open>detected_at_utc\<close>.
\<close>

definition amg_detected_at :: "env \<Rightarrow> json_object \<Rightarrow> json" where
  "amg_detected_at e ev =
     (case map_of ev ''timestamp'' of
        Some (JNum q) \<Rightarrow> JStr (iso e \<lfloor>q * 1000000\<rfloor>)
      | Some (JBool b) \<Rightarrow> JStr (iso e (if b then 1000000 else 0))
      | _ \<Rightarrow> (case map_of ev ''detected_at_utc'' of None \<Rightarrow> JStr (now_utc e) | Some t \<Rightarrow> t))"

definition amg_classify :: "env \<Rightarrow> json_object \<Rightarrow> string \<Rightarrow> string \<Rightarrow> json option \<Rightarrow> adapted result" where
  "amg_classify e ev action operation node =
     (if falsy node then Inr (Dropped ''no gasc_node_id in event or metadata'')
      else if action = ''allow'' then Inr (Dropped ''action=allow, no threat detected'')
      else if action = ''redact'' then Inr (Dropped ''action=redact, content modified at ingress, not a designation'')
      else if action = ''block'' \<and> operation = ''write''
      then Inr (Dropped ''ingress block: AMG blocked write before storage'')
      else if unhashable (map_of ev ''detector'') then server_error
      else case (if operation = ''lifecycle'' then metadata_get ev ''pre_snapshot_id'' else Inr None) of Inl ex \<Rightarrow> Inl ex
        | Inr snap \<Rightarrow>
          (let reasons = amg_reasons action operation (map_of ev ''detector'') (\<not> falsy snap)
           in if reasons = [] then Inr (Dropped ''event does not indicate retroactive detection'')
              else Inr (Fields (the node) (amg_detected_at e ev) ''amg_tamper_check''
                     (severity_confidence (map_of ev ''severity'')) (JStr (join_reasons reasons)))))"

definition amg :: "env \<Rightarrow> json_object \<Rightarrow> adapted result" where
  "amg e ev =
     (case get_lower ev ''action'' [] of Inl ex \<Rightarrow> Inl ex
      | Inr action \<Rightarrow> (case get_lower ev ''operation'' ''write'' of Inl ex \<Rightarrow> Inl ex
      | Inr operation \<Rightarrow> (case amg_node_id ev of Inl ex \<Rightarrow> Inl ex
      | Inr node \<Rightarrow> amg_classify e ev action operation node)))"

definition detector_adapter :: "env \<Rightarrow> string \<Rightarrow> (json_object \<Rightarrow> adapted result) option" where
  "detector_adapter e source =
     (if source = ''human_report'' then Some (human_report e)
      else if source = ''amg'' then Some (amg e) else None)"

text \<open>\<open>DesignationEvent(**designation_fields)\<close>: the model requires strings for node, time and reason.\<close>

definition designation_of :: "adapted \<Rightarrow> designation_event result" where
  "designation_of a =
     (case a of Fields (JStr n) (JStr t) src conf (JStr r) \<Rightarrow> Inr \<lparr>poisoned_node_id = n, de_reason = r\<rparr> | _ \<Rightarrow> server_error)"

section \<open>The handler\<close>

datatype detector_response =
    Not_Designated string
  | Detector_Already_Quarantined
  | Detector_Designated quarantine_event "served list"

text \<open>\<open>raw_event.get("event_id", uuid4())\<close>: the default is drawn in any case.\<close>

definition raw_record :: "env \<Rightarrow> string \<Rightarrow> json_object \<Rightarrow> string \<Rightarrow> detector_event" where
  "raw_record e source ev u = \<lparr>detector_event_id = (case map_of ev ''event_id'' of Some (JStr i) \<Rightarrow> i | _ \<Rightarrow> u),
     detector_event_source = source, raw_event = ev, received_at_utc = now_utc e, detector_outcome = None\<rparr>"

text \<open>The stored record is the dictionary the handler later marks, so the outcome reaches this backend.\<close>

definition set_outcome :: "string \<Rightarrow> gstate \<Rightarrow> gstate" where
  "set_outcome out s = s\<lparr>detector_events := butlast (detector_events s) @
     (if detector_events s = [] then [] else [(last (detector_events s))\<lparr>detector_outcome := Some out\<rparr>])\<rparr>"

definition detector_containment ::
    "settings \<Rightarrow> env \<Rightarrow> (reconstruct_request \<Rightarrow> adapter_reply) \<Rightarrow> string \<Rightarrow> designation_event \<Rightarrow> string \<Rightarrow> world
     \<Rightarrow> detector_response result \<times> world" where
  "detector_containment cfg e adapter source ev who w =
     (let n = poisoned_node_id ev in
      if \<not> get_bool (nodes_exist [n] (gs w)) n then (Inl (HTTPException 404 ''Node ID not found in DAG''), w)
      else if get_bool (are_quarantined [n] (gs w)) n then (Inr Detector_Already_Quarantined, w)
      else let (qe, w1) = contain cfg e ev who (Some source) w;
               (served, w2) = attempt_safe_continuity cfg e (computed_blast_radius_C_p qe) (detected_at_utc qe) w1;
               w3 = attempt_reconstruction cfg e adapter n w2
           in (Inr (Detector_Designated qe served), on_gs (set_outcome ''designated'') w3))"

definition ingest_detector_event ::
    "settings \<Rightarrow> env \<Rightarrow> (reconstruct_request \<Rightarrow> adapter_reply) \<Rightarrow> string option \<Rightarrow> string \<Rightarrow> json_object \<Rightarrow> world
     \<Rightarrow> detector_response result \<times> world" where
  "ingest_detector_event cfg e adapter hdr source ev w =
     (case verify_role_jwt e hdr ''designator'' of Inl ex \<Rightarrow> (Inl ex, w)
      | Inr claims \<Rightarrow>
        (case detector_adapter e source of
           None \<Rightarrow> (Inl (HTTPException 400 ''Unknown detector source''), w)
         | Some adapt \<Rightarrow>
           (let (u, w1) = fresh_uuid e w;
                w2 = on_gs (record_detector_event (raw_record e source ev u)) w1
            in case adapt ev of
                 Inl ex \<Rightarrow> (Inl ex, w2)
               | Inr (Dropped why) \<Rightarrow> (Inr (Not_Designated why), on_gs (set_outcome ''dropped'') w2)
               | Inr a \<Rightarrow>
                 (case designation_of a of Inl ex \<Rightarrow> (Inl ex, w2)
                  | Inr de \<Rightarrow>
                    (let who = claim_sub claims (''detector:'' @ source) in
                     if count_recent_signals who (horizon_start cfg e) (gs w2) \<ge> DESIGNATION_RATE_LIMIT cfg
                     then signal_limited (now_utc e) who (poisoned_node_id de) ''designation'' ''Rate limit exceeded for designations'' w2
                     else detector_containment cfg e adapter source de who
                            (on_gs (record_signal_attempt (now_utc e) who (poisoned_node_id de) ''designation'' ''PENDING'') w2))))))"

section \<open>What the adapters let through\<close>

lemma server_error_simps [simp]: "server_error \<noteq> Inr x"
  by (simp add: server_error_def)

lemma amg_reasons_justified:
  "amg_reasons action operation detector retired \<noteq> [] \<Longrightarrow>
     detector \<in> {Some (JStr ''protected_key''), Some (JStr ''self_reinforcement'')} \<or>
     (action = ''quarantine'' \<and> operation \<noteq> ''write'') \<or> operation = ''lifecycle''"
  by (auto simp: amg_reasons_def split: if_splits)

lemma severity_range: "3 / 10 \<le> severity_confidence sev \<and> severity_confidence sev \<le> 1"
  by (auto simp: severity_confidence_def split: option.split json.split if_splits dest!: map_of_SomeD)

lemma amg_classify_fields:
  assumes "amg_classify e ev action operation node = Inr (Fields n t src conf r)"
  shows "\<not> falsy node" and "action \<notin> {''allow'', ''redact''}" and "\<not> (action = ''block'' \<and> operation = ''write'')"
    and "n = the node" and "src = ''amg_tamper_check''" and "conf = severity_confidence (map_of ev ''severity'')"
    and "\<exists>retired. amg_reasons action operation (map_of ev ''detector'') retired \<noteq> []"
proof -
  show g: "\<not> falsy node" and g2: "action \<notin> {''allow'', ''redact''}" and g3: "\<not> (action = ''block'' \<and> operation = ''write'')"
    using assms unfolding amg_classify_def by (auto split: if_split_asm)
  have "\<not> unhashable (map_of ev ''detector'')"
    using assms g g2 g3 unfolding amg_classify_def by (simp split: if_split_asm)
  with assms g g2 g3 obtain snap where "(let reasons = amg_reasons action operation (map_of ev ''detector'') (\<not> falsy snap)
           in if reasons = [] then Inr (Dropped ''event does not indicate retroactive detection'')
              else Inr (Fields (the node) (amg_detected_at e ev) ''amg_tamper_check''
                     (severity_confidence (map_of ev ''severity'')) (JStr (join_reasons reasons)))) = (Inr (Fields n t src conf r) :: adapted result)"
    unfolding amg_classify_def by (simp split: if_split_asm sum.split_asm)
  then have "amg_reasons action operation (map_of ev ''detector'') (\<not> falsy snap) \<noteq> [] \<and> n = the node \<and>
      src = ''amg_tamper_check'' \<and> conf = severity_confidence (map_of ev ''severity'')"
    by (simp add: Let_def split: if_split_asm)
  then show "n = the node" "src = ''amg_tamper_check''" "conf = severity_confidence (map_of ev ''severity'')"
    "\<exists>retired. amg_reasons action operation (map_of ev ''detector'') retired \<noteq> []" by blast+
qed

section \<open>Properties\<close>

text \<open>A memory-guard event becomes a designation only if it reports stored content: never for an allowed, redacted or
  write-blocked event, only with a node identifier, and only for protected-key tampering, a self-reinforcement
  loop, a quarantine of stored content or a lifecycle retirement; the confidence lies between 0.3 and 1.\<close>

theorem ingress_blocks_are_not_designations:
  assumes "amg e ev = Inr (Fields n t src conf r)"
  shows "\<exists>action operation. get_lower ev ''action'' [] = Inr action \<and> get_lower ev ''operation'' ''write'' = Inr operation \<and>
    action \<notin> {''allow'', ''redact''} \<and> \<not> (action = ''block'' \<and> operation = ''write'') \<and> jtruthy n \<and>
    (map_of ev ''detector'' \<in> {Some (JStr ''protected_key''), Some (JStr ''self_reinforcement'')} \<or>
     (action = ''quarantine'' \<and> operation \<noteq> ''write'') \<or> operation = ''lifecycle'') \<and>
    src = ''amg_tamper_check'' \<and> 3 / 10 \<le> conf \<and> conf \<le> 1"
proof -
  obtain action where a: "get_lower ev ''action'' [] = Inr action"
    using assms by (cases "get_lower ev ''action'' []") (simp_all add: amg_def)
  obtain operation where o: "get_lower ev ''operation'' ''write'' = Inr operation"
    using assms by (cases "get_lower ev ''operation'' ''write''") (simp_all add: amg_def a)
  obtain node where nd: "amg_node_id ev = Inr node"
    using assms by (cases "amg_node_id ev") (simp_all add: amg_def a o)
  have "amg_classify e ev action operation node = Inr (Fields n t src conf r)"
    using assms by (simp add: amg_def a o nd)
  note c = amg_classify_fields [OF this]
  obtain x where "node = Some x" "jtruthy x" using c(1) by (cases node) (simp_all add: falsy_def)
  then have n: "jtruthy n" using c(4) by simp
  obtain retired where "amg_reasons action operation (map_of ev ''detector'') retired \<noteq> []" using c(7) by blast
  then have why: "map_of ev ''detector'' \<in> {Some (JStr ''protected_key''), Some (JStr ''self_reinforcement'')} \<or>
     (action = ''quarantine'' \<and> operation \<noteq> ''write'') \<or> operation = ''lifecycle''"
    by (rule amg_reasons_justified)
  have range: "3 / 10 \<le> conf" "conf \<le> 1" unfolding c(6) using severity_range by blast+
  show ?thesis
    by (intro exI conjI) (rule a, rule o, rule c, rule c, rule n, rule why, rule c, rule range, rule range)
qed

definition demo_amg_event :: json_object where
  "demo_amg_event = [(''action'', JStr ''quarantine''), (''operation'', JStr ''read''), (''gasc_node_id'', JStr ''b''),
     (''severity'', JStr ''high'')]"

theorem ingress_blocks_are_not_designations_witness:
  "\<exists>conf. amg demo_env demo_amg_event = Inr (Fields (JStr ''b'') (JStr ''2026'') ''amg_tamper_check'' conf
     (JStr ''quarantine of stored content (operation=read)'')) \<and> conf \<le> 1"
proof -
  have low: "lower ''quarantine'' = ''quarantine''" "lower ''read'' = ''read''" "lower ''high'' = ''high''" by code_simp+
  have ev: "amg demo_env demo_amg_event = Inr (Fields (JStr ''b'') (JStr ''2026'') ''amg_tamper_check'' (9 / 10)
     (JStr ''quarantine of stored content (operation=read)''))"
    by (simp add: amg_def amg_classify_def demo_amg_event_def get_lower_def low amg_node_id_def falsy_def
        unhashable_def amg_reasons_def Let_def amg_detected_at_def now_utc_def demo_env_def severity_confidence_def)
  from ingress_blocks_are_not_designations [OF this] have "(9 / 10 :: rat) \<le> 1" by (elim exE conjE)
  with ev show ?thesis by (intro exI conjI)
qed

lemma set_outcome_events:
  "detector_events s \<noteq> [] \<Longrightarrow> length (detector_events (set_outcome out s)) = length (detector_events s) \<and>
     map raw_event (detector_events (set_outcome out s)) = map raw_event (detector_events s)"
  by (cases "detector_events s" rule: rev_cases) (simp_all add: set_outcome_def)

lemma detector_containment_events:
  assumes "detector_events (gs w) \<noteq> []"
  shows "map raw_event (detector_events (gs (snd (detector_containment cfg e adapter source de who w)))) =
    map raw_event (detector_events (gs w))"
  using assms set_outcome_events by (simp add: detector_containment_def Let_def split_beta contain_simps)

text \<open>Every inbound detector event is recorded exactly once, whatever becomes of it: dropped, malformed, rate-limited, unknown
  node, already quarantined or designated.\<close>

theorem detector_events_recorded:
  assumes "verify_role_jwt e hdr ''designator'' = Inr claims" and "source \<in> {''human_report'', ''amg''}"
  shows "map raw_event (detector_events (gs (snd (ingest_detector_event cfg e adapter hdr source ev w)))) =
    map raw_event (detector_events (gs w)) @ [ev]"
proof -
  obtain adapt where a: "detector_adapter e source = Some adapt" using assms(2) by (auto simp: detector_adapter_def)
  have raw: "raw_event (raw_record e source ev u) = ev" for u by (simp add: raw_record_def)
  have out: "map raw_event (detector_events (set_outcome out (record_detector_event (raw_record e source ev u) (gs w)))) =
      map raw_event (detector_events (gs w)) @ [ev]" for out u
    by (simp add: set_outcome_def record_detector_event_def raw)
  show ?thesis
    using detector_containment_events out
    by (simp add: ingest_detector_event_def assms(1) a Let_def split_beta fresh_uuid_def record_detector_event_def raw
        split: sum.split adapted.split)
qed

theorem detector_events_recorded_witness:
  "map raw_event (detector_events (gs (snd (ingest_detector_event default_settings (role_env ''designator'') (\<lambda>_. Adapter_Timeout)
     (Some ''Bearer t'') ''amg'' [] init_world)))) = [[]]"
proof -
  have "verify_role_jwt (role_env ''designator'') (Some ''Bearer t'') ''designator'' =
      Inr [(''role'', JStr ''designator''), (''sub'', JStr ''alice'')]"
    by (simp add: verify_role_jwt_def role_env_def)
  from detector_events_recorded [OF this, of "''amg''"] show ?thesis by (simp add: init_world_def init_state_def)
qed

end
