(* ===== verification/Containment.thy ===== *)
theory Containment
  imports Designate
begin

text \<open>
  The containment invariant: every stored node that has a quarantined parent or covers a quarantined
  node is itself quarantined. The report \<open>/measured-cost\<close> counts its violations as
  containment breaches. The interface \<open>containment_store\<close> states what containment needs of a store
  (commit, blast radius, quarantine); the invariant is proved for it once and the
  interpretation on the memory backend discharges the laws. The handlers keep the invariant under conditions
  that are spelled out; for each condition a theorem shows that it is needed.
\<close>

section \<open>The invariant\<close>

definition closed_under :: "('a \<Rightarrow> 'a \<Rightarrow> bool) \<Rightarrow> 'a set \<Rightarrow> bool" where
  "closed_under E A \<longleftrightarrow> (\<forall>x\<in>A. \<forall>y. E x y \<longrightarrow> y \<in> A)"

definition contained :: "gstate \<Rightarrow> bool" where
  "contained s \<longleftrightarrow> closed_under (derives (dag s)) (set (quarantine_ledger s))"

text \<open>The loop of \<open>/measured-cost\<close> that collects the escape set.\<close>

definition breach :: "gstate \<Rightarrow> node_id \<times> payload \<Rightarrow> bool" where
  "breach s nn = (case nn of (nid, nd) \<Rightarrow>
     if nid \<in> set (quarantine_ledger s) then False
     else if list_ex (\<lambda>p. p \<in> set (quarantine_ledger s)) (parent_ids nd) then True
     else list_ex (\<lambda>c. c \<in> set (quarantine_ledger s)) (covers nd))"

definition containment_breaches :: "gstate \<Rightarrow> node_id list" where
  "containment_breaches s = map fst (filter (breach s) (dag s))"

lemma closed_underD: "closed_under E A \<Longrightarrow> x \<in> A \<Longrightarrow> E x y \<Longrightarrow> y \<in> A"
  by (auto simp: closed_under_def)

lemma closed_under_reach: "closed_under E A \<Longrightarrow> closed_under E (A \<union> reach_from E R)"
  unfolding closed_under_def by (auto intro: reach_from_step)

section \<open>What containment needs of a store\<close>

locale containment_store =
  fixes edge :: "'s \<Rightarrow> node_id \<Rightarrow> node_id \<Rightarrow> bool"
    and known :: "'s \<Rightarrow> node_id set"
    and ledger :: "'s \<Rightarrow> node_id set"
    and ident :: "'p \<Rightarrow> node_id"
    and sources :: "'p \<Rightarrow> node_id set"
    and commit :: "'p \<Rightarrow> 's \<Rightarrow> 's"
    and radius :: "node_id \<Rightarrow> 's \<Rightarrow> node_id list \<times> 's"
    and quarantine :: "'e \<Rightarrow> node_id list \<Rightarrow> 's \<Rightarrow> 's"
  assumes commit_edge: "edge (commit p s) c n \<longleftrightarrow> edge s c n \<or> (ident p \<notin> known s \<and> n = ident p \<and> c \<in> sources p)"
    and commit_ledger: "ledger (commit p s) = ledger s"
    and radius_set: "set (fst (radius r s)) = reach_from (edge s) {r}"
    and radius_edge: "edge (snd (radius r s)) = edge s"
    and radius_ledger: "ledger (snd (radius r s)) = ledger s"
    and quarantine_edge: "edge (quarantine ev ids s) = edge s"
    and quarantine_ledger: "ledger (quarantine ev ids s) = ledger s \<union> set ids"
begin

definition safe :: "'s \<Rightarrow> bool" where
  "safe s \<longleftrightarrow> closed_under (edge s) (ledger s)"

lemma designation_safe: "safe s \<Longrightarrow> safe (quarantine ev (fst (radius r s)) (snd (radius r s)))"
  by (simp add: safe_def quarantine_edge quarantine_ledger radius_set radius_edge radius_ledger closed_under_reach)

lemma clean_commit_safe: "safe s \<Longrightarrow> sources p \<inter> ledger s = {} \<Longrightarrow> safe (commit p s)"
  by (auto simp: safe_def closed_under_def commit_edge commit_ledger)

lemma refused_commit_safe:
  assumes "safe s" and "ident p \<notin> known s \<or> ident p \<in> ledger s \<or> sources p \<inter> ledger s = {}"
    and "\<And>n. edge s (ident p) n \<Longrightarrow> n \<in> ledger s \<or> n = ident p"
  shows "safe (quarantine ev [ident p] (commit p s))"
  using assms by (auto simp: safe_def closed_under_def commit_edge commit_ledger quarantine_edge quarantine_ledger)

lemma refused_commit_breach:
  assumes "edge s (ident p) n" and "n \<notin> ledger s" and "n \<noteq> ident p"
  shows "\<not> safe (quarantine ev [ident p] (commit p s))"
  using assms by (auto simp: safe_def closed_under_def commit_edge commit_ledger quarantine_edge quarantine_ledger)

end

lemma derives_commit_node:
  "derives (dag (snd (commit_node p s))) c n \<longleftrightarrow>
     derives (dag s) c n \<or> (payload_id p \<notin> set (keys (dag s)) \<and> n = payload_id p \<and> c \<in> set (parent_ids p) \<union> set (covers p))"
  by (auto simp: derives_def mem_commit_node touches_def)

interpretation cs: containment_store "\<lambda>s. derives (dag s)" "\<lambda>s. set (keys (dag s))" "\<lambda>s. set (Memory_Backend.quarantine_ledger s)"
  payload_id "\<lambda>p. set (parent_ids p) \<union> set (covers p)" "\<lambda>p s. snd (commit_node p s)"
  compute_blast_radius apply_quarantine_transaction
  by unfold_locales (auto simp: derives_commit_node set_blast_radius)

lemma safe_contained: "cs.safe s \<longleftrightarrow> contained s"
  by (simp add: cs.safe_def contained_def)

lemma contained_cong:
  "dag s = dag t \<Longrightarrow> set (quarantine_ledger s) = set (quarantine_ledger t) \<Longrightarrow> contained s \<longleftrightarrow> contained t"
  by (simp add: contained_def)

text \<open>New nodes without quarantined sources keep the invariant.\<close>

lemma contained_adds:
  assumes "adds Q s s'" and "contained s"
    and "\<And>n nd. Q n nd \<Longrightarrow> (set (parent_ids nd) \<union> set (covers nd)) \<inter> set (quarantine_ledger s) = {}"
  shows "contained s'"
proof -
  obtain new where new: "dag s' = dag s @ new" "\<forall>(n, nd)\<in>set new. Q n nd" and l: "quarantine_ledger s' = quarantine_ledger s"
    using assms(1) unfolding adds_def by fast
  have "derives (dag s) c n" if "derives (dag s') c n" "c \<in> set (quarantine_ledger s)" for c n
    using that assms(3) new by (fastforce simp: derives_def touches_def)
  then show ?thesis using assms(2) by (auto simp: contained_def closed_under_def l)
qed

section \<open>Handlers\<close>

lemma contain_contained: "contained (gs w) \<Longrightarrow> contained (gs (snd (contain cfg e ev who src w)))"
  using closed_under_reach by (auto simp: contained_def contain_simps)

lemma refuse_tainted_eq:
  "contained (gs (snd (refuse_tainted cfg e p proot w))) \<longleftrightarrow>
     (\<forall>ev. contained (apply_quarantine_transaction ev [payload_id p] (snd (commit_node p (gs w)))))"
proof -
  have "contained (gs (snd (refuse_tainted cfg e p proot w))) \<longleftrightarrow>
      contained (apply_quarantine_transaction ev [payload_id p] (snd (commit_node p (gs w))))" for ev
    by (rule contained_cong) (simp_all add: refuse_tainted_effect)
  then show ?thesis by simp
qed

text \<open>The quarantine count of the cost report is exact: the escape set it publishes is empty if and only if the
  containment invariant holds, and otherwise names the stored nodes outside the quarantine that derive
  directly from quarantined material.\<close>

theorem breaches_measure_containment:
  "(containment_breaches s = [] \<longleftrightarrow> contained s) \<and>
   set (containment_breaches s) = {n. n \<notin> set (quarantine_ledger s) \<and> (\<exists>c. c \<in> set (quarantine_ledger s) \<and> derives (dag s) c n)}"
proof -
  have "set (containment_breaches s) = {n. n \<notin> set (quarantine_ledger s) \<and> (\<exists>c. c \<in> set (quarantine_ledger s) \<and> derives (dag s) c n)}"
    by (force simp: containment_breaches_def breach_def derives_def touches_def list_ex_iff image_iff split: if_splits prod.splits)
  moreover from this have "containment_breaches s = [] \<longleftrightarrow> contained s"
    unfolding set_empty [symmetric] by (auto simp: contained_def closed_under_def)
  ultimately show ?thesis by blast
qed

lemma admission_contained:
  assumes "contained (gs w)" and "fst (admission_transaction cfg e rego_engine p auth w) = Inr r"
    and "ENFORCEMENT_MODE cfg \<noteq> ''shadow''" and "node_type p = Some ''COMPACTION'' \<or> covers p = []"
    and "payload_id p \<notin> set (keys (dag (gs w)))" and "\<And>n. \<not> derives (dag (gs w)) (payload_id p) n"
  shows "contained (gs (snd (admission_transaction cfg e rego_engine p auth w)))"
proof -
  let ?p = "with_gap (gs w) p"
  obtain d where d: "evaluate_admission rego_engine (epoch_of e) ?p (parent_ids p)
          (nodes_exist (parent_ids p) (gs w)) (are_quarantined (parent_ids p) (gs w)) auth = Inr d"
    by (simp add: evaluate_admission_rego)
  have cov: "tainted_covers (gs w) p = []" and tx: "admission_transaction cfg e rego_engine p auth w =
      enforce_decision cfg e ?p (get_node_content_hashes (parent_ids p) (gs w)) d w"
    using assms(2,3) by (auto simp: admission_transaction_def Let_def d split: if_splits)
  show ?thesis
  proof (cases d)
    case (Deny why proot)
    have "contained (apply_quarantine_transaction ev [payload_id ?p] (snd (commit_node ?p (gs w))))" for ev
      using cs.refused_commit_safe [of "gs w" ?p ev] assms(1,5,6) by (simp add: safe_contained)
    moreover have "contained (record_shadow_decision True (gs w))"
      using assms(1) by (simp add: contained_cong [of "record_shadow_decision True (gs w)" "gs w"])
    ultimately show ?thesis
      by (simp add: tx Deny enforce_decision_def split_beta Let_def refuse_tainted_eq)
  next
    case Admit
    have "set (parent_ids p) \<inter> set (quarantine_ledger (gs w)) = {}"
      using d unfolding Admit admission_iff by blast
    moreover have "set (covers p) \<inter> set (quarantine_ledger (gs w)) = {}"
      using cov assms(4) by (auto simp: tainted_covers_Nil)
    ultimately have "contained (snd (commit_node ?p (gs w)))"
      using cs.clean_commit_safe [of "gs w" ?p] assms(1) by (auto simp: safe_contained)
    then show ?thesis
      using assms(1)
      by (simp add: tx Admit enforce_decision_def split_beta Let_def)
        (simp add: contained_def)
  qed
qed

section \<open>Properties\<close>

text \<open>C6: A submission keeps the containment invariant, whatever its outcome, in enforcing mode, if its identifier is
  new (neither stored nor referred to by a stored node) and only compactions carry covers.\<close>

theorem submit_keeps_containment:
  assumes "contained (gs w)" and "ENFORCEMENT_MODE cfg \<noteq> ''shadow''"
    and "\<And>p. body_json req = Some p \<Longrightarrow> (node_type p = Some ''COMPACTION'' \<or> covers p = []) \<and>
      payload_id p \<notin> set (keys (dag (gs w))) \<and> (\<forall>n. \<not> derives (dag (gs w)) (payload_id p) n)"
  shows "contained (gs (snd (submit_candidate cfg e rego_engine validate req w)))"
proof (cases "fst (submit_candidate cfg e rego_engine validate req w)")
  case (Inl ex)
  then have "gs (snd (submit_candidate cfg e rego_engine validate req w)) = gs w"
    using transaction_rollback by (fastforce simp: submit_candidate_def split: sum.splits)
  then show ?thesis using assms(1) by simp
next
  case (Inr r)
  then obtain p auth where g: "submit_gate cfg e validate req = Inr (p, auth)"
    and c: "fst (admission_transaction cfg e rego_engine p auth (snd (fresh_uuid e w))) = Inr r"
    and eq: "submit_candidate cfg e rego_engine validate req w = admission_transaction cfg e rego_engine p auth (snd (fresh_uuid e w))"
    by (rule submit_InrE)
  then have "body_json req = Some p" by (simp add: submit_gate_passed)
  from assms(3) [OF this] show ?thesis
    using admission_contained [OF _ c assms(2)] assms(1) by (simp add: eq)
qed

lemma contained_init: "contained (gs init_world)"
  by (simp add: contained_def closed_under_def derives_def touches_def init_world_def init_state_def parent_ids_def)

theorem submit_keeps_containment_witness:
  "contained (gs (snd (submit_candidate enforcing submit_env rego_engine (\<lambda>_. None)
     (demo_request [] ''x'' ''quarantined-node-A'') init_world)))"
proof (rule submit_keeps_containment [OF contained_init enforcing_mode])
  fix p
  assume "body_json (demo_request [] ''x'' ''quarantined-node-A'') = Some p"
  then have "p = demo_write [] ''x'' ''quarantined-node-A''" by (simp add: demo_request_def)
  then show "(node_type p = Some ''COMPACTION'' \<or> covers p = []) \<and>
      payload_id p \<notin> set (keys (dag (gs init_world))) \<and> (\<forall>n. \<not> derives (dag (gs init_world)) (payload_id p) n)"
    by (simp add: derives_def touches_def init_world_def init_state_def parent_ids_def)
qed

text \<open>The condition on the identifier is needed: if the identifier of a refused write already has a dependent in the
  graph that is not quarantined, the refusal quarantines the identifier and leaves that dependent out, although the handler has
  computed the blast radius. This happens when a stored clean identifier is submitted again with a quarantined
  parent, or when a compaction covered the identifier before it existed.\<close>

theorem refusal_leaves_dependents_out:
  assumes "fst (submit_candidate cfg e rego_engine validate req w) = Inr (Refused_Tainted info)"
    and "body_json req = Some p" and "derives (dag (gs w)) (payload_id p) n"
    and "n \<notin> set (quarantine_ledger (gs w))" and "n \<noteq> payload_id p"
  shows "\<not> contained (gs (snd (submit_candidate cfg e rego_engine validate req w)))"
proof -
  obtain t where "snd (submit_candidate cfg e rego_engine validate req w) =
      snd (refuse_tainted cfg e (with_gap (gs w) p) t (snd (fresh_uuid e w)))"
    using submit_taintedE [OF assms(1)] assms(2) by (metis option.inject)
  then show ?thesis
    using cs.refused_commit_breach [of "gs w" "with_gap (gs w) p" n] assms(3-5)
    by (simp add: refuse_tainted_eq safe_contained)
qed

text \<open>A store in which \<open>x\<close> is clean and has the dependent \<open>y\<close>.\<close>

definition demo_dependent_world :: world where
  "demo_dependent_world = init_world\<lparr>gs := init_state\<lparr>dag := dag init_state @
     [(''x'', demo_write [] ''x'' ''clean-parent-1''), (''y'', demo_write [] ''y'' ''x'')]\<rparr>\<rparr>"

lemma demo_dependent_sel:
  "quarantine_ledger (gs demo_dependent_world) = [''quarantined-node-A'']"
  "derives (dag (gs demo_dependent_world)) ''x'' ''y''"
  by (simp_all add: demo_dependent_world_def init_world_def init_state_def derives_def touches_def)

theorem refusal_leaves_dependents_out_witness:
  "\<not> contained (gs (snd (submit_candidate enforcing submit_env rego_engine (\<lambda>_. None)
     (demo_request [] ''x'' ''quarantined-node-A'') demo_dependent_world)))"
proof -
  obtain info where "fst (submit_candidate enforcing submit_env rego_engine (\<lambda>_. None)
      (demo_request [] ''x'' ''quarantined-node-A'') demo_dependent_world) = Inr (Refused_Tainted info)"
    using demo_refusal [of "''quarantined-node-A''" demo_dependent_world "''x''" "[]"] by (auto simp: demo_dependent_sel)
  from refusal_leaves_dependents_out [OF this, of "demo_write [] ''x'' ''quarantined-node-A''" "''y''"] show ?thesis
    by (simp add: demo_dependent_sel) (simp add: demo_request_def)
qed

text \<open>The condition on covers is needed: only compactions have their covers checked, so a write of another type that
  covers a quarantined node is committed, and the invariant is lost.\<close>

theorem standard_write_with_tainted_covers:
  assumes "fst (submit_candidate cfg e rego_engine validate req w) = Inr (Committed False)"
    and "body_json req = Some p" and "c \<in> set (covers p)" and "c \<in> set (quarantine_ledger (gs w))"
  shows "node_type p \<noteq> Some ''COMPACTION'' \<and> \<not> contained (gs (snd (submit_candidate cfg e rego_engine validate req w)))"
proof -
  obtain p' auth where g: "submit_gate cfg e validate req = Inr (p', auth)"
    and cm: "fst (admission_transaction cfg e rego_engine p' auth (snd (fresh_uuid e w))) = Inr (Committed False)"
    and eq: "submit_candidate cfg e rego_engine validate req w = admission_transaction cfg e rego_engine p' auth (snd (fresh_uuid e w))"
    using assms(1) by (rule submit_InrE)
  have [simp]: "p' = p" using g assms(2) by (simp add: submit_gate_passed)
  note ac = admission_committed [OF cm, simplified]
  have "dag (gs (snd (submit_candidate cfg e rego_engine validate req w))) = dag (snd (commit_node (with_gap (gs w) p) (gs w)))"
    "quarantine_ledger (gs (snd (submit_candidate cfg e rego_engine validate req w))) = quarantine_ledger (gs w)"
    unfolding eq \<open>p' = p\<close> ac(9) by (simp_all add: split_beta)
  moreover have "derives (dag (snd (commit_node (with_gap (gs w) p) (gs w)))) c (payload_id p)"
    using ac(6) assms(3) by (simp add: derives_commit_node)
  ultimately show ?thesis
    using ac(1,2) assms(3,4) by (auto simp: contained_def closed_under_def tainted_covers_Nil)
qed

theorem standard_write_with_tainted_covers_witness:
  "\<not> contained (gs (snd (submit_candidate enforcing submit_env rego_engine (\<lambda>_. None)
     (demo_request [''quarantined-node-A''] ''x'' ''clean-parent-1'') init_world)))"
proof -
  have "fst (submit_candidate enforcing submit_env rego_engine (\<lambda>_. None)
     (demo_request [''quarantined-node-A''] ''x'' ''clean-parent-1'') init_world) = Inr (Committed False)"
    using demo_commit [of init_world "''clean-parent-1''" "bare_payload ''clean-parent-1'' []" "''x''" "[''quarantined-node-A'']"]
    by (simp add: init_world_sel) (simp add: init_world_def init_state_def)
  from standard_write_with_tainted_covers [OF this, of "demo_write [''quarantined-node-A''] ''x'' ''clean-parent-1''" "''quarantined-node-A''"]
  show ?thesis by (simp add: init_world_sel) (simp add: demo_request_def)
qed

text \<open>The compaction handler keeps the containment invariant when its checks and its commit run without a designation
  in between.\<close>

theorem compaction_keeps_containment:
  assumes "contained (gs w)"
  shows "contained (gs (snd (declare_context_compacted e ev w)))"
proof (cases "compacted_check e ev (gs w)")
  case (Inl ex)
  then show ?thesis using assms by (simp add: declare_context_compacted_def)
next
  case (Inr p)
  then have "p = compacted_payload e (dag (gs w)) ev"
    and clean: "set (compacted_node_ids ev) \<inter> set (quarantine_ledger (gs w)) = {}"
    by (auto simp: compacted_check_def Let_def filter_empty_conv split: if_splits sum.splits)
  then have "(set (parent_ids p) \<union> set (covers p)) \<inter> set (quarantine_ledger (gs w)) = {}"
    by (simp add: compacted_payload_def parent_ids_def carried_commitment_def comp_def)
  then show ?thesis
    using cs.clean_commit_safe [of "gs w" p] assms by (simp add: declare_context_compacted_def Inr safe_contained)
qed

theorem compaction_keeps_containment_witness:
  "contained (gs (snd (declare_context_compacted demo_env \<lparr>compaction_node_id = ''k'', compacted_node_ids = [''clean-parent-1''],
     ce_timestamp_utc = ''t'', ce_ephemeral_nhi = \<lparr>identity_id = None, session_token = None, nhi_expires_at_utc = None\<rparr>,
     ce_state_content = [], ce_agent_signature = ''s'', ce_signature_algorithm = ''a'', ce_method_id = ''llm-v1''\<rparr> init_world)))"
  by (rule compaction_keeps_containment [OF contained_init])

text \<open>C7: A designation keeps the containment invariant, with continuity and inline reconstruction included, if after the
  containment the built-in fallback parent is not quarantined and no repair candidate has a quarantined node in its frontier.\<close>

theorem designation_keeps_containment:
  assumes "contained (gs w)" and "\<not> truthy (RECOVERY_ADAPTER_URL cfg)"
    and "''clean-parent-1'' \<notin> set (quarantine_ledger (gs (snd (contain cfg e ev who None w))))"
    and "\<And>n rc f. (n, rc) \<in> set (repair_candidates (gs (snd (contain cfg e ev who None w)))) \<Longrightarrow>
      rc_frontier rc = Some f \<Longrightarrow> set f \<inter> set (quarantine_ledger (gs (snd (contain cfg e ev who None w)))) = {}"
  shows "contained (gs (snd (designation_transaction cfg e adapter ev who w)))"
proof -
  let ?w1 = "snd (contain cfg e ev who None w)" and ?qe = "fst (contain cfg e ev who None w)"
  let ?w2 = "snd (attempt_safe_continuity cfg e (computed_blast_radius_C_p ?qe) (detected_at_utc ?qe) ?w1)"
  have 1: "contained (gs ?w1)" by (rule contain_contained [OF assms(1)])
  have 2: "contained (gs ?w2)"
    by (rule contained_adds [OF continuity_adds 1]) (use assms(3) in \<open>auto simp: continuity_record_def\<close>)
  have led: "quarantine_ledger (gs ?w2) = quarantine_ledger (gs ?w1)" by (rule adds_ledger [OF continuity_adds])
  have "contained (gs (aftermath cfg e adapter ?qe ?w1))"
    unfolding aftermath_def
  proof (rule contained_adds [OF reconstruction_adds 2])
    fix n nd
    assume "reconstructed_record cfg e (RECOVERY_ADAPTER_PUBLIC_KEY ?w2) (repair_candidates (gs ?w2)) n nd"
    then obtain m rc f where "(m, rc) \<in> set (repair_candidates (gs ?w1))" "rc_frontier rc = Some f"
      "set (covers nd) = set f" "parent_ids nd = f"
      using assms(2) by (auto simp: reconstructed_record_def)
    then show "(set (parent_ids nd) \<union> set (covers nd)) \<inter> set (quarantine_ledger (gs ?w2)) = {}"
      using assms(4) by (simp add: led)
  qed
  then show ?thesis using assms(1) by (simp add: designation_transaction_run Let_def split_beta)
qed

theorem designation_keeps_containment_witness:
  "contained (gs (snd (designation_transaction default_settings demo_env (\<lambda>_. Adapter_Timeout)
     \<lparr>poisoned_node_id = ''b'', de_reason = ''r''\<rparr> ''alice'' demo_recurrence_world)))"
proof (rule designation_keeps_containment)
  let ?ev = "\<lparr>poisoned_node_id = ''b'', de_reason = ''r''\<rparr>"
  have d: "dag (gs demo_recurrence_world) = [(''b'', bare_payload ''b'' []),
      (''a'', bare_payload ''a'' [\<lparr>parent_node_id = ''b'', parent_content_hash = None, edge_class = None\<rparr>])]"
    by (simp add: demo_recurrence_world_def)
  show "contained (gs demo_recurrence_world)"
    by (auto simp: contained_def closed_under_def derives_def touches_def parent_ids_def d)
      (simp_all add: demo_recurrence_world_def init_state_def)
  show "\<not> truthy (RECOVERY_ADAPTER_URL default_settings)" by (simp add: default_settings_def)
  have "reach_from (derives (dag (gs demo_recurrence_world))) {''b''} \<subseteq> {''a'', ''b''}"
    using blast_radius_bound [of "''b''" "gs demo_recurrence_world"] by (auto simp: set_blast_radius d)
  then show "''clean-parent-1'' \<notin> set (quarantine_ledger (gs (snd (contain default_settings demo_env ?ev ''alice'' None demo_recurrence_world))))"
    by (auto simp: contain_simps) (auto simp: demo_recurrence_world_def init_state_def)
  have "repair_candidates (gs (snd (contain default_settings demo_env ?ev ''alice'' None demo_recurrence_world))) = []"
    by (simp add: contain_def Let_def split_beta run_hooks_def get_active_horizon_set_def fresh_uuid_def)
      (simp add: compute_blast_radius_def search_def d parent_ids_def is_carried_def demo_recurrence_world_def init_state_def)
  then show "set f \<inter> set (quarantine_ledger (gs (snd (contain default_settings demo_env ?ev ''alice'' None demo_recurrence_world)))) = {}"
    if "(n, rc) \<in> set (repair_candidates (gs (snd (contain default_settings demo_env ?ev ''alice'' None demo_recurrence_world))))" for n rc f
    using that by simp
qed

text \<open>The condition on the fallback parent is needed: continuity gives a replay whose critical function has no clean parent
  the parent \<open>clean-parent-1\<close> without asking whether that node is quarantined.\<close>

theorem fallback_parent_unchecked:
  assumes "find (\<lambda>(i, cp). replayable (view_of ct (gs w)) (relevant_tainted (view_of ct (gs w)) dep) cp) (checkpoints (gs w)) = Some (cp_id, cp)"
    and "set (node_parents (dag (gs w)) (cd_node_id dep)) \<subseteq> set (quarantine_ledger (gs w))"
    and "''clean-parent-1'' \<in> set (quarantine_ledger (gs w))"
    and "''continuity-cp-'' @ uuid4 e (Suc (drawn w)) \<notin> set (keys (dag (gs w))) \<union> set (quarantine_ledger (gs w))"
  shows "\<not> contained (gs (snd (serve_dep e (view_of ct (gs w)) dep w)))"
proof -
  let ?v = "view_of ct (gs w)" and ?i = "''continuity-cp-'' @ uuid4 e (Suc (drawn w))"
  have v: "cv_checkpoints ?v = checkpoints (gs w)" "cv_ledger ?v = quarantine_ledger (gs w)" "cv_dag ?v = dag (gs w)"
    "containment_time ?v = ct"
    by (simp_all add: view_of_def)
  have "filter (\<lambda>p. p \<notin> set (quarantine_ledger (gs w))) (node_parents (dag (gs w)) (cd_node_id dep)) = []"
    using assms(2) by (auto simp: filter_empty_conv)
  then have cp: "clean_parents ?v (cd_node_id dep) = [''clean-parent-1'']" by (simp add: clean_parents_def v)
  have run: "snd (serve_dep e ?v dep w) = snd (emit_replay e ?v dep cp_id cp w)"
    using assms(1) by (simp add: serve_dep_def v split_beta Let_def)
  define p where "p = continuity_payload e ct ''continuity_m4'' (cd_weight dep) ?i (drawn w) (encode_raw (keygen e (drawn w)))
      [(''checkpoint_replay'', JObj (snapshot_data cp)), (''source_checkpoint'', JStr cp_id), (''original_target'', JStr (target_node_id cp))]
      [\<lparr>parent_node_id = ''clean-parent-1'', parent_content_hash = Some e_digest, edge_class = None\<rparr>]"
  have "dag (gs (snd (emit_replay e ?v dep cp_id cp w))) = dag (snd (commit_node p (gs w)))"
    by (simp add: emit_replay_def Let_def split_beta fresh_uuid_def generate_key_def draw_def cp p_def v)
  moreover have "quarantine_ledger (gs (snd (emit_replay e ?v dep cp_id cp w))) = quarantine_ledger (gs w)"
    by (rule adds_ledger [OF emit_replay_adds])
  moreover have "derives (dag (snd (commit_node p (gs w)))) ''clean-parent-1'' ?i"
    using assms(4) by (simp add: derives_commit_node p_def)
  ultimately show ?thesis
    using assms(3,4) by (auto simp: run contained_def closed_under_def)
qed

definition demo_fallback_world :: world where
  "demo_fallback_world = init_world\<lparr>gs := init_state\<lparr>
     quarantine_ledger := [''clean-parent-1'', ''crit''],
     dag := dag init_state @ [(''crit'', (bare_payload ''crit'' [\<lparr>parent_node_id = ''clean-parent-1'',
        parent_content_hash = None, edge_class = None\<rparr>])\<lparr>criticality_weight := Some 1\<rparr>)],
     checkpoints := [(''c1'', \<lparr>checkpoint_id = ''c1'', target_node_id = ''clean-parent-1'',
        declared_at_utc = ''2025'', snapshot_data = [(''k'', JNull)]\<rparr>)]\<rparr>\<rparr>"

theorem fallback_parent_unchecked_witness:
  "\<not> contained (gs (snd (serve_dep demo_env (view_of ''2026'' (gs demo_fallback_world))
     \<lparr>cd_node_id = ''crit'', cd_weight = 1, cd_tainted_parents = [''clean-parent-1'']\<rparr> demo_fallback_world)))"
  by (rule fallback_parent_unchecked [of _ _ _ "''c1''" "\<lparr>checkpoint_id = ''c1'', target_node_id = ''clean-parent-1'',
        declared_at_utc = ''2025'', snapshot_data = [(''k'', JNull)]\<rparr>"])
    (simp_all add: demo_fallback_world_def init_world_def init_state_def replayable_def relevant_tainted_def view_of_def
      node_parents_def parent_ids_def bare_payload_def demo_env_def less_char_def)

text \<open>The condition on frontiers is needed: the planner removes the current blast radius from a frontier, not the nodes
  quarantined earlier, and the gate records the ancestry check as passed without making it; the reconstructed
  node is then committed, unquarantined, with a quarantined parent.\<close>

theorem stale_frontier_reintegrated:
  assumes "gateway_crypto e" and "\<not> truthy (RECOVERY_ADAPTER_URL cfg)"
    and "rc_disposition rc = PENDING_RECONSTRUCTION" and "rc_frontier rc = Some f"
    and "n \<in> set (keys (dag snap))" and "c \<in> set f" and "c \<in> set (quarantine_ledger (gs w))"
    and "''reconstructed-'' @ uuid4 e (Suc (drawn w)) \<notin> set (keys (dag (gs w))) \<union> set (quarantine_ledger (gs w))"
  shows "\<not> contained (gs (reconstruct_one cfg e adapter snap proot w (n, rc)))"
proof -
  let ?i = "''reconstructed-'' @ uuid4 e (Suc (drawn w))"
  let ?w = "snd (rebuild_inline e f rc w)" and ?c = "fst (rebuild_inline e f rc w)"
  obtain nd where nd: "map_of (dag snap) n = Some nd"
    using assms(5) map_of_eq_None_keys [of "dag snap" n] by auto
  obtain sn where c: "?c = inline_candidate e f sn (drawn w) (encode_raw (keygen e (drawn w))) ?i"
    and key: "RECOVERY_ADAPTER_PUBLIC_KEY ?w = Some (encode_raw (keygen e (drawn w)))"
    by (auto simp: rebuild_inline_def Let_def split_beta fresh_uuid_def generate_key_def draw_def)
  have "gate_refusal e (RECOVERY_ADAPTER_PUBLIC_KEY ?w) f ?c = None"
    using inline_candidate_signed [OF assms(1)] by (simp add: gate_refusal_None c key encode_raw_not_Nil)
  then have "reconstruct_one cfg e adapter snap proot w (n, rc) = reintegrate cfg e n rc ?c ?w"
    using assms(2-4) nd by (simp add: reconstruct_one_def judge_candidate_def split_beta)
  moreover have "derives (dag (snd (commit_node ?c (gs w)))) c ?i"
    using assms(6,8) by (simp add: derives_commit_node c)
  ultimately show ?thesis
    using assms(7,8) by (auto simp: contained_def closed_under_def)
qed

text \<open>A summary that is already quarantined because it covers a quarantined node, and has another parent that is clean.\<close>

definition demo_stale_state :: gstate where
  "demo_stale_state = init_state\<lparr>
     quarantine_ledger := [''old'', ''sum''],
     dag := [(''old'', bare_payload ''old'' []), (''bad'', bare_payload ''bad'' []),
       (''sum'', (bare_payload ''sum'' [\<lparr>parent_node_id = ''bad'', parent_content_hash = None, edge_class = Some ''CARRIED''\<rparr>])
          \<lparr>covers := [''old'', ''bad''], summarizer := Some \<lparr>method_id = Some ''llm-v1'', config_digest = None\<rparr>\<rparr>)],
     checkpoints := [(''c1'', \<lparr>checkpoint_id = ''c1'', target_node_id = ''old'', declared_at_utc = ''t'', snapshot_data = []\<rparr>)]\<rparr>"

theorem stale_frontier_reintegrated_witness:
  "\<exists>rc. map_of (repair_candidates (snd (compute_blast_radius ''bad'' demo_stale_state))) ''sum'' = Some rc \<and>
     \<not> contained (gs (reconstruct_one default_settings (demo_env\<lparr>keygen := \<lambda>k. (7, 9), key_sign := \<lambda>k m. (7, 9)\<rparr>)
        (\<lambda>_. Adapter_Timeout) (snd (compute_blast_radius ''bad'' demo_stale_state)) ''bad''
        (init_world\<lparr>gs := snd (compute_blast_radius ''bad'' demo_stale_state)\<rparr>) (''sum'', rc)))"
proof (intro exI conjI)
  let ?rc = "pending_candidate [''old''] \<lparr>checkpoint_id = ''c1'', target_node_id = ''old'', declared_at_utc = ''t'', snapshot_data = []\<rparr>"
  show "map_of (repair_candidates (snd (compute_blast_radius ''bad'' demo_stale_state))) ''sum'' = Some ?rc"
    by (simp add: demo_stale_state_def init_state_def compute_blast_radius_def search_def parent_ids_def
        is_carried_def has_external_effects_def plan_repair_def has_terminal_def plan_candidate_def frontier_of_def
        summarizer_method_def update_repair_candidate_def bare_payload_def)
  show "\<not> contained (gs (reconstruct_one default_settings (demo_env\<lparr>keygen := \<lambda>k. (7, 9), key_sign := \<lambda>k m. (7, 9)\<rparr>)
        (\<lambda>_. Adapter_Timeout) (snd (compute_blast_radius ''bad'' demo_stale_state)) ''bad''
        (init_world\<lparr>gs := snd (compute_blast_radius ''bad'' demo_stale_state)\<rparr>) (''sum'', ?rc)))"
    by (rule stale_frontier_reintegrated [where f = "[''old'']" and c = "''old''"])
      (simp_all add: gateway_crypto_def demo_env_def default_settings_def pending_candidate_def,
       simp_all add: demo_stale_state_def)
qed

end
