(* ===== verification/Reports.thy ===== *)
theory Reports
  imports Containment
begin

text \<open>
  The reports of the gateway: \<open>/measured-cost\<close>, \<open>/reducibility-report\<close>, \<open>/continuity-report\<close>, \<open>/shadow-report\<close>,
  \<open>/recurrence-report\<close>, \<open>/db-state\<close> and the probe \<open>/readyz\<close>. Floating-point fractions are rational numbers here.
\<close>

section \<open>Measured cost\<close>

definition fraction :: "nat \<Rightarrow> nat \<Rightarrow> rat" where
  "fraction a b = (if b > 0 then of_nat a / of_nat b else 0)"

record cost_report =
  quarantined_nodes :: nat
  containment_fraction :: rat
  withdrawn_nodes :: nat
  escape_set :: "node_id list"
  total_nodes :: nat
  unavailable_nodes :: nat
  availability_fraction :: rat
  repair_candidates_total :: nat
  cost_reducible_count :: nat
  cost_irreducible_count :: nat
  verified_repair_coverage :: rat
  reintegrated_active :: nat
  reintegrated_expired :: nat
  restoration_fraction :: rat
  irreducible_fraction :: rat
  quarantine_pressure :: rat
  withdrawal_amplification :: rat
  signal_outcome_counts :: "(string, nat) dict"
  calibration_count :: nat
  latest_sensitivity_floor :: "rat option"

definition count_disposition :: "disposition \<Rightarrow> gstate \<Rightarrow> nat" where
  "count_disposition d s = length (filter (\<lambda>(n, rc). rc_disposition rc = d) (repair_candidates s))"

definition count_of :: "(string, nat) dict \<Rightarrow> string \<Rightarrow> nat" where
  "count_of d k = (case map_of d k of None \<Rightarrow> 0 | Some n \<Rightarrow> n)"

definition measured_cost :: "utc \<Rightarrow> gstate \<Rightarrow> cost_report" where
  "measured_cost now s =
     (let total = length (dag s); quarantined = length (quarantine_ledger s); withdrawn = length (withdrawal_ledger s);
          unavailable = quarantined + withdrawn; repair = length (repair_candidates s);
          reducible = count_disposition REDUCIBLE s; irreducible = count_disposition IRREDUCIBLE s;
          active = length (get_active_horizon_set now s); expired = length (get_expired_horizon_set now s);
          signals = get_signal_outcome_counts s
      in \<lparr>quarantined_nodes = quarantined, containment_fraction = fraction quarantined total, withdrawn_nodes = withdrawn,
          escape_set = containment_breaches s, total_nodes = total, unavailable_nodes = unavailable,
          availability_fraction = (if total > 0 then (of_nat total - of_nat unavailable) / of_nat total else 1),
          repair_candidates_total = repair, cost_reducible_count = reducible, cost_irreducible_count = irreducible,
          verified_repair_coverage = fraction reducible repair,
          reintegrated_active = active, reintegrated_expired = expired, restoration_fraction = fraction active (active + expired),
          irreducible_fraction = fraction irreducible repair, quarantine_pressure = fraction quarantined total,
          withdrawal_amplification = of_nat withdrawn / of_nat (max 1 (count_of signals ''PROCESSED'' + count_of signals ''RATE_LIMITED'')),
          signal_outcome_counts = signals, calibration_count = length (calibration_runs s),
          latest_sensitivity_floor = (if calibration_runs s = [] then None else Some (sensitivity_floor (last (calibration_runs s))))\<rparr>)"

definition get_measured_cost :: "env \<Rightarrow> string option \<Rightarrow> gstate \<Rightarrow> cost_report result" where
  "get_measured_cost e hdr s = (case verify_role_jwt e hdr ''admin'' of Inl ex \<Rightarrow> Inl ex | Inr _ \<Rightarrow> Inr (measured_cost (now_utc e) s))"

section \<open>Reducibility\<close>

record reducibility_report =
  entering :: nat
  reducible_count :: nat
  irreducible_count :: nat
  undecided_count :: nat
  reasons :: "(string, nat) dict"

fun reducibility_loop :: "repair_candidate list \<Rightarrow> reducibility_report \<Rightarrow> reducibility_report" where
  "reducibility_loop [] r = r"
| "reducibility_loop (rc # rcs) r = reducibility_loop rcs
     (case rc_disposition rc of
        REDUCIBLE \<Rightarrow> r\<lparr>reducible_count := Suc (reducible_count r)\<rparr>
      | IRREDUCIBLE \<Rightarrow> (let why = (case rc_reason rc of None \<Rightarrow> ''unknown'' | Some x \<Rightarrow> x) in
          r\<lparr>irreducible_count := Suc (irreducible_count r), reasons := AList.update why (Suc (count_of (reasons r) why)) (reasons r)\<rparr>)
      | PENDING_RECONSTRUCTION \<Rightarrow> r\<lparr>undecided_count := Suc (undecided_count r)\<rparr>)"

definition reducibility :: "gstate \<Rightarrow> reducibility_report" where
  "reducibility s = reducibility_loop (map snd (repair_candidates s))
     \<lparr>entering = length (repair_candidates s), reducible_count = 0, irreducible_count = 0, undecided_count = 0, reasons = []\<rparr>"

definition get_reducibility_report :: "env \<Rightarrow> string option \<Rightarrow> gstate \<Rightarrow> reducibility_report result" where
  "get_reducibility_report e hdr s = (case verify_role_jwt e hdr ''admin'' of Inl ex \<Rightarrow> Inl ex | Inr _ \<Rightarrow> Inr (reducibility s))"

section \<open>Continuity, shadow and recurrence reports\<close>

record continuity_report =
  total_exposures :: nat
  exercised_count :: nat
  non_vacuity_met :: bool
  quarantine_ledger_size :: nat
  quarantine_ledger_digest :: string
  critical_function_availability :: rat
  total_critical_functions :: nat
  available_critical_functions :: nat
  trusted_substitution_coverage :: nat
  checkpoint_replay_count :: nat
  continuity_provenance_complete :: bool
  escalation_count :: nat
  tainted_action_completion :: tainted_stats

definition critical_nodes :: "gstate \<Rightarrow> node_id list" where
  "critical_nodes s = map fst (filter (\<lambda>(n, nd). criticality nd > 0) (dag s))"

definition continuity_footprint :: "env \<Rightarrow> gstate \<Rightarrow> continuity_report" where
  "continuity_footprint e s =
     (let ex = continuity_exposures s; crit = critical_nodes s;
          avail = filter (\<lambda>n. n \<notin> set (quarantine_ledger s)) crit
      in \<lparr>total_exposures = length ex, exercised_count = length (filter quarantine_non_empty ex),
          non_vacuity_met = list_ex quarantine_non_empty ex,
          quarantine_ledger_size = length (quarantine_ledger s), quarantine_ledger_digest = ids_digest e (sort (quarantine_ledger s)),
          critical_function_availability = (if crit = [] then 1 else of_nat (length avail) / of_nat (length crit)),
          total_critical_functions = length crit, available_critical_functions = length avail,
          trusted_substitution_coverage = length (filter (\<lambda>x. substitute_status x = ''BOUNDED_SUBSTITUTE'') ex),
          checkpoint_replay_count = length (filter (\<lambda>x. substitute_status x = ''CHECKPOINT_REPLAY'') ex),
          continuity_provenance_complete = list_all (\<lambda>x. mechanism x \<in> {Some ''M3'', Some ''M4''}) (filter quarantine_non_empty ex),
          escalation_count = 0, tainted_action_completion = get_tainted_action_stats s\<rparr>)"

definition get_continuity_report :: "env \<Rightarrow> string option \<Rightarrow> gstate \<Rightarrow> continuity_report result" where
  "get_continuity_report e hdr s = (case verify_role_jwt e hdr ''admin'' of Inl ex \<Rightarrow> Inl ex | Inr _ \<Rightarrow> Inr (continuity_footprint e s))"

definition get_shadow_report :: "settings \<Rightarrow> env \<Rightarrow> string option \<Rightarrow> gstate \<Rightarrow> (string \<times> nat \<times> nat) result" where
  "get_shadow_report cfg e hdr s = (case verify_role_jwt e hdr ''admin'' of Inl ex \<Rightarrow> Inl ex
     | Inr _ \<Rightarrow> Inr (ENFORCEMENT_MODE cfg, length (shadow_decisions s), length (filter (\<lambda>b. b) (shadow_decisions s))))"

definition get_recurrence_report ::
    "env \<Rightarrow> string option \<Rightarrow> gstate
     \<Rightarrow> ((node_id, horizon_entry) dict \<times> node_id list \<times> (node_id, withdrawal) dict \<times> (string, nat) dict) result" where
  "get_recurrence_report e hdr s = (case verify_role_jwt e hdr ''admin'' of Inl ex \<Rightarrow> Inl ex
     | Inr _ \<Rightarrow> Inr (get_active_horizon_set (now_utc e) s, get_expired_horizon_set (now_utc e) s, withdrawal_ledger s, get_signal_outcome_counts s))"

definition get_db_state ::
    "settings \<Rightarrow> env \<Rightarrow> string option \<Rightarrow> gstate
     \<Rightarrow> ((node_id, payload) dict \<times> node_id list \<times> quarantine_event list \<times> (node_id, repair_candidate) dict) result" where
  "get_db_state cfg e hdr s = (case verify_role_jwt e hdr ''admin'' of Inl ex \<Rightarrow> Inl ex
     | Inr _ \<Rightarrow> (if \<not> DEBUG_MODE cfg then Inl (HTTPException 403 ''Debug endpoints disabled in production'')
          else Inr (dag s, quarantine_ledger s, quarantine_events s, repair_candidates s)))"

text \<open>The probe \<open>/readyz\<close>; whether a bundle file exists is a parameter.\<close>

definition readyz :: "settings \<Rightarrow> (string \<Rightarrow> bool) \<Rightarrow> string result" where
  "readyz cfg exists =
     (if \<not> DEBUG_MODE cfg \<and> \<not> truthy (OPA_POLICY_BUNDLE cfg) \<and> \<not> truthy (OPA_URL cfg)
      then Inl (HTTPException 503 ''No fast policy path configured'')
      else if truthy (OPA_POLICY_BUNDLE cfg) \<and> \<not> exists (the (OPA_POLICY_BUNDLE cfg))
      then Inl (HTTPException 503 ''Policy bundle not found'')
      else Inr (ENFORCEMENT_MODE cfg))"

section \<open>Reducibility counts\<close>

definition reasons_total :: "(string, nat) dict \<Rightarrow> nat" where
  "reasons_total d = sum_list (map snd d)"

lemma reasons_total_bump:
  "wf_dict d \<Longrightarrow> reasons_total (AList.update k (Suc (count_of d k)) d) = Suc (reasons_total d)"
proof (induction d)
  case Nil
  show ?case by (simp add: reasons_total_def count_of_def)
next
  case (Cons p d)
  obtain a b where p: "p = (a, b)" by (cases p)
  have wf: "wf_dict d" "a \<notin> set (keys d)" using Cons.prems by (simp_all add: wf_dict_def p)
  have other: "count_of (p # d) k = count_of d k" if "a \<noteq> k" using that by (simp add: count_of_def p)
  show ?case
  proof (cases "a = k")
    case True
    then show ?thesis by (simp add: reasons_total_def count_of_def p)
  next
    case False
    then show ?thesis using Cons.IH [OF wf(1)] other by (simp add: reasons_total_def p)
  qed
qed

definition report_inv :: "nat \<Rightarrow> reducibility_report \<Rightarrow> bool" where
  "report_inv n r \<longleftrightarrow> reducible_count r + irreducible_count r + undecided_count r = n \<and>
     wf_dict (reasons r) \<and> reasons_total (reasons r) = irreducible_count r"

lemma reducibility_loop_inv:
  "report_inv n r \<Longrightarrow> report_inv (n + length rcs) (reducibility_loop rcs r) \<and> entering (reducibility_loop rcs r) = entering r \<and>
     undecided_count (reducibility_loop rcs r) = undecided_count r + length (filter (\<lambda>rc. rc_disposition rc = PENDING_RECONSTRUCTION) rcs)"
proof (induction rcs arbitrary: n r)
  case Nil
  then show ?case by simp
next
  case (Cons rc rcs)
  let ?r = "(case rc_disposition rc of
        REDUCIBLE \<Rightarrow> r\<lparr>reducible_count := Suc (reducible_count r)\<rparr>
      | IRREDUCIBLE \<Rightarrow> (let why = (case rc_reason rc of None \<Rightarrow> ''unknown'' | Some x \<Rightarrow> x) in
          r\<lparr>irreducible_count := Suc (irreducible_count r), reasons := AList.update why (Suc (count_of (reasons r) why)) (reasons r)\<rparr>)
      | PENDING_RECONSTRUCTION \<Rightarrow> r\<lparr>undecided_count := Suc (undecided_count r)\<rparr>)"
  have "report_inv (Suc n) ?r"
    using Cons.prems by (cases "rc_disposition rc") (auto simp: report_inv_def Let_def reasons_total_bump)
  from Cons.IH [OF this] show ?case
    by (cases "rc_disposition rc") (simp_all add: Let_def)
qed

section \<open>Properties\<close>

text \<open>The reducibility report accounts for every candidate exactly once: reducible, irreducible and undecided add up to the
  candidates that entered the repair path, the reasons add up to the irreducible ones, and undecided counts exactly the
  candidates that are still pending.\<close>

theorem reducibility_partition:
  "let r = reducibility s in
     reducible_count r + irreducible_count r + undecided_count r = entering r \<and> entering r = length (repair_candidates s) \<and>
     sum_list (map snd (reasons r)) = irreducible_count r \<and>
     undecided_count r = length (filter (\<lambda>(n, rc). rc_disposition rc = PENDING_RECONSTRUCTION) (repair_candidates s))"
proof -
  let ?r0 = "\<lparr>entering = length (repair_candidates s), reducible_count = 0, irreducible_count = 0, undecided_count = 0, reasons = []\<rparr>"
  have "report_inv 0 ?r0" by (simp add: report_inv_def reasons_total_def)
  from reducibility_loop_inv [OF this, of "map snd (repair_candidates s)"] show ?thesis
    by (simp add: Let_def reducibility_def report_inv_def reasons_total_def filter_map comp_def case_prod_beta')
qed

text \<open>The published availability is no fraction: a node that is quarantined and withdrawn is subtracted twice, and so is
  a ledger entry that is no stored node, so with more entries than nodes the reported availability is negative.\<close>

theorem availability_can_be_negative:
  assumes "dag s \<noteq> []" and "length (dag s) < length (quarantine_ledger s) + length (withdrawal_ledger s)"
  shows "availability_fraction (measured_cost now s) < 0"
proof -
  have "(of_nat (length (dag s)) :: rat) - of_nat (length (quarantine_ledger s) + length (withdrawal_ledger s)) < 0"
    using assms(2) by (simp del: of_nat_add)
  then show ?thesis
    using assms(1) by (simp add: measured_cost_def Let_def divide_neg_pos)
qed

theorem availability_can_be_negative_witness:
  "availability_fraction (measured_cost ''2026'' (gs (snd (contain default_settings demo_env
     \<lparr>poisoned_node_id = ''clean-parent-1'', de_reason = ''r''\<rparr> ''alice'' None init_world)))) < 0"
proof (rule availability_can_be_negative)
  let ?s = "gs (snd (contain default_settings demo_env \<lparr>poisoned_node_id = ''clean-parent-1'', de_reason = ''r''\<rparr> ''alice'' None init_world))"
  show "dag ?s \<noteq> []" by (simp add: contain_simps init_world_def init_state_def)
  have "card {''quarantined-node-A'', ''clean-parent-1''} \<le> card (set (quarantine_ledger ?s))"
    by (rule card_mono [OF finite_set]) (auto simp: contain_simps init_world_sel reach_from_start)
  then show "length (dag ?s) < length (quarantine_ledger ?s) + length (withdrawal_ledger ?s)"
    using card_length [of "quarantine_ledger ?s"] by (simp add: contain_simps) (simp add: init_world_def init_state_def)
qed

end
