(* ===== verification/Recovery_Adapter.thy ===== *)
theory Recovery_Adapter
  imports Reconstruction
begin

text \<open>
  The recovery adapter (\<open>src/recovery_adapter.py\<close>): its own blast radius, the independent derivation of the frontier and the
  candidate of \<open>/reconstruct\<close>. The language model behind it is a parameter; where it raises, the handler
  uses a fixed text. The adapter's blast radius follows parent edges only, so it is contained in the gateway's; if a covered
  node is contaminated through a \<open>covers\<close> edge alone, the two frontiers differ and the adapter refuses.
\<close>

section \<open>Model\<close>

text \<open>The \<open>while queue\<close> loop of \<open>_compute_blast_radius\<close>.\<close>

function adapter_loop :: "(node_id, payload) dict \<Rightarrow> node_id list \<Rightarrow> node_id list \<Rightarrow> node_id list \<Rightarrow> node_id list" where
  "adapter_loop d visited [] c_p = c_p"
| "adapter_loop d visited (cur # queue) c_p =
     (let (visited', queue') = child_scan cur d (visited, queue) in adapter_loop d visited' queue' (c_p @ [cur]))"
  by pat_completeness auto
termination
  by (relation "measure (\<lambda>(d, V, Q, _). card (set (keys d) - set V) + length Q)")
    (use enqueue_measure [OF fresh_children_keys distinct_fresh_children] in \<open>auto simp: child_scan_eq\<close>)

definition adapter_blast_radius :: "(node_id, payload) dict \<Rightarrow> node_id \<Rightarrow> node_id list" where
  "adapter_blast_radius d proot = sort (adapter_loop d [proot] [proot] [])"

record adapter_state =
  adapter_key_index :: nat \<comment> \<open>the signing key of the process\<close>

definition computed_frontier :: "reconstruct_request \<Rightarrow> node_id list" where
  "computed_frontier req = (let c_p = adapter_blast_radius (graph_snapshot req) (rr_poisoned_root_id req)
     in sort (filter (\<lambda>n. n \<notin> set c_p) (compaction_covers req)))"

definition adapter_candidate :: "env \<Rightarrow> nat \<Rightarrow> node_id list \<Rightarrow> string \<Rightarrow> string \<Rightarrow> node_id \<Rightarrow> payload" where
  "adapter_candidate e k frontier meth txt i =
     (let content = [(''data'', JStr txt)] in
      (bare_payload i (map (\<lambda>fn. \<lparr>parent_node_id = fn, parent_content_hash = None, edge_class = Some ''COMPACTION''\<rparr>) frontier))\<lparr>
        node_type := Some ''COMPACTION'', state_content := Some content, covers := frontier,
        summarizer := Some \<lparr>method_id = Some meth, config_digest = None\<rparr>,
        ephemeral_nhi := Some \<lparr>identity_id = Some (encode_raw (keygen e k)), session_token = Some ''adapter_session'',
          nhi_expires_at_utc = None\<rparr>,
        content_digest_sha256 := Some (content_hash e content),
        agent_signature := Some (sign_content e k content), signature_algorithm := Some ''ECDSA-P256-SHA256''\<rparr>)"

definition reconstruct ::
    "env \<Rightarrow> (json_object \<Rightarrow> string option) \<Rightarrow> adapter_state \<Rightarrow> string \<Rightarrow> reconstruct_request \<Rightarrow> payload result" where
  "reconstruct e llm st u req =
     (let frontier = computed_frontier req in
      if frontier \<noteq> sort (requested_frontier req) then Inl (HTTPException 403 ''frontier_mismatch'')
      else let txt = (case llm (snapshot_data (rr_checkpoint req)) of None \<Rightarrow> ''mocked generated summary'' | Some x \<Rightarrow> x)
           in Inr (adapter_candidate e (adapter_key_index st) frontier (rr_method req) txt (''reconstructed-'' @ u)))"

text \<open>The adapter as the gateway sees it.\<close>

definition adapter_service ::
    "env \<Rightarrow> (json_object \<Rightarrow> string option) \<Rightarrow> adapter_state \<Rightarrow> string \<Rightarrow> reconstruct_request \<Rightarrow> adapter_reply" where
  "adapter_service e llm st u req = (case reconstruct e llm st u req of Inl ex \<Rightarrow> Adapter_Status (status_code ex) | Inr p \<Rightarrow> Adapter_OK (Some p))"

section \<open>The two blast radii\<close>

interpretation ad: worklist_loop "child_of d" "set (keys d)"
  "\<lambda>V Q D (x::unit). adapter_loop d V Q D" "\<lambda>c V. fresh_children c d V" "\<lambda>c V x. x" "\<lambda>V D x. D" for d
  by unfold_locales
    (auto simp: child_of_def set_fresh_children child_scan_eq distinct_fresh_children intro: mem_key)

lemma set_adapter_blast_radius: "set (adapter_blast_radius d r) = reach_from (child_of d) {r}"
  using ad.loop_result [of d "[r]"] by (auto simp: adapter_blast_radius_def)

lemma child_of_projection: "child_of (dag_projection d) = child_of d"
  by (force simp: child_of_def dag_projection_def parent_ids_def fun_eq_iff)

lemma child_of_derives: "child_of d c n \<Longrightarrow> derives d c n"
  by (auto simp: child_of_def derives_def touches_def)

lemma adapter_radius_subset:
  "set (adapter_blast_radius (dag_projection (dag s)) r) \<subseteq> set (fst (compute_blast_radius r s))"
  unfolding set_adapter_blast_radius set_blast_radius child_of_projection
  by (rule reach_from_mono) (auto intro: child_of_derives)

lemma adapter_candidate_simps [simp]:
  "covers (adapter_candidate e k f m t i) = f" "parent_ids (adapter_candidate e k f m t i) = f"
  "nhi_identity (adapter_candidate e k f m t i) = Some (encode_raw (keygen e k))" "payload_id (adapter_candidate e k f m t i) = i"
  by (simp_all add: adapter_candidate_def parent_ids_def nhi_identity_def Let_def comp_def)

lemma adapter_candidate_signed: "gateway_crypto e \<Longrightarrow> verify_cryptographic_signature e (adapter_candidate e k f m t i)"
  by (rule gateway_signature) (simp_all add: adapter_candidate_def nhi_identity_def Let_def)

section \<open>Properties\<close>

text \<open>The request the gateway builds for a pending candidate.\<close>

definition gateway_request :: "gstate \<Rightarrow> node_id \<Rightarrow> payload \<Rightarrow> string \<Rightarrow> checkpoint \<Rightarrow> reconstruct_request" where
  "gateway_request s r nd meth cp = \<lparr>graph_snapshot = dag_projection (dag s), rr_quarantine_ledger = quarantine_ledger s,
     rr_poisoned_root_id = r, compaction_covers = covers nd,
     requested_frontier = frontier_of (fst (compute_blast_radius r s)) nd, rr_method = meth, rr_checkpoint = cp\<rparr>"

text \<open>The adapter checks the frontier on its own and fails closed. On a request of the gateway it answers with a candidate
  exactly when no covered node is contaminated through a \<open>covers\<close> edge alone; the candidate then covers exactly the
  clean part of the covers, and the gateway's gate accepts it under the adapter's key. Otherwise it answers 403.\<close>

theorem adapter_frontier_agrees:
  assumes "gateway_crypto e"
  shows "let req = gateway_request s r nd meth cp; c_p = fst (compute_blast_radius r s) in
    (if set (covers nd) \<inter> set c_p \<subseteq> {n. (child_of (dag s))\<^sup>*\<^sup>* r n}
     then \<exists>p. adapter_service e llm st u req = Adapter_OK (Some p) \<and> set (covers p) = set (covers nd) - set c_p \<and>
       gate_refusal e (Some (encode_raw (keygen e (adapter_key_index st)))) (frontier_of c_p nd) p = None
     else adapter_service e llm st u req = Adapter_Status 403)"
proof -
  let ?c = "fst (compute_blast_radius r s)" and ?a = "adapter_blast_radius (dag_projection (dag s)) r"
  let ?req = "gateway_request s r nd meth cp"
  have a: "set ?a = {n. (child_of (dag s))\<^sup>*\<^sup>* r n}"
    by (simp add: set_adapter_blast_radius child_of_projection reach_from_def)
  have cf: "computed_frontier ?req = sort (filter (\<lambda>n. n \<notin> set ?a) (covers nd))"
    by (simp add: computed_frontier_def gateway_request_def)
  show ?thesis
  proof (cases "set (covers nd) \<inter> set ?c \<subseteq> set ?a")
    case True
    then have "filter (\<lambda>n. n \<notin> set ?a) (covers nd) = frontier_of ?c nd"
      using adapter_radius_subset [of s r] unfolding frontier_of_def by (intro filter_cong) auto
    then have fr: "computed_frontier ?req = sort (frontier_of ?c nd)" by (simp add: cf)
    show ?thesis
      using True adapter_candidate_signed [OF assms]
      by (simp add: Let_def a [symmetric] adapter_service_def reconstruct_def fr gate_refusal_None encode_raw_not_Nil)
        (simp add: gateway_request_def frontier_of_def, blast)
  next
    case False
    then obtain n where n: "n \<in> set (covers nd)" "n \<in> set ?c" "n \<notin> set ?a" by blast
    have "n \<in> set (computed_frontier ?req)" using n by (simp add: cf)
    moreover have "n \<notin> set (requested_frontier ?req)" using n by (simp add: gateway_request_def frontier_of_def)
    ultimately have "computed_frontier ?req \<noteq> sort (requested_frontier ?req)" by (metis set_sort)
    then show ?thesis using False by (simp add: Let_def a [symmetric] adapter_service_def reconstruct_def)
  qed
qed

theorem adapter_frontier_agrees_witness:
  "\<exists>p. adapter_service (demo_env\<lparr>keygen := \<lambda>k. (7, 9), key_sign := \<lambda>k m. (7, 9)\<rparr>) (\<lambda>_. None) \<lparr>adapter_key_index = 0\<rparr> ''u''
     (gateway_request demo_repair_state ''zzz'' (bare_payload ''k'' []) ''m'' \<lparr>checkpoint_id = ''c1'', target_node_id = ''good'',
        declared_at_utc = ''t'', snapshot_data = []\<rparr>) = Adapter_OK (Some p) \<and> covers p = []"
proof -
  have "gateway_crypto (demo_env\<lparr>keygen := \<lambda>k. (7, 9), key_sign := \<lambda>k m. (7, 9)\<rparr>)"
    by (simp add: gateway_crypto_def demo_env_def)
  from adapter_frontier_agrees [OF this, where nd = "bare_payload ''k'' []" and r = "''zzz''" and s = demo_repair_state and llm = "\<lambda>_. None"
      and st = "\<lparr>adapter_key_index = 0\<rparr>" and u = "''u''" and meth = "''m''" and cp = "\<lparr>checkpoint_id = ''c1'', target_node_id = ''good'', declared_at_utc = ''t'', snapshot_data = []\<rparr>"]
  show ?thesis by (auto simp: Let_def)
qed

end
