(* ===== verification/Backpressure.thy ===== *)
theory Backpressure
  imports Gateway_State
begin

text \<open>
  Admission of requests to the process (phase 2C): the in-flight counter, the middleware around every request, the drain of a
  shutdown and the probe \<open>/ready\<close>. The counter updates run under a lock and are one step each; a run of the server is a
  sequence of arrivals, completions and the two life-cycle events.
\<close>

section \<open>Operations\<close>

record server =
  in_flight :: nat
  drain :: bool
  ready :: bool

definition start_server :: server where
  "start_server = \<lparr>in_flight = 0, drain = False, ready = True\<rparr>"

definition acquire_in_flight :: "settings \<Rightarrow> string \<Rightarrow> server \<Rightarrow> (nat \<times> string) option \<times> server" where
  "acquire_in_flight cfg path s =
     (if path = ''/ready'' then (None, s)
      else if drain s then (Some (503, ''Service is shutting down''), s)
      else if in_flight s \<ge> MAX_IN_FLIGHT_REQUESTS cfg then (Some (429, ''Too many in-flight requests''), s)
      else (None, s\<lparr>in_flight := Suc (in_flight s)\<rparr>))"

definition release_in_flight :: "string \<Rightarrow> server \<Rightarrow> server" where
  "release_in_flight path s = (if path = ''/ready'' then s else s\<lparr>in_flight := max 0 (in_flight s - 1)\<rparr>)"

definition startup_event :: "server \<Rightarrow> server" where
  "startup_event s = s\<lparr>ready := True, drain := False\<rparr>"

text \<open>The first part of \<open>shutdown_event\<close>; after it the handler waits until the counter is zero or the timeout passes.\<close>

definition shutdown_event :: "server \<Rightarrow> server" where
  "shutdown_event s = s\<lparr>ready := False, drain := True\<rparr>"

fun drain_wait :: "nat \<Rightarrow> (nat \<Rightarrow> server) \<Rightarrow> nat" where
  "drain_wait 0 trace = 0"
| "drain_wait (Suc polls) trace = (if in_flight (trace 0) > 0 then Suc (drain_wait polls (\<lambda>i. trace (Suc i))) else 0)"

definition ready_probe :: "server \<Rightarrow> unit result" where
  "ready_probe s = (if \<not> ready s then Inl (HTTPException 503 ''Not ready'')
     else if drain s then Inl (HTTPException 503 ''Shutting down'') else Inr ())"

section \<open>Runs of the server\<close>

text \<open>The requests in progress are kept as a list of paths; a rejected request never enters it.\<close>

inductive server_step :: "settings \<Rightarrow> server \<times> string list \<Rightarrow> server \<times> string list \<Rightarrow> bool" for cfg where
  admit: "acquire_in_flight cfg path s = (None, s') \<Longrightarrow> server_step cfg (s, rs) (s', path # rs)"
| reject: "acquire_in_flight cfg path s = (Some r, s') \<Longrightarrow> server_step cfg (s, rs) (s', rs)"
| finish: "server_step cfg (s, us @ path # vs) (release_in_flight path s, us @ vs)"
| startup: "server_step cfg (s, rs) (startup_event s, rs)"
| shutdown: "server_step cfg (s, rs) (shutdown_event s, rs)"

inductive_cases server_stepE: "server_step cfg c c'"

inductive server_reachable :: "settings \<Rightarrow> server \<times> string list \<Rightarrow> bool" for cfg where
  start: "server_reachable cfg (start_server, [])"
| step: "server_reachable cfg c \<Longrightarrow> server_step cfg c c' \<Longrightarrow> server_reachable cfg c'"

definition counted :: "string list \<Rightarrow> nat" where
  "counted rs = length (filter (\<lambda>p. p \<noteq> ''/ready'') rs)"

definition server_inv :: "settings \<Rightarrow> server \<times> string list \<Rightarrow> bool" where
  "server_inv cfg c \<longleftrightarrow> in_flight (fst c) = counted (snd c) \<and> in_flight (fst c) \<le> MAX_IN_FLIGHT_REQUESTS cfg"

lemma counted_simps [simp]:
  "counted [] = 0" "counted (p # rs) = (if p = ''/ready'' then counted rs else Suc (counted rs))"
  "counted (us @ vs) = counted us + counted vs"
  by (simp_all add: counted_def)

lemma server_inv_step:
  assumes "server_inv cfg c" and "server_step cfg c c'"
  shows "server_inv cfg c'"
  using assms(2,1)
  by (cases rule: server_step.cases)
    (auto simp: server_inv_def acquire_in_flight_def release_in_flight_def startup_event_def shutdown_event_def split: if_splits)

lemma server_inv_reachable: "server_reachable cfg c \<Longrightarrow> server_inv cfg c"
proof (induction rule: server_reachable.induct)
  case start
  show ?case by (simp add: server_inv_def start_server_def)
next
  case (step c c')
  then show ?case using server_inv_step by blast
qed

section \<open>Properties\<close>

text \<open>In every reachable state the counter equals the number of requests in progress, probes excluded, and never exceeds the
  configured limit; a request is turned away with 429 exactly at the limit and with 503 exactly while draining, and the probe
  is never turned away.\<close>

theorem in_flight_exact:
  assumes "server_reachable cfg (s, rs)"
  shows "in_flight s = length (filter (\<lambda>p. p \<noteq> ''/ready'') rs) \<and> in_flight s \<le> MAX_IN_FLIGHT_REQUESTS cfg \<and>
    (fst (acquire_in_flight cfg path s) =
       (if path = ''/ready'' then None else if drain s then Some (503, ''Service is shutting down'')
        else if in_flight s = MAX_IN_FLIGHT_REQUESTS cfg then Some (429, ''Too many in-flight requests'') else None))"
  using server_inv_reachable [OF assms] by (auto simp: server_inv_def counted_def acquire_in_flight_def)

theorem in_flight_exact_witness:
  "server_reachable default_settings (start_server\<lparr>in_flight := 1\<rparr>, [''/designate'']) \<and>
   in_flight (start_server\<lparr>in_flight := 1\<rparr>) = length (filter (\<lambda>p. p \<noteq> ''/ready'') [''/designate''])"
proof -
  have "server_step default_settings (start_server, []) (start_server\<lparr>in_flight := 1\<rparr>, [''/designate''])"
    by (rule server_step.admit) (simp add: acquire_in_flight_def start_server_def default_settings_def)
  then have r: "server_reachable default_settings (start_server\<lparr>in_flight := 1\<rparr>, [''/designate''])"
    using server_reachable.start server_reachable.step by blast
  from in_flight_exact [OF r] r show ?thesis by blast
qed

text \<open>A drain ends: once no request is in progress the wait stops at once, and it never lasts longer than its bound.\<close>

lemma drain_wait_bound: "drain_wait polls trace \<le> polls"
  by (induction polls arbitrary: trace) auto

lemma drain_wait_empty: "in_flight (trace 0) = 0 \<Longrightarrow> drain_wait polls trace = 0"
  by (cases polls) auto

end
