(* ===== verification/Admission_Lock.thy ===== *)
theory Admission_Lock
  imports Prelude
begin

text \<open>
  \<open>_AdmissionLock\<close> of \<open>src/governor_service.py\<close>: the read-write lock that admissions take shared and
  designations take exclusive. Each \<open>async with mutex\<close> block of the source holds no \<open>await\<close>, so it
  runs as one step; \<open>await asyncio.sleep(0)\<close> between two blocks lets any other task run. The lock is
  the record of its three fields with one operation per block, and the tasks that use it are a
  step relation over program counters, one rule per block.

  Shown: readers and a writer exclude each other in every reachable state, the flag that makes new
  readers back off works, and a task that takes the shared lock while it holds the exclusive one,
  which is what \<open>/designate\<close> does through its continuity and reconstruction paths, never gets it.
\<close>

section \<open>The lock\<close>

record admission_lock =
  readers :: int
  writer :: bool
  write_requested :: bool

definition new_lock :: admission_lock where
  "new_lock = \<lparr>readers = 0, writer = False, write_requested = False\<rparr>"

text \<open>\<open>shared()\<close>: one try, which succeeds or leaves the lock alone, and the release in \<open>finally\<close>.\<close>

definition try_shared :: "admission_lock \<Rightarrow> bool \<times> admission_lock" where
  "try_shared l = (if \<not> writer l \<and> \<not> write_requested l then (True, l\<lparr>readers := readers l + 1\<rparr>) else (False, l))"

definition release_shared :: "admission_lock \<Rightarrow> admission_lock" where
  "release_shared l = l\<lparr>readers := readers l - 1\<rparr>"

text \<open>\<open>exclusive()\<close>: the announcement, one try of the waiting loop, and the release in \<open>finally\<close>.\<close>

definition request_exclusive :: "admission_lock \<Rightarrow> admission_lock" where
  "request_exclusive l = l\<lparr>write_requested := True\<rparr>"

definition try_exclusive :: "admission_lock \<Rightarrow> bool \<times> admission_lock" where
  "try_exclusive l = (if readers l = 0 \<and> \<not> writer l then (True, l\<lparr>writer := True\<rparr>) else (False, l))"

definition release_exclusive :: "admission_lock \<Rightarrow> admission_lock" where
  "release_exclusive l = l\<lparr>writer := False, write_requested := False\<rparr>"

section \<open>Tasks\<close>

text \<open>
  Where a task is: outside, spinning in \<open>shared()\<close>, inside it, spinning in \<open>exclusive()\<close>, inside it,
  and inside \<open>exclusive()\<close> while spinning in a nested \<open>shared()\<close> or inside that one.
\<close>

datatype pc = Outside | WantShared | InShared | WantExclusive | InExclusive | WantNested | InNested

record lock_sys =
  lock :: admission_lock
  pcs :: "nat \<Rightarrow> pc"

definition init_sys :: lock_sys where
  "init_sys = \<lparr>lock = new_lock, pcs = (\<lambda>_. Outside)\<rparr>"

definition move :: "nat \<Rightarrow> pc \<Rightarrow> admission_lock \<Rightarrow> lock_sys \<Rightarrow> lock_sys" where
  "move t p l s = s\<lparr>lock := l, pcs := (pcs s)(t := p)\<rparr>"

inductive lock_step :: "lock_sys \<Rightarrow> lock_sys \<Rightarrow> bool" where
  call_shared: "pcs s t = Outside \<Longrightarrow> lock_step s (move t WantShared (lock s) s)"
| enter_shared: "pcs s t = WantShared \<Longrightarrow> try_shared (lock s) = (True, l) \<Longrightarrow> lock_step s (move t InShared l s)"
| leave_shared: "pcs s t = InShared \<Longrightarrow> lock_step s (move t Outside (release_shared (lock s)) s)"
| call_exclusive: "pcs s t = Outside \<Longrightarrow> lock_step s (move t WantExclusive (request_exclusive (lock s)) s)"
| enter_exclusive: "pcs s t = WantExclusive \<Longrightarrow> try_exclusive (lock s) = (True, l) \<Longrightarrow>
    lock_step s (move t InExclusive l s)"
| leave_exclusive: "pcs s t = InExclusive \<Longrightarrow> lock_step s (move t Outside (release_exclusive (lock s)) s)"
| call_nested: "pcs s t = InExclusive \<Longrightarrow> lock_step s (move t WantNested (lock s) s)"
| enter_nested: "pcs s t = WantNested \<Longrightarrow> try_shared (lock s) = (True, l) \<Longrightarrow> lock_step s (move t InNested l s)"
| leave_nested: "pcs s t = InNested \<Longrightarrow> lock_step s (move t InExclusive (release_shared (lock s)) s)"

inductive reachable :: "lock_sys \<Rightarrow> bool" where
  start: "reachable init_sys"
| step: "reachable s \<Longrightarrow> lock_step s s' \<Longrightarrow> reachable s'"

inductive_cases lock_stepE: "lock_step s s'"

lemmas lock_defs = try_shared_def release_shared_def request_exclusive_def try_exclusive_def
  release_exclusive_def move_def

section \<open>Mutual exclusion\<close>

definition in_shared :: "lock_sys \<Rightarrow> nat set" where
  "in_shared s = {t. pcs s t = InShared \<or> pcs s t = InNested}"

definition in_exclusive :: "lock_sys \<Rightarrow> nat set" where
  "in_exclusive s = {t. pcs s t = InExclusive \<or> pcs s t = WantNested \<or> pcs s t = InNested}"

definition lock_inv :: "lock_sys \<Rightarrow> bool" where
  "lock_inv s \<longleftrightarrow> finite (in_shared s) \<and> readers (lock s) = int (card (in_shared s)) \<and>
     (if writer (lock s) then (\<exists>t. in_exclusive s = {t}) \<and> in_shared s = {} else in_exclusive s = {})"

lemma in_shared_move:
  "in_shared (move t p l s) = (if p = InShared \<or> p = InNested then insert t (in_shared s) else in_shared s - {t})"
  by (auto simp: in_shared_def move_def)

lemma in_exclusive_move:
  "in_exclusive (move t p l s) =
    (if p = InExclusive \<or> p = WantNested \<or> p = InNested then insert t (in_exclusive s) else in_exclusive s - {t})"
  by (auto simp: in_exclusive_def move_def)

lemma lock_move [simp]: "lock (move t p l s) = l"
  by (simp add: move_def)

lemma lock_inv_init: "lock_inv init_sys"
  by (simp add: lock_inv_def init_sys_def new_lock_def in_shared_def in_exclusive_def)

lemma lock_step_inv:
  assumes "lock_step s s'" and inv: "lock_inv s"
  shows "lock_inv s'"
  using assms(1)
proof cases
  case (call_shared t)
  then have "t \<notin> in_shared s" "t \<notin> in_exclusive s" by (auto simp: in_shared_def in_exclusive_def)
  then show ?thesis using inv
    by (auto simp: call_shared(1) lock_inv_def in_shared_move in_exclusive_move)
next
  case (enter_shared t l)
  then have t: "t \<notin> in_shared s" "t \<notin> in_exclusive s" by (auto simp: in_shared_def in_exclusive_def)
  have l: "\<not> writer (lock s)" "l = (lock s)\<lparr>readers := readers (lock s) + 1\<rparr>"
    using enter_shared(3) by (auto simp: try_shared_def split: if_splits)
  show ?thesis using inv t l
    by (auto simp: enter_shared(1) lock_inv_def in_shared_move in_exclusive_move)
next
  case (leave_shared t)
  then have t: "t \<in> in_shared s" "t \<notin> in_exclusive s" by (auto simp: in_shared_def in_exclusive_def)
  then have "card (in_shared s) = Suc (card (in_shared s - {t}))"
    using inv by (intro card.remove) (auto simp: lock_inv_def)
  then show ?thesis using inv t
    by (auto simp: leave_shared(1) lock_inv_def in_shared_move in_exclusive_move release_shared_def)
next
  case (call_exclusive t)
  then have "t \<notin> in_shared s" "t \<notin> in_exclusive s" by (auto simp: in_shared_def in_exclusive_def)
  then show ?thesis using inv
    by (auto simp: call_exclusive(1) lock_inv_def in_shared_move in_exclusive_move request_exclusive_def)
next
  case (enter_exclusive t l)
  then have t: "t \<notin> in_shared s" by (auto simp: in_shared_def)
  have l: "readers (lock s) = 0" "\<not> writer (lock s)" "l = (lock s)\<lparr>writer := True\<rparr>"
    using enter_exclusive(3) by (auto simp: try_exclusive_def split: if_splits)
  have "in_shared s = {}" using inv l(1) by (auto simp: lock_inv_def)
  then show ?thesis using inv t l
    by (auto simp: enter_exclusive(1) lock_inv_def in_shared_move in_exclusive_move)
next
  case (leave_exclusive t)
  then have "t \<in> in_exclusive s" "t \<notin> in_shared s" by (auto simp: in_shared_def in_exclusive_def)
  then show ?thesis using inv
    by (auto simp: leave_exclusive(1) lock_inv_def in_shared_move in_exclusive_move release_exclusive_def split: if_splits)
next
  case (call_nested t)
  then have "t \<in> in_exclusive s" "t \<notin> in_shared s" by (auto simp: in_shared_def in_exclusive_def)
  then show ?thesis using inv
    by (auto simp: call_nested(1) lock_inv_def in_shared_move in_exclusive_move insert_absorb split: if_splits)
next
  case (enter_nested t l)
  then have "t \<in> in_exclusive s" by (auto simp: in_exclusive_def)
  then have "writer (lock s)" using inv by (auto simp: lock_inv_def split: if_splits)
  then show ?thesis using enter_nested(3) by (simp add: try_shared_def)
next
  case (leave_nested t)
  then have "t \<in> in_exclusive s" "t \<in> in_shared s" by (auto simp: in_shared_def in_exclusive_def)
  then show ?thesis using inv by (auto simp: lock_inv_def split: if_splits)
qed

lemma reachable_inv: "reachable s \<Longrightarrow> lock_inv s"
  by (induction rule: reachable.induct) (auto intro: lock_inv_init lock_step_inv)


section \<open>A shared request inside an exclusive section\<close>

lemma nested_stuck_step:
  assumes "lock_step s s'" and "lock_inv s" and "pcs s t = WantNested"
  shows "pcs s' t = WantNested"
  using assms(1)
proof cases
  case (enter_nested u l)
  then have "u \<in> in_exclusive s" by (auto simp: in_exclusive_def)
  then have "writer (lock s)" using assms(2) by (auto simp: lock_inv_def split: if_splits)
  then show ?thesis using enter_nested(3) by (simp add: try_shared_def)
qed (use assms(3) in \<open>auto simp: move_def\<close>)

lemma nested_stuck:
  assumes "lock_step\<^sup>*\<^sup>* s s'" and "lock_inv s" and "pcs s t = WantNested"
  shows "lock_inv s' \<and> pcs s' t = WantNested"
  using assms by induction (auto intro: lock_step_inv nested_stuck_step)

lemma nested_reachable: "\<exists>s. reachable s \<and> pcs s 0 = WantNested"
proof -
  let ?s1 = "move 0 WantExclusive (request_exclusive new_lock) init_sys"
  let ?l2 = "(request_exclusive new_lock)\<lparr>writer := True\<rparr>"
  let ?s2 = "move 0 InExclusive ?l2 ?s1"
  have "lock_step init_sys ?s1"
    using lock_step.call_exclusive [of init_sys 0] by (simp add: init_sys_def)
  moreover have "lock_step ?s1 ?s2"
    by (rule lock_step.enter_exclusive) (simp_all add: move_def try_exclusive_def request_exclusive_def new_lock_def)
  moreover have "lock_step ?s2 (move 0 WantNested ?l2 ?s2)"
    using lock_step.call_nested [of ?s2 0] by (simp add: move_def)
  ultimately have "reachable (move 0 WantNested ?l2 ?s2)"
    by (meson reachable.intros)
  then show ?thesis by (auto simp: move_def)
qed




section \<open>New readers back off\<close>

text \<open>Once a designation has announced itself, the number of admissions inside the lock never grows
  until some exclusive section ends: a waiting writer sees the readers drain.\<close>

theorem announced_writer_blocks_readers:
  assumes "lock_step s s'" and "write_requested (lock s)"
  shows "write_requested (lock s') \<and> in_shared s' \<subseteq> in_shared s \<or> (\<exists>t. pcs s t = InExclusive \<and> pcs s' t = Outside)"
  using assms(1)
proof cases
  case (leave_exclusive t)
  then show ?thesis by (auto simp: move_def)
qed (use assms(2) in \<open>auto simp: in_shared_move lock_defs in_shared_def split: if_splits\<close>)

theorem announced_writer_blocks_readers_witness:
  "let s = \<lparr>lock = request_exclusive new_lock, pcs = (\<lambda>_. Outside)(1 := WantExclusive)\<rparr>;
       s' = move 2 WantShared (lock s) s
   in lock_step s s' \<and> write_requested (lock s) \<and> in_shared s' \<subseteq> in_shared s"
proof -
  let ?s = "\<lparr>lock = request_exclusive new_lock, pcs = (\<lambda>_. Outside)(1 := WantExclusive)\<rparr>"
  let ?s' = "move 2 WantShared (lock ?s) ?s"
  have st: "lock_step ?s ?s'" by (rule lock_step.call_shared) simp
  have wr: "write_requested (lock ?s)" by (simp add: request_exclusive_def)
  have "\<not> (\<exists>t. pcs ?s t = InExclusive)" by auto
  then show ?thesis using st wr announced_writer_blocks_readers [OF st wr] by (auto simp: Let_def)
qed

end
