(* ===== verification/Gateway.thy ===== *)
theory Gateway
  imports Detectors Containment Reports Recovery_Adapter Backpressure Admission_Lock
begin

text \<open>
  The gateway as a whole: a step relation with one rule per handler that writes, each with an environment of its own (clock, tokens,
  fresh identifiers), and what every run of it keeps. \<open>/reset-db\<close> is left out of the relation: it is a debug endpoint that empties
  the store on purpose.
\<close>

section \<open>Steps\<close>

inductive gateway_step ::
    "settings \<Rightarrow> engine \<Rightarrow> (payload \<Rightarrow> schema_error option) \<Rightarrow> (reconstruct_request \<Rightarrow> adapter_reply) \<Rightarrow> world \<Rightarrow> world \<Rightarrow> bool"
  for cfg opa validate adapter where
  submit: "gateway_step cfg opa validate adapter w (snd (submit_candidate cfg e opa validate req w))"
| compacted: "gateway_step cfg opa validate adapter w (snd (declare_context_compacted e ce w))"
| designate: "gateway_step cfg opa validate adapter w (snd (designate_poison cfg e adapter hdr de w))"
| detector: "gateway_step cfg opa validate adapter w (snd (ingest_detector_event cfg e adapter hdr source ev w))"
| observe: "gateway_step cfg opa validate adapter w (snd (observe_recurrence cfg e hdr oe w))"
| renew: "gateway_step cfg opa validate adapter w (snd (renew_trust_handler cfg e hdr n w))"
| calibrate: "gateway_step cfg opa validate adapter w (snd (calibrate_harness cfg e hdr run w))"
| effect: "gateway_step cfg opa validate adapter w (snd (declare_external_effect e hdr k n ty w))"
| checkpoint: "gateway_step cfg opa validate adapter w (snd (declare_checkpoint e hdr cp w))"
| expose: "gateway_step cfg opa validate adapter w (snd (continuity_expose e hdr node status w))"
| substitute: "gateway_step cfg opa validate adapter w (snd (declare_substitute e hdr target source' declared w))"
| seed: "gateway_step cfg opa validate adapter w (snd (seed_root e hdr root_id w))"

inductive_cases gateway_stepE: "gateway_step cfg opa validate adapter w w'"

section \<open>Append-only history\<close>

text \<open>
  What no handler ever does: remove from the ledger, change or remove a stored node, remove a quarantine event.
\<close>

definition grows :: "gstate \<Rightarrow> gstate \<Rightarrow> bool" where
  "grows s s' \<longleftrightarrow> set (quarantine_ledger s) \<subseteq> set (quarantine_ledger s') \<and>
     (\<exists>new. dag s' = dag s @ new \<and> set (keys new) \<inter> set (keys (dag s)) = {}) \<and> (\<exists>evs. quarantine_events s' = quarantine_events s @ evs)"

lemma grows_refl [simp]: "grows s s"
  by (simp add: grows_def)

lemma grows_trans: "grows s t \<Longrightarrow> grows t u \<Longrightarrow> grows s u"
  unfolding grows_def by fastforce

lemma grows_same:
  "dag s' = dag s \<Longrightarrow> quarantine_ledger s' = quarantine_ledger s \<Longrightarrow> quarantine_events s' = quarantine_events s \<Longrightarrow> grows s s'"
  by (simp add: grows_def)

lemma adds_grows: "adds Q s s' \<Longrightarrow> grows s s'"
  unfolding adds_def grows_def by (fastforce simp: keys_def)

lemma commit_grows: "grows s (snd (commit_node p s))"
  by (rule adds_grows [of "\<lambda>_ _. True"]) (rule adds_commit, simp)

lemma contain_grows: "grows (gs w) (gs (snd (contain cfg e ev who src w)))"
  by (auto simp: grows_def contain_simps)

lemma refuse_tainted_grows: "grows (gs w) (gs (snd (refuse_tainted cfg e p r w)))"
proof -
  have "grows (gs w) (snd (commit_node p (gs w)))" by (rule commit_grows)
  then show ?thesis
    using refuse_tainted_effect [of cfg e p r w] by (auto simp: grows_def)
qed

lemma admission_grows:
  "grows (gs w) (gs (snd (admission_transaction cfg e opa p auth w)))"
proof -
  have fin: "grows s (check_retry_completion q (record_shadow_decision b (snd (commit_node q s))))" for q s b
    using commit_grows [of s q] by (simp add: grows_def)
  have "grows (gs w) (gs (snd (enforce_decision cfg e q hs d w)))" for q hs d
    by (cases d) (simp_all add: enforce_decision_def split_beta Let_def refuse_tainted_grows fin commit_grows grows_same)
  then show ?thesis
    by (simp add: admission_transaction_def Let_def commit_grows split: sum.split)
qed

lemma transaction_grows:
  assumes "\<And>w. grows (gs w) (gs (snd (body w)))"
  shows "grows (gs w) (gs (snd (transaction body w)))"
  using assms [of w] by (auto simp: transaction_def split: prod.split sum.split)

lemma submit_grows: "grows (gs w) (gs (snd (submit_candidate cfg e opa validate req w)))"
  using transaction_grows [OF admission_grows, of "snd (fresh_uuid e w)"]
  by (simp add: submit_candidate_def split: sum.split prod.split)

lemma aftermath_grows: "grows (gs w) (gs (aftermath cfg e adapter qe w))"
  by (rule adds_grows [OF aftermath_adds])

lemma designation_grows: "grows (gs w) (gs (snd (designation_transaction cfg e adapter ev who w)))"
  using grows_trans [OF contain_grows aftermath_grows]
  by (simp add: designation_transaction_run Let_def split_beta)

lemma signal_grows: "grows (gs w) (gs (on_gs (record_signal_attempt t s' n k out) w))"
  by (rule grows_same) simp_all

lemma designate_grows: "grows (gs w) (gs (snd (designate_poison cfg e adapter hdr ev w)))"
  using grows_trans [OF signal_grows transaction_grows [OF designation_grows]]
  by (auto simp: designate_poison_def Let_def signal_limited_def split: sum.split intro: grows_same)

lemma set_outcome_grows: "grows s (set_outcome out s)"
  by (rule grows_same) (simp_all add: set_outcome_def)

lemma detector_containment_grows: "grows (gs w) (gs (snd (detector_containment cfg e adapter source de who w)))"
proof -
  have run: "gs (snd (detector_containment cfg e adapter source de who w)) =
    (if poisoned_node_id de \<notin> set (keys (dag (gs w))) \<or> poisoned_node_id de \<in> set (quarantine_ledger (gs w)) then gs w
     else set_outcome ''designated'' (gs (aftermath cfg e adapter (fst (contain cfg e de who (Some source) w)) (snd (contain cfg e de who (Some source) w)))))"
    by (simp add: detector_containment_def aftermath_def Let_def split_beta contain_simps)
  show ?thesis
    unfolding run using grows_trans [OF grows_trans [OF contain_grows aftermath_grows] set_outcome_grows] by simp
qed

lemma detector_grows: "grows (gs w) (gs (snd (ingest_detector_event cfg e adapter hdr source ev w)))"
proof -
  have rec: "grows s (record_detector_event r s)" for r s by (rule grows_same) (simp_all add: record_detector_event_def)
  have out: "grows s (set_outcome out (record_detector_event r s))" for r s out
    by (rule grows_trans [OF rec set_outcome_grows])
  have lim: "grows s (record_signal_attempt t x n k o' (record_detector_event r s))" for s t x n k o' r
    by (rule grows_trans [OF rec grows_same]) simp_all
  have con: "grows (gs w) (gs (snd (detector_containment cfg e adapter source de who
      (on_gs (record_signal_attempt t x n k o') (on_gs (record_detector_event r) (snd (fresh_uuid e w)))))))" for de who t x n k o' r
  proof -
    let ?v = "on_gs (record_signal_attempt t x n k o') (on_gs (record_detector_event r) (snd (fresh_uuid e w)))"
    have "grows (gs w) (gs ?v)" by (simp add: lim)
    then show ?thesis using grows_trans detector_containment_grows by blast
  qed
  show ?thesis
    by (simp add: ingest_detector_event_def Let_def split_beta rec out lim con signal_limited_def
        split: sum.split option.split adapted.split)
qed

lemma observe_grows: "grows (gs w) (gs (snd (observe_recurrence cfg e hdr oe w)))"
  by (rule grows_same) (simp_all add: observe_recurrence_def Let_def signal_limited_def split: sum.split)

lemma renew_grows: "grows (gs w) (gs (snd (renew_trust_handler cfg e hdr n w)))"
  by (rule grows_same) (simp_all add: renew_trust_handler_def renew_trust_def Let_def split: sum.split option.split)

lemma admin_grows:
  "grows (gs w) (gs (snd (calibrate_harness cfg e hdr run w)))"
  "grows (gs w) (gs (snd (declare_external_effect e hdr k n ty w)))"
  "grows (gs w) (gs (snd (declare_checkpoint e hdr cp w)))"
  "grows (gs w) (gs (snd (continuity_expose e hdr node status w)))"
  "grows (gs w) (gs (snd (declare_substitute e hdr target source declared w)))"
  by (rule grows_same; simp add: calibrate_harness_def declare_external_effect_def declare_checkpoint_def continuity_expose_def
      declare_substitute_def record_calibration_run_def add_external_effect_def add_checkpoint_def add_substitute_declaration_def
      Let_def split_beta fresh_uuid_def split: sum.split)+

lemma seed_grows: "grows (gs w) (gs (snd (seed_root e hdr root_id w)))"
  by (simp add: seed_root_def Let_def split_beta commit_grows split: sum.split)

lemma compacted_grows: "grows (gs w) (gs (snd (declare_context_compacted e ce w)))"
  by (simp add: declare_context_compacted_def commit_grows split: sum.split)

lemmas handler_grows = submit_grows compacted_grows designate_grows detector_grows observe_grows renew_grows admin_grows seed_grows

lemma gateway_step_grows: "gateway_step cfg opa validate adapter w w' \<Longrightarrow> grows (gs w) (gs w')"
  by (erule gateway_stepE) (simp_all add: handler_grows)

lemma gateway_run_grows: "(gateway_step cfg opa validate adapter)\<^sup>*\<^sup>* w w' \<Longrightarrow> grows (gs w) (gs w')"
  by (induction rule: rtranclp_induct) (auto intro: grows_trans gateway_step_grows)

section \<open>Properties\<close>

text \<open>C2: Taint is never cleared and history is append-only: in every run of the gateway, over any sequence of requests to its handlers,
  with any policy engine, any recovery adapter and in both enforcement modes, a quarantined node stays quarantined, a stored node keeps its
  content, and the log of quarantine events only gets longer.\<close>

theorem taint_is_never_cleared:
  assumes "(gateway_step cfg opa validate adapter)\<^sup>*\<^sup>* w w'"
  shows "set (quarantine_ledger (gs w)) \<subseteq> set (quarantine_ledger (gs w')) \<and>
    map_of (dag (gs w)) \<subseteq>\<^sub>m map_of (dag (gs w')) \<and>
    (\<exists>evs. quarantine_events (gs w') = quarantine_events (gs w) @ evs)"
proof -
  obtain new where "dag (gs w') = dag (gs w) @ new" using gateway_run_grows [OF assms] by (auto simp: grows_def)
  then have "map_of (dag (gs w)) \<subseteq>\<^sub>m map_of (dag (gs w'))"
    by (auto simp: map_le_def map_add_def split: option.split)
  then show ?thesis using gateway_run_grows [OF assms] by (simp add: grows_def)
qed

theorem taint_is_never_cleared_witness:
  "''quarantined-node-A'' \<in> set (quarantine_ledger (gs (snd (designate_poison default_settings (role_env ''designator'') (\<lambda>_. Adapter_Timeout)
     (Some ''Bearer t'') \<lparr>poisoned_node_id = ''clean-parent-1'', de_reason = ''r''\<rparr> init_world))))"
proof -
  have "(gateway_step default_settings rego_engine (\<lambda>_. None) (\<lambda>_. Adapter_Timeout))\<^sup>*\<^sup>* init_world
      (snd (designate_poison default_settings (role_env ''designator'') (\<lambda>_. Adapter_Timeout)
        (Some ''Bearer t'') \<lparr>poisoned_node_id = ''clean-parent-1'', de_reason = ''r''\<rparr> init_world))"
    by (rule r_into_rtranclp, rule gateway_step.designate)
  from taint_is_never_cleared [OF this] show ?thesis by (simp add: init_world_sel)
qed

text \<open>The compaction handler checks its nodes before it takes the admission lock and commits after: if a designation that
  contaminates a compacted node runs in between, the compaction is committed although it covers quarantined material, and stays
  outside the quarantine.\<close>

theorem compaction_race:
  assumes "compacted_check e ev (gs w) = Inr p" and "c \<in> set (compacted_node_ids ev)"
    and "(derives (dag (gs w)))\<^sup>*\<^sup>* (poisoned_node_id de) c"
    and "compaction_node_id ev \<notin> set (keys (dag (gs w))) \<union> set (quarantine_ledger (gs w)) \<union> {poisoned_node_id de}"
  shows "\<not> contained (snd (commit_node p (gs (snd (contain cfg e' de who src w)))))"
proof -
  let ?s = "gs (snd (contain cfg e' de who src w))"
  have p: "p = compacted_payload e (dag (gs w)) ev"
    using assms(1) by (auto simp: compacted_check_def Let_def split: if_splits sum.splits)
  have led: "c \<in> set (quarantine_ledger ?s)" using assms(3) by (simp add: contain_simps reach_from_def)
  have "reach_from (derives (dag (gs w))) {poisoned_node_id de} \<subseteq> insert (poisoned_node_id de) (set (keys (dag (gs w))))"
    using blast_radius_bound [of "poisoned_node_id de" "gs w"] by (simp add: set_blast_radius)
  then have out: "payload_id p \<notin> set (quarantine_ledger ?s)"
    using assms(4) by (auto simp: contain_simps p compacted_payload_def)
  have "derives (dag (snd (commit_node p ?s))) c (payload_id p)"
    using assms(2,4) by (simp add: derives_commit_node contain_simps p compacted_payload_def)
  then show ?thesis using led out by (auto simp: contained_def closed_under_def)
qed

definition demo_compaction :: compacted_event where
  "demo_compaction = \<lparr>compaction_node_id = ''k'', compacted_node_ids = [''clean-parent-1''], ce_timestamp_utc = ''t'',
     ce_ephemeral_nhi = \<lparr>identity_id = Some (encode_raw (7, 9)), session_token = Some ''t'', nhi_expires_at_utc = None\<rparr>,
     ce_state_content = [], ce_agent_signature = encode_raw (7, 9), ce_signature_algorithm = ''ECDSA-P256-SHA256'', ce_method_id = ''llm-v1''\<rparr>"

lemma demo_compaction_passes: "\<exists>p. compacted_check submit_env demo_compaction (gs init_world) = Inr p"
proof -
  let ?p = "compacted_payload submit_env (dag (gs init_world)) demo_compaction"
  have "verify_cryptographic_signature submit_env ?p"
    by (simp add: verify_cryptographic_signature_def signature_valid_def load_public_key_def raw_signature_to_der_def
        fromhex_encode_raw payload_hash_def compacted_payload_def demo_compaction_def nhi_identity_def submit_env_def demo_env_def
        encode_raw_not_Nil)
  moreover have "\<exists>auth. verify_nhi_jwt submit_env (nhi_token ?p) (nhi_identity ?p) = Inr auth"
    by (simp add: verify_nhi_jwt_def jwt_submit_env nhi_token_def nhi_identity_def compacted_payload_def demo_compaction_def)
  moreover have "compacted_node_ids demo_compaction = [''clean-parent-1'']" by (simp add: demo_compaction_def)
  ultimately show ?thesis
    by (auto simp: compacted_check_def Let_def init_world_sel)
qed

theorem compaction_race_witness:
  "\<exists>p. compacted_check submit_env demo_compaction (gs init_world) = Inr p \<and>
     \<not> contained (snd (commit_node p (gs (snd (contain default_settings demo_env
        \<lparr>poisoned_node_id = ''clean-parent-1'', de_reason = ''r''\<rparr> ''alice'' None init_world)))))"
proof -
  obtain p where p: "compacted_check submit_env demo_compaction (gs init_world) = Inr p" using demo_compaction_passes by blast
  from compaction_race [OF p, of "''clean-parent-1''" "\<lparr>poisoned_node_id = ''clean-parent-1'', de_reason = ''r''\<rparr>"] p
  show ?thesis by (auto simp: demo_compaction_def init_world_sel)
qed

end
