(* ===== verification/Store_Invariant.thy ===== *)
theory Store_Invariant
  imports Gateway
begin

text \<open>
  Invariants of the stored data over whole runs. Every handler changes the store only through the backend's methods; the locale
  \<open>store_invariant\<close> lists them as laws, and inside it every handler, and so every run of the gateway, is shown to keep any predicate that
  satisfies the laws. Two predicates do: the typing of the store (dictionaries have distinct keys, a node is stored under its own identifier, the
  ledger has no duplicates) and the consistency of the tracking of rejected writes (no identifier is rejected twice).
\<close>

section \<open>Invariants of the backend's methods\<close>

locale store_invariant =
  fixes I :: "gstate \<Rightarrow> bool"
  assumes commit: "I s \<Longrightarrow> I (snd (commit_node p s))"
    and quarantine: "I s \<Longrightarrow> I (apply_quarantine_transaction qe c_p s)"
    and candidate: "I s \<Longrightarrow> I (update_repair_candidate n rc s)"
    and checkpoint: "I s \<Longrightarrow> I (add_checkpoint cp s)"
    and effect: "I s \<Longrightarrow> I (add_external_effect t key n ty s)"
    and substitute: "I s \<Longrightarrow> I (add_substitute_declaration d s)"
    and exposure: "I s \<Longrightarrow> I (Memory_Backend.record_continuity_exposure t i n st ne mech s)"
    and detector: "I s \<Longrightarrow> I (record_detector_event de s)"
    and outcome: "I s \<Longrightarrow> I (set_outcome out s)"
    and shadow: "I s \<Longrightarrow> I (record_shadow_decision b s)"
    and reintegration: "I s \<Longrightarrow> I (record_reintegration t t' n pre s)"
    and evidence: "I s \<Longrightarrow> I (record_reintegration_evidence t n pre_h post_h ge s)"
    and renewal: "I s \<Longrightarrow> I (renew_trust t n s)"
    and withdrawal: "I s \<Longrightarrow> I (apply_withdrawal_transaction t re ns s)"
    and calibration: "I s \<Longrightarrow> I (record_calibration_run run s)"
    and signal: "I s \<Longrightarrow> I (record_signal_attempt t src n k out s)"
    and rejection: "I s \<Longrightarrow> n \<notin> set (quarantine_ledger s) \<Longrightarrow> I (record_tainted_rejection n par t who (apply_quarantine_transaction qe [n] s))"
    and offer: "I s \<Longrightarrow> I (record_tainted_offer n rep ty s)"
    and retry: "I s \<Longrightarrow> I (check_retry_completion p s)"
begin

lemmas laws = commit quarantine candidate checkpoint effect substitute exposure detector outcome shadow reintegration evidence renewal withdrawal
  calibration signal offer retry

lemma plan: "I s \<Longrightarrow> I (foldl (plan_repair sr c_p) s ns)"
proof (induction ns arbitrary: s)
  case (Cons n ns)
  then show ?case by (simp add: plan_repair_def candidate split: option.split)
qed simp

lemma radius: "I s \<Longrightarrow> I (snd (compute_blast_radius r s))"
  by (simp add: compute_blast_radius_def plan split: prod.split)

lemma recurrence: "I (gs w) \<Longrightarrow> I (gs (process_recurrence cfg e n cls src ev w))"
  by (simp add: process_recurrence_def Let_def split_beta withdrawal radius fresh_uuid_def)

lemma hooks: "I (gs w) \<Longrightarrow> I (gs (run_hooks cfg e cls c_p w))"
proof -
  have "I (gs w) \<Longrightarrow> I (gs (recurrence_hooks cfg e cls active ns w))" for active ns w
    by (induction cfg e cls active ns w rule: recurrence_hooks.induct) (simp_all add: recurrence)
  then show "I (gs w) \<Longrightarrow> I (gs (run_hooks cfg e cls c_p w))" by (simp add: run_hooks_def)
qed

lemma contain: "I (gs w) \<Longrightarrow> I (gs (snd (contain cfg e ev who src w)))"
  by (simp add: contain_def Let_def split_beta quarantine hooks radius fresh_uuid_def)

lemma continuity: "I (gs w) \<Longrightarrow> I (gs (snd (attempt_safe_continuity cfg e c_p ct w)))"
proof -
  have emit: "I (gs (snd (emit_replay e v dep i cp w)))" "I (gs (snd (emit_substitute e v dep t sd nd w)))" if "I (gs w)" for v dep i cp t sd nd w
    using that by (simp_all add: emit_replay_def emit_substitute_def Let_def split_beta exposure commit fresh_uuid_def)
  have "I (gs w) \<Longrightarrow> I (gs (snd (serve_dep e v dep w)))" for v dep w
    by (simp add: serve_dep_def Let_def split_beta emit split: option.split)
  then have "I (gs w) \<Longrightarrow> I (gs (snd (serve_all e v deps w)))" for v deps w
    by (induction deps arbitrary: w) (simp_all add: Let_def split_beta)
  then show "I (gs w) \<Longrightarrow> ?thesis" by (simp add: attempt_safe_continuity_def)
qed

lemma reconstruction: "I (gs w) \<Longrightarrow> I (gs (attempt_reconstruction cfg e ad r w))"
proof -
  have mark: "I (gs w) \<Longrightarrow> I (gs (mark_irreducible why n rc w))" for why n rc w by (simp add: mark_irreducible_def candidate)
  have judge: "I (gs w) \<Longrightarrow> I (gs (judge_candidate cfg e f n rc cand w))" for f n rc cand w
    by (simp add: judge_candidate_def mark reintegrate_def Let_def candidate evidence reintegration commit split: option.split)
  have inline: "gs (snd (rebuild_inline e f rc w)) = gs w" for f rc w by (simp add: rebuild_inline_def Let_def split_beta fresh_uuid_def)
  have one: "I (gs w) \<Longrightarrow> I (gs (reconstruct_one cfg e ad snap r w nrc))" for snap w nrc
    by (simp add: reconstruct_one_def mark judge inline split_beta split: option.split adapter_reply.split)
  have "I (gs w) \<Longrightarrow> I (gs (foldl (reconstruct_one cfg e ad snap r) w rcs))" for snap rcs w
    by (induction rcs arbitrary: w) (simp_all add: one)
  then show "I (gs w) \<Longrightarrow> ?thesis" by (simp add: attempt_reconstruction_def)
qed

lemma transaction: "(\<And>w. I (gs w) \<Longrightarrow> I (gs (snd (body w)))) \<Longrightarrow> I (gs w) \<Longrightarrow> I (gs (snd (transaction body w)))"
  by (auto simp: transaction_def split: prod.split sum.split) (metis snd_conv)

lemma hooks_ledger: "quarantine_ledger (gs (run_hooks cfg e cls c_p w)) = quarantine_ledger (gs w)"
  by simp

lemma refuse: "I (gs w) \<Longrightarrow> payload_id p \<notin> set (quarantine_ledger (gs w)) \<Longrightarrow> I (gs (snd (refuse_tainted cfg e p r w)))"
  by (simp add: refuse_tainted_def Let_def split_beta offer_replacement_def shadow offer rejection hooks radius commit fresh_uuid_def split: option.split)

lemma enforce: "I (gs w) \<Longrightarrow> payload_id p \<notin> set (quarantine_ledger (gs w)) \<Longrightarrow> I (gs (snd (enforce_decision cfg e p hs d w)))"
  by (simp add: enforce_decision_def Let_def split_beta refuse shadow retry commit split: decision.split)

lemma submit: "I (gs w) \<Longrightarrow> I (gs (snd (submit_candidate cfg e opa validate req w)))"
proof -
  have "I (gs w) \<Longrightarrow> I (gs (snd (admission_transaction cfg e opa p auth w)))" for p auth w
    by (simp add: admission_transaction_def Let_def commit enforce are_quarantined_def get_bool_def split: sum.split)
  then show "I (gs w) \<Longrightarrow> ?thesis"
    by (auto simp: submit_candidate_def split: sum.split prod.split intro!: transaction)
qed

lemma designate: "I (gs w) \<Longrightarrow> I (gs (snd (designate_poison cfg e ad hdr ev w)))"
proof -
  have "I (gs w) \<Longrightarrow> I (gs (snd (designation_transaction cfg e ad ev who w)))" for who w
    by (simp add: designation_transaction_def Let_def split_beta contain continuity reconstruction)
  then show "I (gs w) \<Longrightarrow> ?thesis"
    by (auto simp: designate_poison_def Let_def signal_limited_def signal split: sum.split intro!: transaction)
qed

lemma ingest: "I (gs w) \<Longrightarrow> I (gs (snd (ingest_detector_event cfg e ad hdr source ev w)))"
proof -
  have "I (gs w) \<Longrightarrow> I (gs (snd (detector_containment cfg e ad source de who w)))" for de who w
    by (simp add: detector_containment_def Let_def split_beta contain continuity reconstruction outcome)
  then show "I (gs w) \<Longrightarrow> ?thesis"
    by (simp add: ingest_detector_event_def Let_def split_beta detector outcome signal signal_limited_def fresh_uuid_def split: sum.split option.split adapted.split)
qed

lemma step: "gateway_step cfg opa validate ad w w' \<Longrightarrow> I (gs w) \<Longrightarrow> I (gs w')"
  by (erule gateway_stepE) (auto simp: submit designate ingest declare_context_compacted_def observe_recurrence_def Let_def signal_limited_def signal recurrence
      renew_trust_handler_def renewal calibrate_harness_def calibration declare_external_effect_def effect declare_checkpoint_def checkpoint
      continuity_expose_def exposure declare_substitute_def substitute seed_root_def commit split_beta fresh_uuid_def split: sum.split option.split)

lemma run: "(gateway_step cfg opa validate ad)\<^sup>*\<^sup>* w w' \<Longrightarrow> I (gs w) \<Longrightarrow> I (gs w')"
  by (induction rule: rtranclp_induct) (auto intro: step)

end

section \<open>The typing of the store\<close>

definition wf_state :: "gstate \<Rightarrow> bool" where
  "wf_state s \<longleftrightarrow> wf_dict (dag s) \<and> list_all (\<lambda>(n, nd). payload_id nd = n) (dag s) \<and> distinct (quarantine_ledger s) \<and>
     wf_dict (repair_candidates s) \<and> wf_dict (checkpoints s) \<and> list_all (\<lambda>(i, c). checkpoint_id c = i) (checkpoints s) \<and>
     wf_dict (external_effects s) \<and> wf_dict (reintegration_horizon s) \<and> wf_dict (withdrawal_ledger s) \<and>
     wf_dict (substitute_declarations s) \<and> list_all (\<lambda>(i, d). sub_target_node_id d = i) (substitute_declarations s) \<and>
     wf_dict (reintegration_evidence s)"

lemma list_all_update: "list_all (\<lambda>(i, x). f x = i) d \<Longrightarrow> f v = k \<Longrightarrow> list_all (\<lambda>(i, x). f x = i) (AList.update k v d)"
  by (induction d) auto

lemma wf_withdraw_all: "wf_dict led \<Longrightarrow> wf_dict (withdraw_all t eid i ns led)"
  by (induction t eid i ns led rule: withdraw_all.induct) (simp_all add: wf_dict_snoc)

interpretation typed: store_invariant wf_state
proof
  fix s t p qe c_p
  assume wf: "wf_state s"
  show "wf_state (snd (commit_node p s))" using wf by (auto simp: wf_state_def commit_node_def wf_dict_snoc)
  show "wf_state (apply_quarantine_transaction qe c_p s)" using wf by (simp add: wf_state_def apply_quarantine_transaction_def)
  show "wf_state (renew_trust t p' s)" for p' using wf by (auto simp: wf_state_def renew_trust_def split: option.split)
qed (auto simp: wf_state_def update_repair_candidate_def add_checkpoint_def add_external_effect_def add_substitute_declaration_def
    record_continuity_exposure_def record_detector_event_def set_outcome_def record_shadow_decision_def record_reintegration_def
    record_reintegration_evidence_def apply_withdrawal_transaction_def record_calibration_run_def record_signal_attempt_def record_tainted_rejection_def
    record_tainted_offer_def check_retry_completion_def apply_quarantine_transaction_def wf_withdraw_all list_all_update)

section \<open>The tracking of rejected writes\<close>

definition tracking_ok :: "gstate \<Rightarrow> bool" where
  "tracking_ok s \<longleftrightarrow> rejections_ok s \<and> distinct (map tr_node_id (tainted_rejections s)) \<and> tr_node_id ` set (tainted_rejections s) \<subseteq> set (quarantine_ledger s)"

lemma offer_first_ids: "map tr_node_id (offer_first rid rep ty rs) = map tr_node_id rs"
  by (induction rs) auto

lemma tracking_same:
  "tracking_ok s \<Longrightarrow> tainted_rejections s' = tainted_rejections s \<Longrightarrow> set (quarantine_ledger s) \<subseteq> set (quarantine_ledger s') \<Longrightarrow> tracking_ok s'"
  by (auto simp: tracking_ok_def rejections_ok_def)

interpretation tracked: store_invariant tracking_ok
proof
  fix s n par t who qe rep ty p
  assume ok: "tracking_ok s"
  show "tracking_ok (record_tainted_rejection n par t who (apply_quarantine_transaction qe [n] s))" if "n \<notin> set (quarantine_ledger s)"
    using ok that by (auto simp: tracking_ok_def rejections_ok_def record_tainted_rejection_def apply_quarantine_transaction_def rejection_ok_def add_new_def)
  have "tr_node_id ` set (offer_first n rep ty (tainted_rejections s)) = tr_node_id ` set (tainted_rejections s)"
    by (metis list.set_map offer_first_ids)
  then show "tracking_ok (record_tainted_offer n rep ty s)"
    using ok by (auto simp: tracking_ok_def record_tainted_offer_def rejections_ok_offer offer_first_ids rejections_ok_def offer_first_ok)
  have same: "tr_node_id (retry_credit p r) = tr_node_id r" for r by (simp add: retry_credit_def)
  then have "tr_node_id \<circ> retry_credit p = tr_node_id" by (simp add: fun_eq_iff)
  then show "tracking_ok (check_retry_completion p s)"
    using ok by (auto simp: same tracking_ok_def check_retry_completion_def rejections_ok_def list_all_iff retry_credit_ok)
qed (erule tracking_same; simp add: update_repair_candidate_def add_checkpoint_def add_external_effect_def add_substitute_declaration_def
    record_continuity_exposure_def record_detector_event_def set_outcome_def record_shadow_decision_def record_reintegration_def
    record_reintegration_evidence_def apply_withdrawal_transaction_def record_calibration_run_def record_signal_attempt_def renew_trust_def
    apply_quarantine_transaction_def split: option.split)+

section \<open>Results\<close>

lemma init_invariants: "wf_state (gs init_world)" "tracking_ok (gs init_world)"
  by (simp_all add: init_world_def init_state_def wf_state_def wf_dict_def tracking_ok_def rejections_ok_def)

text \<open>C13: The store is well typed in every run. Whatever requests arrive, in any order: every dictionary has one entry per key, each node, checkpoint and
  substitute is stored under the identifier it carries, and no identifier is in the quarantine ledger twice.\<close>

theorem gateway_well_typed:
  assumes "(gateway_step cfg opa validate adapter)\<^sup>*\<^sup>* init_world w"
  shows "wf_state (gs w)"
  using typed.run [OF assms init_invariants(1)] .

theorem gateway_well_typed_witness:
  "wf_state (gs (snd (submit_candidate enforcing submit_env rego_engine (\<lambda>_. None) (demo_request [] ''x'' ''clean-parent-1'') init_world)))"
  by (rule gateway_well_typed) (rule r_into_rtranclp, rule gateway_step.submit [where adapter = "\<lambda>_. Adapter_Timeout"])

text \<open>C14: No write is rejected twice. In every run each rejected identifier is in the quarantine ledger and occurs in one rejection only, a completed
  action had been offered a replacement, and so the completion rate never exceeds the offer rate.\<close>

theorem gateway_tracking_consistent:
  assumes "(gateway_step cfg opa validate adapter)\<^sup>*\<^sup>* init_world w"
  shows "distinct (map tr_node_id (tainted_rejections (gs w))) \<and> tr_node_id ` set (tainted_rejections (gs w)) \<subseteq> set (quarantine_ledger (gs w)) \<and>
    (let st = get_tainted_action_stats (gs w) in completed_count st \<le> offered_count st \<and> 0 \<le> completion_rate st \<and> completion_rate st \<le> offer_rate st \<and> offer_rate st \<le> 1)"
proof -
  have ok: "tracking_ok (gs w)" using tracked.run [OF assms init_invariants(2)] .
  then have "rejections_ok (gs w)" by (simp add: tracking_ok_def)
  from tainted_stats_bounds [OF this] ok show ?thesis by (simp add: tracking_ok_def Let_def)
qed

theorem gateway_tracking_consistent_witness:
  "let w = snd (submit_candidate enforcing submit_env rego_engine (\<lambda>_. None) (demo_request [] ''x'' ''quarantined-node-A'') init_world)
   in completion_rate (get_tainted_action_stats (gs w)) \<le> offer_rate (get_tainted_action_stats (gs w))"
proof -
  have "(gateway_step enforcing rego_engine (\<lambda>_. None) (\<lambda>_. Adapter_Timeout))\<^sup>*\<^sup>* init_world
      (snd (submit_candidate enforcing submit_env rego_engine (\<lambda>_. None) (demo_request [] ''x'' ''quarantined-node-A'') init_world))"
    by (rule r_into_rtranclp, rule gateway_step.submit)
  from gateway_tracking_consistent [OF this] show ?thesis by (simp add: Let_def)
qed

end
