(* ===== verification/Bounded_Search.thy ===== *)
theory Bounded_Search
  imports Worklist
begin

text \<open>
  Searches that stop at a depth: the nodes within a number of steps of a root, the invariant of a search that goes level by
  level, and when such a search is complete. Both SQL backends bound their graph queries this way.
\<close>

section \<open>Levels\<close>

text \<open>The nodes within a number of steps.\<close>

fun steps_within :: "('a \<Rightarrow> 'a \<Rightarrow> bool) \<Rightarrow> nat \<Rightarrow> 'a \<Rightarrow> 'a set" where
  "steps_within E 0 r = {r}"
| "steps_within E (Suc k) r = steps_within E k r \<union> {y. \<exists>x\<in>steps_within E k r. E x y}"

definition level_inv :: "('a \<Rightarrow> 'a \<Rightarrow> bool) \<Rightarrow> nat \<Rightarrow> 'a \<Rightarrow> 'a set \<Rightarrow> 'a set \<Rightarrow> bool" where
  "level_inv E d r L V \<longleftrightarrow> V = steps_within E d r \<and> L \<subseteq> V \<and> (\<forall>x\<in>V - L. \<forall>y. E x y \<longrightarrow> y \<in> V)"

lemma level_inv_start: "level_inv E 0 r {r} {r}"
  by (simp add: level_inv_def)

lemma level_inv_step:
  assumes "level_inv E d r L V"
  shows "level_inv E (Suc d) r ({y. \<exists>x\<in>L. E x y} - V) (V \<union> {y. \<exists>x\<in>L. E x y})"
  using assms unfolding level_inv_def by auto

lemma level_inv_closed: "level_inv E d r {} V \<Longrightarrow> \<forall>x\<in>V. \<forall>y. E x y \<longrightarrow> y \<in> V"
  unfolding level_inv_def by blast

lemma steps_within_closed: "\<forall>x\<in>steps_within E d r. \<forall>y. E x y \<longrightarrow> y \<in> steps_within E d r \<Longrightarrow> steps_within E (d + k) r = steps_within E d r"
  by (induction k) auto

lemma steps_within_mono: "steps_within E d r \<subseteq> steps_within E (d + k) r"
  by (induction k) auto

lemma steps_within_reach: "steps_within E d r \<subseteq> reach_from E {r}"
  by (induction d) (auto intro: reach_from_start reach_from_step)

lemma steps_within_root: "r \<in> steps_within E d r"
  by (induction d) auto

lemma steps_within_closed_reach:
  assumes "\<forall>x\<in>steps_within E d r. \<forall>y. E x y \<longrightarrow> y \<in> steps_within E d r"
  shows "steps_within E d r = reach_from E {r}"
  using steps_within_reach [of E d r] reach_from_least [of "{r}" "steps_within E d r" E] steps_within_root [of r E d] assms by blast

section \<open>Depth\<close>

lemma steps_within_relpowp: "n \<in> steps_within E d r \<longleftrightarrow> (\<exists>k\<le>d. (E ^^ k) r n)"
proof (induction d arbitrary: n)
  case 0
  show ?case by auto
next
  case (Suc d)
  have "(\<exists>k\<le>Suc d. (E ^^ k) r n) \<longleftrightarrow> (\<exists>k\<le>d. (E ^^ k) r n) \<or> (E ^^ Suc d) r n"
    by (simp only: le_Suc_eq ex_disj_distrib conj_disj_distribR) blast
  moreover have "(\<exists>x\<in>steps_within E d r. E x n) \<longleftrightarrow> (\<exists>k\<le>d. (E ^^ Suc k) r n)"
    unfolding Bex_def relpowp.simps relcompp_apply by (simp only: Suc.IH) blast
  moreover have "(\<exists>k\<le>d. (E ^^ k) r n) \<or> (\<exists>k\<le>d. (E ^^ Suc k) r n) \<longleftrightarrow> (\<exists>k\<le>d. (E ^^ k) r n) \<or> (E ^^ Suc d) r n"
    by (metis Suc_leI le_neq_implies_less le_refl)
  ultimately show ?case by (simp only: steps_within.simps Un_iff mem_Collect_eq Suc.IH)
qed

text \<open>As long as a level adds a node, the number of nodes grows with the depth; a search as deep as there are nodes is therefore complete.\<close>

lemma steps_within_grows:
  assumes "\<exists>x\<in>steps_within E d r. \<exists>y. E x y \<and> y \<notin> steps_within E d r" and "finite K" and "\<And>x y. E x y \<Longrightarrow> y \<in> K"
  shows "Suc d < card (steps_within E (Suc d) r)"
  using assms(1)
proof (induction d)
  case 0
  then obtain y where y: "E r y" "y \<noteq> r" by auto
  have "finite (steps_within E (Suc 0) r)"
    by (rule finite_subset [OF _ finite.insertI [OF assms(2)], of _ r]) (use assms(3) in auto)
  from card_mono [OF this, of "{r, y}"] show ?case using y by simp
next
  case (Suc d)
  have fin: "finite (steps_within E (Suc (Suc d)) r)"
    by (rule finite_subset [OF _ finite.insertI [OF assms(2)], of _ r])
      (use steps_within_reach [of E "Suc (Suc d)" r] reach_from_bound [of E K "{r}"] assms(3) in blast)
  have "\<exists>x\<in>steps_within E d r. \<exists>y. E x y \<and> y \<notin> steps_within E d r"
  proof (rule ccontr)
    assume "\<not> ?thesis"
    then have closed: "\<forall>x\<in>steps_within E d r. \<forall>y. E x y \<longrightarrow> y \<in> steps_within E d r" by blast
    from steps_within_closed [OF this, of 1] Suc.prems closed show False by auto
  qed
  from Suc.IH [OF this] have "Suc d < card (steps_within E (Suc d) r)" .
  moreover have "steps_within E (Suc d) r \<subset> steps_within E (Suc (Suc d)) r" using Suc.prems by auto
  then have "card (steps_within E (Suc d) r) < card (steps_within E (Suc (Suc d)) r)" by (rule psubset_card_mono [OF fin])
  ultimately show ?case by linarith
qed

lemma deep_enough:
  assumes "finite K" and "\<And>x y. E x y \<Longrightarrow> y \<in> K" and "card K \<le> d"
  shows "steps_within E d r = reach_from E {r}"
proof (rule steps_within_closed_reach, rule ccontr)
  assume "\<not> (\<forall>x\<in>steps_within E d r. \<forall>y. E x y \<longrightarrow> y \<in> steps_within E d r)"
  then have "\<exists>x\<in>steps_within E d r. \<exists>y. E x y \<and> y \<notin> steps_within E d r" by simp
  then have "Suc d < card (steps_within E (Suc d) r)" by (rule steps_within_grows [OF _ assms(1,2)])
  also have "\<dots> \<le> card (insert r K)"
  proof (rule card_mono)
    show "finite (insert r K)" using assms(1) by simp
    show "steps_within E (Suc d) r \<subseteq> insert r K"
      using steps_within_reach [of E "Suc d" r] reach_from_bound [of E K "{r}"] assms(2) by blast
  qed
  also have "\<dots> \<le> Suc (card K)" by (rule card_insert_le_m1) simp_all
  finally show False using assms(3) by simp
qed

end
