(* ===== verification/Sql.thy ===== *)
theory Sql
  imports Prelude Bounded_Search
begin

text \<open>
  The SQL statements of the two database backends. A table with a primary key is an association list from keys to rows, in the order a
  scan returns them (insertion order; SQL leaves the order open, and no result below depends on it). Inserting under a key that is
  taken does nothing, replaces the row, or updates columns of it, as the conflict clause says. A recursive query with
  \<open>UNION\<close> is the loop both database manuals give for it; it may run forever, so it is a partial function, and its theorem says
  when it returns and what.
\<close>

section \<open>Statements\<close>

text \<open>\<open>INSERT OR IGNORE\<close> (SQLite) and \<open>INSERT \<dots> ON CONFLICT DO NOTHING\<close> (PostgreSQL).\<close>

definition insert_ignore :: "'k \<Rightarrow> 'v \<Rightarrow> ('k, 'v) dict \<Rightarrow> ('k, 'v) dict" where
  "insert_ignore k v t = (if k \<in> set (keys t) then t else t @ [(k, v)])"

text \<open>\<open>INSERT OR REPLACE\<close>: the old row is deleted and the new one inserted, at the end.\<close>

definition insert_replace :: "'k \<Rightarrow> 'v \<Rightarrow> ('k, 'v) dict \<Rightarrow> ('k, 'v) dict" where
  "insert_replace k v t = filter (\<lambda>r. fst r \<noteq> k) t @ [(k, v)]"

text \<open>\<open>INSERT \<dots> ON CONFLICT (k) DO UPDATE SET \<dots>\<close>: a row that is there is changed by \<open>upd\<close>.\<close>

definition upsert :: "'k \<Rightarrow> 'v \<Rightarrow> ('v \<Rightarrow> 'v) \<Rightarrow> ('k, 'v) dict \<Rightarrow> ('k, 'v) dict" where
  "upsert k v upd t = (case map_of t k of None \<Rightarrow> t @ [(k, v)] | Some old \<Rightarrow> AList.update k (upd old) t)"

text \<open>\<open>UPDATE \<dots> WHERE k = \<dots>\<close>.\<close>

definition update_where :: "'k \<Rightarrow> ('v \<Rightarrow> 'v) \<Rightarrow> ('k, 'v) dict \<Rightarrow> ('k, 'v) dict" where
  "update_where k upd t = map (\<lambda>(x, v). (x, if x = k then upd v else v)) t"

text \<open>The same for a table that the model keeps as a list of rows with a key function.\<close>

definition ignore_row :: "('r \<Rightarrow> 'k) \<Rightarrow> 'r \<Rightarrow> 'r list \<Rightarrow> 'r list" where
  "ignore_row key r t = (if list_ex (\<lambda>x. key x = key r) t then t else t @ [r])"

definition replace_row :: "('r \<Rightarrow> 'k) \<Rightarrow> 'r \<Rightarrow> 'r list \<Rightarrow> 'r list" where
  "replace_row key r t = filter (\<lambda>x. key x \<noteq> key r) t @ [r]"

text \<open>\<open>uniq = list(dict.fromkeys(ids))\<close>, which keeps first occurrences, and \<open>{i: (i in found) for i in uniq}\<close> for the keys \<open>found\<close> that the query returned.\<close>

definition fromkeys :: "'a list \<Rightarrow> 'a list" where
  "fromkeys ids = foldl add_new [] ids"

text \<open>\<open>SELECT k, COUNT(*) \<dots> GROUP BY k\<close>.\<close>

definition count_by :: "'k list \<Rightarrow> ('k, nat) dict" where
  "count_by ks = map (\<lambda>k. (k, length (filter (\<lambda>x. x = k) ks))) (fromkeys ks)"

definition select_keys :: "'k list \<Rightarrow> 'k list \<Rightarrow> 'k list" where
  "select_keys ids column = filter (\<lambda>k. k \<in> set ids) column"

definition status_of :: "'k list \<Rightarrow> 'k list \<Rightarrow> ('k, bool) dict" where
  "status_of ids column =
     (if ids = [] then [] else let uniq = fromkeys ids; found = select_keys uniq column in map (\<lambda>i. (i, i \<in> set found)) uniq)"

section \<open>What the statements do to a table\<close>

lemma map_of_filter_neq: "map_of (filter (\<lambda>r. fst r \<noteq> k) t) x = (if x = k then None else map_of t x)"
  by (induction t) auto

lemma map_of_insert_ignore [dict_simps]: "map_of (insert_ignore k v t) = (if k \<in> set (keys t) then map_of t else (map_of t)(k \<mapsto> v))"
  by (rule ext) (auto simp: insert_ignore_def map_add_def set_keys_dom split: option.split)

lemma map_of_insert_replace [dict_simps]: "map_of (insert_replace k v t) = (map_of t)(k \<mapsto> v)"
  by (rule ext) (simp add: insert_replace_def map_add_def map_of_filter_neq split: option.split)

lemma map_of_upsert [dict_simps]:
  "map_of (upsert k v upd t) = (map_of t)(k \<mapsto> (case map_of t k of None \<Rightarrow> v | Some old \<Rightarrow> upd old))"
  by (rule ext) (simp add: upsert_def map_add_def map_of_update split: option.split)

lemma map_of_update_where [dict_simps]: "map_of (update_where k upd t) = (map_of t)(k := map_option upd (map_of t k))"
  by (rule ext) (induction t, auto simp: update_where_def)

lemma keys_update_where [simp]: "keys (update_where k upd t) = keys t"
  by (simp add: update_where_def keys_def case_prod_unfold)

lemma wf_statements [intro]:
  "wf_dict t \<Longrightarrow> wf_dict (insert_ignore k v t)" "wf_dict t \<Longrightarrow> wf_dict (insert_replace k v t)"
  "wf_dict t \<Longrightarrow> wf_dict (upsert k v upd t)" "wf_dict t \<Longrightarrow> wf_dict (update_where k upd t)"
proof -
  show "wf_dict t \<Longrightarrow> wf_dict (insert_ignore k v t)" by (simp add: insert_ignore_def wf_dict_snoc)
  show "wf_dict t \<Longrightarrow> wf_dict (insert_replace k v t)"
    by (auto simp: insert_replace_def wf_dict_def keys_def distinct_map_filter)
  show "wf_dict t \<Longrightarrow> wf_dict (upsert k v upd t)"
    by (auto simp: upsert_def wf_dict_snoc map_of_eq_None_keys split: option.split)
  show "wf_dict t \<Longrightarrow> wf_dict (update_where k upd t)" by (simp add: wf_dict_def)
qed

lemma update_new: "k \<notin> set (keys t) \<Longrightarrow> AList.update k v t = t @ [(k, v)]"
  by (induction t) auto

lemma upsert_overwrite: "upsert k v (\<lambda>_. v) t = AList.update k v t"
  by (simp add: upsert_def map_of_eq_None_keys update_new split: option.split)

lemma distinct_rows: "distinct (map key t) \<Longrightarrow> distinct (map key (ignore_row key r t))" "distinct (map key t) \<Longrightarrow> distinct (map key (replace_row key r t))"
  by (auto simp: ignore_row_def replace_row_def list_ex_iff distinct_map_filter)

lemma set_fromkeys [simp]: "set (fromkeys ids) = set ids" and distinct_fromkeys [simp]: "distinct (fromkeys ids)"
  by (simp_all add: fromkeys_def)

lemma map_of_status_of: "map_of (status_of ids column) i = (if i \<in> set ids then Some (i \<in> set column) else None)"
  by (auto simp: status_of_def select_keys_def Let_def map_of_map_restrict o_def map_of_eq_None_iff restrict_map_def)

section \<open>Recursive queries\<close>

text \<open>
  \<open>WITH RECURSIVE r AS (base UNION step)\<close>: the rows of the base are the result and the working table; as long as the
  working table has rows, the step is evaluated on it, rows that are in the result already are discarded, and the rest joins the result
  and is the new working table.
\<close>

partial_function (option) cte_loop :: "('r list \<Rightarrow> 'r list) \<Rightarrow> 'r list \<Rightarrow> 'r list \<Rightarrow> 'r list option" where
  "cte_loop step working result =
     (if working = [] then Some result
      else let new = remdups (filter (\<lambda>r. r \<notin> set result) (step working)) in cte_loop step new (result @ new))"

definition with_recursive :: "'r list \<Rightarrow> ('r list \<Rightarrow> 'r list) \<Rightarrow> 'r list option" where
  "with_recursive base step = cte_loop step (remdups base) (remdups base)"

text \<open>A query whose step joins the working table with a relation, over finitely many rows that can be reached.\<close>

locale recursive_query =
  fixes E :: "'r \<Rightarrow> 'r \<Rightarrow> bool" and step :: "'r list \<Rightarrow> 'r list" and base :: "'r list"
  assumes step_rows: "set (step w) = {y. \<exists>x\<in>set w. E x y}"
    and finite_rows: "finite (reach_from E (set base))"
begin

lemma cte_loop_result:
  assumes "distinct res" and "set w \<subseteq> set res" and "set base \<subseteq> set res" and "set res \<subseteq> reach_from E (set base)"
    and "\<forall>x\<in>set res - set w. \<forall>y. E x y \<longrightarrow> y \<in> set res"
  shows "\<exists>ys. cte_loop step w res = Some ys \<and> distinct ys \<and> set ys = reach_from E (set base)"
  using assms
proof (induction "card (reach_from E (set base) - set res) + (if w = [] then 0 else 1)" arbitrary: w res rule: less_induct)
  case less
  show ?case
  proof (cases "w = []")
    case True
    have "reach_from E (set base) \<subseteq> set res" by (rule reach_from_least) (use less.prems True in auto)
    then show ?thesis using less.prems True by (auto simp: cte_loop.simps)
  next
    case False
    define new where "new = remdups (filter (\<lambda>r. r \<notin> set res) (step w))"
    have set_new: "set new = {y. \<exists>x\<in>set w. E x y} - set res" by (auto simp: new_def step_rows)
    have sub: "set new \<subseteq> reach_from E (set base) - set res"
      using less.prems(2,4) by (auto simp: set_new intro: reach_from_step)
    have smaller: "card (reach_from E (set base) - set (res @ new)) + (if new = [] then 0 else 1) < card (reach_from E (set base) - set res) + (if w = [] then 0 else 1)"
    proof (cases "new = []")
      case empty: False
      have "reach_from E (set base) - set (res @ new) \<subset> reach_from E (set base) - set res" using sub empty by (cases new) auto
      then show ?thesis using False finite_rows psubset_card_mono [of "reach_from E (set base) - set res"] by simp
    qed (simp add: False)
    have "\<exists>ys. cte_loop step new (res @ new) = Some ys \<and> distinct ys \<and> set ys = reach_from E (set base)"
    proof (rule less.hyps [OF smaller])
      show "distinct (res @ new)" using less.prems(1) by (auto simp: set_new) (simp add: new_def)
      show "\<forall>x\<in>set (res @ new) - set new. \<forall>y. E x y \<longrightarrow> y \<in> set (res @ new)" using less.prems(5) by (auto simp: set_new)
    qed (use less.prems sub in auto)
    then show ?thesis using False by (simp add: cte_loop.simps [of step w] Let_def new_def)
  qed
qed

lemma returns_closure: "\<exists>ys. with_recursive base step = Some ys \<and> distinct ys \<and> set ys = reach_from E (set base)"
  unfolding with_recursive_def by (rule cte_loop_result) (auto intro: reach_from_start)

lemma result_rows: "with_recursive base step = Some ys \<Longrightarrow> distinct ys \<and> set ys = reach_from E (set base)"
  using returns_closure by auto

end

end
