(* ===== verification/Sqlite_Backend.thy ===== *)
theory Sqlite_Backend
  imports Containment Sql
begin

text \<open>
  \<open>SqliteStateBackend\<close> (\<open>src/sqlite_backend.py\<close>), where it differs from the memory backend: the \<open>edges\<close> table that materialises parents and covers,
  the depth-bounded search over it with its two strategies, the selection of compactions to repair, and the statements that
  update or count rows differently. The tables whose statements act like the dictionaries and lists of the memory backend are
  the state of that backend (\<open>tables\<close>), which is also the abstraction. SQL leaves the order of rows open; the model uses the order of insertion.
\<close>

section \<open>State and commit\<close>

text \<open>
  The tables of \<open>init_db\<close>. Each is a field of \<open>gstate\<close> under the same name (\<open>nodes\<close> is \<open>dag\<close>); a JSON column holds the
  record, and the columns \<open>content_hash\<close> and \<open>commitment\<close> of \<open>nodes\<close> are functions of the stored payload. The only
  table without a counterpart is \<open>edges\<close>.
\<close>

record sqlite_state =
  tables :: gstate
  edges :: "(node_id \<times> node_id \<times> string) list" \<comment> \<open>child, parent, class; key: child and parent\<close>
  event_depths :: "(string, nat) dict" \<comment> \<open>the key \<open>max_traversal_depth\<close> added to a quarantine event, by event\<close>

definition insert_edge :: "node_id \<times> node_id \<times> string \<Rightarrow> (node_id \<times> node_id \<times> string) list \<Rightarrow> (node_id \<times> node_id \<times> string) list" where
  "insert_edge x es = (case x of (c, p, cls) \<Rightarrow> if list_ex (\<lambda>(c', p', k). c' = c \<and> p' = p) es then es else es @ [x])"

definition payload_edges :: "payload \<Rightarrow> (node_id \<times> node_id \<times> string) list" where
  "payload_edges p =
     map (\<lambda>c. (payload_id p, parent_node_id c, case edge_class c of None \<Rightarrow> ''MATERIAL'' | Some k \<Rightarrow> k)) (parent_dependency_commitments p) @
     map (\<lambda>c. (payload_id p, c, ''COVERS'')) (covers p)"

definition sq_commit_node :: "payload \<Rightarrow> sqlite_state \<Rightarrow> bool \<times> sqlite_state" where
  "sq_commit_node p t =
     (let (is_new, s) = commit_node p (tables t) in
      if \<not> is_new then (False, t)
      else (True, t\<lparr>tables := s, edges := fold insert_edge (payload_edges p) (edges t)\<rparr>))"

text \<open>\<open>INSERT OR REPLACE INTO quarantine_events\<close>: a row with the same event identifier is replaced.\<close>

definition sq_apply_quarantine :: "nat \<Rightarrow> quarantine_event \<Rightarrow> node_id list \<Rightarrow> sqlite_state \<Rightarrow> sqlite_state" where
  "sq_apply_quarantine depth ev c_p t =
     t\<lparr>tables := (tables t)\<lparr>
          quarantine_events := replace_row quarantine_event_id ev (quarantine_events (tables t)),
          quarantine_ledger := foldl add_new (quarantine_ledger (tables t)) c_p\<rparr>,
       event_depths := AList.update (quarantine_event_id ev) depth (event_depths t)\<rparr>"

section \<open>The search\<close>

definition children_of :: "(node_id \<times> node_id \<times> string) list \<Rightarrow> node_id \<Rightarrow> node_id list" where
  "children_of es n = map fst (filter (\<lambda>(c, p, k). p = n) es)"

text \<open>\<open>for child_id in \<dots>: if child_id in visited: continue; visited.add(child_id); next_level.append(\<dots>)\<close>.\<close>

fun visit_all :: "node_id list \<Rightarrow> node_id list \<times> node_id list \<Rightarrow> node_id list \<times> node_id list" where
  "visit_all [] st = st"
| "visit_all (c # cs) (visited, next) =
     (if c \<in> set visited then visit_all cs (visited, next) else visit_all cs (visited @ [c], next @ [c]))"

text \<open>
  The sparse strategy. All entries of a level have the same depth, so the depth is kept once, as the levels that are left.
\<close>

fun sparse_levels :: "(node_id \<times> node_id \<times> string) list \<Rightarrow> nat \<Rightarrow> node_id list \<Rightarrow> node_id list \<Rightarrow> node_id list" where
  "sparse_levels es 0 level visited = visited"
| "sparse_levels es (Suc left) level visited =
     (if level = [] then visited
      else let (visited', next) = visit_all (concat (map (children_of es) level)) (visited, [])
           in sparse_levels es left next visited')"

text \<open>The dense strategy: one query per level, and an exit once as many nodes are visited as the store has.\<close>

definition children_in :: "(node_id \<times> node_id \<times> string) list \<Rightarrow> node_id list \<Rightarrow> node_id list" where
  "children_in es level = remdups (map fst (filter (\<lambda>(c, p, k). p \<in> set level) es))"

fun dense_levels :: "(node_id \<times> node_id \<times> string) list \<Rightarrow> nat \<Rightarrow> nat \<Rightarrow> node_id list \<Rightarrow> node_id list \<Rightarrow> node_id list" where
  "dense_levels es tot 0 level visited = visited"
| "dense_levels es tot (Suc left) level visited =
     (if level = [] then visited
      else let (visited', next) = visit_all (children_in es level) (visited, [])
           in if next = [] then visited'
              else if length visited' = tot then visited'
              else dense_levels es tot left next visited')"

definition sq_visited :: "nat \<Rightarrow> node_id \<Rightarrow> sqlite_state \<Rightarrow> node_id list" where
  "sq_visited depth r t =
     (if length (edges t) \<le> 10000 then sparse_levels (edges t) depth [r] [r]
      else dense_levels (edges t) (length (dag (tables t)) + (if r \<in> set (keys (dag (tables t))) then 0 else 1)) depth [r] [r])"

definition sq_affected :: "node_id list \<Rightarrow> sqlite_state \<Rightarrow> node_id list" where
  "sq_affected c_p t = remdups (map fst (filter (\<lambda>(c, p, k). p \<in> set c_p \<and> k = ''CARRIED'') (edges t)))"

definition sq_set_repair_candidate :: "node_id \<Rightarrow> repair_candidate \<Rightarrow> gstate \<Rightarrow> gstate" where
  "sq_set_repair_candidate n rc s = s\<lparr>repair_candidates := insert_replace n rc (repair_candidates s)\<rparr>"

definition sq_plan_repair :: "bool \<Rightarrow> node_id list \<Rightarrow> gstate \<Rightarrow> node_id \<Rightarrow> gstate" where
  "sq_plan_repair semantic_rollback c_p s n =
     (if has_terminal s n then s
      else if semantic_rollback then sq_set_repair_candidate n (irreducible_candidate ''semantic_rollback_hazard''
             ''Quarantined subgraph contains irreversible external effects'') s
      else case map_of (dag s) n of None \<Rightarrow> s
        | Some nd \<Rightarrow> sq_set_repair_candidate n (plan_candidate False c_p (checkpoints s) nd) s)"

definition sq_compute_blast_radius :: "nat \<Rightarrow> node_id \<Rightarrow> sqlite_state \<Rightarrow> node_id list \<times> sqlite_state" where
  "sq_compute_blast_radius depth r t =
     (let c_p = sort (sq_visited depth r t) in
      (c_p, t\<lparr>tables := foldl (sq_plan_repair (has_external_effects c_p (tables t)) c_p) (tables t) (sq_affected c_p t)\<rparr>))"

section \<open>Reset\<close>

definition sq_reset :: "sqlite_state \<Rightarrow> sqlite_state" where
  "sq_reset t = (let s = tables t;
       cleared = \<lparr>tables = s\<lparr>dag := [], quarantine_ledger := [], quarantine_events := [], repair_candidates := [], checkpoints := [],
          external_effects := [], reintegration_horizon := [], recurrence_events := [], withdrawal_ledger := [], calibration_runs := [],
          signal_attempts := [], continuity_exposures := []\<rparr>, edges = [], event_depths = []\<rparr>;
       t1 = snd (sq_commit_node (bare_payload ''clean-parent-1'' []) cleared)
     in t1\<lparr>tables := add_to_quarantine_ledger ''quarantined-node-A'' (tables t1)\<rparr>)"

section \<open>The edges table\<close>

definition edge_rel :: "(node_id \<times> node_id \<times> string) list \<Rightarrow> node_id \<Rightarrow> node_id \<Rightarrow> bool" where
  "edge_rel es p c \<longleftrightarrow> (\<exists>k. (c, p, k) \<in> set es)"

definition edges_ok :: "sqlite_state \<Rightarrow> bool" where
  "edges_ok t \<longleftrightarrow> wf_dict (dag (tables t)) \<and> edge_rel (edges t) = derives (dag (tables t))"

lemma edge_rel_insert: "edge_rel (insert_edge (c, p, k) es) x y \<longleftrightarrow> edge_rel es x y \<or> (x = p \<and> y = c)"
  by (auto simp: edge_rel_def insert_edge_def list_ex_iff)

lemma edge_rel_fold:
  "edge_rel (fold insert_edge xs es) x y \<longleftrightarrow> edge_rel es x y \<or> (\<exists>k. (y, x, k) \<in> set xs)"
proof (induction xs arbitrary: es)
  case Nil
  show ?case by simp
next
  case (Cons a xs)
  obtain c p k where a: "a = (c, p, k)" by (cases a)
  show ?case by (auto simp: Cons a edge_rel_insert)
qed

lemma payload_edges_rel: "(\<exists>k. (y, x, k) \<in> set (payload_edges p)) \<longleftrightarrow> y = payload_id p \<and> x \<in> set (parent_ids p) \<union> set (covers p)"
  by (auto simp: payload_edges_def parent_ids_def)

lemma sq_commit_tables: "fst (sq_commit_node p t) = fst (commit_node p (tables t))" "tables (snd (sq_commit_node p t)) = snd (commit_node p (tables t))"
  by (auto simp: sq_commit_node_def commit_node_def)

lemma sq_commit_edges_ok:
  assumes "edges_ok t"
  shows "edges_ok (snd (sq_commit_node p t))"
proof (cases "payload_id p \<in> set (keys (dag (tables t)))")
  case True
  then show ?thesis using assms by (simp add: sq_commit_node_def commit_node_def)
next
  case False
  then have "edges (snd (sq_commit_node p t)) = fold insert_edge (payload_edges p) (edges t)"
    by (simp add: sq_commit_node_def commit_node_def)
  then have "edge_rel (edges (snd (sq_commit_node p t))) x y = derives (dag (tables (snd (sq_commit_node p t)))) x y" for x y
    using assms False unfolding sq_commit_tables
    by (simp add: edge_rel_fold payload_edges_rel derives_commit_node edges_ok_def)
  moreover have "wf_dict (dag (tables (snd (sq_commit_node p t))))"
    using assms unfolding sq_commit_tables by (auto simp: edges_ok_def wf_commit_node)
  ultimately show ?thesis unfolding edges_ok_def by (intro conjI ext)
qed

section \<open>Searching by levels\<close>

lemma visit_all_spec:
  "visit_all cs (V, N) = (V', N') \<Longrightarrow> set V' = set V \<union> set cs \<and> set N' = set N \<union> (set cs - set V) \<and>
     (distinct V \<longrightarrow> distinct V')"
proof (induction cs arbitrary: V N)
  case Nil
  then show ?case by simp
next
  case (Cons c cs)
  then show ?case
    by (cases "c \<in> set V") (auto dest: Cons.IH)
qed

lemma set_children: "(\<Union>x\<in>set L. set (children_of es x)) = {y. \<exists>x\<in>set L. edge_rel es x y}"
  by (force simp: children_of_def edge_rel_def)

lemma set_children_in: "set (children_in es L) = {y. \<exists>x\<in>set L. edge_rel es x y}"
  by (force simp: children_in_def edge_rel_def)

lemma sparse_levels_within:
  "level_inv (edge_rel es) d r (set L) (set V) \<Longrightarrow>
     set (sparse_levels es k L V) = steps_within (edge_rel es) (d + k) r \<and> (distinct V \<longrightarrow> distinct (sparse_levels es k L V))"
proof (induction k arbitrary: d L V)
  case 0
  then show ?case by (simp add: level_inv_def)
next
  case (Suc k)
  show ?case
  proof (cases "L = []")
    case True
    then show ?thesis using Suc.prems steps_within_closed [of "edge_rel es" d r "Suc k"] by (auto simp: level_inv_def)
  next
    case False
    obtain V' N where v: "visit_all (concat (map (children_of es) L)) (V, []) = (V', N)" by fastforce
    have "level_inv (edge_rel es) (Suc d) r (set N) (set V')"
      using level_inv_step [OF Suc.prems] visit_all_spec [OF v] by (simp add: set_children)
    from Suc.IH [OF this] show ?thesis using False v visit_all_spec [OF v] by simp
  qed
qed

lemma dense_levels_within:
  assumes "level_inv (edge_rel es) d r (set L) (set V)" and "distinct V"
    and "\<And>x y. edge_rel es x y \<Longrightarrow> y \<in> K" and "finite K" and "tot = card (insert r K)"
  shows "set (dense_levels es tot k L V) = steps_within (edge_rel es) (d + k) r \<and> distinct (dense_levels es tot k L V)"
  using assms(1,2)
proof (induction k arbitrary: d L V)
  case 0
  then show ?case by (simp add: level_inv_def)
next
  case (Suc k)
  obtain V' N where v: "visit_all (children_in es L) (V, []) = (V', N)" by fastforce
  have inv: "level_inv (edge_rel es) (Suc d) r (set N) (set V')"
    using level_inv_step [OF Suc.prems(1)] visit_all_spec [OF v] by (simp add: set_children_in)
  have dist: "distinct V'" using visit_all_spec [OF v] Suc.prems(2) by simp
  have stop: "set V' = steps_within (edge_rel es) (d + Suc k) r" if "N = [] \<or> length V' = tot"
  proof -
    have "set V' \<subseteq> insert r K"
    proof -
      have "steps_within (edge_rel es) j r \<subseteq> insert r K" for j using assms(3) by (induction j) auto
      from this [of "Suc d"] show ?thesis using inv unfolding level_inv_def by metis
    qed
    then have full: "set V' = insert r K" if "length V' = tot"
      using that assms(4,5) distinct_card [OF dist] by (simp add: card_subset_eq)
    have eq: "set V' = steps_within (edge_rel es) (Suc d) r" using inv by (simp only: level_inv_def)
    have "\<forall>x\<in>set V'. \<forall>y. edge_rel es x y \<longrightarrow> y \<in> set V'"
      using that
    proof
      assume "N = []"
      then show ?thesis using inv level_inv_closed by fastforce
    next
      assume "length V' = tot"
      then show ?thesis using full assms(3) by blast
    qed
    from steps_within_closed [OF this [unfolded eq], of k] show ?thesis by (simp only: eq add_Suc_shift)
  qed
  show ?case
  proof (cases "L = []")
    case True
    then show ?thesis using Suc.prems steps_within_closed [of "edge_rel es" d r "Suc k"] by (auto simp: level_inv_def)
  next
    case False
    then show ?thesis using v stop dist Suc.IH [OF inv dist] by (simp add: Let_def)
  qed
qed

lemma set_sq_visited:
  assumes "edges_ok t"
  shows "set (sq_visited depth r t) = steps_within (derives (dag (tables t))) depth r" and "distinct (sq_visited depth r t)"
proof -
  let ?K = "set (keys (dag (tables t)))"
  have rel: "edge_rel (edges t) = derives (dag (tables t))" and wf: "wf_dict (dag (tables t))" using assms by (simp_all add: edges_ok_def)
  have "card ?K = length (dag (tables t))" using wf distinct_card [of "keys (dag (tables t))"] by (simp add: wf_dict_def)
  then have tot: "length (dag (tables t)) + (if r \<in> ?K then 0 else 1) = card (insert r ?K)" by (simp add: insert_absorb)
  have start: "level_inv (edge_rel (edges t)) 0 r (set [r]) (set [r])" by (simp add: level_inv_start)
  have dense: "set (dense_levels (edges t) (card (insert r ?K)) depth [r] [r]) = steps_within (edge_rel (edges t)) depth r \<and>
      distinct (dense_levels (edges t) (card (insert r ?K)) depth [r] [r])"
    using dense_levels_within [OF start, of ?K "card (insert r ?K)" depth] derives_key rel by auto
  show "set (sq_visited depth r t) = steps_within (derives (dag (tables t))) depth r" "distinct (sq_visited depth r t)"
    using sparse_levels_within [OF start, of depth] dense by (simp_all add: sq_visited_def tot rel)
qed

section \<open>Results\<close>

lemma sq_plan_only_candidates: "\<exists>rcs. sq_plan_repair sr c_p s n = s\<lparr>repair_candidates := rcs\<rparr>"
  by (auto simp: sq_plan_repair_def sq_set_repair_candidate_def same_candidates split: option.split)

lemma sq_plan_all_only_candidates: "\<exists>rcs. foldl (sq_plan_repair sr c_p) s ns = s\<lparr>repair_candidates := rcs\<rparr>"
proof (induction ns arbitrary: s)
  case Nil
  show ?case by (simp add: same_candidates)
next
  case (Cons n ns)
  obtain rcs where "sq_plan_repair sr c_p s n = s\<lparr>repair_candidates := rcs\<rparr>" using sq_plan_only_candidates by blast
  with Cons.IH [of "s\<lparr>repair_candidates := rcs\<rparr>"] show ?case by simp
qed

lemma sq_blast_radius_frame [simp]:
  "dag (tables (snd (sq_compute_blast_radius depth r t))) = dag (tables t)"
  "quarantine_ledger (tables (snd (sq_compute_blast_radius depth r t))) = quarantine_ledger (tables t)"
  "edges (snd (sq_compute_blast_radius depth r t)) = edges t"
  using sq_plan_all_only_candidates [of "has_external_effects (sort (sq_visited depth r t)) (tables t)" "sort (sq_visited depth r t)"
      "tables t" "sq_affected (sort (sq_visited depth r t)) t"]
  by (auto simp: sq_compute_blast_radius_def Let_def)

lemma sq_apply_quarantine_frame [simp]:
  "dag (tables (sq_apply_quarantine depth ev c_p t)) = dag (tables t)"
  "set (quarantine_ledger (tables (sq_apply_quarantine depth ev c_p t))) = set (quarantine_ledger (tables t)) \<union> set c_p"
  "edges (sq_apply_quarantine depth ev c_p t) = edges t"
  by (simp_all add: sq_apply_quarantine_def)

lemma sq_reset_edges_ok: "edges_ok (sq_reset t)"
proof -
  define t0 where "t0 = \<lparr>tables = (tables t)\<lparr>dag := [], quarantine_ledger := [], quarantine_events := [], repair_candidates := [],
     checkpoints := [], external_effects := [], reintegration_horizon := [], recurrence_events := [], withdrawal_ledger := [],
     calibration_runs := [], signal_attempts := [], continuity_exposures := []\<rparr>, edges = [], event_depths = []\<rparr>"
  have "edges_ok t0" by (simp add: t0_def edges_ok_def edge_rel_def derives_def wf_dict_def fun_eq_iff)
  then have "edges_ok (snd (sq_commit_node (bare_payload ''clean-parent-1'' []) t0))" by (rule sq_commit_edges_ok)
  then show ?thesis by (simp add: sq_reset_def Let_def t0_def [symmetric] edges_ok_def add_to_quarantine_ledger_def)
qed

inductive sq_run :: "nat \<Rightarrow> sqlite_state \<Rightarrow> bool" for depth where
  reset: "sq_run depth (sq_reset t)"
| commit: "sq_run depth t \<Longrightarrow> sq_run depth (snd (sq_commit_node p t))"
| radius: "sq_run depth t \<Longrightarrow> sq_run depth (snd (sq_compute_blast_radius depth r t))"
| quarantine: "sq_run depth t \<Longrightarrow> sq_run depth (sq_apply_quarantine depth ev c_p t)"

lemma sq_run_edges_ok: "sq_run depth t \<Longrightarrow> edges_ok t"
proof (induction rule: sq_run.induct)
  case (reset t)
  show ?case by (rule sq_reset_edges_ok)
next
  case (commit t p)
  then show ?case by (simp add: sq_commit_edges_ok)
next
  case (radius t r)
  then show ?case by (simp add: edges_ok_def)
next
  case (quarantine t ev c_p)
  then show ?case by (simp add: edges_ok_def)
qed

lemma sq_radius_eq:
  "fst (sq_compute_blast_radius depth r t) = sort (sq_visited depth r t)"
  by (simp add: sq_compute_blast_radius_def Let_def)

text \<open>C26: In every state the SQLite backend reaches, whichever of its two search strategies the size of the edges table selects, the blast
  radius is the sorted list without duplicates of exactly the nodes at most \<open>max_traversal_depth\<close> derivation steps from the root.\<close>

theorem sqlite_radius_bounded_closure:
  assumes "sq_run depth t"
  shows "let c_p = fst (sq_compute_blast_radius depth r t) in
     (\<forall>n. n \<in> set c_p \<longleftrightarrow> (\<exists>k\<le>depth. (derives (dag (tables t)) ^^ k) r n)) \<and> sorted c_p \<and> distinct c_p"
  using set_sq_visited [OF sq_run_edges_ok [OF assms], of depth r]
  by (simp add: Let_def sq_radius_eq steps_within_relpowp)

definition demo_edge :: "node_id \<Rightarrow> commitment" where
  "demo_edge p = \<lparr>parent_node_id = p, parent_content_hash = None, edge_class = None\<rparr>"

definition demo_chain :: sqlite_state where
  "demo_chain = snd (sq_commit_node (bare_payload ''c'' [demo_edge ''b'']) (snd (sq_commit_node (bare_payload ''b'' [demo_edge ''a''])
     (sq_reset \<lparr>tables = init_state, edges = [], event_depths = []\<rparr>))))"

lemma demo_chain_run: "sq_run depth demo_chain"
  unfolding demo_chain_def by (intro sq_run.intros)

lemma demo_chain_sel:
  "edges demo_chain = [(''b'', ''a'', ''MATERIAL''), (''c'', ''b'', ''MATERIAL'')]"
  "keys (dag (tables demo_chain)) = [''clean-parent-1'', ''b'', ''c'']"
  "quarantine_ledger (tables demo_chain) = [''quarantined-node-A'']"
  "length (dag (tables demo_chain)) = 3"
  by (simp_all add: demo_chain_def demo_edge_def sq_reset_def sq_commit_node_def commit_node_def add_to_quarantine_ledger_def
      add_new_def payload_edges_def insert_edge_def Let_def)

lemma demo_chain_radius:
  "fst (sq_compute_blast_radius (Suc 0) ''a'' demo_chain) = [''a'', ''b'']"
  "fst (sq_compute_blast_radius 3 ''a'' demo_chain) = [''a'', ''b'', ''c'']"
  by (simp_all add: sq_radius_eq sq_visited_def demo_chain_sel children_of_def numeral_3_eq_3)

theorem sqlite_radius_bounded_closure_witness:
  "fst (sq_compute_blast_radius 1 ''a'' demo_chain) = [''a'', ''b''] \<and>
   (\<exists>k\<le>1. (derives (dag (tables demo_chain)) ^^ k) ''a'' ''b'') \<and> \<not> (\<exists>k\<le>1. (derives (dag (tables demo_chain)) ^^ k) ''a'' ''c'')"
proof -
  have "n \<in> {''a'', ''b''} \<longleftrightarrow> (\<exists>k\<le>1. (derives (dag (tables demo_chain)) ^^ k) ''a'' n)" for n
    using sqlite_radius_bounded_closure [OF demo_chain_run [of 1], of "''a''"] by (simp add: Let_def demo_chain_radius)
  from this [of "''b''"] this [of "''c''"] show ?thesis by (simp add: demo_chain_radius)
qed

text \<open>The SQLite backend implements the memory backend. A commit gives the same answer and the same nodes, and where the traversal
  bound is not below the number of stored nodes the blast radius is the one of the memory backend, whichever strategy runs.\<close>

theorem sqlite_refines_memory:
  assumes "sq_run depth t"
  shows "fst (sq_commit_node p t) = fst (commit_node p (tables t)) \<and>
     tables (snd (sq_commit_node p t)) = snd (commit_node p (tables t)) \<and>
     (length (dag (tables t)) \<le> depth \<longrightarrow> fst (sq_compute_blast_radius depth r t) = fst (compute_blast_radius r (tables t)))"
proof -
  let ?K = "set (keys (dag (tables t)))"
  have radius: "fst (sq_compute_blast_radius depth r t) = fst (compute_blast_radius r (tables t))" if "length (dag (tables t)) \<le> depth"
  proof -
    have "card ?K \<le> depth" using that card_length [of "keys (dag (tables t))"] by simp
    then have "set (sq_visited depth r t) = set (fst (compute_blast_radius r (tables t)))"
      using set_sq_visited(1) [OF sq_run_edges_ok [OF assms], of depth r] deep_enough [of ?K "derives (dag (tables t))" depth r]
      by (simp add: set_blast_radius derives_key)
    moreover have "distinct (sq_visited depth r t)" by (rule set_sq_visited(2) [OF sq_run_edges_ok [OF assms]])
    ultimately show ?thesis
      unfolding sq_radius_eq by (intro sorted_distinct_set_unique) (simp_all add: distinct_blast_radius, simp add: fst_compute_blast_radius)
  qed
  then show ?thesis by (simp add: sq_commit_tables)
qed

theorem sqlite_refines_memory_witness:
  "fst (sq_compute_blast_radius 3 ''a'' demo_chain) = [''a'', ''b'', ''c''] \<and>
   fst (compute_blast_radius ''a'' (tables demo_chain)) = [''a'', ''b'', ''c'']"
proof -
  have "fst (sq_compute_blast_radius 3 ''a'' demo_chain) = fst (compute_blast_radius ''a'' (tables demo_chain))"
    using sqlite_refines_memory [OF demo_chain_run [of 3], of "bare_payload ''a'' []" "''a''"] demo_chain_sel(4) by simp
  then show ?thesis by (simp add: demo_chain_radius)
qed

text \<open>The traversal bound lets taint escape. If some node at the bound has a dependent beyond it that is not yet quarantined, then
  after the designation the store has a containment breach: the blast radius is cut off silently.\<close>

theorem depth_bound_breaks_containment:
  assumes "sq_run depth t" and "x \<in> set (fst (sq_compute_blast_radius depth r t))" and "derives (dag (tables t)) x y"
    and "y \<notin> set (fst (sq_compute_blast_radius depth r t))" and "y \<notin> set (quarantine_ledger (tables t))"
  shows "let (c_p, t') = sq_compute_blast_radius depth r t
    in \<not> contained (tables (sq_apply_quarantine depth ev c_p t')) \<and> y \<notin> set (quarantine_ledger (tables (sq_apply_quarantine depth ev c_p t')))"
proof -
  obtain c_p t' where c: "sq_compute_blast_radius depth r t = (c_p, t')" by fastforce
  have "dag (tables t') = dag (tables t)" "quarantine_ledger (tables t') = quarantine_ledger (tables t)"
    using sq_blast_radius_frame(1,2) [of depth r t] by (simp_all add: c)
  then show ?thesis using assms(2-5) by (auto simp: c contained_def closed_under_def)
qed

definition demo_event :: quarantine_event where
  "demo_event = \<lparr>quarantine_event_id = ''e'', detected_at_utc = ''t'', poisoned_root_id = ''a'', computed_blast_radius_C_p = [],
     monotonic_ledger_digest = [], designator_identity = None, designation_reason = None, detector_source = None\<rparr>"

theorem depth_bound_breaks_containment_witness:
  "let (c_p, t') = sq_compute_blast_radius 1 ''a'' demo_chain
   in \<not> contained (tables (sq_apply_quarantine 1 demo_event c_p t')) \<and>
      ''c'' \<notin> set (quarantine_ledger (tables (sq_apply_quarantine 1 demo_event c_p t')))"
proof (rule depth_bound_breaks_containment [OF demo_chain_run])
  show "''b'' \<in> set (fst (sq_compute_blast_radius 1 ''a'' demo_chain))" by (simp add: demo_chain_radius)
  show "''c'' \<notin> set (fst (sq_compute_blast_radius 1 ''a'' demo_chain))" by (simp add: demo_chain_radius)
  show "''c'' \<notin> set (quarantine_ledger (tables demo_chain))" by (simp add: demo_chain_sel)
  have "edge_rel (edges demo_chain) ''b'' ''c''" by (simp add: demo_chain_sel edge_rel_def)
  then show "derives (dag (tables demo_chain)) ''b'' ''c''" using sq_run_edges_ok [OF demo_chain_run] by (simp add: edges_ok_def)
qed

definition demo_twice :: payload where
  "demo_twice = (bare_payload ''sum'' [demo_edge ''bad'', (demo_edge ''bad'')\<lparr>edge_class := Some ''CARRIED''\<rparr>])\<lparr>covers := [''bad'']\<rparr>"

definition demo_twice_state :: sqlite_state where
  "demo_twice_state = snd (sq_commit_node demo_twice (sq_reset \<lparr>tables = init_state, edges = [], event_depths = []\<rparr>))"

text \<open>The backends disagree on what needs repair. A compaction that declares a poisoned node first as a plain parent and then as a
  carried one is planned for repair by the memory backend; the edges table keeps only the first of the two
  rows, so the SQLite backend computes the same blast radius but plans no repair.\<close>

theorem backends_disagree_on_repair:
  "fst (sq_compute_blast_radius 1000 ''bad'' demo_twice_state) = fst (compute_blast_radius ''bad'' (tables demo_twice_state)) \<and>
   map_of (repair_candidates (tables (snd (sq_compute_blast_radius 1000 ''bad'' demo_twice_state)))) ''sum'' = None \<and>
   map_of (repair_candidates (snd (compute_blast_radius ''bad'' (tables demo_twice_state)))) ''sum'' =
     Some (irreducible_candidate ''empty_frontier'' ''Requires human review'')"
proof -
  have tab: "tables demo_twice_state = init_state\<lparr>dag := [(''clean-parent-1'', bare_payload ''clean-parent-1'' []), (''sum'', demo_twice)]\<rparr>"
    "edges demo_twice_state = [(''sum'', ''bad'', ''MATERIAL'')]"
    by (simp_all add: demo_twice_state_def demo_twice_def demo_edge_def sq_reset_def sq_commit_node_def commit_node_def init_state_def
        add_to_quarantine_ledger_def add_new_def payload_edges_def insert_edge_def Let_def)
  have sel: "parent_ids (bare_payload ''clean-parent-1'' []) = []" "parent_ids demo_twice = [''bad'', ''bad'']" "is_carried ''bad'' demo_twice" "covers demo_twice = [''bad'']"
    by (simp_all add: demo_twice_def demo_edge_def parent_ids_def is_carried_def)
  have mem: "compute_blast_radius ''bad'' (tables demo_twice_state) = ([''bad'', ''sum''], update_repair_candidate ''sum''
      (irreducible_candidate ''empty_frontier'' ''Requires human review'') (tables demo_twice_state))"
    by (simp add: tab sel compute_blast_radius_def search_def init_state_def has_external_effects_def plan_repair_def has_terminal_def
        plan_candidate_def frontier_of_def)
  have "sq_visited (Suc (Suc (Suc 997))) ''bad'' demo_twice_state = [''bad'', ''sum'']"
    by (simp only: sq_visited_def tab sparse_levels.simps) (simp add: children_of_def)
  then have "sq_visited 1000 ''bad'' demo_twice_state = [''bad'', ''sum'']" by (simp add: eval_nat_numeral)
  then have "sq_compute_blast_radius 1000 ''bad'' demo_twice_state = ([''bad'', ''sum''], demo_twice_state)"
    by (simp add: sq_compute_blast_radius_def sq_affected_def tab)
  moreover have "map_of (repair_candidates (tables demo_twice_state)) ''sum'' = None" by (simp add: tab init_state_def)
  ultimately show ?thesis by (simp add: mem update_repair_candidate_def map_of_update)
qed

end
