(* ===== verification/Backend_Spec.thy ===== *)
theory Backend_Spec
  imports Blast_Radius Tainted_Actions Sql Policy
begin

text \<open>
  What every implementation of \<open>BaseStateBackend\<close> promises, independent of how it stores the data: an abstract store of maps and
  sets, the effect of each write on it, and what the reads return of it. The locale \<open>state_backend\<close> is the contract; its lemmas are
  the consequences a client may rely on whatever the backend is. \<open>MemoryStateBackend\<close> is the first instance; the
  SQLite and PostgreSQL backends follow in their own theories.

  Time stamps and the repair candidates are not part of the abstract store: the backends render and round times differently, and they
  plan repairs differently (\<open>backends_disagree_on_repair\<close> in \<open>Sqlite_Backend\<close>).
\<close>

section \<open>The abstract store\<close>

record store =
  st_nodes :: "node_id \<rightharpoonup> payload"
  st_ledger :: "node_id set"
  st_checkpoints :: "string \<rightharpoonup> checkpoint"
  st_effects :: "string \<rightharpoonup> node_id"
  st_substitutes :: "node_id \<rightharpoonup> substitute_declaration"
  st_withdrawn :: "node_id \<rightharpoonup> string \<times> string" \<comment> \<open>triggering event, reason\<close>
  st_predecessor :: "node_id \<rightharpoonup> node_id"

text \<open>The writes of the interface.\<close>

datatype backend_op =
    Commit payload
  | Quarantine quarantine_event "node_id list"
  | Ledger_Add node_id
  | Add_Checkpoint checkpoint
  | Add_Effect string node_id string
  | Add_Substitute substitute_declaration
  | Withdraw recurrence_event "node_id list"
  | Reintegrate node_id node_id
  | Set_Candidate node_id repair_candidate
  | Radius node_id \<comment> \<open>the blast radius query, which also plans repairs\<close>

fun withdrawn_by :: "string \<Rightarrow> nat \<Rightarrow> node_id list \<Rightarrow> (node_id \<rightharpoonup> string \<times> string) \<Rightarrow> (node_id \<rightharpoonup> string \<times> string)" where
  "withdrawn_by eid i [] w = w"
| "withdrawn_by eid i (n # ns) w = withdrawn_by eid (Suc i) ns
     (if n \<in> dom w then w else w(n \<mapsto> (eid, if i = 0 then ''DIRECTLY_IMPLICATED'' else ''UNEXAMINED_DEPENDENT'')))"

fun store_exec :: "backend_op \<Rightarrow> store \<Rightarrow> store" where
  "store_exec (Commit p) v = (if payload_id p \<in> dom (st_nodes v) then v else v\<lparr>st_nodes := (st_nodes v)(payload_id p \<mapsto> p)\<rparr>)"
| "store_exec (Quarantine ev c_p) v = v\<lparr>st_ledger := st_ledger v \<union> set c_p\<rparr>"
| "store_exec (Ledger_Add n) v = v\<lparr>st_ledger := insert n (st_ledger v)\<rparr>"
| "store_exec (Add_Checkpoint c) v = v\<lparr>st_checkpoints := (st_checkpoints v)(checkpoint_id c \<mapsto> c)\<rparr>"
| "store_exec (Add_Effect k n ty) v = v\<lparr>st_effects := (st_effects v)(k \<mapsto> n)\<rparr>"
| "store_exec (Add_Substitute d) v = v\<lparr>st_substitutes := (st_substitutes v)(sub_target_node_id d \<mapsto> d)\<rparr>"
| "store_exec (Withdraw ev ns) v = v\<lparr>st_withdrawn := withdrawn_by (event_id ev) 0 ns (st_withdrawn v)\<rparr>"
| "store_exec (Reintegrate n pre) v = v\<lparr>st_predecessor := (st_predecessor v)(n \<mapsto> pre)\<rparr>"
| "store_exec (Set_Candidate n rc) v = v"
| "store_exec (Radius r) v = v"

text \<open>Derivation in the abstract store.\<close>

definition derives_map :: "(node_id \<rightharpoonup> payload) \<Rightarrow> node_id \<Rightarrow> node_id \<Rightarrow> bool" where
  "derives_map m c n \<longleftrightarrow> (\<exists>nd. m n = Some nd \<and> touches c nd)"

definition st_contained :: "store \<Rightarrow> bool" where
  "st_contained v \<longleftrightarrow> (\<forall>c n. c \<in> st_ledger v \<longrightarrow> derives_map (st_nodes v) c n \<longrightarrow> n \<in> st_ledger v)"

definition st_clean :: "store \<Rightarrow> payload \<Rightarrow> bool" where
  "st_clean v p \<longleftrightarrow> set (parent_ids p) \<inter> st_ledger v = {} \<and> set (covers p) \<inter> st_ledger v = {}"

lemma derives_map_of: "wf_dict d \<Longrightarrow> derives_map (map_of d) = derives d"
  by (auto simp: derives_map_def derives_def mem_set_map_of fun_eq_iff)

lemma store_exec_ledger_grows: "st_ledger v \<subseteq> st_ledger (store_exec op v)"
  by (cases op) auto

lemma store_exec_nodes_kept: "st_nodes v n = Some nd \<Longrightarrow> st_nodes (store_exec op v) n = Some nd"
  by (cases op) auto

lemma fold_ledger_grows: "st_ledger v \<subseteq> st_ledger (fold store_exec ops v)"
proof (induction ops arbitrary: v)
  case (Cons op ops)
  then show ?case using store_exec_ledger_grows [of v op] by fastforce
qed simp

lemma fold_nodes_kept: "st_nodes v n = Some nd \<Longrightarrow> st_nodes (fold store_exec ops v) n = Some nd"
  by (induction ops arbitrary: v) (simp_all add: store_exec_nodes_kept)

section \<open>The contract\<close>

locale state_backend =
  fixes view :: "'s \<Rightarrow> store" and invar :: "'s \<Rightarrow> bool" and bound :: "'s \<Rightarrow> nat"
    and exec :: "backend_op \<Rightarrow> 's \<Rightarrow> 's"
    and commit :: "payload \<Rightarrow> 's \<Rightarrow> bool"
    and radius :: "node_id \<Rightarrow> 's \<Rightarrow> node_id list option"
    and exist :: "node_id list \<Rightarrow> 's \<Rightarrow> (node_id, bool) dict"
    and quarantined :: "node_id list \<Rightarrow> 's \<Rightarrow> (node_id, bool) dict"
    and effects_on :: "node_id list \<Rightarrow> 's \<Rightarrow> bool"
    and digest :: "(node_id list \<Rightarrow> string) \<Rightarrow> node_id list \<Rightarrow> 's \<Rightarrow> string"
  assumes exec_invar: "invar s \<Longrightarrow> invar (exec op s)"
    and exec_view: "invar s \<Longrightarrow> view (exec op s) = store_exec op (view s)"
    and finite_nodes: "finite (dom (st_nodes (view s)))"
    and finite_ledger: "finite (st_ledger (view s))"
    and commit_answer: "commit p s \<longleftrightarrow> payload_id p \<notin> dom (st_nodes (view s))"
    and radius_returns: "invar s \<Longrightarrow> \<exists>c. radius r s = Some c \<and> sorted c \<and> distinct c \<and>
      set c = steps_within (derives_map (st_nodes (view s))) (bound s) r"
    and exist_answer: "exist ids s = map (\<lambda>i. (i, i \<in> dom (st_nodes (view s)))) (fromkeys ids)"
    and quarantined_answer: "quarantined ids s = map (\<lambda>i. (i, i \<in> st_ledger (view s))) (fromkeys ids)"
    and effects_answer: "invar s \<Longrightarrow> effects_on ids s \<longleftrightarrow> ran (st_effects (view s)) \<inter> set ids \<noteq> {}"
    and digest_answer: "digest h ids s = h (sorted_list_of_set (st_ledger (view s) \<union> set ids))"
begin

lemma run_invar: "invar s \<Longrightarrow> invar (fold exec ops s)"
  by (induction ops arbitrary: s) (simp_all add: exec_invar)

lemma run_view: "invar s \<Longrightarrow> view (fold exec ops s) = fold store_exec ops (view s)"
  by (induction ops arbitrary: s) (simp_all add: exec_invar exec_view)

lemma ledger_monotone: "invar s \<Longrightarrow> st_ledger (view s) \<subseteq> st_ledger (view (fold exec ops s))"
  by (simp add: run_view fold_ledger_grows)

lemma nodes_immutable: "invar s \<Longrightarrow> st_nodes (view s) n = Some nd \<Longrightarrow> st_nodes (view (fold exec ops s)) n = Some nd"
  by (simp add: run_view fold_nodes_kept)

lemma commit_idempotent: "invar s \<Longrightarrow> \<not> commit p (exec (Commit p) s) \<and> view (exec (Commit p) (exec (Commit p) s)) = view (exec (Commit p) s)"
  by (auto simp: commit_answer exec_view exec_invar)

text \<open>A bound that covers the stored nodes makes the blast radius exact.\<close>

lemma radius_exact:
  assumes "invar s" and "card (dom (st_nodes (view s))) \<le> bound s"
  shows "\<exists>c. radius r s = Some c \<and> sorted c \<and> distinct c \<and> set c = reach_from (derives_map (st_nodes (view s))) {r}"
proof -
  have "steps_within (derives_map (st_nodes (view s))) (bound s) r = reach_from (derives_map (st_nodes (view s))) {r}"
    using finite_nodes [of s] by (rule deep_enough) (use assms(2) in \<open>auto simp: derives_map_def\<close>)
  then show ?thesis using radius_returns [OF assms(1), of r] by simp
qed

text \<open>Quarantining the blast radius contains it: a contained store stays contained.\<close>

lemma designation_contains:
  assumes "invar s" and "card (dom (st_nodes (view s))) \<le> bound s" and "st_contained (view s)" and "radius r s = Some c"
  shows "st_contained (view (exec (Quarantine ev c) s))" and "r \<in> st_ledger (view (exec (Quarantine ev c) s))"
proof -
  have c: "set c = reach_from (derives_map (st_nodes (view s))) {r}" using radius_exact [OF assms(1,2), of r] assms(4) by auto
  show "r \<in> st_ledger (view (exec (Quarantine ev c) s))" by (simp add: exec_view [OF assms(1)] c reach_from_start)
  show "st_contained (view (exec (Quarantine ev c) s))"
    using assms(3) by (auto simp: exec_view [OF assms(1)] st_contained_def c intro: reach_from_step)
qed

text \<open>A commit whose parents and covers are clean keeps the store contained.\<close>

lemma commit_contains:
  assumes "invar s" and "st_contained (view s)" and "st_clean (view s) p"
  shows "st_contained (view (exec (Commit p) s))"
  using assms(2,3) by (auto simp: exec_view [OF assms(1)] st_contained_def st_clean_def derives_map_def touches_def split: if_splits)

text \<open>What the policy is told about the parents of a write is read off the abstract store.\<close>

lemma policy_inputs:
  "invar s \<Longrightarrow> evaluate_admission engine epoch p pids (exist pids s) (quarantined pids s) auth =
     evaluate_admission engine epoch p pids (map (\<lambda>i. (i, i \<in> dom (st_nodes (view s)))) (fromkeys pids))
       (map (\<lambda>i. (i, i \<in> st_ledger (view s))) (fromkeys pids)) auth"
  by (simp add: exist_answer quarantined_answer)

end

section \<open>Two backends\<close>

text \<open>Two implementations of the contract that agree on the abstract store keep agreeing, and answer alike.\<close>

locale backend_pair = a: state_backend viewA invarA boundA execA commitA radiusA existA quarantinedA effectsA digestA
  + b: state_backend viewB invarB boundB execB commitB radiusB existB quarantinedB effectsB digestB
  for viewA invarA boundA execA commitA radiusA existA quarantinedA effectsA digestA
    and viewB invarB boundB execB commitB radiusB existB quarantinedB effectsB digestB
begin

lemma agree:
  assumes "invarA s" and "invarB t" and "viewA s = viewB t"
  shows "viewA (fold execA ops s) = viewB (fold execB ops t)"
  using assms by (simp add: a.run_view b.run_view)

lemma same_answers:
  assumes "viewA s = viewB t"
  shows "commitA p s = commitB p t" "existA ids s = existB ids t" "quarantinedA ids s = quarantinedB ids t" "digestA h ids s = digestB h ids t"
  using assms by (simp_all add: a.commit_answer b.commit_answer a.exist_answer b.exist_answer a.quarantined_answer b.quarantined_answer
      a.digest_answer b.digest_answer)

lemma same_radius:
  assumes "invarA s" and "invarB t" and "viewA s = viewB t" and "card (dom (st_nodes (viewA s))) \<le> boundA s"
    and "card (dom (st_nodes (viewA s))) \<le> boundB t"
  shows "radiusA r s = radiusB r t"
proof -
  obtain c where c: "radiusA r s = Some c" "sorted c" "distinct c" "set c = reach_from (derives_map (st_nodes (viewA s))) {r}"
    using a.radius_exact [OF assms(1,4), of r] by blast
  obtain c' where c': "radiusB r t = Some c'" "sorted c'" "distinct c'" "set c' = reach_from (derives_map (st_nodes (viewA s))) {r}"
    using b.radius_exact [OF assms(2), of r] assms(3,5) by auto
  have "c = c'" using c(2,3) c'(2,3) by (rule sorted_distinct_set_unique) (simp only: c(4) c'(4))
  then show ?thesis by (simp add: c(1) c'(1))
qed

end

section \<open>The memory backend\<close>

definition mem_view :: "gstate \<Rightarrow> store" where
  "mem_view s = \<lparr>st_nodes = map_of (dag s), st_ledger = set (quarantine_ledger s), st_checkpoints = map_of (checkpoints s),
     st_effects = map_option effect_node_id \<circ> map_of (external_effects s), st_substitutes = map_of (substitute_declarations s),
     st_withdrawn = map_option (\<lambda>w. (triggering_event_id w, withdrawal_reason w)) \<circ> map_of (withdrawal_ledger s),
     st_predecessor = map_option predecessor_id \<circ> map_of (reintegration_horizon s)\<rparr>"

definition mem_invar :: "gstate \<Rightarrow> bool" where
  "mem_invar s \<longleftrightarrow> wf_dict (dag s) \<and> wf_dict (external_effects s)"

fun mem_exec :: "utc \<Rightarrow> utc \<Rightarrow> backend_op \<Rightarrow> gstate \<Rightarrow> gstate" where
  "mem_exec now expires (Commit p) s = snd (commit_node p s)"
| "mem_exec now expires (Quarantine ev c_p) s = apply_quarantine_transaction ev c_p s"
| "mem_exec now expires (Ledger_Add n) s = add_to_quarantine_ledger n s"
| "mem_exec now expires (Add_Checkpoint c) s = add_checkpoint c s"
| "mem_exec now expires (Add_Effect k n ty) s = add_external_effect now k n ty s"
| "mem_exec now expires (Add_Substitute d) s = add_substitute_declaration d s"
| "mem_exec now expires (Withdraw ev ns) s = apply_withdrawal_transaction now ev ns s"
| "mem_exec now expires (Reintegrate n pre) s = record_reintegration now expires n pre s"
| "mem_exec now expires (Set_Candidate n rc) s = update_repair_candidate n rc s"
| "mem_exec now expires (Radius r) s = snd (compute_blast_radius r s)"

lemma withdraw_all_view:
  "map_option (\<lambda>w. (triggering_event_id w, withdrawal_reason w)) \<circ> map_of (withdraw_all now eid i ns led) =
     withdrawn_by eid i ns (map_option (\<lambda>w. (triggering_event_id w, withdrawal_reason w)) \<circ> map_of led)"
proof (induction now eid i ns led rule: withdraw_all.induct)
  case (2 now eid i n ns led)
  show ?case
  proof (cases "n \<in> set (keys led)")
    case True
    then show ?thesis using 2 by (simp add: set_keys_dom dom_def)
  next
    case False
    then have none: "map_of led n = None" by (simp add: map_of_eq_None_keys)
    then have "map_option f \<circ> map_of (led @ [(n, w)]) = (map_option f \<circ> map_of led)(n \<mapsto> f w)" for f :: "withdrawal \<Rightarrow> string \<times> string" and w
      by (auto simp: fun_eq_iff map_add_def split: option.split)
    then show ?thesis using 2 False none by (simp only: withdraw_all.simps withdrawn_by.simps if_False) (simp add: dom_def fun_upd_def)
  qed
qed simp

lemma status_fold_eq: "foldl (\<lambda>d i. AList.update i (f i) d) [] ids = map (\<lambda>i. (i, f i)) (fromkeys ids)"
proof -
  have upd: "AList.update i (f i) (map (\<lambda>i. (i, f i)) xs) = map (\<lambda>i. (i, f i)) (add_new xs i)" for i xs
    by (induction xs) (auto simp: add_new_def)
  have "foldl (\<lambda>d i. AList.update i (f i) d) (map (\<lambda>i. (i, f i)) xs) ids = map (\<lambda>i. (i, f i)) (foldl add_new xs ids)" for xs
    by (induction ids arbitrary: xs) (simp_all add: upd)
  from this [of "[]"] show ?thesis by (simp add: fromkeys_def)
qed

lemma effects_ran:
  assumes "wf_dict (external_effects s)"
  shows "has_external_effects ids s \<longleftrightarrow> ran (map_option effect_node_id \<circ> map_of (external_effects s)) \<inter> set ids \<noteq> {}"
proof -
  have "has_external_effects ids s \<longleftrightarrow> (\<exists>k e. map_of (external_effects s) k = Some e \<and> effect_node_id e \<in> set ids)"
    by (force simp: has_external_effects_def list_ex_iff mem_set_map_of [OF assms])
  then show ?thesis by (auto simp: ran_def)
qed

lemma sorted_union: "sort (remdups (xs @ ys)) = sorted_list_of_set (set xs \<union> set ys)"
  by (metis set_append sorted_list_of_set_sort_remdups)

lemma blast_radius_view: "mem_view (snd (compute_blast_radius r s)) = mem_view s"
  "mem_invar (snd (compute_blast_radius r s)) = mem_invar s"
proof -
  obtain rcs where "snd (compute_blast_radius r s) = s\<lparr>repair_candidates := rcs\<rparr>"
    using compute_blast_radius_only_candidates [of r s] by blast
  then show "mem_view (snd (compute_blast_radius r s)) = mem_view s" "mem_invar (snd (compute_blast_radius r s)) = mem_invar s"
    by (simp_all add: mem_view_def mem_invar_def)
qed

lemma mem_exec_invar: "mem_invar s \<Longrightarrow> mem_invar (mem_exec now expires op s)"
  by (cases op) (auto simp: mem_invar_def blast_radius_view(2) [unfolded mem_invar_def] wf_commit_node add_to_quarantine_ledger_def add_checkpoint_def
      add_external_effect_def add_substitute_declaration_def apply_withdrawal_transaction_def record_reintegration_def
      update_repair_candidate_def apply_quarantine_transaction_def)

lemma mem_exec_view: "mem_view (mem_exec now expires op s) = store_exec op (mem_view s)"
proof (cases op)
  case (Commit p)
  then show ?thesis
    by (cases "payload_id p \<in> set (keys (dag s))")
      (auto simp: mem_view_def commit_node_def set_keys_dom fun_eq_iff map_add_def split: option.split)
next
  case (Withdraw ev ns)
  then show ?thesis by (simp add: mem_view_def apply_withdrawal_transaction_def withdraw_all_view)
next
  case (Radius r)
  then show ?thesis by (simp add: blast_radius_view)
qed (auto simp: mem_view_def apply_quarantine_transaction_def add_to_quarantine_ledger_def add_checkpoint_def add_external_effect_def
    add_substitute_declaration_def record_reintegration_def update_repair_candidate_def map_of_update fun_eq_iff)

interpretation memory: state_backend mem_view mem_invar "\<lambda>s. length (dag s)" "mem_exec now expires" "\<lambda>p s. fst (commit_node p s)"
  "\<lambda>r s. Some (fst (compute_blast_radius r s))" nodes_exist are_quarantined has_external_effects compute_quarantine_digest for now expires
proof
  fix s :: gstate and r
  assume "mem_invar s"
  then have wf: "wf_dict (dag s)" by (simp add: mem_invar_def)
  have "card (set (keys (dag s))) \<le> length (dag s)" using card_length [of "keys (dag s)"] by simp
  then have "steps_within (derives (dag s)) (length (dag s)) r = reach_from (derives (dag s)) {r}"
    by (intro deep_enough [of "set (keys (dag s))"]) (auto intro: derives_key)
  then show "\<exists>c. Some (fst (compute_blast_radius r s)) = Some c \<and> sorted c \<and> distinct c \<and>
      set c = steps_within (derives_map (st_nodes (mem_view s))) (length (dag s)) r"
    by (simp add: mem_view_def derives_map_of [OF wf] set_blast_radius distinct_blast_radius) (simp add: fst_compute_blast_radius)
next
  fix s :: gstate and ids
  assume "mem_invar s"
  then show "has_external_effects ids s = (ran (st_effects (mem_view s)) \<inter> set ids \<noteq> {})"
    by (simp add: mem_invar_def effects_ran) (simp add: mem_view_def)
qed (simp_all add: mem_exec_invar mem_exec_view, simp_all add: mem_view_def finite_dom_map_of commit_node_new set_keys_dom nodes_exist_def are_quarantined_def
      status_fold_eq compute_quarantine_digest_def sorted_union)

end
