(* ===== verification/Sqlite_Statements.thy ===== *)
theory Sqlite_Statements
  imports Sqlite_Backend Backend_Spec Continuity
begin

text \<open>
  The remaining methods of \<open>SqliteStateBackend\<close> (\<open>src/sqlite_backend.py\<close>), statement by statement, in the order of the source; those
  that need no edges act on the tables alone. With them the backend is an instance of the
  contract \<open>state_backend\<close>, so it agrees with the memory backend on every sequence of writes.
\<close>

section \<open>Ledger, repair candidates, checkpoints, effects\<close>

definition sq_log_quarantine_event :: "quarantine_event \<Rightarrow> gstate \<Rightarrow> gstate" where
  "sq_log_quarantine_event ev s = s\<lparr>quarantine_events := replace_row quarantine_event_id ev (quarantine_events s)\<rparr>"

definition sq_add_to_quarantine_ledger :: "node_id \<Rightarrow> gstate \<Rightarrow> gstate" where
  "sq_add_to_quarantine_ledger n s = s\<lparr>quarantine_ledger := ignore_row id n (quarantine_ledger s)\<rparr>"

definition sq_add_checkpoint :: "checkpoint \<Rightarrow> gstate \<Rightarrow> gstate" where
  "sq_add_checkpoint c s = s\<lparr>checkpoints := insert_replace (checkpoint_id c) c (checkpoints s)\<rparr>"

definition sq_add_external_effect :: "utc \<Rightarrow> string \<Rightarrow> node_id \<Rightarrow> string \<Rightarrow> gstate \<Rightarrow> gstate" where
  "sq_add_external_effect now key n ty s = s\<lparr>external_effects := insert_replace key
     \<lparr>effect_node_id = n, effect_type = ty, effect_recorded_at_utc = now\<rparr> (external_effects s)\<rparr>"

definition sq_check_external_effect :: "string \<Rightarrow> gstate \<Rightarrow> bool" where
  "sq_check_external_effect key s \<longleftrightarrow> select_keys [key] (keys (external_effects s)) \<noteq> []"

definition sq_has_external_effects :: "node_id list \<Rightarrow> gstate \<Rightarrow> bool" where
  "sq_has_external_effects ids s \<longleftrightarrow> ids \<noteq> [] \<and> filter (\<lambda>(k, e). effect_node_id e \<in> set ids) (external_effects s) \<noteq> []"

section \<open>Reintegration and recurrence\<close>

text \<open>The statement leaves \<open>renewal_count\<close> to its default, and replacing deletes the old row: the count restarts at 0.\<close>

definition sq_record_reintegration :: "utc \<Rightarrow> utc \<Rightarrow> node_id \<Rightarrow> node_id \<Rightarrow> gstate \<Rightarrow> gstate" where
  "sq_record_reintegration now expires n pre s = s\<lparr>reintegration_horizon := insert_replace n
     \<lparr>admitted_at_utc = now, trust_expires_utc = expires, predecessor_id = pre, renewal_count = 0\<rparr> (reintegration_horizon s)\<rparr>"

definition sq_record_reintegration_evidence :: "utc \<Rightarrow> node_id \<Rightarrow> string \<Rightarrow> string \<Rightarrow> gate_evidence list \<Rightarrow> gstate \<Rightarrow> gstate" where
  "sq_record_reintegration_evidence now n pre post ev s = s\<lparr>reintegration_evidence := insert_replace n
     \<lparr>pre_state_digest = pre, post_state_digest = post, gate_evidence_list = ev, evidence_recorded_at_utc = now\<rparr> (reintegration_evidence s)\<rparr>"

text \<open>The columns \<open>trust_expires_utc\<close>, \<open>predecessor_id\<close> and \<open>renewal_count\<close> by node.\<close>

definition sq_get_active_horizon_set :: "utc \<Rightarrow> gstate \<Rightarrow> (node_id, utc \<times> node_id \<times> nat) dict" where
  "sq_get_active_horizon_set now s =
     map (\<lambda>(n, h). (n, trust_expires_utc h, predecessor_id h, renewal_count h)) (filter (\<lambda>(n, h). trust_expires_utc h > now) (reintegration_horizon s))"

definition sq_get_expired_horizon_set :: "utc \<Rightarrow> gstate \<Rightarrow> node_id list" where
  "sq_get_expired_horizon_set now s = map fst (filter (\<lambda>(n, h). trust_expires_utc h \<le> now) (reintegration_horizon s))"

definition sq_renew_trust :: "utc \<Rightarrow> node_id \<Rightarrow> gstate \<Rightarrow> gstate" where
  "sq_renew_trust expires n s = s\<lparr>reintegration_horizon :=
     update_where n (\<lambda>h. h\<lparr>trust_expires_utc := expires, renewal_count := renewal_count h + 1\<rparr>) (reintegration_horizon s)\<rparr>"

fun sq_withdraw_rows :: "utc \<Rightarrow> string \<Rightarrow> nat \<Rightarrow> node_id list \<Rightarrow> (node_id, withdrawal) dict \<Rightarrow> (node_id, withdrawal) dict" where
  "sq_withdraw_rows now eid i [] t = t"
| "sq_withdraw_rows now eid i (n # ns) t = sq_withdraw_rows now eid (Suc i) ns
     (insert_ignore n \<lparr>withdrawn_at_utc = now, triggering_event_id = eid,
        withdrawal_reason = (if i = 0 then ''DIRECTLY_IMPLICATED'' else ''UNEXAMINED_DEPENDENT'')\<rparr> t)"

definition sq_apply_withdrawal_transaction :: "utc \<Rightarrow> recurrence_event \<Rightarrow> node_id list \<Rightarrow> gstate \<Rightarrow> gstate" where
  "sq_apply_withdrawal_transaction now ev w_r s = s\<lparr>recurrence_events := replace_row event_id ev (recurrence_events s),
     withdrawal_ledger := sq_withdraw_rows now (event_id ev) 0 w_r (withdrawal_ledger s)\<rparr>"

definition sq_record_calibration_run :: "calibration_run \<Rightarrow> gstate \<Rightarrow> gstate" where
  "sq_record_calibration_run r s = s\<lparr>calibration_runs := replace_row run_id r (calibration_runs s)\<rparr>"

section \<open>Signals\<close>

definition sq_record_signal_attempt :: "utc \<Rightarrow> string \<Rightarrow> node_id \<Rightarrow> string \<Rightarrow> string \<Rightarrow> gstate \<Rightarrow> gstate" where
  "sq_record_signal_attempt now src n kind out s = s\<lparr>signal_attempts := signal_attempts s @
     [\<lparr>signal_source = src, signal_node_id = n, signal_kind = kind, outcome = out, recorded_at_utc = now\<rparr>]\<rparr>"

definition sq_count_recent_signals :: "string \<Rightarrow> utc \<Rightarrow> gstate \<Rightarrow> nat" where
  "sq_count_recent_signals src since s =
     length (filter (\<lambda>a. signal_source a = src \<and> recorded_at_utc a > since) (signal_attempts s))"

definition sq_count_recent_signals_global :: "utc \<Rightarrow> gstate \<Rightarrow> nat" where
  "sq_count_recent_signals_global since s = length (filter (\<lambda>a. recorded_at_utc a > since) (signal_attempts s))"

definition sq_get_signal_outcome_counts :: "gstate \<Rightarrow> (string, nat) dict" where
  "sq_get_signal_outcome_counts s = count_by (map outcome (signal_attempts s))"

section \<open>Status and digests\<close>

definition sq_nodes_exist :: "node_id list \<Rightarrow> gstate \<Rightarrow> (node_id, bool) dict" where
  "sq_nodes_exist ids s = status_of ids (keys (dag s))"

text \<open>The column \<open>content_hash\<close> is filled on commit with \<open>payload.get("content_digest_sha256", "")\<close>.\<close>

definition hash_column :: "payload \<Rightarrow> string" where
  "hash_column p = (case content_digest_sha256 p of None \<Rightarrow> [] | Some h \<Rightarrow> h)"

definition sq_get_node_content_hashes :: "node_id list \<Rightarrow> gstate \<Rightarrow> (node_id, string) dict" where
  "sq_get_node_content_hashes ids s =
     (if ids = [] then [] else map (\<lambda>(i, nd). (i, hash_column nd)) (filter (\<lambda>(i, nd). i \<in> set (fromkeys ids)) (dag s)))"

definition sq_are_quarantined :: "node_id list \<Rightarrow> gstate \<Rightarrow> (node_id, bool) dict" where
  "sq_are_quarantined ids s = status_of ids (quarantine_ledger s)"

definition sq_compute_quarantine_digest :: "(node_id list \<Rightarrow> string) \<Rightarrow> node_id list \<Rightarrow> gstate \<Rightarrow> string" where
  "sq_compute_quarantine_digest digest ids s = digest (sort (remdups (quarantine_ledger s @ ids)))"

text \<open>
  The column \<open>commitment\<close>: the digest of the content hash and the sorted parent commitments, from \<open>commit_node\<close>. It is a function of
  the stored payload, so it is computed where it is read.
\<close>

definition sq_commitment :: "(string \<Rightarrow> string) \<Rightarrow> payload \<Rightarrow> string" where
  "sq_commitment sha256 p = sha256 (hash_column p @ concat (sort (map (\<lambda>c. parent_node_id c @ '':'' @
     (case parent_content_hash c of None \<Rightarrow> [] | Some h \<Rightarrow> h)) (parent_dependency_commitments p))))"

definition sq_compute_state_digest :: "(string \<Rightarrow> string) \<Rightarrow> ((node_id \<times> string) list \<Rightarrow> node_id list \<Rightarrow> string) \<Rightarrow> gstate \<Rightarrow> string" where
  "sq_compute_state_digest sha256 combine s =
     combine (sort_key fst (map (\<lambda>(i, nd). (i, sq_commitment sha256 nd)) (dag s))) (sort (quarantine_ledger s))"

section \<open>Exposures, substitutes, detector events\<close>

definition sq_record_continuity_exposure :: "utc \<Rightarrow> string \<Rightarrow> node_id \<Rightarrow> string \<Rightarrow> bool \<Rightarrow> string option \<Rightarrow> gstate \<Rightarrow> gstate" where
  "sq_record_continuity_exposure now eid n status nonempty mech s = s\<lparr>continuity_exposures := ignore_row exposure_id
     \<lparr>exposure_id = eid, exposure_node_id = n, substitute_status = status, exposed_at_utc = now, quarantine_non_empty = nonempty, mechanism = mech\<rparr>
     (continuity_exposures s)\<rparr>"

definition sq_get_continuity_exposures :: "gstate \<Rightarrow> exposure list" where
  "sq_get_continuity_exposures s = sort_key exposed_at_utc (continuity_exposures s)"

definition sq_add_substitute_declaration :: "substitute_declaration \<Rightarrow> gstate \<Rightarrow> gstate" where
  "sq_add_substitute_declaration d s =
     s\<lparr>substitute_declarations := insert_replace (sub_target_node_id d) d (substitute_declarations s)\<rparr>"

definition sq_record_detector_event :: "detector_event \<Rightarrow> gstate \<Rightarrow> gstate" where
  "sq_record_detector_event e s = s\<lparr>detector_events := ignore_row detector_event_id e (detector_events s)\<rparr>"

text \<open>The table \<open>shadow_decisions\<close> with all its columns; a plain \<open>INSERT\<close> raises on a known identifier. The other theories keep the verdicts only.\<close>

record shadow_row =
  decision_id :: string
  sd_node_id :: node_id
  evaluated_at_utc :: utc
  would_have_blocked :: bool
  sd_reason :: string
  parent_status_json :: string
  policy_bundle_digest :: string
  writer_identity :: string

definition sq_record_shadow_decision :: "shadow_row \<Rightarrow> shadow_row list \<Rightarrow> shadow_row list option" where
  "sq_record_shadow_decision r rows = (if decision_id r \<in> set (map decision_id rows) then None else Some (rows @ [r]))"

lemma sq_shadow_decisions:
  "sq_record_shadow_decision r rows = Some rows' \<Longrightarrow> shadow_decisions s = map would_have_blocked rows \<Longrightarrow>
     shadow_decisions (record_shadow_decision (would_have_blocked r) s) = map would_have_blocked rows'"
  by (auto simp: sq_record_shadow_decision_def split: if_splits)


definition sq_get_critical_dependents :: "node_id list \<Rightarrow> gstate \<Rightarrow> critical_dep list" where
  "sq_get_critical_dependents ids s = (if ids = [] then [] else List.map_filter (critical_dep_of ids) (dag s))"

section \<open>The interval gap\<close>

definition children_join :: "(node_id \<times> node_id \<times> string) list \<Rightarrow> node_id list \<Rightarrow> node_id list" where
  "children_join es working = [c. (c, p, k) \<leftarrow> es, n \<leftarrow> working, p = n]"

definition parents_join :: "(node_id \<times> node_id \<times> string) list \<Rightarrow> node_id list \<Rightarrow> node_id list" where
  "parents_join es working = [p. (c, p, k) \<leftarrow> es, n \<leftarrow> working, c = n]"

text \<open>\<open>descendants INTERSECT ancestors EXCEPT covered\<close>; \<open>None\<close> would be a query that never ends.\<close>

definition gap_query :: "(node_id \<times> node_id \<times> string) list \<Rightarrow> node_id list \<Rightarrow> node_id list \<Rightarrow> node_id list option" where
  "gap_query es stored cs =
     (if cs = [] then Some []
      else let base = select_keys (fromkeys cs) stored in
        case (with_recursive base (children_join es), with_recursive base (parents_join es)) of
          (Some descendants, Some ancestors) \<Rightarrow> Some (sort (remdups (filter (\<lambda>n. n \<in> set ancestors \<and> n \<notin> set base) descendants)))
        | _ \<Rightarrow> None)"

definition sq_compute_covers_interval_gap :: "node_id list \<Rightarrow> sqlite_state \<Rightarrow> node_id list option" where
  "sq_compute_covers_interval_gap cs t = gap_query (edges t) (keys (dag (tables t))) cs"

section \<open>Rejections\<close>

definition sq_record_tainted_rejection :: "node_id \<Rightarrow> node_id \<Rightarrow> utc \<Rightarrow> string \<Rightarrow> gstate \<Rightarrow> gstate" where
  "sq_record_tainted_rejection n par when author s = s\<lparr>tainted_rejections := tainted_rejections s @
     [\<lparr>tr_node_id = n, tainted_parent_id = par, rejected_at_utc = when, author_identity = author, offered = False, offered_replacement = None,
       replacement_type = None, completed = False, completed_by = None\<rparr>]\<rparr>"

definition sq_record_tainted_offer :: "node_id \<Rightarrow> node_id \<Rightarrow> string \<Rightarrow> gstate \<Rightarrow> gstate" where
  "sq_record_tainted_offer rid rep ty s = s\<lparr>tainted_rejections := map (\<lambda>r.
     if tr_node_id r = rid \<and> \<not> offered r then r\<lparr>offered := True, offered_replacement := Some rep, replacement_type := Some ty\<rparr> else r)
     (tainted_rejections s)\<rparr>"

definition complete_rows :: "node_id \<Rightarrow> node_id \<Rightarrow> tainted_rejection list \<Rightarrow> tainted_rejection list" where
  "complete_rows rid by_id rs =
     map (\<lambda>r. if tr_node_id r = rid \<and> \<not> completed r then r\<lparr>completed := True, completed_by := Some by_id\<rparr> else r) rs"

definition sq_record_tainted_completion :: "node_id \<Rightarrow> node_id \<Rightarrow> gstate \<Rightarrow> gstate" where
  "sq_record_tainted_completion rid by_id s = s\<lparr>tainted_rejections := complete_rows rid by_id (tainted_rejections s)\<rparr>"

text \<open>The loop runs over the rows that were pending before it; its update closes every open row of the identifier.\<close>

definition retry_matches :: "payload \<Rightarrow> tainted_rejection \<Rightarrow> bool" where
  "retry_matches p r \<longleftrightarrow> truthy (offered_replacement r) \<and> the (offered_replacement r) \<in> set (parent_ids p) \<and>
     \<not> (truthy (retry_of p) \<and> retry_of p = Some (tr_node_id r) \<and> author_identity r \<noteq> [] \<and> submitter_of p \<noteq> author_identity r)"

definition retry_rows :: "payload \<Rightarrow> tainted_rejection list \<Rightarrow> tainted_rejection list" where
  "retry_rows p rs = foldl (\<lambda>rs r. if retry_matches p r then complete_rows (tr_node_id r) (payload_id p) rs else rs) rs
     (filter (\<lambda>r. offered r \<and> \<not> completed r) rs)"

definition sq_check_retry_completion :: "payload \<Rightarrow> gstate \<Rightarrow> gstate" where
  "sq_check_retry_completion p s = s\<lparr>tainted_rejections := retry_rows p (tainted_rejections s)\<rparr>"

definition count_rows :: "(tainted_rejection \<Rightarrow> bool) \<Rightarrow> tainted_rejection list \<Rightarrow> nat" where
  "count_rows P rs = length (filter P rs)"

definition rejection_stats :: "tainted_rejection list \<Rightarrow> tainted_stats" where
  "rejection_stats rs =
     (let tot = count_rows (\<lambda>_. True) rs; off = count_rows offered rs; com = count_rows completed rs
      in \<lparr>total_rejections = tot, offered_count = off, completed_count = com,
          completion_rate = (if tot > 0 then of_nat com / of_nat tot else 0), offer_rate = (if tot > 0 then of_nat off / of_nat tot else 0),
          direct_offered = count_rows (\<lambda>r. offered r \<and> replacement_type r = Some ''direct'') rs,
          direct_completed = count_rows (\<lambda>r. completed r \<and> replacement_type r = Some ''direct'') rs,
          ancestor_offered = count_rows (\<lambda>r. offered r \<and> replacement_type r = Some ''ancestor'') rs,
          ancestor_completed = count_rows (\<lambda>r. completed r \<and> replacement_type r = Some ''ancestor'') rs\<rparr>)"

definition sq_get_tainted_action_stats :: "gstate \<Rightarrow> tainted_stats" where
  "sq_get_tainted_action_stats s = rejection_stats (tainted_rejections s)"

section \<open>Continuity replacement\<close>

text \<open>The mechanism is \<open>exposure_record.get("mechanism")\<close>, which may be \<open>None\<close>.\<close>

record sql_replacement =
  sr_node_id :: node_id
  sr_for :: node_id
  sr_exposure_id :: "string option"
  sr_mechanism :: "string option"

definition edge_parents :: "(node_id \<times> node_id \<times> string) list \<Rightarrow> node_id \<Rightarrow> node_id list" where
  "edge_parents es n = [p. (c, p, k) \<leftarrow> es, c = n]"

definition stands_in :: "(node_id, payload) dict \<Rightarrow> node_id \<Rightarrow> node_id \<Rightarrow> bool" where
  "stands_in d cand n \<longleftrightarrow> (case map_of d n of None \<Rightarrow> False | Some nd \<Rightarrow> content_entry nd ''original_target'' = Some (JStr cand))"

definition declared_source :: "(node_id, payload) dict \<Rightarrow> node_id list \<Rightarrow> (node_id, substitute_declaration) dict \<Rightarrow> node_id \<Rightarrow> node_id option" where
  "declared_source d ledger subs cand =
     (case map_of subs cand of None \<Rightarrow> None
      | Some sd \<Rightarrow> if substitute_source_id sd \<noteq> [] \<and> substitute_source_id sd \<in> set (keys d) \<and> substitute_source_id sd \<notin> set ledger
          then Some (substitute_source_id sd) else None)"

fun sq_first_replacement :: "gstate \<Rightarrow> node_id list \<Rightarrow> sql_replacement option" where
  "sq_first_replacement s [] = None"
| "sq_first_replacement s (cand # cands) =
     (case find (\<lambda>e. stands_in (dag s) cand (exposure_node_id e)) (continuity_exposures s) of
        Some e \<Rightarrow> Some \<lparr>sr_node_id = exposure_node_id e, sr_for = cand, sr_exposure_id = Some (exposure_id e), sr_mechanism = mechanism e\<rparr>
      | None \<Rightarrow> (case declared_source (dag s) (quarantine_ledger s) (substitute_declarations s) cand of
          Some src \<Rightarrow> Some \<lparr>sr_node_id = src, sr_for = cand, sr_exposure_id = None, sr_mechanism = Some ''M3_DECLARED_SUBSTITUTE''\<rparr>
        | None \<Rightarrow> sq_first_replacement s cands))"

definition sq_find_continuity_replacement :: "node_id \<Rightarrow> sqlite_state \<Rightarrow> sql_replacement option" where
  "sq_find_continuity_replacement n t =
     sq_first_replacement (tables t) (anc_loop (edge_parents (edges t)) (quarantine_ledger (tables t)) [] [n] [])"

section \<open>The recursive queries\<close>

lemma set_children_join: "set (children_join es w) = {y. \<exists>x\<in>set w. edge_rel es x y}"
  by (auto simp: children_join_def edge_rel_def)

lemma set_parents_join: "set (parents_join es w) = {y. \<exists>x\<in>set w. edge_rel es y x}"
  by (auto simp: parents_join_def edge_rel_def)

lemma edge_rel_fst: "edge_rel es x y \<Longrightarrow> y \<in> fst ` set es" and edge_rel_snd: "edge_rel es x y \<Longrightarrow> x \<in> fst ` snd ` set es"
  by (force simp: edge_rel_def)+

interpretation down_query: recursive_query "edge_rel es" "children_join es" base for es base
proof
  show "finite (reach_from (edge_rel es) (set base))"
    by (rule finite_subset [OF reach_from_bound [of "edge_rel es" "fst ` set es" "set base"]]) (auto intro: edge_rel_fst)
qed (rule set_children_join)

interpretation up_query: recursive_query "\<lambda>x y. edge_rel es y x" "parents_join es" base for es base
proof
  show "finite (reach_from (\<lambda>x y. edge_rel es y x) (set base))"
    by (rule finite_subset [OF reach_from_bound [of "\<lambda>x y. edge_rel es y x" "fst ` snd ` set es" "set base"]]) (auto intro: edge_rel_snd)
qed (rule set_parents_join)

lemma reach_converse: "n \<in> reach_from (\<lambda>x y. E y x) R \<longleftrightarrow> (\<exists>c\<in>R. E\<^sup>*\<^sup>* n c)"
proof -
  have "(\<lambda>x y. E y x) = E\<inverse>\<inverse>" by (simp add: fun_eq_iff)
  then show ?thesis by (auto simp: reach_from_def intro: rtranclp_converseI dest: rtranclp_converseD)
qed

lemma set_select_keys [simp]: "set (select_keys ids column) = set ids \<inter> set column"
  by (auto simp: select_keys_def)

text \<open>The gap query ends on every edges table, cyclic or not, with the nodes between stored covered nodes.\<close>

lemma gap_query_result:
  "\<exists>gap. gap_query es stored cs = Some gap \<and> sorted gap \<and> distinct gap \<and>
     set gap = {n. (\<exists>a\<in>set cs \<inter> set stored. (edge_rel es)\<^sup>*\<^sup>* a n) \<and> (\<exists>b\<in>set cs \<inter> set stored. (edge_rel es)\<^sup>*\<^sup>* n b)} - (set cs \<inter> set stored)"
proof (cases "cs = []")
  case False
  let ?base = "select_keys (fromkeys cs) stored"
  obtain d where d: "with_recursive ?base (children_join es) = Some d" "set d = reach_from (edge_rel es) (set ?base)"
    using down_query.returns_closure by blast
  obtain a where a: "with_recursive ?base (parents_join es) = Some a" "set a = reach_from (\<lambda>x y. edge_rel es y x) (set ?base)"
    using up_query.returns_closure by blast
  have "n \<in> set a \<longleftrightarrow> (\<exists>b\<in>set cs \<inter> set stored. (edge_rel es)\<^sup>*\<^sup>* n b)" "n \<in> set d \<longleftrightarrow> (\<exists>b\<in>set cs \<inter> set stored. (edge_rel es)\<^sup>*\<^sup>* b n)" for n
    by (simp_all add: a(2) d(2) reach_converse [of n "edge_rel es"]) (auto simp: reach_from_def)
  then show ?thesis using False by (auto simp: gap_query_def Let_def d(1) a(1))
qed (simp add: gap_query_def)

text \<open>C32: The covers query of the SQL backends ends and finds what lies between. On every state the SQLite backend reaches, also with cyclic
  derivations, the recursive query returns, sorted and without duplicates, exactly the nodes that are derived from one stored
  covered node and from which another is derived, less the covered ones.\<close>

theorem sqlite_gap_terminates:
  assumes "sq_run depth t"
  shows "let d = dag (tables t); C = set cs \<inter> set (keys d) in
     \<exists>gap. sq_compute_covers_interval_gap cs t = Some gap \<and> sorted gap \<and> distinct gap \<and>
       set gap = {n. (\<exists>a\<in>C. (derives d)\<^sup>*\<^sup>* a n) \<and> (\<exists>b\<in>C. (derives d)\<^sup>*\<^sup>* n b)} - C"
  using gap_query_result [of "edges t" "keys (dag (tables t))" cs] sq_run_edges_ok [OF assms]
  by (simp add: sq_compute_covers_interval_gap_def edges_ok_def)

definition demo_long :: sqlite_state where
  "demo_long = snd (sq_commit_node (bare_payload ''d'' [demo_edge ''c'']) demo_chain)"

theorem sqlite_gap_terminates_witness:
  "\<exists>gap. sq_compute_covers_interval_gap [''b'', ''d''] demo_long = Some gap \<and> ''c'' \<in> set gap"
proof -
  have run: "sq_run depth demo_long" for depth unfolding demo_long_def by (intro sq_run.commit demo_chain_run)
  have keys: "keys (dag (tables demo_long)) = [''clean-parent-1'', ''b'', ''c'', ''d'']"
    by (simp add: demo_long_def sq_commit_tables commit_node_def demo_chain_sel)
  have "edges demo_long = [(''b'', ''a'', ''MATERIAL''), (''c'', ''b'', ''MATERIAL''), (''d'', ''c'', ''MATERIAL'')]"
    by (simp add: demo_long_def demo_edge_def sq_commit_node_def commit_node_def demo_chain_sel payload_edges_def insert_edge_def)
  then have "edge_rel (edges demo_long) ''b'' ''c''" "edge_rel (edges demo_long) ''c'' ''d''" by (simp_all add: edge_rel_def)
  then have "derives (dag (tables demo_long)) ''b'' ''c''" "derives (dag (tables demo_long)) ''c'' ''d''"
    using sq_run_edges_ok [OF run [of 1]] by (simp_all add: edges_ok_def)
  then show ?thesis
    using sqlite_gap_terminates [OF run [of 1], of "[''b'', ''d'']"] by (auto simp: Let_def keys)
qed

section \<open>Rejections of distinct writes\<close>

lemma complete_rows_ids [simp]: "map tr_node_id (complete_rows rid by_id rs) = map tr_node_id rs"
  by (simp add: complete_rows_def o_def if_distrib cong: if_cong)

text \<open>Closing rows for several matches closes the open rows of all their identifiers.\<close>

lemma fold_complete:
  "foldl (\<lambda>rs r. if retry_matches p r then complete_rows (tr_node_id r) (payload_id p) rs else rs) rs xs =
     map (\<lambda>r. if \<not> completed r \<and> (\<exists>x\<in>set xs. retry_matches p x \<and> tr_node_id x = tr_node_id r)
       then r\<lparr>completed := True, completed_by := Some (payload_id p)\<rparr> else r) rs"
proof (induction xs arbitrary: rs)
  case (Cons x xs)
  then show ?case by (auto simp: complete_rows_def)
qed simp

lemma unique_row: "distinct (map f xs) \<Longrightarrow> x \<in> set xs \<Longrightarrow> y \<in> set xs \<Longrightarrow> f x = f y \<Longrightarrow> x = y"
  by (auto simp: distinct_map inj_on_def)

lemma retry_credit_matches:
  "retry_credit p r = (if offered r \<and> \<not> completed r \<and> retry_matches p r then r\<lparr>completed := True, completed_by := Some (payload_id p)\<rparr> else r)"
  by (auto simp: retry_credit_def retry_matches_def)

lemma retry_rows_unique:
  assumes "distinct (map tr_node_id rs)"
  shows "retry_rows p rs = map (retry_credit p) rs"
  unfolding retry_rows_def fold_complete
proof (rule map_cong [OF refl])
  fix r
  assume "r \<in> set rs"
  then have "(\<exists>x\<in>set (filter (\<lambda>r. offered r \<and> \<not> completed r) rs). retry_matches p x \<and> tr_node_id x = tr_node_id r) \<longleftrightarrow>
      offered r \<and> \<not> completed r \<and> retry_matches p r"
    using unique_row [OF assms] by auto
  then show "(if \<not> completed r \<and> (\<exists>x\<in>set (filter (\<lambda>r. offered r \<and> \<not> completed r) rs). retry_matches p x \<and> tr_node_id x = tr_node_id r)
      then r\<lparr>completed := True, completed_by := Some (payload_id p)\<rparr> else r) = retry_credit p r"
    by (simp add: retry_credit_matches)
qed

lemma map_if_absent: "\<forall>r\<in>set rs. \<not> P r \<Longrightarrow> map (\<lambda>r. if P r then f r else r) rs = rs"
  by (induction rs) auto

lemma head_unique:
  assumes "distinct (map f (r # rs))"
  shows "\<forall>x\<in>set rs. f x \<noteq> f r"
proof
  fix x
  assume "x \<in> set rs"
  then have "f x \<in> f ` set rs" by (rule imageI)
  then show "f x \<noteq> f r" using assms by (metis distinct.simps(2) list.simps(9) list.set_map)
qed

lemma offer_unique:
  "distinct (map tr_node_id rs) \<Longrightarrow> offer_first rid rep ty rs = map (\<lambda>r. if tr_node_id r = rid \<and> \<not> offered r
     then r\<lparr>offered := True, offered_replacement := Some rep, replacement_type := Some ty\<rparr> else r) rs"
proof (induction rs)
  case (Cons r rs)
  have "\<forall>x\<in>set rs. tr_node_id x \<noteq> tr_node_id r" using Cons.prems by (rule head_unique)
  then show ?case using Cons by (auto intro!: map_if_absent [symmetric])
qed simp

lemma complete_unique:
  "distinct (map tr_node_id rs) \<Longrightarrow> complete_first rid by_id rs = complete_rows rid by_id rs"
proof (induction rs)
  case (Cons r rs)
  have "\<forall>x\<in>set rs. tr_node_id x \<noteq> tr_node_id r" using Cons.prems by (rule head_unique)
  then show ?case using Cons by (auto simp: complete_rows_def intro!: map_if_absent [symmetric])
qed (simp add: complete_rows_def)

text \<open>The two ways of tracking tainted actions agree on distinct writes. As long as no identifier was rejected twice, offering a
  replacement, recording a completion, crediting a retry and the statistics give the same result on the SQLite backend as on
  the memory backend.\<close>

theorem sqlite_tracking_agrees:
  assumes "distinct (map tr_node_id (tainted_rejections s))"
  shows "sq_record_tainted_offer rid rep ty s = record_tainted_offer rid rep ty s \<and>
    sq_record_tainted_completion rid by_id s = record_tainted_completion rid by_id s \<and>
    sq_check_retry_completion p s = check_retry_completion p s \<and> sq_get_tainted_action_stats s = get_tainted_action_stats s"
  using assms by (simp add: sq_record_tainted_offer_def record_tainted_offer_def offer_unique sq_record_tainted_completion_def
      record_tainted_completion_def complete_unique sq_check_retry_completion_def check_retry_completion_def retry_rows_unique
      sq_get_tainted_action_stats_def get_tainted_action_stats_def rejection_stats_def count_rows_def count_rej_def Let_def)

theorem sqlite_tracking_agrees_witness:
  "let s = record_tainted_rejection ''v'' ''p'' ''t'' [] (record_tainted_rejection ''w'' ''p'' ''t'' [] init_state)
   in sq_record_tainted_offer ''w'' ''r'' ''direct'' s = record_tainted_offer ''w'' ''r'' ''direct'' s"
proof -
  let ?s = "record_tainted_rejection ''v'' ''p'' ''t'' [] (record_tainted_rejection ''w'' ''p'' ''t'' [] init_state)"
  have "distinct (map tr_node_id (tainted_rejections ?s))" by (simp add: record_tainted_rejection_def init_state_def)
  from sqlite_tracking_agrees [OF this] show ?thesis by (simp add: Let_def)
qed

section \<open>The contract\<close>

text \<open>Every write of the interface, on the tables and, for a commit, on the edges.\<close>

definition on_tables :: "(gstate \<Rightarrow> gstate) \<Rightarrow> sqlite_state \<Rightarrow> sqlite_state" where
  "on_tables f t = t\<lparr>tables := f (tables t)\<rparr>"

fun sq_exec :: "nat \<Rightarrow> utc \<Rightarrow> utc \<Rightarrow> backend_op \<Rightarrow> sqlite_state \<Rightarrow> sqlite_state" where
  "sq_exec depth now expires (Commit p) t = snd (sq_commit_node p t)"
| "sq_exec depth now expires (Quarantine ev c_p) t = sq_apply_quarantine depth ev c_p t"
| "sq_exec depth now expires (Ledger_Add n) t = on_tables (sq_add_to_quarantine_ledger n) t"
| "sq_exec depth now expires (Add_Checkpoint c) t = on_tables (sq_add_checkpoint c) t"
| "sq_exec depth now expires (Add_Effect k n ty) t = on_tables (sq_add_external_effect now k n ty) t"
| "sq_exec depth now expires (Add_Substitute d) t = on_tables (sq_add_substitute_declaration d) t"
| "sq_exec depth now expires (Withdraw ev ns) t = on_tables (sq_apply_withdrawal_transaction now ev ns) t"
| "sq_exec depth now expires (Reintegrate n pre) t = on_tables (sq_record_reintegration now expires n pre) t"
| "sq_exec depth now expires (Set_Candidate n rc) t = on_tables (sq_set_repair_candidate n rc) t"
| "sq_exec depth now expires (Radius r) t = snd (sq_compute_blast_radius depth r t)"

definition sq_view :: "sqlite_state \<Rightarrow> store" where
  "sq_view t = mem_view (tables t)"

definition sq_invar :: "sqlite_state \<Rightarrow> bool" where
  "sq_invar t \<longleftrightarrow> edges_ok t \<and> wf_dict (external_effects (tables t))"

lemma sq_withdraw_rows_eq: "sq_withdraw_rows now eid i ns t = withdraw_all now eid i ns t"
  by (induction now eid i ns t rule: withdraw_all.induct) (simp_all add: insert_ignore_def)

lemma sq_radius_only_candidates: "\<exists>rcs. snd (sq_compute_blast_radius depth r t) = t\<lparr>tables := (tables t)\<lparr>repair_candidates := rcs\<rparr>\<rparr>"
proof -
  let ?c = "sort (sq_visited depth r t)"
  obtain rcs where "foldl (sq_plan_repair (has_external_effects ?c (tables t)) ?c) (tables t) (sq_affected ?c t) = (tables t)\<lparr>repair_candidates := rcs\<rparr>"
    using sq_plan_all_only_candidates by blast
  then show ?thesis by (auto simp: sq_compute_blast_radius_def Let_def)
qed

lemmas sq_writes = sq_add_to_quarantine_ledger_def sq_add_checkpoint_def sq_add_external_effect_def sq_add_substitute_declaration_def
  sq_apply_withdrawal_transaction_def sq_record_reintegration_def sq_set_repair_candidate_def sq_apply_quarantine_def on_tables_def

lemma sq_exec_invar: "sq_invar t \<Longrightarrow> sq_invar (sq_exec depth now expires op t)"
proof (cases op)
  case (Commit p)
  assume "sq_invar t"
  then show ?thesis by (simp add: Commit sq_invar_def sq_commit_edges_ok sq_commit_tables)
next
  case (Radius r)
  assume "sq_invar t"
  moreover obtain rcs where "snd (sq_compute_blast_radius depth r t) = t\<lparr>tables := (tables t)\<lparr>repair_candidates := rcs\<rparr>\<rparr>"
    using sq_radius_only_candidates by blast
  ultimately show ?thesis by (simp add: Radius sq_invar_def edges_ok_def)
qed (auto simp: sq_invar_def edges_ok_def sq_writes)

lemma sq_exec_view: "sq_view (sq_exec depth now expires op t) = store_exec op (sq_view t)"
proof (cases op)
  case (Commit p)
  then show ?thesis using mem_exec_view [of now expires "Commit p" "tables t"] by (simp add: sq_view_def sq_commit_tables)
next
  case (Radius r)
  obtain rcs where "snd (sq_compute_blast_radius depth r t) = t\<lparr>tables := (tables t)\<lparr>repair_candidates := rcs\<rparr>\<rparr>"
    using sq_radius_only_candidates by blast
  then show ?thesis by (simp add: Radius sq_view_def mem_view_def)
next
  case (Withdraw ev ns)
  then show ?thesis by (simp add: sq_view_def mem_view_def sq_writes sq_withdraw_rows_eq withdraw_all_view)
qed (auto simp: sq_view_def mem_view_def sq_writes map_of_insert_replace fun_eq_iff ignore_row_def list_ex_iff)

lemma status_of_eq: "status_of ids column = map (\<lambda>i. (i, i \<in> set column)) (fromkeys ids)"
  by (cases "ids = []") (simp_all add: status_of_def Let_def, simp add: fromkeys_def)

interpretation sqlite: state_backend sq_view sq_invar "\<lambda>t. depth" "sq_exec depth now expires" "\<lambda>p t. fst (sq_commit_node p t)"
  "\<lambda>r t. Some (fst (sq_compute_blast_radius depth r t))" "\<lambda>ids t. sq_nodes_exist ids (tables t)" "\<lambda>ids t. sq_are_quarantined ids (tables t)"
  "\<lambda>ids t. sq_has_external_effects ids (tables t)" "\<lambda>h ids t. sq_compute_quarantine_digest h ids (tables t)" for depth now expires
proof
  fix t r
  assume "sq_invar t"
  then have ok: "edges_ok t" by (simp add: sq_invar_def)
  then have wf: "wf_dict (dag (tables t))" by (simp add: edges_ok_def)
  show "\<exists>c. Some (fst (sq_compute_blast_radius depth r t)) = Some c \<and> sorted c \<and> distinct c \<and>
      set c = steps_within (derives_map (st_nodes (sq_view t))) depth r"
    using set_sq_visited [OF ok, of depth r] by (simp add: sq_radius_eq sq_view_def mem_view_def derives_map_of [OF wf])
next
  fix t ids
  assume "sq_invar t"
  moreover have "sq_has_external_effects ids (tables t) \<longleftrightarrow> has_external_effects ids (tables t)"
    by (auto simp: sq_has_external_effects_def has_external_effects_def list_ex_iff filter_empty_conv)
  ultimately show "sq_has_external_effects ids (tables t) = (ran (st_effects (sq_view t)) \<inter> set ids \<noteq> {})"
    using effects_ran [of "tables t" ids] by (simp add: sq_invar_def sq_view_def mem_view_def)
qed (simp_all add: sq_exec_invar sq_exec_view, simp_all add: sq_view_def mem_view_def finite_dom_map_of sq_commit_tables commit_node_new set_keys_dom
      sq_nodes_exist_def sq_are_quarantined_def status_of_eq sq_compute_quarantine_digest_def sorted_union)

interpretation memory_sqlite: backend_pair mem_view mem_invar "\<lambda>s. length (dag s)" "mem_exec now expires" "\<lambda>p s. fst (commit_node p s)"
  "\<lambda>r s. Some (fst (compute_blast_radius r s))" nodes_exist are_quarantined has_external_effects compute_quarantine_digest
  sq_view sq_invar "\<lambda>t. depth" "sq_exec depth now' expires'" "\<lambda>p t. fst (sq_commit_node p t)"
  "\<lambda>r t. Some (fst (sq_compute_blast_radius depth r t))" "\<lambda>ids t. sq_nodes_exist ids (tables t)" "\<lambda>ids t. sq_are_quarantined ids (tables t)"
  "\<lambda>ids t. sq_has_external_effects ids (tables t)" "\<lambda>h ids t. sq_compute_quarantine_digest h ids (tables t)" for now expires depth now' expires'
  by unfold_locales

end
