(* ===== verification/Py_Json.thy ===== *)
theory Py_Json
  imports Prelude
begin

text \<open>
  Python's operations on a decoded JSON value, with the exceptions they raise on a value of another shape: \<open>x.get(k, d)\<close>,
  \<open>x[0]\<close>, \<open>k in x\<close>, \<open>x[k]\<close>, and \<open>str.replace\<close>.
\<close>

datatype py_error = IndexError | KeyError | AttributeError | TypeError | JSONDecodeError | RuntimeError | OtherError

text \<open>\<open>x.get(k, d)\<close> and \<open>x[0]\<close>.\<close>

fun get_key :: "json \<Rightarrow> string \<Rightarrow> json \<Rightarrow> py_error + json" where
  "get_key (JObj o') k d = Inr (case map_of o' k of None \<Rightarrow> d | Some v \<Rightarrow> v)"
| "get_key _ k d = Inl AttributeError"

fun index0 :: "json \<Rightarrow> py_error + json" where
  "index0 (JArr (x # xs)) = Inr x"
| "index0 (JArr []) = Inl IndexError"
| "index0 (JStr (c # cs)) = Inr (JStr [c])"
| "index0 (JStr []) = Inl IndexError"
| "index0 (JObj o') = Inl KeyError"
| "index0 _ = Inl TypeError"

definition bind_py :: "'e + 'a \<Rightarrow> ('a \<Rightarrow> 'e + 'b) \<Rightarrow> 'e + 'b" where
  "bind_py r f = (case r of Inl e \<Rightarrow> Inl e | Inr x \<Rightarrow> f x)"

lemma bind_py_simps [simp]: "bind_py (Inl e) f = Inl e" "bind_py (Inr x) f = f x"
  by (simp_all add: bind_py_def)

text \<open>\<open>k in x\<close> and \<open>x[k]\<close> for a string \<open>k\<close>.\<close>

fun contains :: "string \<Rightarrow> json \<Rightarrow> py_error + bool" where
  "contains k (JObj o') = Inr (k \<in> set (keys o'))"
| "contains k (JArr xs) = Inr (JStr k \<in> set xs)"
| "contains k (JStr s) = Inr (list_ex (\<lambda>n. take (length k) (drop n s) = k) [0..<Suc (length s)])"
| "contains k _ = Inl TypeError"

fun item :: "json \<Rightarrow> string \<Rightarrow> py_error + json" where
  "item (JObj o') k = (case map_of o' k of None \<Rightarrow> Inl KeyError | Some v \<Rightarrow> Inr v)"
| "item _ k = Inl TypeError"

text \<open>\<open>str.replace\<close> for a non-empty pattern.\<close>

function replace_all :: "string \<Rightarrow> string \<Rightarrow> string \<Rightarrow> string" where
  "replace_all old new [] = []"
| "replace_all old new (c # s) =
     (if old \<noteq> [] \<and> take (length old) (c # s) = old then new @ replace_all old new (drop (length old) (c # s))
      else c # replace_all old new s)"
  by pat_completeness auto
termination
  by (relation "measure (\<lambda>(old, new, s). length s)") auto

text \<open>\<open>str.endswith\<close>.\<close>

definition ends_with :: "string \<Rightarrow> string \<Rightarrow> bool" where
  "ends_with s suf \<longleftrightarrow> length suf \<le> length s \<and> drop (length s - length suf) s = suf"

lemma ends_with_append [simp]: "length xs = length suf \<Longrightarrow> ends_with (s @ xs) suf \<longleftrightarrow> xs = suf"
  by (simp add: ends_with_def)

end
