(* ===== verification/Timestamps.thy ===== *)
theory Timestamps
  imports Py_Json "HOL-Library.Monad_Syntax"
begin

text \<open>
  The time stamps of the gateway: Python's \<open>datetime\<close> in UTC, the texts the code writes (\<open>isoformat() + "Z"\<close>,
  \<open>isoformat().replace("+00:00", "Z")\<close>, \<open>strftime("%Y-%m-%dT%H:%M:%S.%fZ")\<close>) and \<open>_parse_utc\<close> of \<open>src/postgres_backend.py\<close>, which reads them
  back. The memory and SQLite backends compare time stamps as strings; \<open>iso_order\<close> is why that is sound. Of
  \<open>datetime.fromisoformat\<close> the model has the forms that \<open>isoformat\<close> writes for UTC and for a naive time.
\<close>

section \<open>Times\<close>

datatype datetime = Datetime (year: nat) (month: nat) (day: nat) (hour: nat) (minute: nat) (second: nat) (microsecond: nat)

definition dt_parts :: "datetime \<Rightarrow> nat list" where
  "dt_parts t = [year t, month t, day t, hour t, minute t, second t, microsecond t]"

lemma dt_parts_inj: "dt_parts t = dt_parts u \<Longrightarrow> t = u"
  by (cases t; cases u) (simp add: dt_parts_def)

text \<open>Times are ordered like Python's: by year, then month, and so on.\<close>

instantiation datetime :: linorder
begin

definition less_eq_datetime :: "datetime \<Rightarrow> datetime \<Rightarrow> bool" where
  "t \<le> u \<longleftrightarrow> dt_parts t \<le> dt_parts u"

definition less_datetime :: "datetime \<Rightarrow> datetime \<Rightarrow> bool" where
  "t < u \<longleftrightarrow> dt_parts t < dt_parts u"

instance
  by standard (auto simp: less_eq_datetime_def less_datetime_def dest: dt_parts_inj)

end

definition is_leap :: "nat \<Rightarrow> bool" where
  "is_leap y \<longleftrightarrow> y mod 4 = 0 \<and> (y mod 100 \<noteq> 0 \<or> y mod 400 = 0)"

definition days_in_month :: "nat \<Rightarrow> nat \<Rightarrow> nat" where
  "days_in_month y m = (if m = 2 then if is_leap y then 29 else 28 else if m \<in> {4, 6, 9, 11} then 30 else 31)"

definition valid_datetime :: "datetime \<Rightarrow> bool" where
  "valid_datetime t \<longleftrightarrow> 1 \<le> year t \<and> year t \<le> 9999 \<and> 1 \<le> month t \<and> month t \<le> 12 \<and> 1 \<le> day t \<and> day t \<le> days_in_month (year t) (month t) \<and>
     hour t < 24 \<and> minute t < 60 \<and> second t < 60 \<and> microsecond t < 1000000"

section \<open>Writing\<close>

definition digit :: "nat \<Rightarrow> char" where
  "digit d = char_of (48 + d)"

fun digits :: "nat \<Rightarrow> nat \<Rightarrow> string" where
  "digits 0 n = []"
| "digits (Suc k) n = digits k (n div 10) @ [digit (n mod 10)]"

definition date_time :: "datetime \<Rightarrow> string" where
  "date_time t = digits 4 (year t) @ ''-'' @ digits 2 (month t) @ ''-'' @ digits 2 (day t) @ ''T'' @
     digits 2 (hour t) @ '':'' @ digits 2 (minute t) @ '':'' @ digits 2 (second t)"

definition fraction :: "datetime \<Rightarrow> string" where
  "fraction t = (if microsecond t = 0 then [] else ''.'' @ digits 6 (microsecond t))"

text \<open>\<open>isoformat()\<close> of a time in UTC and of a naive one; \<open>strftime\<close> with the format of the PostgreSQL backend.\<close>

definition isoformat :: "datetime \<Rightarrow> string" where
  "isoformat t = date_time t @ fraction t @ ''+00:00''"

definition isoformat_naive :: "datetime \<Rightarrow> string" where
  "isoformat_naive t = date_time t @ fraction t"

definition strftime_z :: "datetime \<Rightarrow> string" where
  "strftime_z t = date_time t @ ''.'' @ digits 6 (microsecond t) @ ''Z''"

definition iso_z :: "datetime \<Rightarrow> utc" where
  "iso_z t = isoformat t @ ''Z''"

section \<open>Reading\<close>

definition read_digit :: "char \<Rightarrow> nat option" where
  "read_digit c = (let n = of_char c in if 48 \<le> n \<and> n \<le> 57 then Some (n - 48) else None)"

fun read_number :: "nat \<Rightarrow> nat \<Rightarrow> string \<Rightarrow> (nat \<times> string) option" where
  "read_number 0 acc s = Some (acc, s)"
| "read_number (Suc k) acc [] = None"
| "read_number (Suc k) acc (c # s) = (case read_digit c of None \<Rightarrow> None | Some d \<Rightarrow> read_number k (10 * acc + d) s)"

definition read_char :: "char \<Rightarrow> string \<Rightarrow> string option" where
  "read_char c s = (case s of [] \<Rightarrow> None | x # xs \<Rightarrow> if x = c then Some xs else None)"

definition read_fraction :: "string \<Rightarrow> (nat \<times> string) option" where
  "read_fraction s = (case s of [] \<Rightarrow> Some (0, []) | c # s' \<Rightarrow> if c = CHR ''.'' then read_number 6 0 s' else Some (0, s))"

text \<open>The time and whether it carries the offset.\<close>

definition fromisoformat :: "string \<Rightarrow> (datetime \<times> bool) option" where
  "fromisoformat s = do {
     (y, s) \<leftarrow> read_number 4 0 s; s \<leftarrow> read_char CHR ''-'' s;
     (m, s) \<leftarrow> read_number 2 0 s; s \<leftarrow> read_char CHR ''-'' s;
     (d, s) \<leftarrow> read_number 2 0 s; s \<leftarrow> read_char CHR ''T'' s;
     (h, s) \<leftarrow> read_number 2 0 s; s \<leftarrow> read_char CHR '':'' s;
     (mi, s) \<leftarrow> read_number 2 0 s; s \<leftarrow> read_char CHR '':'' s;
     (sec, s) \<leftarrow> read_number 2 0 s; (us, s) \<leftarrow> read_fraction s;
     let t = Datetime y m d h mi sec us;
     if valid_datetime t \<and> s \<in> {[], ''+00:00''} then Some (t, s \<noteq> []) else None}"

text \<open>\<open>_parse_utc\<close>: a time without an offset is taken as UTC.\<close>

definition parse_utc :: "string \<Rightarrow> datetime option" where
  "parse_utc ts =
     (let ts = (if ends_with ts ''+00:00Z'' then butlast ts else if ends_with ts ''Z'' then butlast ts @ ''+00:00'' else ts)
      in map_option fst (fromisoformat ts))"

section \<open>Digits\<close>

lemma digit_simps: "d < 10 \<Longrightarrow> of_char (digit d) = 48 + d" "d < 10 \<Longrightarrow> read_digit (digit d) = Some d"
  by (simp_all add: digit_def read_digit_def)

lemma digit_inj: "a < 10 \<Longrightarrow> b < 10 \<Longrightarrow> digit a = digit b \<longleftrightarrow> a = b"
  by (auto dest: arg_cong [of _ _ read_digit] simp: digit_simps)

lemma length_digits [simp]: "length (digits k n) = k"
  by (induction k arbitrary: n) simp_all

lemma read_number_append:
  "n < 10 ^ k \<Longrightarrow> read_number (k + j) acc (digits k n @ s) = read_number j (acc * 10 ^ k + n) s"
proof (induction k arbitrary: n j s)
  case (Suc k)
  have "n div 10 < 10 ^ k" using Suc.prems by (simp add: less_mult_imp_div_less mult.commute)
  then have "read_number (k + Suc j) acc (digits k (n div 10) @ [digit (n mod 10)] @ s) =
      read_number (Suc j) (acc * 10 ^ k + n div 10) ([digit (n mod 10)] @ s)" by (rule Suc.IH)
  then show ?case by (simp add: digit_simps algebra_simps)
qed simp

lemma read_digits: "n < 10 ^ k \<Longrightarrow> read_number k 0 (digits k n @ s) = Some (n, s)"
  using read_number_append [of n k 0 0 s] by simp

lemma less_append:
  fixes xs ys :: "'a::linorder list"
  shows "length xs = length ys \<Longrightarrow> xs @ us < ys @ vs \<longleftrightarrow> xs < ys \<or> xs = ys \<and> us < vs"
  by (induction xs ys rule: list_induct2) auto

lemma decimal_less:
  fixes a b c d :: nat
  assumes "b < 10" and "d < 10"
  shows "10 * a + b < 10 * c + d \<longleftrightarrow> a < c \<or> a = c \<and> b < d"
  using assms by (cases a c rule: linorder_cases) auto

lemma digits_order: "m < 10 ^ k \<Longrightarrow> n < 10 ^ k \<Longrightarrow> (digits k m < digits k n \<longleftrightarrow> m < n) \<and> (digits k m = digits k n \<longleftrightarrow> m = n)"
proof (induction k arbitrary: m n)
  case (Suc k)
  have "m div 10 < 10 ^ k" "n div 10 < 10 ^ k" using Suc.prems by (simp_all add: less_mult_imp_div_less mult.commute)
  then have IH: "(digits k (m div 10) < digits k (n div 10) \<longleftrightarrow> m div 10 < n div 10) \<and> (digits k (m div 10) = digits k (n div 10) \<longleftrightarrow> m div 10 = n div 10)"
    by (rule Suc.IH)
  have dig: "of_char (digit (m mod 10)) = 48 + m mod 10" "of_char (digit (n mod 10)) = 48 + n mod 10" by (simp_all add: digit_simps)
  have lt: "digit (m mod 10) < digit (n mod 10) \<longleftrightarrow> m mod 10 < n mod 10" unfolding less_char_def by (simp add: dig)
  have eq: "digit (m mod 10) = digit (n mod 10) \<longleftrightarrow> m mod 10 = n mod 10" by (rule digit_inj) simp_all
  from decimal_less [of "m mod 10" "n mod 10" "m div 10" "n div 10"] have "m < n \<longleftrightarrow> m div 10 < n div 10 \<or> m div 10 = n div 10 \<and> m mod 10 < n mod 10" by simp
  moreover have "m = n \<longleftrightarrow> m div 10 = n div 10 \<and> m mod 10 = n mod 10" by (metis div_mult_mod_eq)
  ultimately show ?case using IH lt eq by (simp add: less_append)
qed simp

section \<open>Times as text\<close>

lemma valid_bounds:
  assumes "valid_datetime t"
  shows "year t < 10 ^ 4" "month t < 10 ^ 2" "day t < 10 ^ 2" "hour t < 10 ^ 2" "minute t < 10 ^ 2" "second t < 10 ^ 2" "microsecond t < 10 ^ 6"
proof -
  have "days_in_month (year t) (month t) \<le> 31" by (simp add: days_in_month_def)
  then show "year t < 10 ^ 4" "month t < 10 ^ 2" "day t < 10 ^ 2" "hour t < 10 ^ 2" "minute t < 10 ^ 2" "second t < 10 ^ 2" "microsecond t < 10 ^ 6"
    using assms unfolding valid_datetime_def by simp_all
qed

lemma length_date_time [simp]: "length (date_time t) = 19"
  by (simp add: date_time_def)

lemma date_time_order:
  assumes "valid_datetime t" and "valid_datetime u"
  shows "date_time t < date_time u \<longleftrightarrow> butlast (dt_parts t) < butlast (dt_parts u)" and "date_time t = date_time u \<longleftrightarrow> butlast (dt_parts t) = butlast (dt_parts u)"
  using valid_bounds [OF assms(1)] valid_bounds [OF assms(2)]
  by (simp_all add: date_time_def dt_parts_def less_append digits_order conj_disj_distribL)

text \<open>The fraction sorts before the offset of a time without one: \<open>'+'\<close> is a smaller character than \<open>'.'\<close>.\<close>

lemma fraction_order:
  assumes "valid_datetime t" and "valid_datetime u"
  shows "fraction t @ ''+00:00Z'' < fraction u @ ''+00:00Z'' \<longleftrightarrow> microsecond t < microsecond u"
  using valid_bounds(7) [OF assms(1)] valid_bounds(7) [OF assms(2)]
  by (auto simp: fraction_def less_append digits_order less_char_def)

lemma parts_order: "t < u \<longleftrightarrow> butlast (dt_parts t) < butlast (dt_parts u) \<or> butlast (dt_parts t) = butlast (dt_parts u) \<and> microsecond t < microsecond u"
  using less_append [of "butlast (dt_parts t)" "butlast (dt_parts u)" "[microsecond t]" "[microsecond u]"]
  by (simp add: less_datetime_def dt_parts_def)

lemma iso_z_less:
  assumes "valid_datetime t" and "valid_datetime u"
  shows "iso_z t < iso_z u \<longleftrightarrow> t < u"
  using date_time_order [OF assms] fraction_order [OF assms] by (simp add: iso_z_def isoformat_def less_append parts_order)

lemma iso_z_le:
  assumes "valid_datetime t" and "valid_datetime u"
  shows "iso_z t \<le> iso_z u \<longleftrightarrow> t \<le> u"
  using iso_z_less [OF assms(2,1)] by (simp flip: not_less)

text \<open>Time stamps may be compared as strings. For valid times, the text \<open>isoformat() + "Z"\<close> of one is smaller than that of another
  exactly if the time is earlier, although a time on a full second has no fraction in its text. The rate limits, the
  trust horizon and the check that a substitute was declared before the containment all compare these texts.\<close>

theorem iso_order:
  assumes "valid_datetime t" and "valid_datetime u"
  shows "(iso_z t < iso_z u \<longleftrightarrow> t < u) \<and> (iso_z t = iso_z u \<longleftrightarrow> t = u)"
  using iso_z_less [OF assms] iso_z_less [OF assms(2,1)] by (metis neq_iff)

theorem iso_order_witness:
  "iso_z (Datetime 2026 8 7 15 2 55 0) < iso_z (Datetime 2026 8 7 15 2 55 1)"
  using iso_order [of "Datetime 2026 8 7 15 2 55 0" "Datetime 2026 8 7 15 2 55 1"]
  by (simp add: valid_datetime_def days_in_month_def less_datetime_def dt_parts_def)

section \<open>Reading back\<close>

lemma fromisoformat_iso:
  assumes "valid_datetime t" and "suf \<in> {[], ''+00:00''}"
  shows "fromisoformat (date_time t @ fraction t @ suf) = Some (t, suf \<noteq> [])"
    and "fromisoformat (date_time t @ ''.'' @ digits 6 (microsecond t) @ suf) = Some (t, suf \<noteq> [])"
proof -
  have frac: "read_fraction (fraction t @ suf) = Some (microsecond t, suf)"
    using valid_bounds(7) [OF assms(1)] assms(2) by (auto simp: fraction_def read_fraction_def read_digits)
  have frac6: "read_fraction (CHR ''.'' # digits 6 (microsecond t) @ suf) = Some (microsecond t, suf)"
    using valid_bounds(7) [OF assms(1)] by (simp add: read_fraction_def read_digits)
  have valid: "valid_datetime (Datetime (year t) (month t) (day t) (hour t) (minute t) (second t) (microsecond t))" using assms(1) by simp
  show "fromisoformat (date_time t @ fraction t @ suf) = Some (t, suf \<noteq> [])"
    "fromisoformat (date_time t @ ''.'' @ digits 6 (microsecond t) @ suf) = Some (t, suf \<noteq> [])"
    unfolding fromisoformat_def date_time_def using valid_bounds [OF assms(1)] assms(2) valid
    by (simp_all add: read_digits read_char_def frac frac6)
qed

lemma set_digits: "c \<in> set (digits k n) \<Longrightarrow> (of_char c :: nat) \<in> {48..57}"
proof (induction k arbitrary: n)
  case (Suc k)
  then show ?case using digit_simps(1) [of "n mod 10"] by auto
qed simp

lemma digits_not_plus: "digits k n \<noteq> CHR ''+'' # s"
  using set_digits [of "CHR ''+''" k n] by auto

lemma ends_with_Z: "ends_with s ''Z'' \<or> ends_with s ''+00:00Z'' \<Longrightarrow> s \<noteq> [] \<and> last s = CHR ''Z''"
proof -
  assume "ends_with s ''Z'' \<or> ends_with s ''+00:00Z''"
  then obtain pre where "s = pre @ ''Z'' \<or> s = pre @ ''+00:00Z''" unfolding ends_with_def by (metis append_take_drop_id)
  then show ?thesis by auto
qed

lemma naive_last: "last (isoformat_naive t) \<noteq> CHR ''Z''"
proof -
  have "last (digits (Suc k) n) \<noteq> CHR ''Z''" for k n using digit_simps(1) [of "n mod 10"] by auto
  then have num: "last (digits 2 n) \<noteq> CHR ''Z''" "last (digits 6 n) \<noteq> CHR ''Z''" "digits 2 n \<noteq> []" "digits 6 n \<noteq> []" for n
    by (metis Suc_1 One_nat_def, metis eval_nat_numeral(3) numeral_eq_Suc, simp_all flip: length_greater_0_conv)
  then show ?thesis unfolding isoformat_naive_def fraction_def date_time_def by (auto simp: last_append num)
qed

lemma naive_not_offset: "\<not> ends_with (isoformat_naive t @ ''Z'') ''+00:00Z''"
proof (cases "microsecond t = 0")
  case True
  have "isoformat_naive t @ ''Z'' = (digits 4 (year t) @ ''-'' @ digits 2 (month t) @ ''-'' @ digits 2 (day t) @ ''T'' @ digits 2 (hour t)) @
      ('':'' @ digits 2 (minute t) @ '':'' @ digits 2 (second t) @ ''Z'')"
    by (simp add: isoformat_naive_def fraction_def date_time_def True)
  then show ?thesis by (simp only:) (subst ends_with_append; simp)
next
  case False
  have "isoformat_naive t @ ''Z'' = (date_time t @ ''.'') @ (digits 6 (microsecond t) @ ''Z'')"
    by (simp add: isoformat_naive_def fraction_def False)
  then show ?thesis using digits_not_plus [of 6 "microsecond t" "''00:00''"] by (simp only:) (subst ends_with_append; simp add: append_eq_Cons_conv Cons_eq_append_conv)
qed

lemma strftime_not_offset: "\<not> ends_with (strftime_z t) ''+00:00Z''"
proof -
  have "strftime_z t = (date_time t @ ''.'') @ (digits 6 (microsecond t) @ ''Z'')" by (simp add: strftime_z_def)
  then show ?thesis using digits_not_plus [of 6 "microsecond t" "''00:00''"] by (simp only:) (subst ends_with_append; simp add: append_eq_Cons_conv Cons_eq_append_conv)
qed

lemma parse_iso_z:
  assumes "valid_datetime t"
  shows "parse_utc (iso_z t) = Some t"
proof -
  have "iso_z t = (date_time t @ fraction t) @ ''+00:00Z''" "butlast (iso_z t) = isoformat t" by (simp_all add: iso_z_def isoformat_def butlast_append)
  then show ?thesis
    using fromisoformat_iso(1) [OF assms, of "''+00:00''"] by (simp add: parse_utc_def isoformat_def del: append_assoc)
qed

text \<open>C38: Every time stamp the code writes is read back. \<open>_parse_utc\<close> recovers a valid time from \<open>isoformat() + "Z"\<close> with its doubled offset mark,
  from the form with \<open>Z\<close> alone, from plain \<open>isoformat()\<close> with or without offset, and from the \<open>strftime\<close> form of the PostgreSQL backend.\<close>

theorem parse_utc_roundtrip:
  assumes "valid_datetime t"
  shows "parse_utc (iso_z t) = Some t \<and> parse_utc (isoformat_naive t @ ''Z'') = Some t \<and> parse_utc (isoformat t) = Some t \<and>
    parse_utc (isoformat_naive t) = Some t \<and> parse_utc (strftime_z t) = Some t"
proof -
  have plain: "fromisoformat (isoformat t) = Some (t, True)" "fromisoformat (isoformat_naive t) = Some (t, False)"
    "fromisoformat (isoformat_naive t @ ''+00:00'') = Some (t, True)"
    "fromisoformat (date_time t @ ''.'' @ digits 6 (microsecond t) @ ''+00:00'') = Some (t, True)"
    using fromisoformat_iso [OF assms, of "''+00:00''"] fromisoformat_iso [OF assms, of "[]"] by (simp_all add: isoformat_def isoformat_naive_def)
  have "parse_utc (iso_z t) = Some t" by (rule parse_iso_z [OF assms])
  moreover have "parse_utc (isoformat_naive t @ ''Z'') = Some t"
    using naive_not_offset by (simp add: parse_utc_def plain)
  moreover have "parse_utc (isoformat t) = Some t"
    using ends_with_Z [of "isoformat t"] by (auto simp: parse_utc_def plain) (simp_all add: isoformat_def)
  moreover have "parse_utc (isoformat_naive t) = Some t"
    using ends_with_Z [of "isoformat_naive t"] naive_last [of t] by (auto simp: parse_utc_def plain)
  moreover have "parse_utc (strftime_z t) = Some t"
  proof -
    have "strftime_z t = (date_time t @ ''.'' @ digits 6 (microsecond t)) @ ''Z''" by (simp add: strftime_z_def)
    then have "ends_with (strftime_z t) ''Z''" "butlast (strftime_z t) @ ''+00:00'' = date_time t @ ''.'' @ digits 6 (microsecond t) @ ''+00:00''"
      by (simp_all only: ends_with_append, simp_all add: butlast_append)
    then show ?thesis using strftime_not_offset [of t] plain(4) by (simp add: parse_utc_def)
  qed
  ultimately show ?thesis by blast
qed

theorem parse_utc_roundtrip_witness:
  "parse_utc (strftime_z (Datetime 2026 8 7 15 2 55 199621)) = Some (Datetime 2026 8 7 15 2 55 199621)"
  using parse_utc_roundtrip [of "Datetime 2026 8 7 15 2 55 199621"] by (simp add: valid_datetime_def days_in_month_def)

end
