(* ===== verification/Postgres_Backend.thy ===== *)
theory Postgres_Backend
  imports Sqlite_Statements Timestamps
begin

text \<open>
  \<open>PostgresStateBackend\<close> (\<open>src/postgres_backend.py\<close>): its tables with their column types, one definition per method, statement by
  statement. Times are columns of type \<open>TIMESTAMPTZ\<close> (\<open>datetime\<close>); a \<open>JSONB\<close> column goes through the codec that
  \<open>_setup_connection\<close> registers, so a Python object is written and read back, and a string that was already encoded with \<open>json.dumps\<close> is read back as a
  string. The blast radius and the interval gap are recursive queries (\<open>Sql\<close>). The backend is an instance of the
  contract \<open>state_backend\<close>; where it does more or less than the other backends, a theorem says so. Not modelled:
  the rounding of a \<open>REAL\<close> column, and a collation of the database other than the order of code points.
\<close>

section \<open>Tables\<close>

record pg_effect =
  pe_node_id :: node_id
  pe_effect_type :: string
  pe_recorded_at :: datetime

record pg_horizon =
  ph_admitted_at :: datetime
  ph_trust_expires :: datetime
  ph_predecessor_id :: node_id
  ph_renewal_count :: nat

record pg_recurrence =
  pr_node_id :: node_id
  pr_class :: string
  pr_detected_at :: datetime
  pr_source :: string
  pr_event_json :: recurrence_event

record pg_signal =
  ps_source :: string
  ps_node_id :: node_id
  ps_kind :: string
  ps_outcome :: string
  ps_recorded_at :: datetime

record pg_withdrawal =
  pw_withdrawn_at :: datetime
  pw_event_id :: string
  pw_reason :: string

record pg_calibration =
  pc_run_at :: datetime
  pc_seeded :: int
  pc_detected :: int
  pc_floor :: rat
  pc_period :: json_object

record pg_shadow =
  psd_node_id :: node_id
  psd_evaluated_at :: datetime
  psd_would_have_blocked :: bool
  psd_reason :: "string option"
  psd_parent_status :: json
  psd_policy_digest :: string
  psd_writer :: "string option"

record pg_evidence =
  pv_pre :: string
  pv_post :: string
  pv_gate_evidence :: json
  pv_recorded_at :: datetime

record pg_exposure =
  px_node_id :: node_id
  px_status :: string
  px_exposed_at :: datetime
  px_quarantine_non_empty :: bool
  px_record :: json

record pg_state =
  pg_nodes :: "(node_id, payload) dict"
  pg_edges :: "(node_id \<times> node_id \<times> string) list"
  pg_ledger :: "node_id list"
  pg_events :: "(string, quarantine_event \<times> nat option) dict" \<comment> \<open>with the key \<open>max_traversal_depth\<close> if it was set\<close>
  pg_candidates :: "(node_id, repair_candidate) dict"
  pg_checkpoints :: "(string, checkpoint) dict"
  pg_effects :: "(string, pg_effect) dict"
  pg_horizons :: "(node_id, pg_horizon) dict"
  pg_recurrences :: "(string, pg_recurrence) dict"
  pg_signals :: "pg_signal list"
  pg_withdrawals :: "(node_id, pg_withdrawal) dict"
  pg_calibrations :: "(string, pg_calibration) dict"
  pg_shadows :: "(string, pg_shadow) dict"
  pg_evidences :: "(node_id, pg_evidence) dict"
  pg_exposures :: "(string, pg_exposure) dict"
  pg_substitutes :: "(node_id, substitute_declaration) dict"
  pg_detectors :: "(string, detector_event) dict"
  pg_rejections :: "tainted_rejection list"

datatype pg_error = DataError | UniqueViolationError | ParseError | Py py_error

section \<open>Graph and quarantine\<close>

definition pg_commit_node :: "payload \<Rightarrow> pg_state \<Rightarrow> bool \<times> pg_state" where
  "pg_commit_node p t =
     (let rows = insert_ignore (payload_id p) p (pg_nodes t) in
      if length rows = length (pg_nodes t) then (False, t)
      else (True, t\<lparr>pg_nodes := rows, pg_edges := fold insert_edge (payload_edges p) (pg_edges t)\<rparr>))"

definition pg_nodes_exist :: "node_id list \<Rightarrow> pg_state \<Rightarrow> (node_id, bool) dict" where
  "pg_nodes_exist ids t = status_of ids (keys (pg_nodes t))"

definition pg_get_node_content_hashes :: "node_id list \<Rightarrow> pg_state \<Rightarrow> (node_id, string) dict" where
  "pg_get_node_content_hashes ids t =
     (if ids = [] then [] else map (\<lambda>(i, nd). (i, hash_column nd)) (filter (\<lambda>(i, nd). i \<in> set (fromkeys ids)) (pg_nodes t)))"

definition pg_are_quarantined :: "node_id list \<Rightarrow> pg_state \<Rightarrow> (node_id, bool) dict" where
  "pg_are_quarantined ids t = status_of ids (pg_ledger t)"

definition pg_log_quarantine_event :: "quarantine_event \<Rightarrow> pg_state \<Rightarrow> pg_state" where
  "pg_log_quarantine_event ev t = t\<lparr>pg_events := upsert (quarantine_event_id ev) (ev, None) (\<lambda>_. (ev, None)) (pg_events t)\<rparr>"

definition pg_add_to_quarantine_ledger :: "node_id \<Rightarrow> pg_state \<Rightarrow> pg_state" where
  "pg_add_to_quarantine_ledger n t = t\<lparr>pg_ledger := ignore_row id n (pg_ledger t)\<rparr>"

definition pg_apply_quarantine_transaction :: "nat \<Rightarrow> quarantine_event \<Rightarrow> node_id list \<Rightarrow> pg_state \<Rightarrow> pg_state" where
  "pg_apply_quarantine_transaction depth ev c_p t =
     t\<lparr>pg_events := upsert (quarantine_event_id ev) (ev, Some depth) (\<lambda>_. (ev, Some depth)) (pg_events t),
       pg_ledger := fold (ignore_row id) c_p (pg_ledger t)\<rparr>"

section \<open>The blast radius\<close>

text \<open>The recursive part of the query: children of the rows above the depth bound, one step deeper.\<close>

definition radius_join :: "(node_id \<times> node_id \<times> string) list \<Rightarrow> nat \<Rightarrow> (node_id \<times> nat) list \<Rightarrow> (node_id \<times> nat) list" where
  "radius_join es bound working = [(c, d + 1). (c, p, k) \<leftarrow> es, (n, d) \<leftarrow> working, p = n \<and> d < bound]"

definition pg_radius :: "nat \<Rightarrow> node_id \<Rightarrow> pg_state \<Rightarrow> node_id list option" where
  "pg_radius depth r t = map_option (\<lambda>rows. sort (remdups (map fst rows))) (with_recursive [(r, 0)] (radius_join (pg_edges t) depth))"

definition pg_affected :: "node_id list \<Rightarrow> pg_state \<Rightarrow> node_id list" where
  "pg_affected c_p t = (if c_p = [] then [] else remdups (map fst (filter (\<lambda>(c, p, k). p \<in> set c_p \<and> k = ''CARRIED'') (pg_edges t))))"

definition pg_has_external_effects :: "node_id list \<Rightarrow> pg_state \<Rightarrow> bool" where
  "pg_has_external_effects ids t \<longleftrightarrow> ids \<noteq> [] \<and> filter (\<lambda>(k, e). pe_node_id e \<in> set ids) (pg_effects t) \<noteq> []"

definition pg_set_repair_candidate :: "node_id \<Rightarrow> repair_candidate \<Rightarrow> pg_state \<Rightarrow> pg_state" where
  "pg_set_repair_candidate n rc t = t\<lparr>pg_candidates := upsert n rc (\<lambda>_. rc) (pg_candidates t)\<rparr>"

text \<open>A compaction that is not stored counts as one that covers nothing (\<open>dag.get(comp_node, {})\<close>).\<close>

definition pg_plan_repair :: "bool \<Rightarrow> node_id list \<Rightarrow> pg_state \<Rightarrow> node_id \<Rightarrow> pg_state" where
  "pg_plan_repair semantic_rollback c_p t n =
     (if (case map_of (pg_candidates t) n of None \<Rightarrow> False | Some rc \<Rightarrow> terminal rc) then t
      else pg_set_repair_candidate n
        (plan_candidate semantic_rollback c_p (pg_checkpoints t) (case map_of (pg_nodes t) n of None \<Rightarrow> bare_payload n [] | Some nd \<Rightarrow> nd)) t)"

definition pg_compute_blast_radius :: "nat \<Rightarrow> node_id \<Rightarrow> pg_state \<Rightarrow> (node_id list \<times> pg_state) option" where
  "pg_compute_blast_radius depth r t =
     (case pg_radius depth r t of None \<Rightarrow> None
      | Some c_p \<Rightarrow> Some (c_p, foldl (pg_plan_repair (pg_has_external_effects c_p t) c_p) t (pg_affected c_p t)))"

section \<open>Checkpoints, effects, evidence, exposures\<close>

definition pg_add_checkpoint :: "checkpoint \<Rightarrow> pg_state \<Rightarrow> pg_state" where
  "pg_add_checkpoint c t = t\<lparr>pg_checkpoints := upsert (checkpoint_id c) c (\<lambda>_. c) (pg_checkpoints t)\<rparr>"

text \<open>On conflict only the node is updated: type and time stay those of the first effect.\<close>

definition pg_add_external_effect :: "datetime \<Rightarrow> string \<Rightarrow> node_id \<Rightarrow> string \<Rightarrow> pg_state \<Rightarrow> pg_state" where
  "pg_add_external_effect now key n ty t = t\<lparr>pg_effects := upsert key \<lparr>pe_node_id = n, pe_effect_type = ty, pe_recorded_at = now\<rparr>
     (\<lambda>old. old\<lparr>pe_node_id := n\<rparr>) (pg_effects t)\<rparr>"

definition pg_check_external_effect :: "string \<Rightarrow> pg_state \<Rightarrow> bool" where
  "pg_check_external_effect key t \<longleftrightarrow> select_keys [key] (keys (pg_effects t)) \<noteq> []"

text \<open>
  The evidence and the exposure record are passed through \<open>json.dumps\<close> before the codec encodes them again, so the column holds a JSON string.
\<close>

definition pg_record_reintegration_evidence :: "(json \<Rightarrow> string) \<Rightarrow> datetime \<Rightarrow> node_id \<Rightarrow> string \<Rightarrow> string \<Rightarrow> json \<Rightarrow> pg_state \<Rightarrow> pg_state" where
  "pg_record_reintegration_evidence dumps' now n pre post ev t =
     (let row = \<lparr>pv_pre = pre, pv_post = post, pv_gate_evidence = JStr (dumps' ev), pv_recorded_at = now\<rparr>
      in t\<lparr>pg_evidences := upsert n row (\<lambda>_. row) (pg_evidences t)\<rparr>)"

definition pg_compute_state_digest :: "(string \<Rightarrow> string) \<Rightarrow> ((node_id \<times> string) list \<Rightarrow> node_id list \<Rightarrow> string) \<Rightarrow> pg_state \<Rightarrow> string" where
  "pg_compute_state_digest sha256 combine t =
     combine (sort_key fst (map (\<lambda>(i, nd). (i, sq_commitment sha256 nd)) (pg_nodes t))) (sort (pg_ledger t))"

definition pg_record_continuity_exposure :: "(json \<Rightarrow> string) \<Rightarrow> datetime \<Rightarrow> string \<Rightarrow> node_id \<Rightarrow> string \<Rightarrow> bool \<Rightarrow> json \<Rightarrow> pg_state \<Rightarrow> pg_state" where
  "pg_record_continuity_exposure dumps' now eid n status nonempty rec t = t\<lparr>pg_exposures := insert_ignore eid
     \<lparr>px_node_id = n, px_status = status, px_exposed_at = now, px_quarantine_non_empty = nonempty, px_record = JStr (dumps' rec)\<rparr> (pg_exposures t)\<rparr>"

definition pg_get_continuity_exposures :: "pg_state \<Rightarrow> (string \<times> node_id \<times> string \<times> utc \<times> bool \<times> json) list" where
  "pg_get_continuity_exposures t =
     map (\<lambda>(i, x). (i, px_node_id x, px_status x, iso_z (px_exposed_at x), px_quarantine_non_empty x, px_record x))
       (sort_key (\<lambda>(i, x). px_exposed_at x) (pg_exposures t))"

section \<open>Reintegration, withdrawal, calibration\<close>

text \<open>On conflict every column but \<open>renewal_count\<close> is updated.\<close>

definition pg_record_reintegration :: "datetime \<Rightarrow> datetime \<Rightarrow> node_id \<Rightarrow> node_id \<Rightarrow> pg_state \<Rightarrow> pg_state" where
  "pg_record_reintegration now expires n pre t = t\<lparr>pg_horizons := upsert n
     \<lparr>ph_admitted_at = now, ph_trust_expires = expires, ph_predecessor_id = pre, ph_renewal_count = 0\<rparr>
     (\<lambda>old. old\<lparr>ph_admitted_at := now, ph_trust_expires := expires, ph_predecessor_id := pre\<rparr>) (pg_horizons t)\<rparr>"

definition pg_get_active_horizon_set :: "datetime \<Rightarrow> pg_state \<Rightarrow> (node_id, utc \<times> node_id \<times> nat) dict" where
  "pg_get_active_horizon_set now t =
     map (\<lambda>(n, h). (n, strftime_z (ph_trust_expires h), ph_predecessor_id h, ph_renewal_count h)) (filter (\<lambda>(n, h). ph_trust_expires h > now) (pg_horizons t))"

definition pg_get_expired_horizon_set :: "datetime \<Rightarrow> pg_state \<Rightarrow> node_id list" where
  "pg_get_expired_horizon_set now t = map fst (filter (\<lambda>(n, h). ph_trust_expires h \<le> now) (pg_horizons t))"

definition pg_renew_trust :: "datetime \<Rightarrow> node_id \<Rightarrow> pg_state \<Rightarrow> pg_state" where
  "pg_renew_trust expires n t = t\<lparr>pg_horizons :=
     update_where n (\<lambda>h. h\<lparr>ph_trust_expires := expires, ph_renewal_count := ph_renewal_count h + 1\<rparr>) (pg_horizons t)\<rparr>"

fun pg_withdraw_rows :: "datetime \<Rightarrow> string \<Rightarrow> nat \<Rightarrow> node_id list \<Rightarrow> (node_id, pg_withdrawal) dict \<Rightarrow> (node_id, pg_withdrawal) dict" where
  "pg_withdraw_rows now eid i [] t = t"
| "pg_withdraw_rows now eid i (n # ns) t = pg_withdraw_rows now eid (Suc i) ns
     (insert_ignore n \<lparr>pw_withdrawn_at = now, pw_event_id = eid,
        pw_reason = (if i = 0 then ''DIRECTLY_IMPLICATED'' else ''UNEXAMINED_DEPENDENT'')\<rparr> t)"

text \<open>The detection time of the event is replaced by the current time; on conflict only the JSON document is updated.\<close>

definition pg_apply_withdrawal_transaction :: "datetime \<Rightarrow> recurrence_event \<Rightarrow> node_id list \<Rightarrow> pg_state \<Rightarrow> pg_state" where
  "pg_apply_withdrawal_transaction now ev w_r t =
     t\<lparr>pg_recurrences := upsert (event_id ev)
         \<lparr>pr_node_id = rec_node_id ev, pr_class = recurrence_class ev, pr_detected_at = now, pr_source = rec_signal_source ev, pr_event_json = ev\<rparr>
         (\<lambda>old. old\<lparr>pr_event_json := ev\<rparr>) (pg_recurrences t),
       pg_withdrawals := pg_withdraw_rows now (event_id ev) 0 w_r (pg_withdrawals t)\<rparr>"

definition pg_get_withdrawal_ledger :: "pg_state \<Rightarrow> (node_id, utc \<times> string \<times> string) dict" where
  "pg_get_withdrawal_ledger t = map (\<lambda>(n, w). (n, strftime_z (pw_withdrawn_at w), pw_event_id w, pw_reason w)) (pg_withdrawals t)"

text \<open>On conflict only the time is updated, the counts stay those of the first run.\<close>

definition pg_record_calibration_run :: "calibration_run \<Rightarrow> pg_state \<Rightarrow> pg_error + pg_state" where
  "pg_record_calibration_run r t =
     (case parse_utc (run_at_utc r) of None \<Rightarrow> Inl ParseError
      | Some run_at \<Rightarrow> Inr (t\<lparr>pg_calibrations := upsert (run_id r)
          \<lparr>pc_run_at = run_at, pc_seeded = seeded_count r, pc_detected = detected_count r, pc_floor = sensitivity_floor r, pc_period = monitored_period r\<rparr>
          (\<lambda>old. old\<lparr>pc_run_at := run_at\<rparr>) (pg_calibrations t)\<rparr>))"

definition pg_get_calibration_runs :: "pg_state \<Rightarrow> calibration_run list" where
  "pg_get_calibration_runs t = map (\<lambda>(i, c). \<lparr>run_id = i, run_at_utc = strftime_z (pc_run_at c), seeded_count = pc_seeded c,
     detected_count = pc_detected c, sensitivity_floor = pc_floor c, monitored_period = pc_period c\<rparr>) (pg_calibrations t)"

section \<open>Signals and shadow decisions\<close>

definition pg_record_signal_attempt :: "datetime \<Rightarrow> string \<Rightarrow> node_id \<Rightarrow> string \<Rightarrow> string \<Rightarrow> pg_state \<Rightarrow> pg_state" where
  "pg_record_signal_attempt now src n kind out t = t\<lparr>pg_signals := pg_signals t @
     [\<lparr>ps_source = src, ps_node_id = n, ps_kind = kind, ps_outcome = out, ps_recorded_at = now\<rparr>]\<rparr>"

definition pg_count_recent_signals :: "string \<Rightarrow> utc \<Rightarrow> pg_state \<Rightarrow> pg_error + nat" where
  "pg_count_recent_signals src since_utc t =
     (case parse_utc since_utc of None \<Rightarrow> Inl ParseError
      | Some since \<Rightarrow> Inr (length (filter (\<lambda>a. ps_source a = src \<and> ps_recorded_at a > since) (pg_signals t))))"

definition pg_count_recent_signals_global :: "utc \<Rightarrow> pg_state \<Rightarrow> pg_error + nat" where
  "pg_count_recent_signals_global since_utc t =
     (case parse_utc since_utc of None \<Rightarrow> Inl ParseError
      | Some since \<Rightarrow> Inr (length (filter (\<lambda>a. ps_recorded_at a > since) (pg_signals t))))"

definition pg_get_signal_outcome_counts :: "pg_state \<Rightarrow> (string, nat) dict" where
  "pg_get_signal_outcome_counts t = count_by (map ps_outcome (pg_signals t))"

text \<open>The plain \<open>INSERT\<close> fails on a decision identifier that is taken; \<open>loads\<close> is \<open>json.loads\<close>.\<close>

definition pg_record_shadow_decision ::
    "(string \<Rightarrow> json option) \<Rightarrow> string \<Rightarrow> node_id \<Rightarrow> utc \<Rightarrow> bool \<Rightarrow> string option \<Rightarrow> string \<Rightarrow> string \<Rightarrow> string option \<Rightarrow> pg_state \<Rightarrow> pg_error + pg_state" where
  "pg_record_shadow_decision loads did n when blocked why status digest writer t =
     (case parse_utc when of None \<Rightarrow> Inl ParseError
      | Some eval_time \<Rightarrow> (case loads status of None \<Rightarrow> Inl (Py JSONDecodeError)
          | Some st \<Rightarrow> if did \<in> set (keys (pg_shadows t)) then Inl UniqueViolationError
              else Inr (t\<lparr>pg_shadows := pg_shadows t @ [(did, \<lparr>psd_node_id = n, psd_evaluated_at = eval_time, psd_would_have_blocked = blocked, psd_reason = why,
                psd_parent_status = st, psd_policy_digest = digest, psd_writer = writer\<rparr>)]\<rparr>)))"

definition pg_compute_quarantine_digest :: "(node_id list \<Rightarrow> string) \<Rightarrow> node_id list \<Rightarrow> pg_state \<Rightarrow> string" where
  "pg_compute_quarantine_digest digest ids t = digest (sort (remdups (pg_ledger t @ ids)))"

definition pg_compute_covers_interval_gap :: "node_id list \<Rightarrow> pg_state \<Rightarrow> node_id list option" where
  "pg_compute_covers_interval_gap cs t = gap_query (pg_edges t) (keys (pg_nodes t)) cs"

section \<open>Substitutes, detectors, critical functions\<close>

definition pg_add_substitute_declaration :: "substitute_declaration \<Rightarrow> pg_state \<Rightarrow> pg_state" where
  "pg_add_substitute_declaration d t = t\<lparr>pg_substitutes := upsert (sub_target_node_id d) d (\<lambda>_. d) (pg_substitutes t)\<rparr>"

definition pg_record_detector_event :: "detector_event \<Rightarrow> pg_state \<Rightarrow> pg_state" where
  "pg_record_detector_event e t = t\<lparr>pg_detectors := insert_ignore (detector_event_id e) e (pg_detectors t)\<rparr>"

definition pg_get_critical_dependents :: "node_id list \<Rightarrow> pg_state \<Rightarrow> critical_dep list" where
  "pg_get_critical_dependents ids t = (if ids = [] then [] else List.map_filter (critical_dep_of ids) (pg_nodes t))"

section \<open>Rejections\<close>

text \<open>
  An argument for a \<open>TIMESTAMPTZ\<close> column goes through the encoder of the driver (\<open>encode\<close>; \<open>None\<close> if it raises). All other methods
  pass it a \<open>datetime\<close>; here it gets the string of the caller. The column is never read, so the row keeps the text.
\<close>

datatype pg_arg = Arg_Str string | Arg_Datetime datetime

definition pg_record_tainted_rejection :: "(pg_arg \<Rightarrow> datetime option) \<Rightarrow> node_id \<Rightarrow> node_id \<Rightarrow> utc \<Rightarrow> string \<Rightarrow> pg_state \<Rightarrow> pg_error + pg_state" where
  "pg_record_tainted_rejection encode n par when author t =
     (case encode (Arg_Str when) of None \<Rightarrow> Inl DataError
      | Some rejected_at \<Rightarrow> Inr (t\<lparr>pg_rejections := pg_rejections t @ [\<lparr>tr_node_id = n, tainted_parent_id = par, rejected_at_utc = when, author_identity = author,
          offered = False, offered_replacement = None, replacement_type = None, completed = False, completed_by = None\<rparr>]\<rparr>))"

definition pg_record_tainted_offer :: "node_id \<Rightarrow> node_id \<Rightarrow> string \<Rightarrow> pg_state \<Rightarrow> pg_state" where
  "pg_record_tainted_offer rid rep ty t = t\<lparr>pg_rejections := map (\<lambda>r.
     if tr_node_id r = rid \<and> \<not> offered r then r\<lparr>offered := True, offered_replacement := Some rep, replacement_type := Some ty\<rparr> else r)
     (pg_rejections t)\<rparr>"

definition pg_record_tainted_completion :: "node_id \<Rightarrow> node_id \<Rightarrow> pg_state \<Rightarrow> pg_state" where
  "pg_record_tainted_completion rid by_id t = t\<lparr>pg_rejections := complete_rows rid by_id (pg_rejections t)\<rparr>"

definition pg_check_retry_completion :: "payload \<Rightarrow> pg_state \<Rightarrow> pg_state" where
  "pg_check_retry_completion p t = t\<lparr>pg_rejections := retry_rows p (pg_rejections t)\<rparr>"

definition pg_get_tainted_action_stats :: "pg_state \<Rightarrow> tainted_stats" where
  "pg_get_tainted_action_stats t = rejection_stats (pg_rejections t)"

section \<open>Continuity replacement\<close>

text \<open>\<open>(exp["exposure_record_json"] or {}).get("mechanism", "unknown")\<close>.\<close>

definition record_mechanism :: "json \<Rightarrow> py_error + json" where
  "record_mechanism rec = get_key (if jtruthy rec then rec else JObj []) ''mechanism'' (JStr ''unknown'')"

text \<open>The mechanism is a JSON value here.\<close>

fun pg_first_replacement :: "pg_state \<Rightarrow> node_id list \<Rightarrow> pg_error + (node_id \<times> node_id \<times> string option \<times> json) option" where
  "pg_first_replacement t [] = Inr None"
| "pg_first_replacement t (cand # cands) =
     (case find (\<lambda>(i, x). stands_in (pg_nodes t) cand (px_node_id x)) (pg_exposures t) of
        Some (i, x) \<Rightarrow> (case record_mechanism (px_record x) of Inl e \<Rightarrow> Inl (Py e) | Inr m \<Rightarrow> Inr (Some (px_node_id x, cand, Some i, m)))
      | None \<Rightarrow> (case declared_source (pg_nodes t) (pg_ledger t) (pg_substitutes t) cand of
          Some src \<Rightarrow> Inr (Some (src, cand, None, JStr ''M3_DECLARED_SUBSTITUTE''))
        | None \<Rightarrow> pg_first_replacement t cands))"

definition pg_find_continuity_replacement :: "node_id \<Rightarrow> pg_state \<Rightarrow> pg_error + (node_id \<times> node_id \<times> string option \<times> json) option" where
  "pg_find_continuity_replacement n t = pg_first_replacement t (anc_loop (edge_parents (pg_edges t)) (pg_ledger t) [] [n] [])"

section \<open>Reset\<close>

text \<open>The table of reintegration evidence is not among those that are cleared.\<close>

definition pg_reset :: "pg_state \<Rightarrow> pg_state" where
  "pg_reset t = (let cleared = \<lparr>pg_nodes = [], pg_edges = [], pg_ledger = [], pg_events = [], pg_candidates = [], pg_checkpoints = [], pg_effects = [],
       pg_horizons = [], pg_recurrences = [], pg_signals = [], pg_withdrawals = [], pg_calibrations = [], pg_shadows = [], pg_evidences = pg_evidences t,
       pg_exposures = [], pg_substitutes = [], pg_detectors = [], pg_rejections = []\<rparr>;
     t1 = snd (pg_commit_node (bare_payload ''clean-parent-1'' []) cleared)
   in pg_add_to_quarantine_ledger ''quarantined-node-A'' t1)"

section \<open>The radius query\<close>

definition row_rel :: "(node_id \<times> node_id \<times> string) list \<Rightarrow> nat \<Rightarrow> node_id \<times> nat \<Rightarrow> node_id \<times> nat \<Rightarrow> bool" where
  "row_rel es bound x y \<longleftrightarrow> edge_rel es (fst x) (fst y) \<and> snd x < bound \<and> snd y = Suc (snd x)"

lemma reach_rows: "reach_from (row_rel es bound) {(r, 0)} = {(n, d). d \<le> bound \<and> (edge_rel es ^^ d) r n}"
proof
  show "reach_from (row_rel es bound) {(r, 0)} \<subseteq> {(n, d). d \<le> bound \<and> (edge_rel es ^^ d) r n}"
    by (rule reach_from_least) (auto simp: row_rel_def relcompp_apply)
  have "d \<le> bound \<Longrightarrow> (edge_rel es ^^ d) r n \<Longrightarrow> (n, d) \<in> reach_from (row_rel es bound) {(r, 0)}" for n d
  proof (induction d arbitrary: n)
    case (Suc d)
    then obtain m where "(edge_rel es ^^ d) r m" "edge_rel es m n" by (auto simp: relcompp_apply)
    then show ?case using Suc by (auto intro: reach_from_step [of "(m, d)"] simp: row_rel_def)
  qed (auto intro: reach_from_start)
  then show "{(n, d). d \<le> bound \<and> (edge_rel es ^^ d) r n} \<subseteq> reach_from (row_rel es bound) {(r, 0)}" by auto
qed

interpretation radius_query: recursive_query "row_rel es bound" "radius_join es bound" "[(r, 0)]" for es bound r
proof
  show "set (radius_join es bound w) = {y. \<exists>x\<in>set w. row_rel es bound x y}" for w
    by (force simp: radius_join_def row_rel_def edge_rel_def)
  have "n \<in> insert r (fst ` set es)" if "(edge_rel es ^^ d) r n" for n d
    using that by (cases d) (auto simp: relcompp_apply dest: edge_rel_fst)
  then have "reach_from (row_rel es bound) {(r, 0)} \<subseteq> insert r (fst ` set es) \<times> {..bound}" by (auto simp: reach_rows)
  then show "finite (reach_from (row_rel es bound) (set [(r, 0)]))" by (simp add: finite_subset)
qed

lemma pg_radius_result:
  "\<exists>c_p. pg_radius depth r t = Some c_p \<and> sorted c_p \<and> distinct c_p \<and> set c_p = steps_within (edge_rel (pg_edges t)) depth r"
proof -
  obtain rows where rows: "with_recursive [(r, 0)] (radius_join (pg_edges t) depth) = Some rows"
    "set rows = {(n, d). d \<le> depth \<and> (edge_rel (pg_edges t) ^^ d) r n}"
    using radius_query.returns_closure [where ?r = r and ?es = "pg_edges t" and ?bound = depth] by (auto simp: reach_rows)
  have "fst ` set rows = steps_within (edge_rel (pg_edges t)) depth r" by (force simp: rows(2) steps_within_relpowp)
  then show ?thesis by (simp add: pg_radius_def rows(1))
qed

lemma pg_plan_only_candidates: "\<exists>rcs. pg_plan_repair sr c_p t n = t\<lparr>pg_candidates := rcs\<rparr>"
proof -
  have "t = t\<lparr>pg_candidates := pg_candidates t\<rparr>" by simp
  then show ?thesis unfolding pg_plan_repair_def pg_set_repair_candidate_def by metis
qed

lemma pg_plan_all_only_candidates: "\<exists>rcs. foldl (pg_plan_repair sr c_p) t ns = t\<lparr>pg_candidates := rcs\<rparr>"
proof (induction ns arbitrary: t)
  case Nil
  have "t = t\<lparr>pg_candidates := pg_candidates t\<rparr>" by simp
  then show ?case by (metis foldl_Nil)
next
  case (Cons n ns)
  obtain rcs where "pg_plan_repair sr c_p t n = t\<lparr>pg_candidates := rcs\<rparr>" using pg_plan_only_candidates by blast
  with Cons.IH [of "t\<lparr>pg_candidates := rcs\<rparr>"] show ?case by simp
qed

section \<open>The contract\<close>

text \<open>\<open>compute_blast_radius\<close> for its effect on the tables.\<close>

definition pg_plan :: "nat \<Rightarrow> node_id \<Rightarrow> pg_state \<Rightarrow> pg_state" where
  "pg_plan depth r t = (case pg_compute_blast_radius depth r t of None \<Rightarrow> t | Some (c_p, t') \<Rightarrow> t')"

fun pg_exec :: "nat \<Rightarrow> datetime \<Rightarrow> datetime \<Rightarrow> backend_op \<Rightarrow> pg_state \<Rightarrow> pg_state" where
  "pg_exec depth now expires (Commit p) t = snd (pg_commit_node p t)"
| "pg_exec depth now expires (Quarantine ev c_p) t = pg_apply_quarantine_transaction depth ev c_p t"
| "pg_exec depth now expires (Ledger_Add n) t = pg_add_to_quarantine_ledger n t"
| "pg_exec depth now expires (Add_Checkpoint c) t = pg_add_checkpoint c t"
| "pg_exec depth now expires (Add_Effect k n ty) t = pg_add_external_effect now k n ty t"
| "pg_exec depth now expires (Add_Substitute d) t = pg_add_substitute_declaration d t"
| "pg_exec depth now expires (Withdraw ev ns) t = pg_apply_withdrawal_transaction now ev ns t"
| "pg_exec depth now expires (Reintegrate n pre) t = pg_record_reintegration now expires n pre t"
| "pg_exec depth now expires (Set_Candidate n rc) t = pg_set_repair_candidate n rc t"
| "pg_exec depth now expires (Radius r) t = pg_plan depth r t"

definition pg_view :: "pg_state \<Rightarrow> store" where
  "pg_view t = \<lparr>st_nodes = map_of (pg_nodes t), st_ledger = set (pg_ledger t), st_checkpoints = map_of (pg_checkpoints t),
     st_effects = map_option pe_node_id \<circ> map_of (pg_effects t), st_substitutes = map_of (pg_substitutes t),
     st_withdrawn = map_option (\<lambda>w. (pw_event_id w, pw_reason w)) \<circ> map_of (pg_withdrawals t),
     st_predecessor = map_option ph_predecessor_id \<circ> map_of (pg_horizons t)\<rparr>"

definition pg_invar :: "pg_state \<Rightarrow> bool" where
  "pg_invar t \<longleftrightarrow> wf_dict (pg_nodes t) \<and> edge_rel (pg_edges t) = derives (pg_nodes t) \<and> wf_dict (pg_effects t)"

lemma pg_commit_simps:
  "fst (pg_commit_node p t) \<longleftrightarrow> payload_id p \<notin> set (keys (pg_nodes t))"
  "snd (pg_commit_node p t) = (if payload_id p \<in> set (keys (pg_nodes t)) then t
     else t\<lparr>pg_nodes := pg_nodes t @ [(payload_id p, p)], pg_edges := fold insert_edge (payload_edges p) (pg_edges t)\<rparr>)"
  by (simp_all add: pg_commit_node_def insert_ignore_def Let_def)

lemma derives_snoc: "derives (d @ [(n, p)]) x y \<longleftrightarrow> derives d x y \<or> y = n \<and> touches x p"
  by (auto simp: derives_def)

lemma set_ledger_rows: "set (fold (ignore_row id) c_p l) = set l \<union> set c_p"
  by (induction c_p arbitrary: l) (auto simp: ignore_row_def list_ex_iff)

lemma pg_plan_frame: "\<exists>rcs. pg_plan depth r t = t\<lparr>pg_candidates := rcs\<rparr>"
proof -
  obtain c_p where "pg_radius depth r t = Some c_p" using pg_radius_result by blast
  then show ?thesis using pg_plan_all_only_candidates by (simp add: pg_plan_def pg_compute_blast_radius_def)
qed

lemmas pg_writes = pg_apply_quarantine_transaction_def pg_add_to_quarantine_ledger_def pg_add_checkpoint_def pg_add_external_effect_def
  pg_add_substitute_declaration_def pg_apply_withdrawal_transaction_def pg_record_reintegration_def pg_set_repair_candidate_def

lemma pg_exec_invar: "pg_invar t \<Longrightarrow> pg_invar (pg_exec depth now expires op t)"
proof (cases op)
  case (Commit p)
  assume inv: "pg_invar t"
  then show ?thesis
    by (auto simp: Commit pg_commit_simps pg_invar_def wf_dict_snoc fun_eq_iff edge_rel_fold payload_edges_rel derives_snoc touches_def)
next
  case (Radius r)
  assume "pg_invar t"
  then show ?thesis using pg_plan_frame [of depth r t] by (auto simp: Radius pg_invar_def)
qed (auto simp: pg_invar_def pg_writes)

lemma withdraw_rows_view:
  "map_option (\<lambda>w. (pw_event_id w, pw_reason w)) \<circ> map_of (pg_withdraw_rows now eid i ns t) =
     withdrawn_by eid i ns (map_option (\<lambda>w. (pw_event_id w, pw_reason w)) \<circ> map_of t)"
proof (induction now eid i ns t rule: pg_withdraw_rows.induct)
  case (2 now eid i n ns t)
  have "map_option (\<lambda>w. (pw_event_id w, pw_reason w)) \<circ> map_of (insert_ignore n w t) =
      (if n \<in> dom (map_option (\<lambda>w. (pw_event_id w, pw_reason w)) \<circ> map_of t) then map_option (\<lambda>w. (pw_event_id w, pw_reason w)) \<circ> map_of t
       else (map_option (\<lambda>w. (pw_event_id w, pw_reason w)) \<circ> map_of t)(n \<mapsto> (pw_event_id w, pw_reason w)))" for w
    by (auto simp: map_of_insert_ignore set_keys_dom dom_def fun_eq_iff)
  then show ?case using 2 by (simp only: pg_withdraw_rows.simps withdrawn_by.simps pg_withdrawal.simps)
qed simp

lemma pg_exec_view: "pg_view (pg_exec depth now expires op t) = store_exec op (pg_view t)"
proof (cases op)
  case (Commit p)
  then show ?thesis by (auto simp: pg_commit_simps pg_view_def set_keys_dom fun_eq_iff map_add_def split: option.split)
next
  case (Radius r)
  then show ?thesis using pg_plan_frame [of depth r t] by (auto simp: pg_view_def)
next
  case (Withdraw ev ns)
  then show ?thesis by (simp add: pg_view_def pg_writes withdraw_rows_view)
qed (auto simp: pg_view_def pg_writes map_of_upsert fun_eq_iff ignore_row_def list_ex_iff set_ledger_rows split: option.split)

lemma pg_effects_ran:
  assumes "wf_dict (pg_effects t)"
  shows "pg_has_external_effects ids t \<longleftrightarrow> ran (map_option pe_node_id \<circ> map_of (pg_effects t)) \<inter> set ids \<noteq> {}"
proof -
  have "pg_has_external_effects ids t \<longleftrightarrow> (\<exists>k e. map_of (pg_effects t) k = Some e \<and> pe_node_id e \<in> set ids)"
    by (force simp: pg_has_external_effects_def filter_empty_conv mem_set_map_of [OF assms])
  then show ?thesis by (auto simp: ran_def)
qed

interpretation postgres: state_backend pg_view pg_invar "\<lambda>t. depth" "pg_exec depth now expires" "\<lambda>p t. fst (pg_commit_node p t)" "pg_radius depth"
  pg_nodes_exist pg_are_quarantined pg_has_external_effects pg_compute_quarantine_digest for depth now expires
proof
  fix t r
  assume "pg_invar t"
  then have "edge_rel (pg_edges t) = derives_map (st_nodes (pg_view t))" by (simp add: pg_invar_def pg_view_def derives_map_of)
  then show "\<exists>c. pg_radius depth r t = Some c \<and> sorted c \<and> distinct c \<and> set c = steps_within (derives_map (st_nodes (pg_view t))) depth r"
    using pg_radius_result [of depth r t] by simp
next
  fix t ids
  assume "pg_invar t"
  then show "pg_has_external_effects ids t = (ran (st_effects (pg_view t)) \<inter> set ids \<noteq> {})"
    using pg_effects_ran [of t ids] by (simp add: pg_invar_def pg_view_def)
qed (simp_all add: pg_exec_invar pg_exec_view, simp_all add: pg_view_def finite_dom_map_of pg_commit_simps set_keys_dom
      pg_nodes_exist_def pg_are_quarantined_def status_of_eq pg_compute_quarantine_digest_def sorted_union)

interpretation memory_postgres: backend_pair mem_view mem_invar "\<lambda>s. length (dag s)" "mem_exec now expires" "\<lambda>p s. fst (commit_node p s)"
  "\<lambda>r s. Some (fst (compute_blast_radius r s))" nodes_exist are_quarantined has_external_effects compute_quarantine_digest
  pg_view pg_invar "\<lambda>t. depth" "pg_exec depth now' expires'" "\<lambda>p t. fst (pg_commit_node p t)" "pg_radius depth"
  pg_nodes_exist pg_are_quarantined pg_has_external_effects pg_compute_quarantine_digest for now expires depth now' expires'
  by unfold_locales

section \<open>The three backends agree\<close>

lemma reset_views:
  "mem_invar (reset_sync s)" "pg_invar (pg_reset u)" "pg_view (pg_reset u) = mem_view (reset_sync s)"
  "substitute_declarations (tables t) = [] \<Longrightarrow> sq_view (sq_reset t) = mem_view (reset_sync s)" "sq_invar (sq_reset t)"
proof -
  show "mem_invar (reset_sync s)" by (simp add: mem_invar_def reset_sync_def wf_dict_def)
  show "pg_invar (pg_reset u)"
    by (auto simp: pg_invar_def pg_reset_def Let_def pg_commit_node_def insert_ignore_def pg_add_to_quarantine_ledger_def payload_edges_def wf_dict_def
        edge_rel_def derives_def touches_def parent_ids_def fun_eq_iff)
  show "pg_view (pg_reset u) = mem_view (reset_sync s)"
    by (simp add: pg_view_def mem_view_def reset_sync_def pg_reset_def Let_def pg_commit_node_def insert_ignore_def pg_add_to_quarantine_ledger_def ignore_row_def comp_def)
  show "substitute_declarations (tables t) = [] \<Longrightarrow> sq_view (sq_reset t) = mem_view (reset_sync s)"
    by (simp add: sq_view_def mem_view_def reset_sync_def sq_reset_def Let_def sq_commit_node_def commit_node_def add_to_quarantine_ledger_def add_new_def)
  show "sq_invar (sq_reset t)"
    using sq_reset_edges_ok [of t] by (simp add: sq_invar_def) (simp add: sq_reset_def Let_def sq_commit_node_def commit_node_def add_to_quarantine_ledger_def)
qed

text \<open>C11: The three backends implement one store. After any sequence of writes from a reset, the memory, SQLite and PostgreSQL backends hold the same
  nodes, quarantine ledger, checkpoints, effects, substitutes, withdrawals and predecessors; they answer commits, existence, quarantine and digest queries
  alike, and while the stored nodes do not outnumber the traversal depth they compute the same blast radius. Declared substitutes
  survive a reset of the SQLite backend, so it must start without any.\<close>

theorem backends_agree:
  assumes "substitute_declarations (tables t') = []"
  shows "let s = fold (mem_exec now expires) ops (reset_sync s'); t = fold (sq_exec depth now' expires') ops (sq_reset t');
      u = fold (pg_exec depth now'' expires'') ops (pg_reset u')
    in sq_view t = mem_view s \<and> pg_view u = mem_view s \<and>
      fst (sq_commit_node p t) = fst (commit_node p s) \<and> fst (pg_commit_node p u) = fst (commit_node p s) \<and>
      sq_nodes_exist ids (tables t) = nodes_exist ids s \<and> pg_nodes_exist ids u = nodes_exist ids s \<and>
      sq_are_quarantined ids (tables t) = are_quarantined ids s \<and> pg_are_quarantined ids u = are_quarantined ids s \<and>
      sq_compute_quarantine_digest h ids (tables t) = compute_quarantine_digest h ids s \<and> pg_compute_quarantine_digest h ids u = compute_quarantine_digest h ids s \<and>
      (length (dag s) \<le> depth \<longrightarrow> fst (sq_compute_blast_radius depth r t) = fst (compute_blast_radius r s) \<and>
         pg_radius depth r u = Some (fst (compute_blast_radius r s)))"
proof -
  define s where "s = fold (mem_exec now expires) ops (reset_sync s')"
  define t where "t = fold (sq_exec depth now' expires') ops (sq_reset t')"
  define u where "u = fold (pg_exec depth now'' expires'') ops (pg_reset u')"
  have inv: "mem_invar s" "sq_invar t" "pg_invar u"
    unfolding s_def t_def u_def by (intro memory.run_invar sqlite.run_invar postgres.run_invar reset_views)+
  have views: "mem_view s = sq_view t" "mem_view s = pg_view u" unfolding s_def t_def u_def
    using memory_sqlite.agree [OF reset_views(1,5)] memory_postgres.agree [OF reset_views(1,2)] reset_views(3,4) assms by metis+
  have "card (dom (st_nodes (mem_view s))) \<le> length (dag s)"
    using card_length [of "keys (dag s)"] by (simp add: mem_view_def set_keys_dom)
  then have "Some (fst (compute_blast_radius r s)) = Some (fst (sq_compute_blast_radius depth r t)) \<and> Some (fst (compute_blast_radius r s)) = pg_radius depth r u"
    if "length (dag s) \<le> depth"
    using that memory_sqlite.same_radius [OF inv(1,2) views(1), of depth r] memory_postgres.same_radius [OF inv(1,3) views(2), of depth r] by linarith
  then have rad: "length (dag s) \<le> depth \<longrightarrow> fst (sq_compute_blast_radius depth r t) = fst (compute_blast_radius r s) \<and>
      pg_radius depth r u = Some (fst (compute_blast_radius r s))" by (metis option.inject)
  show ?thesis
    unfolding s_def [symmetric] t_def [symmetric] u_def [symmetric] Let_def
    by (intro conjI rad) (simp_all only: views(1) [symmetric] views(2) [symmetric] memory_sqlite.same_answers [OF views(1)] memory_postgres.same_answers [OF views(2), symmetric])
qed

definition pg_empty :: pg_state where
  "pg_empty = \<lparr>pg_nodes = [], pg_edges = [], pg_ledger = [], pg_events = [], pg_candidates = [], pg_checkpoints = [], pg_effects = [],
     pg_horizons = [], pg_recurrences = [], pg_signals = [], pg_withdrawals = [], pg_calibrations = [], pg_shadows = [], pg_evidences = [],
     pg_exposures = [], pg_substitutes = [], pg_detectors = [], pg_rejections = []\<rparr>"

theorem backends_agree_witness:
  "let ops = [Commit (bare_payload ''b'' [demo_edge ''a'']), Ledger_Add ''a'']; t1 = Datetime 2026 1 1 0 0 0 0; t2 = Datetime 2026 1 2 0 0 0 0
   in pg_view (fold (pg_exec 9 t1 t2) ops (pg_reset pg_empty)) = mem_view (fold (mem_exec ''t'' ''u'') ops (reset_sync init_state)) \<and>
     pg_radius 9 ''a'' (fold (pg_exec 9 t1 t2) ops (pg_reset pg_empty)) =
       Some (fst (compute_blast_radius ''a'' (fold (mem_exec ''t'' ''u'') ops (reset_sync init_state))))"
proof -
  have "substitute_declarations (tables \<lparr>tables = init_state, edges = [], event_depths = []\<rparr>) = []" by (simp add: init_state_def)
  from backends_agree [OF this, where ?ops = "[Commit (bare_payload ''b'' [demo_edge ''a'']), Ledger_Add ''a'']" and ?now = "''t''" and ?expires = "''u''"
      and ?now'' = "Datetime 2026 1 1 0 0 0 0" and ?expires'' = "Datetime 2026 1 2 0 0 0 0" and ?depth = 9 and ?r = "''a''" and ?s' = init_state and ?u' = pg_empty]
  show ?thesis by (simp add: Let_def reset_sync_def commit_node_def add_to_quarantine_ledger_def)
qed

section \<open>Exposure records\<close>

text \<open>A record that went through \<open>json.dumps\<close> is read back as a non-empty string.\<close>

definition exposures_encoded :: "pg_state \<Rightarrow> bool" where
  "exposures_encoded t \<longleftrightarrow> (\<forall>(i, x)\<in>set (pg_exposures t). \<exists>c cs. px_record x = JStr (c # cs))"

lemma exposures_encoded_record:
  "exposures_encoded t \<Longrightarrow> dumps' rec \<noteq> [] \<Longrightarrow> exposures_encoded (pg_record_continuity_exposure dumps' now eid n st ne rec t)"
  by (cases "dumps' rec") (auto simp: exposures_encoded_def pg_record_continuity_exposure_def insert_ignore_def)

lemma anc_loop_prefix: "\<exists>zs. anc_loop par ledger V Q C = C @ zs"
proof (induction par ledger V Q C rule: anc_loop.induct)
  case (2 par ledger V n Q C)
  then show ?case by (metis anc_loop.simps(2) append_assoc)
qed simp

lemma anc_loop_quarantined: "n \<in> set ledger \<Longrightarrow> \<exists>zs. anc_loop par ledger [] [n] [] = n # zs"
  using anc_loop_prefix [of par ledger "[n]" "par n" "[n]"] by simp

text \<open>On PostgreSQL a continuity replacement cannot be offered once it is in use. The record of an exposure is encoded
  twice, so when the search for a replacement comes to an exposure that stands in for a quarantined node, reading its
  mechanism raises an \<open>AttributeError\<close> instead of returning the replacement that the other backends return.\<close>

theorem postgres_replacement_raises:
  assumes "exposures_encoded t" and "dumps' rec \<noteq> []" and "n \<in> set (pg_ledger t)" and "stands_in (pg_nodes t) n m" and "eid \<notin> set (keys (pg_exposures t))"
  shows "pg_find_continuity_replacement n (pg_record_continuity_exposure dumps' now eid m st ne rec t) = Inl (Py AttributeError)"
proof -
  define t' where "t' = pg_record_continuity_exposure dumps' now eid m st ne rec t"
  let ?x = "\<lparr>px_node_id = m, px_status = st, px_exposed_at = now, px_quarantine_non_empty = ne, px_record = JStr (dumps' rec)\<rparr>"
  have "pg_exposures t' = pg_exposures t @ [(eid, ?x)]" using assms(5) by (simp add: t'_def pg_record_continuity_exposure_def insert_ignore_def)
  then have "(eid, ?x) \<in> set (pg_exposures t')" "px_node_id ?x = m" by simp_all
  then have x: "\<exists>x. (eid, x) \<in> set (pg_exposures t') \<and> px_node_id x = m" by blast
  have t': "pg_nodes t' = pg_nodes t" "pg_ledger t' = pg_ledger t" by (simp_all add: t'_def pg_record_continuity_exposure_def)
  obtain i x where found: "find (\<lambda>(i, x). stands_in (pg_nodes t') n (px_node_id x)) (pg_exposures t') = Some (i, x)"
  proof (cases "find (\<lambda>(i, x). stands_in (pg_nodes t') n (px_node_id x)) (pg_exposures t')")
    case None
    then have no: "\<not> stands_in (pg_nodes t') n (px_node_id y)" if "(j, y) \<in> set (pg_exposures t')" for j y
      using that unfolding find_None_iff by blast
    obtain y where y: "(eid, y) \<in> set (pg_exposures t')" "px_node_id y = m" using x by blast
    then show ?thesis using no [OF y(1)] t'(1) assms(4) by simp
  next
    case (Some jy)
    then show ?thesis using that by (cases jy) simp
  qed
  then have "\<exists>c cs. px_record x = JStr (c # cs)"
  proof -
    have "exposures_encoded t'" unfolding t'_def using assms(1,2) by (rule exposures_encoded_record)
    then show ?thesis using find_SomeD [OF found] by (auto simp: exposures_encoded_def)
  qed
  then have "record_mechanism (px_record x) = Inl AttributeError" by (auto simp: record_mechanism_def)
  then have first: "pg_first_replacement t' (n # zs) = Inl (Py AttributeError)" for zs by (simp add: found)
  obtain zs where "anc_loop (edge_parents (pg_edges t')) (pg_ledger t) [] [n] [] = n # zs"
    using anc_loop_quarantined [OF assms(3)] by blast
  then have "pg_find_continuity_replacement n t' = Inl (Py AttributeError)" by (simp only: pg_find_continuity_replacement_def t'(2) first)
  then show ?thesis by (simp only: t'_def)
qed

theorem postgres_replacement_raises_witness:
  "let t = snd (pg_commit_node ((bare_payload ''r'' [])\<lparr>state_content := Some [(''original_target'', JStr ''quarantined-node-A'')]\<rparr>) (pg_reset pg_empty))
   in pg_find_continuity_replacement ''quarantined-node-A''
     (pg_record_continuity_exposure (\<lambda>_. ''{}'') (Datetime 2026 1 1 0 0 0 0) ''e'' ''r'' ''BOUNDED_SUBSTITUTE'' True (JObj []) t) = Inl (Py AttributeError)"
  unfolding Let_def
  by (rule postgres_replacement_raises) (simp_all add: exposures_encoded_def pg_reset_def Let_def pg_empty_def pg_commit_simps pg_add_to_quarantine_ledger_def
      ignore_row_def stands_in_def content_entry_def)

section \<open>Rejections on PostgreSQL\<close>

inductive pg_tracked :: "(pg_arg \<Rightarrow> datetime option) \<Rightarrow> pg_state \<Rightarrow> bool" for encode where
  reset: "pg_tracked encode (pg_reset t)"
| exec: "pg_tracked encode t \<Longrightarrow> pg_tracked encode (pg_exec depth now expires op t)"
| rejection: "pg_tracked encode t \<Longrightarrow> pg_record_tainted_rejection encode n par when author t = Inr t' \<Longrightarrow> pg_tracked encode t'"
| offer: "pg_tracked encode t \<Longrightarrow> pg_tracked encode (pg_record_tainted_offer rid rep ty t)"
| completion: "pg_tracked encode t \<Longrightarrow> pg_tracked encode (pg_record_tainted_completion rid by_id t)"
| retry: "pg_tracked encode t \<Longrightarrow> pg_tracked encode (pg_check_retry_completion p t)"

lemma pg_exec_rejections [simp]: "pg_rejections (pg_exec depth now expires op t) = pg_rejections t"
proof (cases op)
  case (Radius r)
  then show ?thesis using pg_plan_frame [of depth r t] by auto
qed (simp_all add: pg_writes pg_commit_simps)

text \<open>PostgreSQL never records a tainted rejection. The driver encodes only \<open>datetime\<close> objects for a time stamp column, and the method passes a string;
  whatever else happens, the rejection table stays empty and every completion statistic is zero.\<close>

theorem postgres_rejections_empty:
  assumes "\<And>s. encode (Arg_Str s) = None" and "pg_tracked encode t"
  shows "pg_rejections t = [] \<and> total_rejections (pg_get_tainted_action_stats t) = 0 \<and> pg_record_tainted_rejection encode n par when author t = Inl DataError"
proof -
  have "pg_rejections t = []"
    using assms(2)
    by (induction rule: pg_tracked.induct)
      (simp_all add: pg_record_tainted_rejection_def assms(1) pg_record_tainted_offer_def pg_record_tainted_completion_def pg_check_retry_completion_def
        complete_rows_def retry_rows_def pg_reset_def Let_def pg_commit_simps pg_add_to_quarantine_ledger_def)
  then show ?thesis by (simp add: pg_get_tainted_action_stats_def rejection_stats_def count_rows_def Let_def pg_record_tainted_rejection_def assms(1))
qed

definition driver_encode :: "pg_arg \<Rightarrow> datetime option" where
  "driver_encode a = (case a of Arg_Str s \<Rightarrow> None | Arg_Datetime t \<Rightarrow> Some t)"

theorem postgres_rejections_empty_witness:
  "pg_rejections (pg_record_tainted_offer ''w'' ''r'' ''direct'' (pg_reset pg_empty)) = []"
proof -
  have "pg_tracked driver_encode (pg_record_tainted_offer ''w'' ''r'' ''direct'' (pg_reset pg_empty))"
    by (intro pg_tracked.offer pg_tracked.reset)
  moreover have "driver_encode (Arg_Str s) = None" for s by (simp add: driver_encode_def)
  ultimately show ?thesis using postgres_rejections_empty [of driver_encode] by simp
qed

section \<open>Time windows\<close>

text \<open>The rows of PostgreSQL as the SQLite backend would hold them, with the times as text.\<close>

definition signals_as_text :: "pg_state \<Rightarrow> signal_attempt list" where
  "signals_as_text t = map (\<lambda>a. \<lparr>signal_source = ps_source a, signal_node_id = ps_node_id a, signal_kind = ps_kind a, outcome = ps_outcome a,
     recorded_at_utc = iso_z (ps_recorded_at a)\<rparr>) (pg_signals t)"

definition horizon_as_text :: "pg_state \<Rightarrow> (node_id, horizon_entry) dict" where
  "horizon_as_text t = map (\<lambda>(n, h). (n, \<lparr>admitted_at_utc = iso_z (ph_admitted_at h), trust_expires_utc = iso_z (ph_trust_expires h),
     predecessor_id = ph_predecessor_id h, renewal_count = ph_renewal_count h\<rparr>)) (pg_horizons t)"

definition times_valid :: "pg_state \<Rightarrow> bool" where
  "times_valid t \<longleftrightarrow> (\<forall>a\<in>set (pg_signals t). valid_datetime (ps_recorded_at a)) \<and> (\<forall>(n, h)\<in>set (pg_horizons t). valid_datetime (ph_trust_expires h))"

lemma filter_as_text: "(\<And>x. x \<in> set xs \<Longrightarrow> P (f x) \<longleftrightarrow> Q x) \<Longrightarrow> filter P (map f xs) = map f (filter Q xs)"
  by (induction xs) auto

lemma keys_as_text:
  "(\<And>n h. (n, h) \<in> set xs \<Longrightarrow> P (f h) \<longleftrightarrow> Q h) \<Longrightarrow>
     map fst (filter (\<lambda>(n, h). P h) (map (\<lambda>(n, h). (n, f h)) xs)) = map fst (filter (\<lambda>(n, h). Q h) xs)"
proof (induction xs)
  case (Cons x xs)
  then show ?case by (cases x) auto
qed simp

text \<open>C37: Windows over text and over times select the same rows. For valid times, the rate-limit counts and the active and expired trust horizons that
  PostgreSQL computes from time columns are those that the SQLite backend computes from the same rows as text.\<close>

theorem time_windows_agree:
  assumes "times_valid t" and "valid_datetime now" and "signal_attempts s = signals_as_text t" and "reintegration_horizon s = horizon_as_text t"
  shows "pg_count_recent_signals src (iso_z now) t = Inr (sq_count_recent_signals src (iso_z now) s) \<and>
    pg_count_recent_signals_global (iso_z now) t = Inr (sq_count_recent_signals_global (iso_z now) s) \<and>
    keys (pg_get_active_horizon_set now t) = keys (sq_get_active_horizon_set (iso_z now) s) \<and>
    pg_get_expired_horizon_set now t = sq_get_expired_horizon_set (iso_z now) s"
proof -
  have sig: "iso_z now < iso_z (ps_recorded_at a) \<longleftrightarrow> now < ps_recorded_at a" if "a \<in> set (pg_signals t)" for a
    using that assms(1,2) by (intro iso_z_less) (auto simp: times_valid_def)
  have hor: "iso_z now < iso_z (ph_trust_expires h) \<longleftrightarrow> now < ph_trust_expires h" "iso_z (ph_trust_expires h) \<le> iso_z now \<longleftrightarrow> ph_trust_expires h \<le> now"
    if "(n, h) \<in> set (pg_horizons t)" for n h
    using that assms(1,2) by (auto simp: times_valid_def intro!: iso_z_less iso_z_le)
  let ?text = "\<lambda>a. \<lparr>signal_source = ps_source a, signal_node_id = ps_node_id a, signal_kind = ps_kind a, outcome = ps_outcome a,
     recorded_at_utc = iso_z (ps_recorded_at a)\<rparr>"
  have "filter (\<lambda>a. signal_source a = src \<and> iso_z now < recorded_at_utc a) (signals_as_text t) =
      map ?text (filter (\<lambda>a. ps_source a = src \<and> now < ps_recorded_at a) (pg_signals t))"
    "filter (\<lambda>a. iso_z now < recorded_at_utc a) (signals_as_text t) = map ?text (filter (\<lambda>a. now < ps_recorded_at a) (pg_signals t))"
    unfolding signals_as_text_def by (rule filter_as_text; simp add: sig)+
  moreover have "map fst (filter (\<lambda>(n, h). iso_z now < trust_expires_utc h) (horizon_as_text t)) = map fst (filter (\<lambda>(n, h). now < ph_trust_expires h) (pg_horizons t))"
    "map fst (filter (\<lambda>(n, h). trust_expires_utc h \<le> iso_z now) (horizon_as_text t)) = map fst (filter (\<lambda>(n, h). ph_trust_expires h \<le> now) (pg_horizons t))"
    unfolding horizon_as_text_def by (rule keys_as_text; simp add: hor)+
  ultimately show ?thesis
    by (simp add: pg_count_recent_signals_def pg_count_recent_signals_global_def parse_iso_z [OF assms(2)] sq_count_recent_signals_def
        sq_count_recent_signals_global_def assms(3,4) pg_get_active_horizon_set_def sq_get_active_horizon_set_def pg_get_expired_horizon_set_def
        sq_get_expired_horizon_set_def keys_def case_prod_unfold comp_def)
qed

theorem time_windows_agree_witness:
  "let t = pg_record_signal_attempt (Datetime 2026 1 1 0 0 1 0) ''det'' ''n'' ''k'' ''PROCESSED'' pg_empty;
       s = sq_record_signal_attempt (iso_z (Datetime 2026 1 1 0 0 1 0)) ''det'' ''n'' ''k'' ''PROCESSED'' init_state; now = Datetime 2026 1 1 0 0 0 5
   in pg_count_recent_signals ''det'' (iso_z now) t = Inr (sq_count_recent_signals ''det'' (iso_z now) s)"
proof -
  let ?t = "pg_record_signal_attempt (Datetime 2026 1 1 0 0 1 0) ''det'' ''n'' ''k'' ''PROCESSED'' pg_empty"
  let ?s = "sq_record_signal_attempt (iso_z (Datetime 2026 1 1 0 0 1 0)) ''det'' ''n'' ''k'' ''PROCESSED'' init_state"
  have "times_valid ?t" "valid_datetime (Datetime 2026 1 1 0 0 0 5)"
    by (simp_all add: times_valid_def pg_record_signal_attempt_def pg_empty_def valid_datetime_def days_in_month_def)
  moreover have "signal_attempts ?s = signals_as_text ?t" "reintegration_horizon ?s = horizon_as_text ?t"
    by (simp_all add: sq_record_signal_attempt_def pg_record_signal_attempt_def init_state_def pg_empty_def signals_as_text_def horizon_as_text_def)
  ultimately show ?thesis using time_windows_agree [of ?t "Datetime 2026 1 1 0 0 0 5" ?s] by (simp add: Let_def)
qed

end
