(* ===== verification/Advisory_Lock.thy ===== *)
theory Advisory_Lock
  imports Prelude
begin

text \<open>
  \<open>advisory_shared\<close> and \<open>advisory_exclusive\<close> of \<open>src/postgres_backend.py\<close>: the lock that admissions and designations of several
  instances share through PostgreSQL. A session takes a connection from the pool, asks the server for the lock on it, runs its body, and gives
  back the lock and the connection in two \<open>finally\<close> blocks. Every backend method of the body takes a further connection from the same
  pool. The server's rule is the documented one: a shared lock is granted unless another session holds the exclusive one, an exclusive lock
  unless another session holds any. The sessions are those of one instance, which share its pool. A free connection is given to any task that waits for one.

  Shown: exclusion; every run ends, and with fewer sessions than connections it ends with all of them finished; as many sessions as
  connections can block each other for ever.
\<close>

section \<open>Sessions\<close>

datatype lock_mode = Shared | Exclusive

text \<open>The number counts the backend methods the body still has to call.\<close>

datatype session =
    Idle lock_mode nat
  | Connected lock_mode nat \<comment> \<open>has a connection and waits for the lock\<close>
  | Holding lock_mode nat
  | Working lock_mode nat \<comment> \<open>holds the lock and runs a method on a second connection\<close>
  | Finished

fun connections :: "session \<Rightarrow> nat" where
  "connections (Idle m n) = 0"
| "connections (Connected m n) = 1"
| "connections (Holding m n) = 1"
| "connections (Working m n) = 2"
| "connections Finished = 0"

fun held :: "session \<Rightarrow> lock_mode option" where
  "held (Holding m n) = Some m"
| "held (Working m n) = Some m"
| "held s = None"

definition pool_max_size :: nat where
  "pool_max_size = 10"

definition in_use :: "session list \<Rightarrow> nat" where
  "in_use ss = sum_list (map connections ss)"

fun compatible :: "lock_mode \<Rightarrow> session \<Rightarrow> bool" where
  "compatible m s \<longleftrightarrow> (case held s of None \<Rightarrow> True | Some m' \<Rightarrow> m = Shared \<and> m' = Shared)"

text \<open>The next step of one session among the others, or \<open>None\<close> while it has to wait.\<close>

fun advance :: "nat \<Rightarrow> session list \<Rightarrow> session \<Rightarrow> session option" where
  "advance sz ss (Idle m n) = (if in_use ss < sz then Some (Connected m n) else None)"
| "advance sz ss (Connected m n) = (if list_all (compatible m) ss then Some (Holding m n) else None)"
| "advance sz ss (Holding m (Suc n)) = (if in_use ss < sz then Some (Working m n) else None)"
| "advance sz ss (Holding m 0) = Some Finished"
| "advance sz ss (Working m n) = Some (Holding m n)"
| "advance sz ss Finished = None"

text \<open>An exception of a method leaves the body, whose remaining calls are not made.\<close>

inductive advisory_step :: "nat \<Rightarrow> session list \<Rightarrow> session list \<Rightarrow> bool" for sz where
  proceed: "i < length ss \<Longrightarrow> advance sz ss (ss ! i) = Some s \<Longrightarrow> advisory_step sz ss (ss[i := s])"
| raise: "i < length ss \<Longrightarrow> ss ! i = Working m n \<Longrightarrow> advisory_step sz ss (ss[i := Holding m 0])"

inductive_cases advisory_stepE: "advisory_step sz ss ss'"

section \<open>Exclusion\<close>

definition exclusive_ok :: "session list \<Rightarrow> bool" where
  "exclusive_ok ss \<longleftrightarrow>
     (\<forall>i<length ss. \<forall>j<length ss. \<forall>m. i \<noteq> j \<longrightarrow> held (ss ! i) = Some m \<longrightarrow> compatible m (ss ! j))"

definition idle :: "session \<Rightarrow> bool" where
  "idle s \<longleftrightarrow> (\<exists>m n. s = Idle m n)"

lemma exclusive_ok_update:
  assumes "exclusive_ok ss" and "i < length ss" and "held s = None \<or> held s = held (ss ! i) \<or> (\<exists>m. held s = Some m \<and> list_all (compatible m) ss)"
  shows "exclusive_ok (ss[i := s])"
  unfolding exclusive_ok_def
proof (intro allI impI)
  fix a b m
  assume ab: "a < length (ss[i := s])" "b < length (ss[i := s])" "a \<noteq> b" and m: "held (ss[i := s] ! a) = Some m"
  have inv: "held (ss ! a) = Some m \<Longrightarrow> compatible m (ss ! b)" for m using assms(1) ab by (simp add: exclusive_ok_def)
  consider "a = i" | "b = i" | "a \<noteq> i" "b \<noteq> i" by blast
  then show "compatible m (ss[i := s] ! b)"
  proof cases
    case 1
    then show ?thesis using assms(3) inv ab m by (auto simp: list_all_length)
  next
    case 2
    then have "held (ss ! a) = Some m" using ab m by simp
    then show ?thesis using 2 assms(3) inv ab by (auto simp: list_all_length split: option.splits)
  next
    case 3
    then show ?thesis using inv m by simp
  qed
qed

lemma advance_held:
  assumes "advance sz ss s = Some s'"
  shows "held s' = None \<or> held s' = held s \<or> (\<exists>m. held s' = Some m \<and> list_all (compatible m) ss)"
  using assms by (cases "(sz, ss, s)" rule: advance.cases) (auto split: if_splits)

lemma step_exclusive: "advisory_step sz ss ss' \<Longrightarrow> exclusive_ok ss \<Longrightarrow> exclusive_ok ss'"
  by (erule advisory_stepE) (auto intro!: exclusive_ok_update dest: advance_held)

lemma run_exclusive: "(advisory_step sz)\<^sup>*\<^sup>* ss ss' \<Longrightarrow> exclusive_ok ss \<Longrightarrow> exclusive_ok ss'"
  by (induction rule: rtranclp_induct) (auto intro: step_exclusive)

lemma idle_exclusive: "list_all idle ss \<Longrightarrow> exclusive_ok ss"
  by (fastforce simp: exclusive_ok_def list_all_length idle_def)

section \<open>Every run ends\<close>

fun work_left :: "session \<Rightarrow> nat" where
  "work_left (Idle m n) = 2 * n + 3"
| "work_left (Connected m n) = 2 * n + 2"
| "work_left (Holding m n) = 2 * n + 1"
| "work_left (Working m n) = 2 * n + 2"
| "work_left Finished = 0"

lemma advance_work: "advance sz ss s = Some s' \<Longrightarrow> work_left s' < work_left s"
  by (cases "(sz, ss, s)" rule: advance.cases) (auto split: if_splits)

lemma sum_list_update_less:
  fixes f :: "'a \<Rightarrow> nat"
  shows "i < length xs \<Longrightarrow> f x < f (xs ! i) \<Longrightarrow> sum_list (map f (xs[i := x])) < sum_list (map f xs)"
  by (induction xs arbitrary: i) (auto split: nat.split simp: nth_Cons)

lemma step_work: "advisory_step sz ss ss' \<Longrightarrow> sum_list (map work_left ss') < sum_list (map work_left ss)"
  by (erule advisory_stepE) (auto intro!: sum_list_update_less dest: advance_work)

lemma run_ends: "\<exists>ss'. (advisory_step sz)\<^sup>*\<^sup>* ss ss' \<and> (\<nexists>ss''. advisory_step sz ss' ss'')"
proof (induction ss rule: measure_induct_rule [of "\<lambda>ss. sum_list (map work_left ss)"])
  case (less ss)
  show ?case
  proof (cases "\<exists>ss1. advisory_step sz ss ss1")
    case True
    then obtain ss1 where "advisory_step sz ss ss1" ..
    with less [OF step_work [OF this]] show ?thesis by (meson converse_rtranclp_into_rtranclp)
  qed auto
qed

lemma step_length: "advisory_step sz ss ss' \<Longrightarrow> length ss' = length ss"
  by (erule advisory_stepE) simp_all

lemma run_length: "(advisory_step sz)\<^sup>*\<^sup>* ss ss' \<Longrightarrow> length ss' = length ss"
  by (induction rule: rtranclp_induct) (simp_all add: step_length)

section \<open>When sessions wait for each other\<close>

lemma stuck_iff: "(\<nexists>ss'. advisory_step sz ss ss') \<longleftrightarrow> list_all (\<lambda>s. advance sz ss s = None) ss"
proof
  assume stuck: "\<nexists>ss'. advisory_step sz ss ss'"
  show "list_all (\<lambda>s. advance sz ss s = None) ss"
    unfolding list_all_length using stuck by (meson not_None_eq proceed)
qed (auto elim!: advisory_stepE simp: list_all_length)

lemma in_use_le: "list_all (\<lambda>s. connections s \<le> 1) ss \<Longrightarrow> in_use ss \<le> length ss"
  by (induction ss) (auto simp: in_use_def)

text \<open>A blocked set of sessions that leaves a connection free has nobody waiting: nobody works, so nobody holds the lock, so nobody waits for it.\<close>

lemma stuck_finished:
  assumes "length ss < sz" and stuck: "list_all (\<lambda>s. advance sz ss s = None) ss"
  shows "list_all (\<lambda>s. s = Finished) ss"
proof -
  have none: "advance sz ss s = None" if "s \<in> set ss" for s using stuck that by (simp add: list_all_iff)
  have one: "connections s \<le> 1" if "s \<in> set ss" for s using none [OF that] by (cases s) auto
  then have free: "in_use ss < sz" using in_use_le [of ss] assms(1) by (auto simp: list_all_iff)
  have "held s = None" if "s \<in> set ss" for s
    using none [OF that] free by (cases "(sz, ss, s)" rule: advance.cases) auto
  then have "list_all (compatible m) ss" for m by (simp add: list_all_iff)
  then have "s = Finished" if "s \<in> set ss" for s
    using none [OF that] free by (cases "(sz, ss, s)" rule: advance.cases) auto
  then show ?thesis by (simp add: list_all_iff)
qed

text \<open>C33: The advisory lock excludes, and with a spare connection every session gets through. In every interleaving of sessions a session that holds the
  lock exclusively is the only holder. If there are fewer sessions than connections in the pool, then every run that cannot be
  continued has finished all of them, and every run can be continued to such an end.\<close>

theorem advisory_lock_correct:
  assumes "list_all idle ss" and "length ss < pool_max_size" and "(advisory_step pool_max_size)\<^sup>*\<^sup>* ss ss'"
  shows "exclusive_ok ss' \<and> ((\<nexists>ss''. advisory_step pool_max_size ss' ss'') \<longleftrightarrow> list_all (\<lambda>s. s = Finished) ss') \<and>
    (\<exists>ss''. (advisory_step pool_max_size)\<^sup>*\<^sup>* ss' ss'' \<and> list_all (\<lambda>s. s = Finished) ss'')"
proof -
  have done_if: "list_all (\<lambda>s. s = Finished) u" if "(advisory_step pool_max_size)\<^sup>*\<^sup>* ss u" "\<nexists>v. advisory_step pool_max_size u v" for u
    using that(2) assms(2) run_length [OF that(1)] unfolding stuck_iff by (intro stuck_finished) simp_all
  have "\<nexists>v. advisory_step pool_max_size ss' v" if "list_all (\<lambda>s. s = Finished) ss'"
    using that unfolding stuck_iff by (auto simp: list_all_iff)
  moreover obtain u where "(advisory_step pool_max_size)\<^sup>*\<^sup>* ss' u" "\<nexists>v. advisory_step pool_max_size u v"
    using run_ends by blast
  ultimately show ?thesis
    using done_if assms(3) run_exclusive [OF assms(3) idle_exclusive [OF assms(1)]] by (meson rtranclp_trans)
qed

theorem advisory_lock_correct_witness:
  "\<exists>ss''. (advisory_step pool_max_size)\<^sup>*\<^sup>* [Idle Shared 3, Idle Exclusive 2] ss'' \<and> list_all (\<lambda>s. s = Finished) ss''"
  using advisory_lock_correct [of "[Idle Shared 3, Idle Exclusive 2]" "[Idle Shared 3, Idle Exclusive 2]"]
  by (simp add: idle_def pool_max_size_def)

lemma one_more_holder:
  assumes "j < n"
  shows "(advisory_step n)\<^sup>*\<^sup>* (replicate j (Holding Shared k) @ replicate (n - j) (Idle Shared k))
    (replicate (Suc j) (Holding Shared k) @ replicate (n - Suc j) (Idle Shared k))"
proof -
  let ?h = "replicate j (Holding Shared k)" and ?t = "replicate (n - Suc j) (Idle Shared k)"
  have split: "replicate (n - j) (Idle Shared k) = Idle Shared k # ?t" using assms by (metis Suc_diff_Suc replicate_Suc)
  have "advisory_step n (?h @ Idle Shared k # ?t) ((?h @ Idle Shared k # ?t)[j := Connected Shared k])"
    by (rule proceed) (use assms in \<open>simp_all add: nth_append in_use_def sum_list_replicate\<close>)
  moreover have "advisory_step n (?h @ Connected Shared k # ?t) ((?h @ Connected Shared k # ?t)[j := Holding Shared k])"
    by (rule proceed) (auto simp: nth_append list_all_iff)
  ultimately show ?thesis
    unfolding split by (simp add: list_update_append replicate_app_Cons_same)
qed

lemma all_holders:
  "j \<le> n \<Longrightarrow> (advisory_step n)\<^sup>*\<^sup>* (replicate n (Idle Shared k)) (replicate j (Holding Shared k) @ replicate (n - j) (Idle Shared k))"
proof (induction j)
  case (Suc j)
  then show ?case using one_more_holder [of j n k] by (meson Suc_leD Suc_le_lessD rtranclp_trans)
qed simp

text \<open>As many sessions as the pool has connections can block for ever. If \<open>pool_max_size\<close> admissions take the shared lock at the same time,
  each keeps a connection for the lock, none is left for the methods of their bodies, and no session can ever proceed.\<close>

theorem advisory_pool_exhaustion:
  "(advisory_step pool_max_size)\<^sup>*\<^sup>* (replicate pool_max_size (Idle Shared (Suc k))) (replicate pool_max_size (Holding Shared (Suc k))) \<and>
   (\<nexists>ss. advisory_step pool_max_size (replicate pool_max_size (Holding Shared (Suc k))) ss)"
proof
  show "(advisory_step pool_max_size)\<^sup>*\<^sup>* (replicate pool_max_size (Idle Shared (Suc k))) (replicate pool_max_size (Holding Shared (Suc k)))"
    using all_holders [of pool_max_size pool_max_size "Suc k"] by simp
  show "\<nexists>ss. advisory_step pool_max_size (replicate pool_max_size (Holding Shared (Suc k))) ss"
    unfolding stuck_iff by (simp add: list_all_iff in_use_def sum_list_replicate)
qed

end
