(* ===== verification/Policy_Transport.thy ===== *)
theory Policy_Transport
  imports Gateway_State Policy Py_Json
begin

text \<open>
  How a policy decision reaches the gateway: \<open>evaluate_opa_policy\<close> of \<open>src/governor_service.py\<close> with its four transports (WASM
  module, OPA process on a bundle, REST server, OPA process on the policy directory) and \<open>OpaWasmEngine.evaluate\<close> of
  \<open>src/wasm_engine.py\<close>. What the WASM module, the OPA process and the server answer is a parameter (\<open>transports\<close>); the model is what
  the code makes of the answer, with every exception. Loading the module (the constructor of \<open>OpaWasmEngine\<close>) is taken to have succeeded. The result is an \<open>engine\<close> for \<open>evaluate_admission\<close>.
\<close>

section \<open>The WASM engine\<close>

record wasm_module =
  entrypoints :: "(string, nat) dict"
  sets_entrypoint :: bool \<comment> \<open>the module exports \<open>opa_eval_ctx_set_entrypoint\<close>\<close>
  parses_input :: "policy_input \<Rightarrow> bool"
  wasm_eval :: "nat option \<Rightarrow> policy_input \<Rightarrow> py_error + json" \<comment> \<open>the dumped result; \<open>Inl\<close> for an exception of the run\<close>

definition ep_key :: "string \<Rightarrow> string" where
  "ep_key q = replace_all ''.'' ''/'' (replace_all ''data.'' [] q)"

definition normalise_results :: "json \<Rightarrow> json list" where
  "normalise_results parsed = (case parsed of JArr rs \<Rightarrow> rs | _ \<Rightarrow> [JObj [(''result'', parsed)]])"

definition wasm_evaluate :: "wasm_module \<Rightarrow> policy_input \<Rightarrow> string \<Rightarrow> py_error + json list" where
  "wasm_evaluate m i q =
     (if \<not> parses_input m i then Inl OtherError
      else let run = (\<lambda>ep. bind_py (wasm_eval m ep i) (\<lambda>j. Inr (normalise_results j))) in
        if q \<noteq> [] \<and> sets_entrypoint m
        then (case map_of (entrypoints m) (ep_key q) of None \<Rightarrow> Inl RuntimeError | Some n \<Rightarrow> run (Some n))
        else run None)"

section \<open>The transports\<close>

datatype opa_outcome =
    Opa_Value json
  | Opa_Error string \<comment> \<open>\<open>PolicyEvaluationError\<close>\<close>
  | Opa_Crash py_error \<comment> \<open>any other exception\<close>

record process_result =
  returncode :: int
  stdout_json :: "json option" \<comment> \<open>\<open>json.loads(stdout)\<close>; \<open>None\<close> if it raises\<close>

datatype rest_reply = Rest_Failure | Rest_Reply (rest_status: nat) (rest_json: "json option")

record transports =
  bundle_exists :: bool
  has_wasmtime :: bool
  wasm :: wasm_module
  bundle_process :: "string \<Rightarrow> policy_input \<Rightarrow> process_result option" \<comment> \<open>\<open>None\<close> if the process cannot be started\<close>
  rest_post :: "string \<Rightarrow> policy_input \<Rightarrow> rest_reply"
  opa_process :: "string \<Rightarrow> policy_input \<Rightarrow> process_result option"

text \<open>A dictionary with both verdicts is passed through, one with a single verdict gives that verdict.\<close>

definition pick_verdict :: "(string \<times> json) list \<Rightarrow> json" where
  "pick_verdict d =
     (case (map_of d ''allow_state_write'', map_of d ''allow_reintegration'') of
        (Some _, Some _) \<Rightarrow> JObj d | (Some v, None) \<Rightarrow> v | (None, Some v) \<Rightarrow> v | (None, None) \<Rightarrow> JBool False)"

definition wasm_outcome :: "wasm_module \<Rightarrow> string \<Rightarrow> policy_input \<Rightarrow> opa_outcome" where
  "wasm_outcome m q i =
     (case wasm_evaluate m i q of
        Inl RuntimeError \<Rightarrow> Opa_Error ''WASM policy evaluation failed''
      | Inl e \<Rightarrow> Opa_Crash e
      | Inr [] \<Rightarrow> Opa_Error ''WASM returned empty result set''
      | Inr (r # rs) \<Rightarrow>
          (case get_key r ''result'' (JBool False) of
             Inl e \<Rightarrow> Opa_Crash e
           | Inr (JBool b) \<Rightarrow> Opa_Value (JBool b)
           | Inr (JObj d) \<Rightarrow> Opa_Value (pick_verdict d)
           | Inr _ \<Rightarrow> Opa_Value (JBool False)))"

text \<open>\<open>output.get("result", [{}])[0].get("expressions", [{}])[0].get("value", False)\<close>.\<close>

definition eval_value :: "json \<Rightarrow> py_error + json" where
  "eval_value out =
     bind_py (get_key out ''result'' (JArr [JObj []])) (\<lambda>rs. bind_py (index0 rs) (\<lambda>r.
     bind_py (get_key r ''expressions'' (JArr [JObj []])) (\<lambda>es. bind_py (index0 es) (\<lambda>x. get_key x ''value'' (JBool False)))))"

definition bundle_outcome :: "process_result option \<Rightarrow> opa_outcome" where
  "bundle_outcome pr =
     (case pr of None \<Rightarrow> Opa_Crash OtherError
      | Some p \<Rightarrow>
          if returncode p \<noteq> 0 then Opa_Error ''OPA bundle eval failed''
          else case stdout_json p of None \<Rightarrow> Opa_Crash JSONDecodeError
            | Some out \<Rightarrow> (case eval_value out of Inl e \<Rightarrow> Opa_Crash e | Inr v \<Rightarrow> Opa_Value v))"

definition fallback_outcome :: "process_result option \<Rightarrow> opa_outcome" where
  "fallback_outcome pr =
     (case pr of None \<Rightarrow> Opa_Crash OtherError
      | Some p \<Rightarrow>
          if returncode p \<noteq> 0 then Opa_Error ''OPA subprocess failed''
          else case stdout_json p of None \<Rightarrow> Opa_Error ''OPA output unparseable''
            | Some out \<Rightarrow> (case eval_value out of
                Inl e \<Rightarrow> if e \<in> {IndexError, KeyError} then Opa_Error ''OPA output unparseable'' else Opa_Crash e
              | Inr v \<Rightarrow> Opa_Value v))"

text \<open>Every exception inside the \<open>try\<close> of the REST call becomes a \<open>PolicyEvaluationError\<close>.\<close>

definition rest_value :: "json \<Rightarrow> py_error + json" where
  "rest_value j =
     bind_py (get_key j ''result'' (JObj [])) (\<lambda>res. bind_py (contains ''allow_state_write'' res) (\<lambda>w.
       if w then bind_py (contains ''allow_reintegration'' res) (\<lambda>r. if r then Inr res else item res ''allow_state_write'')
       else bind_py (contains ''allow_reintegration'' res) (\<lambda>r. if r then item res ''allow_reintegration'' else Inr (JBool False))))"

definition rest_outcome :: "rest_reply \<Rightarrow> opa_outcome" where
  "rest_outcome reply =
     (case reply of
        Rest_Failure \<Rightarrow> Opa_Error ''OPA REST unreachable''
      | Rest_Reply st j \<Rightarrow>
          if st \<noteq> 200 then Opa_Error ''OPA REST returned an error status''
          else case j of None \<Rightarrow> Opa_Error ''OPA REST unreachable''
            | Some body \<Rightarrow> (case rest_value body of Inl e \<Rightarrow> Opa_Error ''OPA REST unreachable'' | Inr v \<Rightarrow> Opa_Value v))"

definition evaluate_opa_policy :: "settings \<Rightarrow> transports \<Rightarrow> string \<Rightarrow> string \<Rightarrow> policy_input \<Rightarrow> opa_outcome" where
  "evaluate_opa_policy cfg tr package q i =
     (if truthy (OPA_POLICY_BUNDLE cfg) \<and> bundle_exists tr
      then if has_wasmtime tr \<and> ends_with (the (OPA_POLICY_BUNDLE cfg)) ''.wasm'' then wasm_outcome (wasm tr) q i
           else bundle_outcome (bundle_process tr q i)
      else if truthy (OPA_URL cfg) then rest_outcome (rest_post tr package i)
      else fallback_outcome (opa_process tr q i))"

text \<open>The arguments of the three calls in \<open>evaluate_admission\<close>, and what it reads of the answer: a dictionary through the truth of
  its values, everything else through its own truth.\<close>

fun package_of :: "policy_query \<Rightarrow> string" where
  "package_of Combined_Query = ''gasc/governor/admission''"
| "package_of Integrity_Query = ''gasc/governor/integrity''"
| "package_of Verification_Query = ''gasc/governor/verification''"

fun query_of :: "policy_query \<Rightarrow> string" where
  "query_of Combined_Query = ''data.gasc.governor.admission.result''"
| "query_of Integrity_Query = ''data.gasc.governor.integrity.allow_state_write''"
| "query_of Verification_Query = ''data.gasc.governor.verification.allow_reintegration''"

definition as_policy_result :: "opa_outcome \<Rightarrow> policy_result" where
  "as_policy_result r =
     (case r of Opa_Error e \<Rightarrow> PolicyEvaluationError e | Opa_Crash e \<Rightarrow> PolicyCrash ''Internal Server Error''
      | Opa_Value (JObj d) \<Rightarrow> PDict (map (\<lambda>(k, v). (k, jtruthy v)) d)
      | Opa_Value v \<Rightarrow> PBool (jtruthy v))"

definition transport_engine :: "settings \<Rightarrow> transports \<Rightarrow> engine" where
  "transport_engine cfg tr q i = as_policy_result (evaluate_opa_policy cfg tr (package_of q) (query_of q) i)"

declare query_of.simps [simp del] package_of.simps [simp del]

section \<open>What a channel owes\<close>

text \<open>
  The contract between the admission and whatever carries the verdicts of the repository's rules; under it the admission decides like
  the rules themselves.
\<close>

locale verdict_channel =
  fixes channel :: "policy_query \<Rightarrow> policy_input \<Rightarrow> opa_outcome"
  assumes combined: "\<exists>d. channel Combined_Query (Combined_Input i v) = Opa_Value (JObj d) \<and>
      map_of d ''allow_state_write'' = Some (JBool (allow_state_write i)) \<and>
      map_of d ''allow_reintegration'' = Some (JBool (allow_reintegration v))"
    and integrity: "channel Integrity_Query (Integrity_Input i) = Opa_Value (JBool (allow_state_write i))"
    and verification: "channel Verification_Query (Verification_Input v) = Opa_Value (JBool (allow_reintegration v))"
begin

lemma get_bool_truth: "map_of d k = Some (JBool b) \<Longrightarrow> get_bool (map (\<lambda>(k, v). (k, jtruthy v)) d) k = b"
  by (simp add: get_bool_def map_of_map)

lemma admission: "evaluate_admission (\<lambda>q i. as_policy_result (channel q i)) epoch p pids emap qmap auth =
    evaluate_admission rego_engine epoch p pids emap qmap auth"
proof -
  let ?i = "make_integrity_input p pids emap qmap" and ?v = "make_verification_input epoch p pids qmap auth"
  obtain d where "channel Combined_Query (Combined_Input ?i ?v) = Opa_Value (JObj d)"
    and "map_of d ''allow_state_write'' = Some (JBool (allow_state_write ?i))"
    and "map_of d ''allow_reintegration'' = Some (JBool (allow_reintegration ?v))"
    using combined by blast
  then show ?thesis by (simp add: evaluate_admission_def as_policy_result_def get_bool_truth) (simp add: get_bool_def)
qed

text \<open>Also without the combined rule, where its query fails.\<close>

lemma admission_sequential: "sequential_admission (\<lambda>q i. as_policy_result (channel q i)) i v pids qmap = sequential_admission rego_engine i v pids qmap"
  by (simp add: sequential_admission_def integrity verification as_policy_result_def)

end

text \<open>The documented shape of the answers of a WASM module, of \<open>opa eval\<close> and of the REST interface, for the rules of the repository.\<close>

definition rule_value :: "policy_query \<Rightarrow> policy_input \<Rightarrow> json" where
  "rule_value q i = (case rego_engine q i of PBool b \<Rightarrow> JBool b | PDict d \<Rightarrow> JObj (map (\<lambda>(k, b). (k, JBool b)) d) | _ \<Rightarrow> JNull)"

definition wasm_documented :: "wasm_module \<Rightarrow> bool" where
  "wasm_documented m \<longleftrightarrow> sets_entrypoint m \<and> (\<forall>i. parses_input m i) \<and>
     (\<forall>q i. \<exists>n. map_of (entrypoints m) (ep_key (query_of q)) = Some n \<and>
        wasm_eval m (Some n) i = Inr (JArr [JObj [(''result'', rule_value q i)]]))"

definition process_documented :: "(string \<Rightarrow> policy_input \<Rightarrow> process_result option) \<Rightarrow> bool" where
  "process_documented run \<longleftrightarrow> (\<forall>q i. \<exists>xs ys. run (query_of q) i = Some \<lparr>returncode = 0, stdout_json =
     Some (JObj [(''result'', JArr (JObj [(''expressions'', JArr (JObj ((''value'', rule_value q i) # xs) # ys))] # []))])\<rparr>)"

definition rest_documented :: "(string \<Rightarrow> policy_input \<Rightarrow> rest_reply) \<Rightarrow> bool" where
  "rest_documented post \<longleftrightarrow>
     (\<forall>i v. \<exists>d xs. post (package_of Combined_Query) (Combined_Input i v) = Rest_Reply 200 (Some (JObj ((''result'', JObj d) # xs))) \<and>
        map_of d ''allow_state_write'' = Some (JBool (allow_state_write i)) \<and> map_of d ''allow_reintegration'' = Some (JBool (allow_reintegration v))) \<and>
     (\<forall>i. \<exists>d xs. post (package_of Integrity_Query) (Integrity_Input i) = Rest_Reply 200 (Some (JObj ((''result'', JObj d) # xs))) \<and>
        map_of d ''allow_state_write'' = Some (JBool (allow_state_write i)) \<and> map_of d ''allow_reintegration'' = None) \<and>
     (\<forall>v. \<exists>d xs. post (package_of Verification_Query) (Verification_Input v) = Rest_Reply 200 (Some (JObj ((''result'', JObj d) # xs))) \<and>
        map_of d ''allow_reintegration'' = Some (JBool (allow_reintegration v)) \<and> map_of d ''allow_state_write'' = None)"

definition transports_documented :: "transports \<Rightarrow> bool" where
  "transports_documented tr \<longleftrightarrow> wasm_documented (wasm tr) \<and> process_documented (bundle_process tr) \<and>
     process_documented (opa_process tr) \<and> rest_documented (rest_post tr)"

lemma rule_value_simps:
  "rule_value Combined_Query (Combined_Input i v) = JObj [(''allow_state_write'', JBool (allow_state_write i)),
     (''allow_reintegration'', JBool (allow_reintegration v)), (''is_irreducible'', JBool (is_irreducible v))]"
  "rule_value Integrity_Query (Integrity_Input i) = JBool (allow_state_write i)"
  "rule_value Verification_Query (Verification_Input v) = JBool (allow_reintegration v)"
  by (simp_all add: rule_value_def)

lemma wasm_channel:
  assumes "wasm_documented m"
  shows "verdict_channel (\<lambda>q. wasm_outcome m (query_of q))"
proof -
  have ev: "wasm_evaluate m i (query_of q) = Inr [JObj [(''result'', rule_value q i)]]" for q i
  proof -
    have "query_of q \<noteq> []" by (cases q) (simp_all add: query_of.simps)
    moreover obtain n where "map_of (entrypoints m) (ep_key (query_of q)) = Some n"
      and "wasm_eval m (Some n) i = Inr (JArr [JObj [(''result'', rule_value q i)]])"
      using assms unfolding wasm_documented_def by blast
    ultimately show ?thesis using assms by (simp add: wasm_documented_def wasm_evaluate_def normalise_results_def)
  qed
  show ?thesis by unfold_locales (simp_all add: wasm_outcome_def ev rule_value_simps pick_verdict_def)
qed

lemma process_channel:
  assumes "process_documented run"
  shows "verdict_channel (\<lambda>q i. bundle_outcome (run (query_of q) i))" and "verdict_channel (\<lambda>q i. fallback_outcome (run (query_of q) i))"
proof -
  have out: "bundle_outcome (run (query_of q) i) = Opa_Value (rule_value q i) \<and> fallback_outcome (run (query_of q) i) = Opa_Value (rule_value q i)" for q i
  proof -
    obtain xs ys where "run (query_of q) i = Some \<lparr>returncode = 0, stdout_json =
        Some (JObj [(''result'', JArr (JObj [(''expressions'', JArr (JObj ((''value'', rule_value q i) # xs) # ys))] # []))])\<rparr>"
      using assms unfolding process_documented_def by blast
    then show ?thesis by (simp add: bundle_outcome_def fallback_outcome_def eval_value_def)
  qed
  show "verdict_channel (\<lambda>q i. bundle_outcome (run (query_of q) i))"
    by unfold_locales (simp_all add: conjunct1 [OF out] rule_value_simps)
  show "verdict_channel (\<lambda>q i. fallback_outcome (run (query_of q) i))"
    by unfold_locales (simp_all add: conjunct2 [OF out] rule_value_simps)
qed

lemma rest_channel:
  assumes "rest_documented post"
  shows "verdict_channel (\<lambda>q i. rest_outcome (post (package_of q) i))"
proof
  have key: "map_of d k = Some v \<Longrightarrow> k \<in> set (keys d)" "map_of d k = None \<Longrightarrow> k \<notin> set (keys d)" for d :: "(string \<times> json) list" and k v
    by (auto simp: set_keys_dom)
  note rest = rest_outcome_def rest_value_def
  fix i v
  show "\<exists>d. rest_outcome (post (package_of Combined_Query) (Combined_Input i v)) = Opa_Value (JObj d) \<and>
      map_of d ''allow_state_write'' = Some (JBool (allow_state_write i)) \<and> map_of d ''allow_reintegration'' = Some (JBool (allow_reintegration v))"
  proof -
    obtain d xs where "post (package_of Combined_Query) (Combined_Input i v) = Rest_Reply 200 (Some (JObj ((''result'', JObj d) # xs)))"
      and "map_of d ''allow_state_write'' = Some (JBool (allow_state_write i))" "map_of d ''allow_reintegration'' = Some (JBool (allow_reintegration v))"
      using assms unfolding rest_documented_def by blast
    then show ?thesis by (simp add: rest key)
  qed
  show "rest_outcome (post (package_of Integrity_Query) (Integrity_Input i)) = Opa_Value (JBool (allow_state_write i))"
  proof -
    obtain d xs where "post (package_of Integrity_Query) (Integrity_Input i) = Rest_Reply 200 (Some (JObj ((''result'', JObj d) # xs)))"
      and "map_of d ''allow_state_write'' = Some (JBool (allow_state_write i))" "map_of d ''allow_reintegration'' = None"
      using assms unfolding rest_documented_def by blast
    then show ?thesis by (simp add: rest key)
  qed
  show "rest_outcome (post (package_of Verification_Query) (Verification_Input v)) = Opa_Value (JBool (allow_reintegration v))"
  proof -
    obtain d xs where "post (package_of Verification_Query) (Verification_Input v) = Rest_Reply 200 (Some (JObj ((''result'', JObj d) # xs)))"
      and "map_of d ''allow_reintegration'' = Some (JBool (allow_reintegration v))" "map_of d ''allow_state_write'' = None"
      using assms unfolding rest_documented_def by blast
    then show ?thesis by (simp add: rest key)
  qed
qed

lemma documented_channel:
  assumes "transports_documented tr"
  shows "verdict_channel (\<lambda>q i. evaluate_opa_policy cfg tr (package_of q) (query_of q) i)"
proof -
  have "verdict_channel (\<lambda>q. wasm_outcome (wasm tr) (query_of q))" "verdict_channel (\<lambda>q i. bundle_outcome (bundle_process tr (query_of q) i))"
    "verdict_channel (\<lambda>q i. rest_outcome (rest_post tr (package_of q) i))" "verdict_channel (\<lambda>q i. fallback_outcome (opa_process tr (query_of q) i))"
    using assms by (auto simp: transports_documented_def intro: wasm_channel process_channel rest_channel)
  then show ?thesis unfolding evaluate_opa_policy_def
    by (cases "truthy (OPA_POLICY_BUNDLE cfg) \<and> bundle_exists tr"; cases "has_wasmtime tr \<and> ends_with (the (OPA_POLICY_BUNDLE cfg)) ''.wasm''";
        cases "truthy (OPA_URL cfg)") (simp_all only: if_True if_False simp_thms)
qed

text \<open>
  Transports that run the rules of the repository, with the entry points that the build of the WASM bundle declares; on them the
  contract holds for every configuration.
\<close>

definition query_named :: "string \<Rightarrow> policy_query" where
  "query_named s = (if s = query_of Combined_Query then Combined_Query else if s = query_of Integrity_Query then Integrity_Query else Verification_Query)"

definition rego_process :: "string \<Rightarrow> policy_input \<Rightarrow> process_result option" where
  "rego_process s i = Some \<lparr>returncode = 0, stdout_json = Some (JObj [(''result'', JArr [JObj [(''expressions'',
     JArr [JObj [(''value'', rule_value (query_named s) i), (''text'', JStr s)]])]])])\<rparr>"

fun rego_package :: "policy_input \<Rightarrow> json" where
  "rego_package (Integrity_Input i) = JObj [(''allow_state_write'', JBool (allow_state_write i))]"
| "rego_package (Verification_Input v) = JObj [(''allow_reintegration'', JBool (allow_reintegration v)), (''is_irreducible'', JBool (is_irreducible v))]"
| "rego_package (Combined_Input i v) = JObj [(''allow_reintegration'', JBool (allow_reintegration v)), (''allow_state_write'', JBool (allow_state_write i)),
     (''is_irreducible'', JBool (is_irreducible v)), (''result'', rule_value Combined_Query (Combined_Input i v))]"

definition rego_wasm :: wasm_module where
  "rego_wasm = \<lparr>entrypoints = [(''gasc/governor/admission/result'', 0), (''gasc/governor/integrity/allow_state_write'', 1),
       (''gasc/governor/verification/allow_reintegration'', 2)],
     sets_entrypoint = True, parses_input = (\<lambda>_. True),
     wasm_eval = (\<lambda>ep i. Inr (JArr [JObj [(''result'',
       rule_value (if ep = Some 0 then Combined_Query else if ep = Some 1 then Integrity_Query else Verification_Query) i)]]))\<rparr>"

definition rego_transports :: "bool \<Rightarrow> bool \<Rightarrow> transports" where
  "rego_transports exists has = \<lparr>bundle_exists = exists, has_wasmtime = has, wasm = rego_wasm, bundle_process = rego_process,
     rest_post = (\<lambda>package i. Rest_Reply 200 (Some (JObj [(''result'', rego_package i)]))), opa_process = rego_process\<rparr>"

lemma ep_key_queries:
  "ep_key (query_of Combined_Query) = ''gasc/governor/admission/result''"
  "ep_key (query_of Integrity_Query) = ''gasc/governor/integrity/allow_state_write''"
  "ep_key (query_of Verification_Query) = ''gasc/governor/verification/allow_reintegration''"
  by (simp_all add: ep_key_def query_of.simps)

lemma rego_transports_documented: "transports_documented (rego_transports ex has)"
proof -
  have named: "query_named (query_of q) = q" for q by (cases q) (simp_all add: query_named_def query_of.simps)
  have "wasm_documented rego_wasm"
    unfolding wasm_documented_def
  proof (intro conjI allI)
    fix q i
    show "\<exists>n. map_of (entrypoints rego_wasm) (ep_key (query_of q)) = Some n \<and>
        wasm_eval rego_wasm (Some n) i = Inr (JArr [JObj [(''result'', rule_value q i)]])"
      by (cases q) (simp_all add: rego_wasm_def ep_key_queries)
  qed (simp_all add: rego_wasm_def)
  moreover have "process_documented rego_process" by (simp add: process_documented_def rego_process_def named)
  ultimately show ?thesis
    by (simp add: transports_documented_def rego_transports_def rest_documented_def)
qed

interpretation repo: verdict_channel "\<lambda>q i. evaluate_opa_policy cfg (rego_transports ex has) (package_of q) (query_of q) i" for cfg ex has
  by (rule documented_channel [OF rego_transports_documented])

section \<open>Failing transports\<close>

text \<open>The ways in which a transport fails to answer: exceptions, exit codes, error statuses, and answers without a verdict.\<close>

definition process_failed :: "process_result option \<Rightarrow> bool" where
  "process_failed pr = (case pr of None \<Rightarrow> True
     | Some p \<Rightarrow> returncode p \<noteq> 0 \<or> (case stdout_json p of None \<Rightarrow> True
         | Some (JObj o') \<Rightarrow> map_of o' ''result'' \<in> {None, Some (JArr [])} | Some _ \<Rightarrow> True))"

definition wasm_failed :: "wasm_module \<Rightarrow> string \<Rightarrow> policy_input \<Rightarrow> bool" where
  "wasm_failed m q i \<longleftrightarrow> \<not> parses_input m i \<or> (sets_entrypoint m \<and> ep_key q \<notin> set (keys (entrypoints m))) \<or>
     (\<forall>ep. (\<exists>x. wasm_eval m ep i = Inl x) \<or> wasm_eval m ep i = Inr (JArr []) \<or> wasm_eval m ep i = Inr (JArr [JObj []]))"

definition rest_failed :: "rest_reply \<Rightarrow> bool" where
  "rest_failed r = (case r of Rest_Failure \<Rightarrow> True
     | Rest_Reply st j \<Rightarrow> st \<noteq> 200 \<or> (case j of None \<Rightarrow> True
         | Some (JObj o') \<Rightarrow> (case map_of o' ''result'' of None \<Rightarrow> True
             | Some (JObj d) \<Rightarrow> map_of d ''allow_state_write'' = None \<and> map_of d ''allow_reintegration'' = None | Some _ \<Rightarrow> False)
         | Some _ \<Rightarrow> True))"

definition transport_failed :: "settings \<Rightarrow> transports \<Rightarrow> policy_query \<Rightarrow> policy_input \<Rightarrow> bool" where
  "transport_failed cfg tr q i =
     (if truthy (OPA_POLICY_BUNDLE cfg) \<and> bundle_exists tr
      then if has_wasmtime tr \<and> ends_with (the (OPA_POLICY_BUNDLE cfg)) ''.wasm'' then wasm_failed (wasm tr) (query_of q) i
           else process_failed (bundle_process tr (query_of q) i)
      else if truthy (OPA_URL cfg) then rest_failed (rest_post tr (package_of q) i)
      else process_failed (opa_process tr (query_of q) i))"

definition no_verdict :: "opa_outcome \<Rightarrow> bool" where
  "no_verdict r \<longleftrightarrow> (case r of Opa_Value v \<Rightarrow> v = JBool False | _ \<Rightarrow> True)"

lemma process_failed_outcome: "process_failed pr \<Longrightarrow> no_verdict (bundle_outcome pr) \<and> no_verdict (fallback_outcome pr)"
  by (cases pr) (auto simp: process_failed_def no_verdict_def bundle_outcome_def fallback_outcome_def eval_value_def bind_py_def
      split: option.splits json.splits if_splits sum.splits)

lemma rest_value_none:
  "map_of o' ''result'' = None \<Longrightarrow> rest_value (JObj o') = Inr (JBool False)"
  "map_of o' ''result'' = Some (JObj d) \<Longrightarrow> map_of d ''allow_state_write'' = None \<Longrightarrow> map_of d ''allow_reintegration'' = None \<Longrightarrow>
     rest_value (JObj o') = Inr (JBool False)"
proof -
  have key: "map_of d k = None \<Longrightarrow> k \<notin> set (keys d)" for d :: "(string \<times> json) list" and k by (auto simp: set_keys_dom)
  show "map_of o' ''result'' = None \<Longrightarrow> rest_value (JObj o') = Inr (JBool False)"
    by (simp add: rest_value_def)
  show "map_of o' ''result'' = Some (JObj d) \<Longrightarrow> map_of d ''allow_state_write'' = None \<Longrightarrow> map_of d ''allow_reintegration'' = None \<Longrightarrow>
     rest_value (JObj o') = Inr (JBool False)"
    using key [of d] by (simp add: rest_value_def)
qed

lemma rest_failed_outcome:
  assumes "rest_failed r"
  shows "no_verdict (rest_outcome r)"
proof (cases r)
  case (Rest_Reply st j)
  show ?thesis
  proof (cases "st = 200 \<and> j \<noteq> None")
    case True
    then obtain body where j: "j = Some body" "st = 200" by blast
    have "rest_value body = Inl AttributeError \<or> rest_value body = Inr (JBool False)"
    proof (cases body)
      case (JObj o')
      then show ?thesis using assms rest_value_none [of o'] by (auto simp: Rest_Reply j rest_failed_def split: option.splits json.splits)
    qed (simp_all add: rest_value_def)
    then show ?thesis by (auto simp: Rest_Reply j rest_outcome_def no_verdict_def)
  qed (auto simp: Rest_Reply rest_outcome_def no_verdict_def split: option.split)
qed (simp add: rest_outcome_def no_verdict_def)

lemma wasm_failed_outcome:
  assumes "wasm_failed m q i" and "q \<noteq> []"
  shows "no_verdict (wasm_outcome m q i)"
proof -
  let ?res = "wasm_evaluate m i q"
  have "(\<exists>x. ?res = Inl x) \<or> ?res = Inr [] \<or> ?res = Inr [JObj []]"
  proof (cases "wasm_evaluate m i q")
    case (Inr rs)
    then obtain ep j where j: "wasm_eval m ep i = Inr j" "rs = normalise_results j"
      by (auto simp: wasm_evaluate_def Let_def bind_py_def split: if_splits option.splits sum.splits)
    moreover have "\<not> (\<not> parses_input m i \<or> (sets_entrypoint m \<and> ep_key q \<notin> set (keys (entrypoints m))))"
      using Inr assms(2) set_keys_dom [of "entrypoints m"] by (auto simp: wasm_evaluate_def split: if_splits option.splits)
    then have "(\<exists>x. wasm_eval m ep i = Inl x) \<or> wasm_eval m ep i = Inr (JArr []) \<or> wasm_eval m ep i = Inr (JArr [JObj []])"
      using assms(1) unfolding wasm_failed_def by blast
    ultimately show ?thesis using Inr by (auto simp: normalise_results_def)
  qed simp
  then show ?thesis
    by (auto simp: wasm_outcome_def no_verdict_def split: py_error.splits)
qed

section \<open>Results\<close>

text \<open>C18: The transport does not matter. Whether the rules run as a WASM module, in an OPA process on a bundle or on the policy
  directory, or behind the REST interface, the gateway decides every write as the rules of the repository do, provided the
  transport answers in its documented shape.\<close>

theorem transports_agree:
  assumes "transports_documented tr"
  shows "evaluate_admission (transport_engine cfg tr) epoch p pids emap qmap auth = evaluate_admission rego_engine epoch p pids emap qmap auth"
  using verdict_channel.admission [OF documented_channel [OF assms]] unfolding transport_engine_def by simp

theorem transports_agree_witness:
  "evaluate_admission (transport_engine (default_settings\<lparr>OPA_POLICY_BUNDLE := Some ''policy.wasm''\<rparr>) (rego_transports True True)) 0
      (bare_payload ''x'' []) [] [] [] [] =
    evaluate_admission (transport_engine (default_settings\<lparr>OPA_URL := Some ''http://opa''\<rparr>) (rego_transports True True)) 0
      (bare_payload ''x'' []) [] [] [] []"
  unfolding transports_agree [OF rego_transports_documented] ..

text \<open>C17: The transports fail closed. While the selected transport fails on every query (the process cannot be started or exits with an
  error, the output is no JSON or has no result, the server is unreachable or answers with an error status or without
  a verdict, the module lacks the entry point, aborts or returns nothing), no write is admitted.\<close>

theorem transport_fails_closed:
  assumes "\<And>q i. transport_failed cfg tr q i"
  shows "evaluate_admission (transport_engine cfg tr) epoch p pids emap qmap auth \<noteq> Inr Admit"
proof -
  have "query_of q \<noteq> []" for q by (cases q) (simp_all add: query_of.simps)
  then have nv: "no_verdict (evaluate_opa_policy cfg tr (package_of q) (query_of q) i)" for q i
    using assms [of q i] wasm_failed_outcome process_failed_outcome rest_failed_outcome
    by (simp add: transport_failed_def evaluate_opa_policy_def split: if_splits)
  have none: "transport_engine cfg tr q i = PBool False \<or> (\<exists>x. transport_engine cfg tr q i = PolicyEvaluationError x) \<or>
      (\<exists>x. transport_engine cfg tr q i = PolicyCrash x)" for q i
    using nv [of q i] unfolding transport_engine_def by (auto simp: no_verdict_def as_policy_result_def split: opa_outcome.splits)
  let ?i = "make_integrity_input p pids emap qmap" and ?v = "make_verification_input epoch p pids qmap auth"
  have "sequential_admission (transport_engine cfg tr) ?i ?v pids qmap \<noteq> Inr Admit"
    using none [of Integrity_Query "Integrity_Input ?i"]
    by (cases "tainted_parents pids qmap") (auto simp: sequential_admission_def py_truth_def integrity_denial_def)
  then show ?thesis
    using none [of Combined_Query "Combined_Input ?i ?v"] by (auto simp: evaluate_admission_def Let_def)
qed

theorem transport_fails_closed_witness:
  "evaluate_admission (transport_engine default_settings ((rego_transports False False)\<lparr>opa_process := \<lambda>_ _. Some \<lparr>returncode = 2, stdout_json = None\<rparr>\<rparr>))
     0 (bare_payload ''x'' []) [] [] [] [] \<noteq> Inr Admit"
  by (rule transport_fails_closed) (simp add: transport_failed_def default_settings_def process_failed_def)

end
