(* ===== verification/Schema.thy ===== *)
theory Schema
  imports Prelude
begin

text \<open>
  The database schemas: the tables that \<open>init_db\<close> of the SQLite and of the PostgreSQL backend create if they are missing
  (\<open>src/sqlite_backend.py\<close>, \<open>src/postgres_backend.py\<close>) and the Alembic migration \<open>migrations/versions/66b1e27d6667_initial_schema.py\<close>. A database is a
  list of tables and a list of indexes; a statement that fails is \<open>None\<close>.
\<close>

section \<open>Data definition statements\<close>

datatype sql_type = TEXT | JSONB | TIMESTAMPTZ | INTEGER | REAL | FLOAT | BOOLEAN | SERIAL

record column =
  col_name :: string
  col_type :: sql_type
  not_null :: bool
  col_default :: "string option"

record table =
  table_name :: string
  table_columns :: "column list"
  primary_key :: "string list"

record index =
  index_name :: string
  index_table :: string
  index_columns :: "string list"
  index_where :: "(string \<times> string) option" \<comment> \<open>column and value of a partial index\<close>

record database =
  db_tables :: "table list"
  db_indexes :: "index list"

datatype ddl =
    Create_Table table
  | Create_Table_If_Missing table
  | Create_Index index
  | Create_Index_If_Missing index
  | Drop_Table string
  | Drop_Index string

definition has_table :: "string \<Rightarrow> database \<Rightarrow> bool" where
  "has_table n db = list_ex (\<lambda>t. table_name t = n) (db_tables db)"

definition has_index :: "string \<Rightarrow> database \<Rightarrow> bool" where
  "has_index n db = list_ex (\<lambda>i. index_name i = n) (db_indexes db)"

text \<open>Dropping a table drops its indexes.\<close>

fun exec_ddl :: "ddl \<Rightarrow> database \<Rightarrow> database option" where
  "exec_ddl (Create_Table t) db = (if has_table (table_name t) db then None else Some (db\<lparr>db_tables := db_tables db @ [t]\<rparr>))"
| "exec_ddl (Create_Table_If_Missing t) db = Some (if has_table (table_name t) db then db else db\<lparr>db_tables := db_tables db @ [t]\<rparr>)"
| "exec_ddl (Create_Index i) db =
     (if has_index (index_name i) db \<or> \<not> has_table (index_table i) db then None else Some (db\<lparr>db_indexes := db_indexes db @ [i]\<rparr>))"
| "exec_ddl (Create_Index_If_Missing i) db =
     (if \<not> has_table (index_table i) db then None
      else Some (if has_index (index_name i) db then db else db\<lparr>db_indexes := db_indexes db @ [i]\<rparr>))"
| "exec_ddl (Drop_Table n) db =
     (if has_table n db then Some \<lparr>db_tables = filter (\<lambda>t. table_name t \<noteq> n) (db_tables db), db_indexes = filter (\<lambda>i. index_table i \<noteq> n) (db_indexes db)\<rparr>
      else None)"
| "exec_ddl (Drop_Index n) db = (if has_index n db then Some (db\<lparr>db_indexes := filter (\<lambda>i. index_name i \<noteq> n) (db_indexes db)\<rparr>) else None)"

fun exec_all :: "ddl list \<Rightarrow> database \<Rightarrow> database option" where
  "exec_all [] db = Some db"
| "exec_all (s # ss) db = (case exec_ddl s db of None \<Rightarrow> None | Some db' \<Rightarrow> exec_all ss db')"

definition empty_db :: database where
  "empty_db = \<lparr>db_tables = [], db_indexes = []\<rparr>"

text \<open>Columns: nullable, \<open>NOT NULL\<close>, and with a default.\<close>

definition nul :: "string \<Rightarrow> sql_type \<Rightarrow> column" where
  "nul n ty = \<lparr>col_name = n, col_type = ty, not_null = False, col_default = None\<rparr>"

definition req :: "string \<Rightarrow> sql_type \<Rightarrow> column" where
  "req n ty = \<lparr>col_name = n, col_type = ty, not_null = True, col_default = None\<rparr>"

definition nul_dflt :: "string \<Rightarrow> sql_type \<Rightarrow> string \<Rightarrow> column" where
  "nul_dflt n ty d = \<lparr>col_name = n, col_type = ty, not_null = False, col_default = Some d\<rparr>"

definition req_dflt :: "string \<Rightarrow> sql_type \<Rightarrow> string \<Rightarrow> column" where
  "req_dflt n ty d = \<lparr>col_name = n, col_type = ty, not_null = True, col_default = Some d\<rparr>"

definition tab :: "string \<Rightarrow> column list \<Rightarrow> string list \<Rightarrow> table" where
  "tab n cs key = \<lparr>table_name = n, table_columns = cs, primary_key = key\<rparr>"

definition idx :: "string \<Rightarrow> string \<Rightarrow> string list \<Rightarrow> index" where
  "idx n t cs = \<lparr>index_name = n, index_table = t, index_columns = cs, index_where = None\<rparr>"

section \<open>SQLite\<close>

definition sqlite_init_db :: "ddl list" where
  "sqlite_init_db = [
     Create_Table_If_Missing (tab ''nodes'' [nul ''node_id'' TEXT, nul ''payload_json'' TEXT, nul ''content_hash'' TEXT, nul ''commitment'' TEXT] [''node_id'']),
     Create_Table_If_Missing (tab ''edges'' [nul ''child_id'' TEXT, nul ''parent_id'' TEXT, nul ''edge_class'' TEXT] [''child_id'', ''parent_id'']),
     Create_Index_If_Missing (idx ''idx_edges_parent_id'' ''edges'' [''parent_id'']),
     Create_Index_If_Missing ((idx ''idx_edges_carried_parent'' ''edges'' [''parent_id''])\<lparr>index_where := Some (''edge_class'', ''CARRIED'')\<rparr>),
     Create_Table_If_Missing (tab ''quarantine_ledger'' [nul ''node_id'' TEXT] [''node_id'']),
     Create_Table_If_Missing (tab ''quarantine_events'' [nul ''event_id'' TEXT, nul ''event_json'' TEXT] [''event_id'']),
     Create_Table_If_Missing (tab ''repair_candidates'' [nul ''node_id'' TEXT, nul ''candidate_json'' TEXT] [''node_id'']),
     Create_Table_If_Missing (tab ''checkpoints'' [nul ''checkpoint_id'' TEXT, nul ''checkpoint_json'' TEXT] [''checkpoint_id'']),
     Create_Table_If_Missing (tab ''external_effects'' [nul ''idempotency_key'' TEXT, nul ''node_id'' TEXT, nul ''effect_type'' TEXT, nul ''recorded_at_utc'' TEXT]
       [''idempotency_key'']),
     Create_Table_If_Missing (tab ''reintegration_horizon'' [nul ''node_id'' TEXT, req ''admitted_at_utc'' TEXT, req ''trust_expires_utc'' TEXT,
       req ''predecessor_id'' TEXT, nul_dflt ''renewal_count'' INTEGER ''0''] [''node_id'']),
     Create_Index_If_Missing (idx ''idx_horizon_expiry'' ''reintegration_horizon'' [''trust_expires_utc'']),
     Create_Table_If_Missing (tab ''recurrence_events'' [nul ''event_id'' TEXT, req ''node_id'' TEXT, req ''recurrence_class'' TEXT, req ''detected_at_utc'' TEXT,
       req ''signal_source'' TEXT, req_dflt ''outcome'' TEXT ''PROCESSED'', req ''event_json'' TEXT] [''event_id'']),
     Create_Table_If_Missing (tab ''signal_attempts'' [nul ''id'' INTEGER, req ''signal_source'' TEXT, req ''node_id'' TEXT, req ''signal_kind'' TEXT,
       req ''outcome'' TEXT, req ''recorded_at_utc'' TEXT] [''id'']),
     Create_Index_If_Missing (idx ''idx_signal_attempts_source'' ''signal_attempts'' [''signal_source'', ''recorded_at_utc'']),
     Create_Index_If_Missing (idx ''idx_signal_attempts_time'' ''signal_attempts'' [''recorded_at_utc'']),
     Create_Table_If_Missing (tab ''withdrawal_ledger'' [nul ''node_id'' TEXT, req ''withdrawn_at_utc'' TEXT, req ''triggering_event_id'' TEXT,
       req ''withdrawal_reason'' TEXT] [''node_id'']),
     Create_Table_If_Missing (tab ''calibration_runs'' [nul ''run_id'' TEXT, req ''run_at_utc'' TEXT, req ''seeded_count'' INTEGER, req ''detected_count'' INTEGER,
       req ''sensitivity_floor'' REAL, req ''monitored_period_json'' TEXT] [''run_id'']),
     Create_Table_If_Missing (tab ''shadow_decisions'' [nul ''decision_id'' TEXT, req ''node_id'' TEXT, req ''evaluated_at_utc'' TEXT,
       req ''would_have_blocked'' INTEGER, nul ''reason'' TEXT, req ''parent_status_json'' TEXT, req ''policy_bundle_digest'' TEXT, nul ''writer_identity'' TEXT]
       [''decision_id'']),
     Create_Index_If_Missing (idx ''idx_shadow_evaluated'' ''shadow_decisions'' [''evaluated_at_utc'']),
     Create_Index_If_Missing (idx ''idx_shadow_blocked'' ''shadow_decisions'' [''would_have_blocked'']),
     Create_Table_If_Missing (tab ''reintegration_evidence'' [nul ''node_id'' TEXT, req ''pre_state_digest'' TEXT, req ''post_state_digest'' TEXT,
       req ''gate_evidence_json'' TEXT, req ''recorded_at_utc'' TEXT] [''node_id'']),
     Create_Table_If_Missing (tab ''continuity_exposures'' [nul ''exposure_id'' TEXT, req ''node_id'' TEXT, req ''substitute_status'' TEXT, req ''exposed_at_utc'' TEXT,
       req_dflt ''quarantine_non_empty'' INTEGER ''0'', req ''exposure_record_json'' TEXT] [''exposure_id'']),
     Create_Table_If_Missing (tab ''substitute_declarations'' [nul ''target_node_id'' TEXT, req ''declaration_json'' TEXT] [''target_node_id'']),
     Create_Table_If_Missing (tab ''detector_events'' [nul ''event_id'' TEXT, req ''event_json'' TEXT, req ''received_at_utc'' TEXT] [''event_id'']),
     Create_Table_If_Missing (tab ''tainted_rejections'' [req ''node_id'' TEXT, req ''tainted_parent_id'' TEXT, req ''rejected_at_utc'' TEXT,
       nul_dflt ''author_identity'' TEXT [], nul_dflt ''served'' INTEGER ''0'', nul ''served_by_exposure_id'' TEXT, nul_dflt ''offered'' INTEGER ''0'',
       nul ''offered_replacement'' TEXT, nul ''replacement_type'' TEXT, nul_dflt ''completed'' INTEGER ''0'', nul ''completed_by'' TEXT] [])]"

section \<open>PostgreSQL\<close>

definition postgres_init_db :: "ddl list" where
  "postgres_init_db = [
     Create_Table_If_Missing (tab ''nodes'' [nul ''node_id'' TEXT, req ''payload_json'' JSONB, nul ''content_hash'' TEXT, nul ''commitment'' TEXT] [''node_id'']),
     Create_Table_If_Missing (tab ''edges'' [req ''child_id'' TEXT, req ''parent_id'' TEXT, nul ''edge_class'' TEXT] [''child_id'', ''parent_id'']),
     Create_Index_If_Missing (idx ''idx_edges_parent_id'' ''edges'' [''parent_id'']),
     Create_Table_If_Missing (tab ''quarantine_ledger'' [nul ''node_id'' TEXT] [''node_id'']),
     Create_Table_If_Missing (tab ''quarantine_events'' [nul ''event_id'' TEXT, req ''event_json'' JSONB] [''event_id'']),
     Create_Table_If_Missing (tab ''repair_candidates'' [nul ''node_id'' TEXT, req ''candidate_json'' JSONB] [''node_id'']),
     Create_Table_If_Missing (tab ''checkpoints'' [nul ''checkpoint_id'' TEXT, req ''checkpoint_json'' JSONB] [''checkpoint_id'']),
     Create_Table_If_Missing (tab ''external_effects'' [nul ''idempotency_key'' TEXT, req ''node_id'' TEXT, req ''effect_type'' TEXT, req ''recorded_at_utc'' TIMESTAMPTZ]
       [''idempotency_key'']),
     Create_Table_If_Missing (tab ''reintegration_horizon'' [nul ''node_id'' TEXT, req ''admitted_at_utc'' TIMESTAMPTZ, req ''trust_expires_utc'' TIMESTAMPTZ,
       req ''predecessor_id'' TEXT, nul_dflt ''renewal_count'' INTEGER ''0''] [''node_id'']),
     Create_Index_If_Missing (idx ''idx_horizon_expiry'' ''reintegration_horizon'' [''trust_expires_utc'']),
     Create_Table_If_Missing (tab ''recurrence_events'' [nul ''event_id'' TEXT, req ''node_id'' TEXT, req ''recurrence_class'' TEXT, req ''detected_at_utc'' TIMESTAMPTZ,
       req ''signal_source'' TEXT, req_dflt ''outcome'' TEXT ''PROCESSED'', req ''event_json'' JSONB] [''event_id'']),
     Create_Table_If_Missing (tab ''signal_attempts'' [nul ''id'' SERIAL, req ''signal_source'' TEXT, req ''node_id'' TEXT, req ''signal_kind'' TEXT,
       req ''outcome'' TEXT, req ''recorded_at_utc'' TIMESTAMPTZ] [''id'']),
     Create_Index_If_Missing (idx ''idx_signal_attempts_source'' ''signal_attempts'' [''signal_source'', ''recorded_at_utc'']),
     Create_Index_If_Missing (idx ''idx_signal_attempts_time'' ''signal_attempts'' [''recorded_at_utc'']),
     Create_Table_If_Missing (tab ''withdrawal_ledger'' [nul ''node_id'' TEXT, req ''withdrawn_at_utc'' TIMESTAMPTZ, req ''triggering_event_id'' TEXT,
       req ''withdrawal_reason'' TEXT] [''node_id'']),
     Create_Table_If_Missing (tab ''calibration_runs'' [nul ''run_id'' TEXT, req ''run_at_utc'' TIMESTAMPTZ, req ''seeded_count'' INTEGER, req ''detected_count'' INTEGER,
       req ''sensitivity_floor'' REAL, req ''monitored_period_json'' JSONB] [''run_id'']),
     Create_Table_If_Missing (tab ''shadow_decisions'' [nul ''decision_id'' TEXT, req ''node_id'' TEXT, req ''evaluated_at_utc'' TIMESTAMPTZ,
       req ''would_have_blocked'' BOOLEAN, nul ''reason'' TEXT, req ''parent_status_json'' JSONB, req ''policy_bundle_digest'' TEXT, nul ''writer_identity'' TEXT]
       [''decision_id'']),
     Create_Index_If_Missing (idx ''idx_shadow_evaluated'' ''shadow_decisions'' [''evaluated_at_utc'']),
     Create_Index_If_Missing (idx ''idx_shadow_blocked'' ''shadow_decisions'' [''would_have_blocked'']),
     Create_Table_If_Missing (tab ''reintegration_evidence'' [nul ''node_id'' TEXT, req ''pre_state_digest'' TEXT, req ''post_state_digest'' TEXT,
       req ''gate_evidence_json'' JSONB, req ''recorded_at_utc'' TIMESTAMPTZ] [''node_id'']),
     Create_Table_If_Missing (tab ''continuity_exposures'' [nul ''exposure_id'' TEXT, req ''node_id'' TEXT, req ''substitute_status'' TEXT, req ''exposed_at_utc'' TIMESTAMPTZ,
       req_dflt ''quarantine_non_empty'' BOOLEAN ''FALSE'', req ''exposure_record_json'' JSONB] [''exposure_id'']),
     Create_Table_If_Missing (tab ''substitute_declarations'' [nul ''target_node_id'' TEXT, req ''declaration_json'' JSONB] [''target_node_id'']),
     Create_Table_If_Missing (tab ''detector_events'' [nul ''event_id'' TEXT, req ''event_json'' JSONB, req_dflt ''received_at_utc'' TIMESTAMPTZ ''NOW()''] [''event_id'']),
     Create_Table_If_Missing (tab ''tainted_rejections'' [req ''node_id'' TEXT, req ''tainted_parent_id'' TEXT, req ''rejected_at_utc'' TIMESTAMPTZ,
       nul_dflt ''author_identity'' TEXT [], nul_dflt ''served'' BOOLEAN ''FALSE'', nul ''served_by_exposure_id'' TEXT, nul_dflt ''offered'' BOOLEAN ''FALSE'',
       nul ''offered_replacement'' TEXT, nul ''replacement_type'' TEXT, nul_dflt ''completed'' BOOLEAN ''FALSE'', nul ''completed_by'' TEXT] []),
     Create_Index_If_Missing (idx ''idx_tainted_rejections_node_served'' ''tainted_rejections'' [''node_id'', ''served''])]"

section \<open>The migration\<close>

definition upgrade :: "ddl list" where
  "upgrade = [
     Create_Table (tab ''nodes'' [nul ''node_id'' TEXT, req ''payload_json'' JSONB, nul ''content_hash'' TEXT, nul ''commitment'' TEXT] [''node_id'']),
     Create_Table (tab ''edges'' [req ''child_id'' TEXT, req ''parent_id'' TEXT, nul ''edge_class'' TEXT] [''child_id'', ''parent_id'']),
     Create_Index (idx ''idx_edges_parent_id'' ''edges'' [''parent_id'']),
     Create_Table (tab ''quarantine_ledger'' [nul ''node_id'' TEXT] [''node_id'']),
     Create_Table (tab ''quarantine_events'' [nul ''event_id'' TEXT, req ''event_json'' JSONB] [''event_id'']),
     Create_Table (tab ''repair_candidates'' [nul ''node_id'' TEXT, req ''candidate_json'' JSONB] [''node_id'']),
     Create_Table (tab ''checkpoints'' [nul ''checkpoint_id'' TEXT, req ''checkpoint_json'' JSONB] [''checkpoint_id'']),
     Create_Table (tab ''external_effects'' [nul ''idempotency_key'' TEXT, req ''node_id'' TEXT, req ''effect_type'' TEXT, req ''recorded_at_utc'' TIMESTAMPTZ]
       [''idempotency_key'']),
     Create_Table (tab ''reintegration_horizon'' [nul ''node_id'' TEXT, req ''admitted_at_utc'' TIMESTAMPTZ, req ''trust_expires_utc'' TIMESTAMPTZ,
       req ''predecessor_id'' TEXT, req_dflt ''renewal_count'' INTEGER ''0''] [''node_id'']),
     Create_Index (idx ''idx_horizon_expiry'' ''reintegration_horizon'' [''trust_expires_utc'']),
     Create_Table (tab ''recurrence_events'' [nul ''event_id'' TEXT, req ''node_id'' TEXT, req ''recurrence_class'' TEXT, req ''detected_at_utc'' TIMESTAMPTZ,
       req ''signal_source'' TEXT, req_dflt ''outcome'' TEXT ''PROCESSED'', req ''event_json'' JSONB] [''event_id'']),
     Create_Table (tab ''signal_attempts'' [nul ''id'' SERIAL, req ''signal_source'' TEXT, req ''node_id'' TEXT, req ''signal_kind'' TEXT,
       req ''outcome'' TEXT, req ''recorded_at_utc'' TIMESTAMPTZ] [''id'']),
     Create_Index (idx ''idx_signal_attempts_source'' ''signal_attempts'' [''signal_source'', ''recorded_at_utc'']),
     Create_Index (idx ''idx_signal_attempts_time'' ''signal_attempts'' [''recorded_at_utc'']),
     Create_Table (tab ''withdrawal_ledger'' [nul ''node_id'' TEXT, req ''withdrawn_at_utc'' TIMESTAMPTZ, req ''triggering_event_id'' TEXT,
       req ''withdrawal_reason'' TEXT] [''node_id'']),
     Create_Table (tab ''calibration_runs'' [nul ''run_id'' TEXT, req ''run_at_utc'' TIMESTAMPTZ, req ''seeded_count'' INTEGER, req ''detected_count'' INTEGER,
       req ''sensitivity_floor'' FLOAT, req ''monitored_period_json'' JSONB] [''run_id'']),
     Create_Table (tab ''shadow_decisions'' [nul ''decision_id'' TEXT, req ''node_id'' TEXT, req ''evaluated_at_utc'' TIMESTAMPTZ,
       req ''would_have_blocked'' BOOLEAN, nul ''reason'' TEXT, req ''parent_status_json'' JSONB, req ''policy_bundle_digest'' TEXT, nul ''writer_identity'' TEXT]
       [''decision_id'']),
     Create_Index (idx ''idx_shadow_evaluated'' ''shadow_decisions'' [''evaluated_at_utc'']),
     Create_Index (idx ''idx_shadow_blocked'' ''shadow_decisions'' [''would_have_blocked''])]"

definition downgrade :: "ddl list" where
  "downgrade = [Drop_Table ''shadow_decisions'', Drop_Table ''calibration_runs'', Drop_Table ''withdrawal_ledger'', Drop_Table ''signal_attempts'',
     Drop_Table ''recurrence_events'', Drop_Table ''reintegration_horizon'', Drop_Table ''external_effects'', Drop_Table ''checkpoints'',
     Drop_Table ''repair_candidates'', Drop_Table ''quarantine_events'', Drop_Table ''quarantine_ledger'', Drop_Index ''idx_edges_parent_id'',
     Drop_Table ''edges'', Drop_Table ''nodes'']"

section \<open>Comparing schemas\<close>

text \<open>What the statements of the backends rely on: the tables, their columns and their keys.\<close>

definition shape :: "table \<Rightarrow> string \<times> string list \<times> string list" where
  "shape t = (table_name t, map col_name (table_columns t), primary_key t)"

definition shapes :: "database option \<Rightarrow> (string \<times> string list \<times> string list) list" where
  "shapes db = (case db of None \<Rightarrow> [] | Some d \<Rightarrow> map shape (db_tables d))"

definition column_differences :: "database \<Rightarrow> database \<Rightarrow> (string \<times> column \<times> column) list" where
  "column_differences a b =
     concat (map (\<lambda>(t, u). map (\<lambda>(c, d). (table_name t, c, d)) (filter (\<lambda>(c, d). c \<noteq> d) (zip (table_columns t) (table_columns u))))
       (zip (db_tables a) (db_tables b)))"

definition names :: "database option \<Rightarrow> string list" where
  "names db = (case db of None \<Rightarrow> [] | Some d \<Rightarrow> map table_name (db_tables d))"

definition migrated :: "database option" where
  "migrated = exec_all upgrade empty_db"

definition migrated_then_started :: "database option" where
  "migrated_then_started = Option.bind migrated (exec_all postgres_init_db)"

definition started :: "database option" where
  "started = exec_all postgres_init_db empty_db"

text \<open>The two database backends create the same tables: the same names, columns and primary keys, in the same order.\<close>

theorem init_schemas_agree:
  "exec_all sqlite_init_db empty_db \<noteq> None \<and> started \<noteq> None \<and> shapes (exec_all sqlite_init_db empty_db) = shapes started"
  by code_simp

text \<open>The migration and the start-up fit together. The upgrade runs on an empty database and the downgrade takes it back to the empty
  database; starting the gateway on a migrated database adds exactly the five tables the migration lacks and gives the
  tables, columns and keys of a start on an empty database. Two columns keep another definition: the renewal count is not nullable and the
  sensitivity floor has double precision.\<close>

theorem migration_roundtrip:
  "Option.bind migrated (exec_all downgrade) = Some empty_db \<and>
   shapes migrated_then_started = shapes started \<and>
   filter (\<lambda>n. n \<notin> set (names migrated)) (names started) =
     [''reintegration_evidence'', ''continuity_exposures'', ''substitute_declarations'', ''detector_events'', ''tainted_rejections''] \<and>
   column_differences (the migrated_then_started) (the started) =
     [(''reintegration_horizon'', req_dflt ''renewal_count'' INTEGER ''0'', nul_dflt ''renewal_count'' INTEGER ''0''),
      (''calibration_runs'', req ''sensitivity_floor'' FLOAT, req ''sensitivity_floor'' REAL)]"
  by code_simp

end
