(* ===== verification/Sqlite_Connections.thy ===== *)
theory Sqlite_Connections
  imports Sqlite_Statements
begin

text \<open>
  How the SQLite backend reaches its database: \<open>transaction()\<close> and \<open>_connect()\<close> of \<open>src/sqlite_backend.py\<close>. A block of
  \<open>transaction()\<close> opens a connection of its own, starts with \<open>BEGIN IMMEDIATE\<close>, turns \<open>commit\<close> into a no-op for the methods it calls,
  and commits or rolls back at its end; a nested block joins the outer one. Every method outside such a block runs on the one
  connection \<open>self._db\<close> that all tasks share and ends with a commit of that connection.

  What is used of SQLite and of Python's \<open>sqlite3\<close> is documented: a statement that writes opens a transaction on its connection and needs the
  write lock, also if it changes no row; one connection at a time has the write lock; a writer that waits longer than the timeout
  gets \<open>OperationalError\<close>; uncommitted changes are seen on their own connection only. Tasks interleave between any two statements.

  Shown: blocks are atomic and can be put in a serial order, each acting as the one step \<open>transaction\<close> by which the handlers are
  modelled. The shared connection gives neither: one task's commit publishes the half-done work of another, and a duplicate that is not committed
  keeps the lock.
\<close>

section \<open>Tasks and connections\<close>

text \<open>The body of a block, in steps that end in an exception or in a new state of the connection and of the local variables.\<close>

type_synonym ('s, 'l) body_step = "'s \<times> 'l \<Rightarrow> ('s \<times> 'l) result"

fun run_body :: "('s, 'l) body_step list \<Rightarrow> 's \<times> 'l \<Rightarrow> ('s \<times> 'l) result" where
  "run_body [] x = Inr x"
| "run_body (b # bs) x = (case b x of Inl e \<Rightarrow> Inl e | Inr y \<Rightarrow> run_body bs y)"

text \<open>A statement of a method outside a block; \<open>False\<close> makes the method return.\<close>

datatype 's stmt = Execute "'s \<Rightarrow> bool \<times> 's" | Commit_Stmt

datatype ('s, 'l) task =
    Waiting "('s, 'l) body_step list" 'l \<comment> \<open>before \<open>BEGIN IMMEDIATE\<close>\<close>
  | Running "('s, 'l) body_step list" 'l
  | Block_Committed 'l
  | Rolled_Back http_exception
  | Plain "'s stmt list"
  | Locked_Out \<comment> \<open>\<open>OperationalError: database is locked\<close>\<close>

record ('s, 'l) dbsys =
  committed :: 's
  shared_tx :: "'s option" \<comment> \<open>the open transaction of \<open>self._db\<close>\<close>
  own_tx :: "(nat \<times> 's) option" \<comment> \<open>the task in a block and the state its connection sees\<close>
  tasks :: "nat \<Rightarrow> ('s, 'l) task"

definition shared_view :: "('s, 'l) dbsys \<Rightarrow> 's" where
  "shared_view d = (case shared_tx d of None \<Rightarrow> committed d | Some s \<Rightarrow> s)"

definition set_task :: "nat \<Rightarrow> ('s, 'l) task \<Rightarrow> ('s, 'l) dbsys \<Rightarrow> ('s, 'l) dbsys" where
  "set_task i t d = d\<lparr>tasks := (tasks d)(i := t)\<rparr>"

inductive db_step :: "('s, 'l) dbsys \<Rightarrow> ('s, 'l) dbsys \<Rightarrow> bool" where
  begin_block: "tasks d i = Waiting bs l \<Longrightarrow> shared_tx d = None \<Longrightarrow> own_tx d = None \<Longrightarrow>
    db_step d (set_task i (Running bs l) (d\<lparr>own_tx := Some (i, committed d)\<rparr>))"
| body_step: "tasks d i = Running (b # bs) l \<Longrightarrow> own_tx d = Some (i, s) \<Longrightarrow> b (s, l) = Inr (s', l') \<Longrightarrow>
    db_step d (set_task i (Running bs l') (d\<lparr>own_tx := Some (i, s')\<rparr>))"
| body_raises: "tasks d i = Running (b # bs) l \<Longrightarrow> own_tx d = Some (i, s) \<Longrightarrow> b (s, l) = Inl e \<Longrightarrow>
    db_step d (set_task i (Rolled_Back e) (d\<lparr>own_tx := None\<rparr>))"
| body_ends: "tasks d i = Running [] l \<Longrightarrow> own_tx d = Some (i, s) \<Longrightarrow>
    db_step d (set_task i (Block_Committed l) (d\<lparr>committed := s, own_tx := None\<rparr>))"
| execute: "tasks d i = Plain (Execute f # ss) \<Longrightarrow> own_tx d = None \<Longrightarrow> f (shared_view d) = (go_on, s') \<Longrightarrow>
    db_step d (set_task i (Plain (if go_on then ss else [])) (d\<lparr>shared_tx := Some s'\<rparr>))"
| commit_shared: "tasks d i = Plain (Commit_Stmt # ss) \<Longrightarrow>
    db_step d (set_task i (Plain ss) (d\<lparr>committed := shared_view d, shared_tx := None\<rparr>))"
| block_locked: "tasks d i = Waiting bs l \<Longrightarrow> shared_tx d \<noteq> None \<or> own_tx d \<noteq> None \<Longrightarrow> db_step d (set_task i Locked_Out d)"
| plain_locked: "tasks d i = Plain (Execute f # ss) \<Longrightarrow> own_tx d \<noteq> None \<Longrightarrow> db_step d (set_task i Locked_Out d)"
| abandon: "tasks d i = Plain ss \<Longrightarrow> db_step d (set_task i (Plain []) d)" \<comment> \<open>an exception or a cancelled request\<close>

inductive_cases db_stepE: "db_step d d'"

lemma set_task_simps [simp]:
  "committed (set_task i t d) = committed d" "shared_tx (set_task i t d) = shared_tx d" "own_tx (set_task i t d) = own_tx d"
  "tasks (set_task i t d) j = (if j = i then t else tasks d j)"
  by (simp_all add: set_task_def)

section \<open>Blocks in a serial order\<close>

text \<open>What became visible to other connections, in order: the effect of a block, or the statements that a commit of the shared connection published.\<close>

datatype 's publication = Block nat | Batch "('s \<Rightarrow> bool \<times> 's) list"

definition publish :: "(nat \<Rightarrow> ('s, 'l) task) \<Rightarrow> 's publication \<Rightarrow> 's \<Rightarrow> 's" where
  "publish ts x s =
     (case x of
        Block i \<Rightarrow> (case ts i of Waiting bs l \<Rightarrow> (case run_body bs (s, l) of Inl e \<Rightarrow> s | Inr (s', l') \<Rightarrow> s') | _ \<Rightarrow> s)
      | Batch fs \<Rightarrow> fold (\<lambda>f s. snd (f s)) fs s)"

definition blocks :: "'s publication list \<Rightarrow> nat list" where
  "blocks h = List.map_filter (\<lambda>x. case x of Block i \<Rightarrow> Some i | Batch fs \<Rightarrow> None) h"

definition statements :: "(nat \<Rightarrow> ('s, 'l) task) \<Rightarrow> ('s \<Rightarrow> bool \<times> 's) set" where
  "statements ts = {f. \<exists>i ss. ts i = Plain ss \<and> Execute f \<in> set ss}"

definition batches :: "'s publication list \<Rightarrow> ('s \<Rightarrow> bool \<times> 's) set" where
  "batches h = {f. \<exists>fs. Batch fs \<in> set h \<and> f \<in> set fs}"

lemma blocks_simps [simp]:
  "blocks [] = []" "blocks (h @ [Block i]) = blocks h @ [i]" "blocks (h @ [Batch fs]) = blocks h"
  by (simp_all add: blocks_def List.map_filter_def)

lemma batches_simps [simp]:
  "batches [] = {}" "batches (h @ [Block i]) = batches h" "batches (h @ [Batch fs]) = batches h \<union> set fs"
  by (auto simp: batches_def)

text \<open>The state of a task that has not finished is that of its program so far; a block that is open has done part of its body on the committed state.\<close>

definition task_ok :: "(nat \<Rightarrow> ('s, 'l) task) \<Rightarrow> ('s, 'l) dbsys \<Rightarrow> nat \<Rightarrow> bool" where
  "task_ok ts d i \<longleftrightarrow>
     (case tasks d i of
        Waiting bs l \<Rightarrow> ts i = Waiting bs l
      | Running bs l \<Rightarrow> (\<exists>s bs0 l0. own_tx d = Some (i, s) \<and> shared_tx d = None \<and> ts i = Waiting bs0 l0 \<and> run_body bs0 (committed d, l0) = run_body bs (s, l))
      | Plain ss \<Rightarrow> (\<exists>ss0. ts i = Plain ss0 \<and> set ss \<subseteq> set ss0)
      | _ \<Rightarrow> True)"

definition pending_ok :: "(nat \<Rightarrow> ('s, 'l) task) \<Rightarrow> ('s, 'l) dbsys \<Rightarrow> bool" where
  "pending_ok ts d \<longleftrightarrow>
     (case shared_tx d of None \<Rightarrow> True | Some s \<Rightarrow> \<exists>fs. set fs \<subseteq> statements ts \<and> s = fold (\<lambda>f s. snd (f s)) fs (committed d)) \<and>
     (case own_tx d of None \<Rightarrow> True | Some (i, s) \<Rightarrow> shared_tx d = None \<and> (\<exists>bs l. tasks d i = Running bs l))"

definition history_ok :: "(nat \<Rightarrow> ('s, 'l) task) \<Rightarrow> 's \<Rightarrow> 's publication list \<Rightarrow> ('s, 'l) dbsys \<Rightarrow> bool" where
  "history_ok ts s h d \<longleftrightarrow> committed d = fold (publish ts) h s \<and> distinct (blocks h) \<and> set (blocks h) = {i. \<exists>l. tasks d i = Block_Committed l} \<and>
     batches h \<subseteq> statements ts"

definition serial_ok :: "(nat \<Rightarrow> ('s, 'l) task) \<Rightarrow> 's \<Rightarrow> ('s, 'l) dbsys \<Rightarrow> bool" where
  "serial_ok ts s d \<longleftrightarrow> (\<forall>i. task_ok ts d i) \<and> pending_ok ts d \<and> (\<exists>h. history_ok ts s h d)"

lemma history_block:
  assumes "history_ok ts s h d" and "task_ok ts d i" and "tasks d i = Running [] l" and "own_tx d = Some (i, s')"
  shows "history_ok ts s (h @ [Block i]) (set_task i (Block_Committed l) (d\<lparr>committed := s', own_tx := None\<rparr>))"
proof -
  obtain bs0 l0 where "ts i = Waiting bs0 l0" "run_body bs0 (committed d, l0) = Inr (s', l)"
    using assms(2-4) by (auto simp: task_ok_def)
  then show ?thesis using assms(1,3) by (auto simp: history_ok_def publish_def)
qed

lemma history_batch:
  assumes "history_ok ts s h d" and "pending_ok ts d" and "tasks d i = Plain (Commit_Stmt # ss)"
  shows "\<exists>h'. history_ok ts s h' (set_task i (Plain ss) (d\<lparr>committed := shared_view d, shared_tx := None\<rparr>))"
proof (cases "shared_tx d")
  case None
  then show ?thesis using assms(1,3) by (intro exI [of _ h]) (auto simp: history_ok_def shared_view_def)
next
  case (Some s')
  then obtain fs where "set fs \<subseteq> statements ts" "s' = fold (\<lambda>f s. snd (f s)) fs (committed d)"
    using assms(2) by (auto simp: pending_ok_def)
  then show ?thesis using assms(1,3) Some
    by (intro exI [of _ "h @ [Batch fs]"]) (auto simp: history_ok_def shared_view_def publish_def)
qed

lemma pending_execute:
  assumes "pending_ok ts d" and "own_tx d = None" and "f \<in> statements ts" and "f (shared_view d) = (go_on, s')"
  shows "pending_ok ts (set_task i t (d\<lparr>shared_tx := Some s'\<rparr>))"
proof -
  obtain fs where "set fs \<subseteq> statements ts" "shared_view d = fold (\<lambda>f s. snd (f s)) fs (committed d)"
  proof (cases "shared_tx d")
    case None
    then show ?thesis using that [of "[]"] by (simp add: shared_view_def)
  next
    case (Some x)
    then show ?thesis using assms(1) that by (auto simp: pending_ok_def shared_view_def)
  qed
  then have "set (fs @ [f]) \<subseteq> statements ts" "s' = fold (\<lambda>f s. snd (f s)) (fs @ [f]) (committed d)"
    using assms(3,4) by auto
  then show ?thesis using assms(2) unfolding pending_ok_def by (auto intro!: exI [of _ "fs @ [f]"] simp del: fold_append)
qed

lemma step_task_ok:
  assumes "db_step d d'" and "\<And>i. task_ok ts d i" and "pending_ok ts d"
  shows "task_ok ts d' j"
  using assms(1)
proof cases
  case (commit_shared i ss)
  then have "own_tx d \<noteq> None \<Longrightarrow> shared_view d = committed d" using assms(3) by (auto simp: pending_ok_def shared_view_def)
  then show ?thesis using commit_shared assms(2) [of j] by (auto simp: task_ok_def split: task.splits)
qed (use assms(2) [of j] in \<open>auto simp: task_ok_def split: task.splits\<close>)

lemma step_pending_ok:
  assumes "db_step d d'" and "\<And>i. task_ok ts d i" and "pending_ok ts d"
  shows "pending_ok ts d'"
  using assms(1)
proof cases
  case (execute i f ss go_on s')
  then have "f \<in> statements ts" using assms(2) [of i] by (force simp: task_ok_def statements_def)
  then show ?thesis using pending_execute [OF assms(3)] execute by simp
qed (use assms(3) in \<open>auto simp: pending_ok_def split: option.splits\<close>)

lemma step_history:
  assumes "db_step d d'" and "\<And>i. task_ok ts d i" and "pending_ok ts d" and "history_ok ts s h d"
  shows "\<exists>h'. history_ok ts s h' d'"
  using assms(1)
proof cases
  case (body_ends i l s')
  then show ?thesis using history_block [OF assms(4,2)] by blast
next
  case (commit_shared i ss)
  then show ?thesis using history_batch [OF assms(4,3)] by simp
qed (use assms(4) in \<open>auto simp: history_ok_def intro!: exI [of _ h]\<close>)

lemma run_serial: "db_step\<^sup>*\<^sup>* d d' \<Longrightarrow> serial_ok ts s d \<Longrightarrow> serial_ok ts s d'"
proof (induction rule: rtranclp_induct)
  case (step d1 d2)
  then show ?case using step_task_ok step_pending_ok step_history unfolding serial_ok_def by meson
qed

text \<open>A system in which nothing has run yet.\<close>

definition fresh_system :: "('s, 'l) dbsys \<Rightarrow> bool" where
  "fresh_system d \<longleftrightarrow> shared_tx d = None \<and> own_tx d = None \<and> (\<forall>i. (\<exists>bs l. tasks d i = Waiting bs l) \<or> (\<exists>ss. tasks d i = Plain ss))"

lemma fresh_serial:
  assumes "fresh_system d"
  shows "serial_ok (tasks d) (committed d) d"
proof -
  have "task_ok (tasks d) d i" for i
    using assms by (auto simp: fresh_system_def task_ok_def split: task.splits) (metis task.distinct)
  moreover have "history_ok (tasks d) (committed d) [] d"
    using assms by (auto simp: fresh_system_def history_ok_def) (metis task.distinct)
  ultimately show ?thesis using assms by (auto simp: serial_ok_def pending_ok_def fresh_system_def)
qed

section \<open>The transaction of the handlers\<close>

text \<open>A handler's body over the process state, as a body over the store with the process state in the local variables.\<close>

definition on_store :: "(world \<Rightarrow> world result) \<Rightarrow> (gstate, world) body_step" where
  "on_store f x = (case x of (s, w) \<Rightarrow> (case f (w\<lparr>gs := s\<rparr>) of Inl e \<Rightarrow> Inl e | Inr w' \<Rightarrow> Inr (gs w', w')))"

fun run_handler :: "(world \<Rightarrow> world result) list \<Rightarrow> world \<Rightarrow> unit result \<times> world" where
  "run_handler [] w = (Inr (), w)"
| "run_handler (f # fs) w = (case f w of Inl e \<Rightarrow> (Inl e, w) | Inr w' \<Rightarrow> run_handler fs w')"

lemma block_is_transaction:
  "gs (snd (transaction (run_handler fs) (w\<lparr>gs := s\<rparr>))) = (case run_body (map on_store fs) (s, w) of Inl e \<Rightarrow> s | Inr (s', w') \<Rightarrow> s')"
proof -
  have "case run_body (map on_store fs) (s, w) of
      Inl e \<Rightarrow> fst (run_handler fs (w\<lparr>gs := s\<rparr>)) = Inl e
    | Inr (s', w') \<Rightarrow> fst (run_handler fs (w\<lparr>gs := s\<rparr>)) = Inr () \<and> gs (snd (run_handler fs (w\<lparr>gs := s\<rparr>))) = s'" for s w
  proof (induction fs arbitrary: s w)
    case (Cons f fs)
    show ?case
    proof (cases "f (w\<lparr>gs := s\<rparr>)")
      case (Inr w')
      then show ?thesis using Cons [of "gs w'" w'] by (simp add: on_store_def split: sum.splits prod.splits)
    qed (simp add: on_store_def)
  qed simp
  from this [of s w] show ?thesis by (auto simp: transaction_def split: sum.splits prod.splits)
qed

text \<open>C15: Transactions can be put in a serial order. However the statements of any number of requests interleave, on their own connections and on the
  shared one: what other connections can see is the result of a sequence of publications, in which each block that was committed
  occurs once, acting as a whole on the state left by the one before it, a block that raised or found the database locked does not occur,
  and everything else is a batch of statements committed on the shared connection. For a block whose body is a handler's, that
  action is the function \<open>transaction\<close>, by which the handlers are modelled.\<close>

theorem transactions_serialise:
  assumes "db_step\<^sup>*\<^sup>* d d'" and "fresh_system d"
  shows "(\<exists>h. committed d' = fold (publish (tasks d)) h (committed d) \<and> distinct (blocks h) \<and> set (blocks h) = {i. \<exists>l. tasks d' i = Block_Committed l} \<and>
      batches h \<subseteq> statements (tasks d)) \<and>
    publish (ts(i := Waiting (map on_store fs) w)) (Block i) s = gs (snd (transaction (run_handler fs) (w\<lparr>gs := s\<rparr>)))"
proof
  from run_serial [OF assms(1) fresh_serial [OF assms(2)]]
  show "\<exists>h. committed d' = fold (publish (tasks d)) h (committed d) \<and> distinct (blocks h) \<and> set (blocks h) = {i. \<exists>l. tasks d' i = Block_Committed l} \<and>
      batches h \<subseteq> statements (tasks d)"
    by (auto simp: serial_ok_def history_ok_def)
  show "publish (ts(i := Waiting (map on_store fs) w)) (Block i) s = gs (snd (transaction (run_handler fs) (w\<lparr>gs := s\<rparr>)))"
    by (simp add: publish_def block_is_transaction)
qed

definition demo_body :: "(world \<Rightarrow> world result) list" where
  "demo_body = [\<lambda>w. Inr (on_gs (add_to_quarantine_ledger ''n'') w), \<lambda>w. Inr (on_gs (snd \<circ> commit_node (bare_payload ''m'' [])) w)]"

definition demo_system :: "(gstate, world) dbsys" where
  "demo_system = \<lparr>committed = init_state, shared_tx = None, own_tx = None,
     tasks = (\<lambda>i. if i = 0 then Waiting (map on_store demo_body) init_world else Plain [])\<rparr>"

lemma demo_system_run:
  "\<exists>d l. db_step\<^sup>*\<^sup>* demo_system d \<and> tasks d 0 = Block_Committed l \<and> committed d = snd (commit_node (bare_payload ''m'' []) (add_to_quarantine_ledger ''n'' init_state))"
proof -
  let ?bs = "map on_store demo_body" and ?s = "add_to_quarantine_ledger ''n'' init_state"
  define d1 where "d1 = set_task 0 (Running ?bs init_world) (demo_system\<lparr>own_tx := Some (0, init_state)\<rparr>)"
  define w2 where "w2 = on_gs (add_to_quarantine_ledger ''n'') init_world"
  define d2 where "d2 = set_task 0 (Running (tl ?bs) w2) (d1\<lparr>own_tx := Some (0, ?s)\<rparr>)"
  define w3 where "w3 = on_gs (snd \<circ> commit_node (bare_payload ''m'' [])) w2"
  define d3 where "d3 = set_task 0 (Running [] w3) (d2\<lparr>own_tx := Some (0, snd (commit_node (bare_payload ''m'' []) ?s))\<rparr>)"
  have "db_step demo_system d1" unfolding d1_def using begin_block [of demo_system 0 ?bs init_world] by (simp add: demo_system_def)
  moreover have "db_step d1 d2" unfolding d2_def
    by (rule body_step [where b = "hd ?bs" and l = init_world and s = init_state])
      (simp_all add: d1_def demo_body_def on_store_def w2_def init_world_def on_gs_def)
  moreover have "db_step d2 d3" unfolding d3_def
    by (rule body_step [where b = "hd (tl ?bs)" and l = w2 and s = ?s])
      (simp_all add: d2_def demo_body_def on_store_def w3_def w2_def on_gs_def init_world_def)
  moreover have "db_step d3 (set_task 0 (Block_Committed w3) (d3\<lparr>committed := snd (commit_node (bare_payload ''m'' []) ?s), own_tx := None\<rparr>))"
    by (rule body_ends) (simp_all add: d3_def)
  ultimately have "db_step\<^sup>*\<^sup>* demo_system (set_task 0 (Block_Committed w3) (d3\<lparr>committed := snd (commit_node (bare_payload ''m'' []) ?s), own_tx := None\<rparr>))"
    by (meson converse_rtranclp_into_rtranclp rtranclp.rtrancl_refl)
  then show ?thesis by (intro exI conjI) auto
qed

theorem transactions_serialise_witness:
  "\<exists>d h. db_step\<^sup>*\<^sup>* demo_system d \<and> 0 \<in> set (blocks h) \<and> committed d = fold (publish (tasks demo_system)) h init_state"
proof -
  obtain d l where "db_step\<^sup>*\<^sup>* demo_system d" "tasks d 0 = Block_Committed l" using demo_system_run by blast
  moreover have "fresh_system demo_system" by (simp add: fresh_system_def demo_system_def)
  moreover from calculation obtain h where "committed d = fold (publish (tasks demo_system)) h (committed demo_system)"
      "set (blocks h) = {i. \<exists>l. tasks d i = Block_Committed l}"
    using transactions_serialise [of demo_system d] by blast
  ultimately show ?thesis by (intro exI [of _ d] exI [of _ h]) (simp add: demo_system_def)
qed

section \<open>The shared connection\<close>

text \<open>A method outside a block, statement by statement; alone it does what its definition says.\<close>

fun run_stmts :: "'s stmt list \<Rightarrow> 's \<Rightarrow> 's" where
  "run_stmts [] s = s"
| "run_stmts (Commit_Stmt # ss) s = run_stmts ss s"
| "run_stmts (Execute f # ss) s = (case f s of (go_on, s') \<Rightarrow> if go_on then run_stmts ss s' else s')"

definition insert_stmt :: "('s \<Rightarrow> 's) \<Rightarrow> 's stmt" where
  "insert_stmt f = Execute (\<lambda>s. (True, f s))"

text \<open>\<open>commit_node\<close> returns after the first statement, without a commit, if the row was there.\<close>

definition commit_node_stmts :: "payload \<Rightarrow> sqlite_state stmt list" where
  "commit_node_stmts p =
     Execute (\<lambda>t. (payload_id p \<notin> set (keys (dag (tables t))), t\<lparr>tables := snd (commit_node p (tables t))\<rparr>)) #
     map (\<lambda>e. insert_stmt (\<lambda>t. t\<lparr>edges := insert_edge e (edges t)\<rparr>)) (payload_edges p) @ [Commit_Stmt]"

definition apply_quarantine_stmts :: "nat \<Rightarrow> quarantine_event \<Rightarrow> node_id list \<Rightarrow> sqlite_state stmt list" where
  "apply_quarantine_stmts depth ev c_p =
     insert_stmt (\<lambda>t. t\<lparr>tables := (tables t)\<lparr>quarantine_events := replace_row quarantine_event_id ev (quarantine_events (tables t))\<rparr>,
       event_depths := AList.update (quarantine_event_id ev) depth (event_depths t)\<rparr>) #
     map (\<lambda>n. insert_stmt (\<lambda>t. t\<lparr>tables := sq_add_to_quarantine_ledger n (tables t)\<rparr>)) c_p @ [Commit_Stmt]"

definition record_signal_stmts :: "utc \<Rightarrow> string \<Rightarrow> node_id \<Rightarrow> string \<Rightarrow> string \<Rightarrow> sqlite_state stmt list" where
  "record_signal_stmts now src n kind out = [insert_stmt (\<lambda>t. t\<lparr>tables := sq_record_signal_attempt now src n kind out (tables t)\<rparr>), Commit_Stmt]"

lemma run_insert_stmt [simp]: "run_stmts (insert_stmt f # ss) s = run_stmts ss (f s)"
  by (simp add: insert_stmt_def)

lemma run_inserts: "run_stmts (map (\<lambda>x. insert_stmt (f x)) xs @ [Commit_Stmt]) s = fold f xs s"
  by (induction xs arbitrary: s) simp_all

lemma run_commit_node: "run_stmts (commit_node_stmts p) t = snd (sq_commit_node p t)"
proof -
  have "fold (\<lambda>e t. t\<lparr>edges := insert_edge e (edges t)\<rparr>) es t = t\<lparr>edges := fold insert_edge es (edges t)\<rparr>" for es and t :: sqlite_state
    by (induction es arbitrary: t) simp_all
  then show ?thesis by (simp add: commit_node_stmts_def run_inserts sq_commit_node_def commit_node_def)
qed

lemma run_apply_quarantine: "run_stmts (apply_quarantine_stmts depth ev c_p) t = sq_apply_quarantine depth ev c_p t"
proof -
  have "fold (\<lambda>n t. t\<lparr>tables := sq_add_to_quarantine_ledger n (tables t)\<rparr>) ns t =
      t\<lparr>tables := (tables t)\<lparr>quarantine_ledger := foldl add_new (quarantine_ledger (tables t)) ns\<rparr>\<rparr>" for ns and t :: sqlite_state
    by (induction ns arbitrary: t) (simp_all add: sq_add_to_quarantine_ledger_def ignore_row_def add_new_def list_ex_iff)
  then show ?thesis by (simp add: apply_quarantine_stmts_def run_inserts sq_apply_quarantine_def)
qed

text \<open>A method outside a block is not atomic, whatever its documentation says. While a quarantine is being applied on the shared connection, as
  \<open>/detector\<close> does, another request that records a signal commits what is there: the event, without the nodes that it says are quarantined.
  If the first request then fails, this is the state that stays.\<close>

theorem shared_commit_publishes_half:
  fixes d :: "(sqlite_state, 'l) dbsys"
  assumes "tasks d i = Plain (apply_quarantine_stmts depth ev c_p)" and "tasks d j = Plain (record_signal_stmts now src m kind out)" and "i \<noteq> j"
    and "shared_tx d = None" and "own_tx d = None"
  shows "\<exists>d'. db_step\<^sup>*\<^sup>* d d' \<and> shared_tx d' = None \<and> tasks d' i = Plain [] \<and> tasks d' j = Plain [] \<and>
    ev \<in> set (quarantine_events (tables (committed d'))) \<and> quarantine_ledger (tables (committed d')) = quarantine_ledger (tables (committed d))"
proof -
  let ?e = "\<lambda>t. t\<lparr>tables := (tables t)\<lparr>quarantine_events := replace_row quarantine_event_id ev (quarantine_events (tables t))\<rparr>,
       event_depths := AList.update (quarantine_event_id ev) depth (event_depths t)\<rparr>"
  let ?r = "\<lambda>t. t\<lparr>tables := sq_record_signal_attempt now src m kind out (tables t)\<rparr>"
  define d1 where "d1 = set_task i (Plain (tl (apply_quarantine_stmts depth ev c_p))) (d\<lparr>shared_tx := Some (?e (committed d))\<rparr>)"
  define d2 where "d2 = set_task j (Plain [Commit_Stmt]) (d1\<lparr>shared_tx := Some (?r (?e (committed d)))\<rparr>)"
  define d3 where "d3 = set_task j (Plain []) (d2\<lparr>committed := ?r (?e (committed d)), shared_tx := None\<rparr>)"
  have "db_step d d1"
    unfolding d1_def using execute [of d i "\<lambda>s. (True, ?e s)"] assms(1,4,5) by (simp add: apply_quarantine_stmts_def insert_stmt_def shared_view_def)
  moreover have "db_step d1 d2"
    unfolding d2_def using execute [of d1 j "\<lambda>s. (True, ?r s)"] assms(2,3,5) by (simp add: d1_def record_signal_stmts_def insert_stmt_def shared_view_def)
  moreover have "db_step d2 d3" unfolding d3_def using commit_shared [of d2 j "[]"] by (simp add: d2_def shared_view_def)
  moreover have "db_step d3 (set_task i (Plain []) d3)" using assms(3) by (intro abandon) (auto simp: d3_def d2_def d1_def)
  ultimately have "db_step\<^sup>*\<^sup>* d (set_task i (Plain []) d3)" by (meson converse_rtranclp_into_rtranclp rtranclp.rtrancl_refl)
  then show ?thesis using assms(3)
    by (intro exI [of _ "set_task i (Plain []) d3"]) (auto simp: d3_def d2_def d1_def sq_record_signal_attempt_def replace_row_def)
qed

text \<open>A system that no block can enter: the shared connection has the write lock and no method that is running will commit.\<close>

definition stalled :: "('s, 'l) dbsys \<Rightarrow> bool" where
  "stalled d \<longleftrightarrow> shared_tx d \<noteq> None \<and> own_tx d = None \<and> (\<forall>i ss. tasks d i = Plain ss \<longrightarrow> Commit_Stmt \<notin> set ss)"

lemma step_stalled:
  assumes "db_step d d'" and "stalled d"
  shows "stalled d' \<and> committed d' = committed d \<and> (tasks d i = Waiting bs l \<longrightarrow> tasks d' i \<in> {Waiting bs l, Locked_Out})
    \<and> (tasks d i = Locked_Out \<longrightarrow> tasks d' i = Locked_Out)"
  using assms(1)
proof cases
  case (execute k f ss go_on s')
  then have "Commit_Stmt \<notin> set ss" using assms(2) by (fastforce simp: stalled_def)
  then show ?thesis using execute assms(2) by (auto simp: stalled_def)
next
  case (commit_shared k ss)
  then show ?thesis using assms(2) by (fastforce simp: stalled_def)
qed (use assms(2) in \<open>auto simp: stalled_def\<close>)

lemma run_stalled:
  assumes "db_step\<^sup>*\<^sup>* d d'" and "stalled d"
  shows "stalled d' \<and> committed d' = committed d \<and> (tasks d i = Waiting bs l \<longrightarrow> tasks d' i \<in> {Waiting bs l, Locked_Out})"
  using assms
proof (induction rule: rtranclp_induct)
  case (step d1 d2)
  then show ?case using step_stalled [OF step(2), of i bs l] by auto
qed simp

text \<open>A duplicate outside a block locks the gateway. \<open>/context-compacted\<close> commits its node on the shared connection. If the identifier is already stored, the insertion
  has opened a transaction and \<open>commit_node\<close> returns without ending it: from then on, until some other request commits on that connection,
  nothing changes the stored data and every submission and designation waits for the write lock or fails.\<close>

theorem duplicate_commit_locks:
  assumes "tasks d i = Plain (commit_node_stmts p)" and "payload_id p \<in> set (keys (dag (tables (shared_view d))))" and "own_tx d = None"
    and "\<And>k ss. k \<noteq> i \<Longrightarrow> tasks d k = Plain ss \<Longrightarrow> Commit_Stmt \<notin> set ss"
  shows "\<exists>d1. db_step d d1 \<and> tasks d1 i = Plain [] \<and>
    (\<forall>d2 j bs l. db_step\<^sup>*\<^sup>* d1 d2 \<and> tasks d j = Waiting bs l \<longrightarrow> committed d2 = committed d \<and> tasks d2 j \<in> {Waiting bs l, Locked_Out})"
proof -
  define d1 where "d1 = set_task i (Plain []) (d\<lparr>shared_tx := Some (shared_view d)\<rparr>)"
  let ?f = "\<lambda>t. (payload_id p \<notin> set (keys (dag (tables t))), t\<lparr>tables := snd (commit_node p (tables t))\<rparr>)"
  have "?f (shared_view d) = (False, shared_view d)" using assms(2) by (simp add: commit_node_def)
  then have "db_step d d1"
    using execute [of d i ?f "tl (commit_node_stmts p)" False "shared_view d"] assms(1,3) by (simp add: commit_node_stmts_def d1_def)
  moreover have st: "stalled d1" using assms(3,4) by (auto simp: stalled_def d1_def)
  moreover have "committed d1 = committed d" "tasks d1 i = Plain []" "tasks d j = Waiting bs l \<Longrightarrow> tasks d1 j = Waiting bs l" for j bs l
    using assms(1) by (auto simp: d1_def)
  ultimately show ?thesis using run_stalled [OF _ st] by (intro exI [of _ d1]) metis
qed

definition demo_compaction :: payload where
  "demo_compaction = bare_payload ''c'' []"

definition demo_locked :: "(sqlite_state, unit) dbsys" where
  "demo_locked = \<lparr>committed = snd (sq_commit_node demo_compaction \<lparr>tables = init_state, edges = [], event_depths = []\<rparr>), shared_tx = None, own_tx = None,
     tasks = (\<lambda>i. if i = 0 then Plain (commit_node_stmts demo_compaction) else Waiting [] ())\<rparr>"

theorem duplicate_commit_locks_witness:
  "\<exists>d1. db_step demo_locked d1 \<and> {tasks d2 1 | d2. db_step\<^sup>*\<^sup>* d1 d2} \<subseteq> {Waiting [] (), Locked_Out}"
proof -
  have "payload_id demo_compaction \<in> set (keys (dag (tables (shared_view demo_locked))))"
    by (simp add: shared_view_def demo_locked_def demo_compaction_def sq_commit_node_def commit_node_def Let_def)
  moreover have "tasks demo_locked 0 = Plain (commit_node_stmts demo_compaction)" "tasks demo_locked 1 = Waiting [] ()" "own_tx demo_locked = None"
    by (simp_all add: demo_locked_def)
  moreover have "Commit_Stmt \<notin> set ss" if "k \<noteq> 0" "tasks demo_locked k = Plain ss" for k ss using that by (simp add: demo_locked_def)
  ultimately show ?thesis using duplicate_commit_locks [of demo_locked 0 demo_compaction] by blast
qed

end
