(* ===== verification/Client.thy ===== *)
theory Client
  imports Designate Timestamps
begin

text \<open>
  The reference client of the repository: token, signature and candidate construction of \<open>blackbox_test/signing.py\<close> and the hash
  bookkeeping of \<open>submit\<close> in \<open>blackbox_test/harness.py\<close>. Composed with \<open>submit_candidate\<close>, a candidate built by it on stored, clean parents is admitted.
\<close>

section \<open>Construction\<close>

text \<open>\<open>claims.update(extra)\<close>; the clock is in seconds.\<close>

definition session_claims :: "int \<Rightarrow> string \<Rightarrow> string \<Rightarrow> json_object \<Rightarrow> json_object" where
  "session_claims clock ident role extra = foldl (\<lambda>d (k, v). AList.update k v d)
     [(''sub'', JStr ident), (''role'', JStr role), (''scope'', JStr ''agent:state:reconstruct''), (''is_nhi'', JBool True),
      (''expires_at_epoch'', JNum (of_int (clock + 3600))), (''verifier_execution_status'', JStr ''PASSED'')] extra"

definition make_session_token :: "(json_object \<Rightarrow> string) \<Rightarrow> int \<Rightarrow> string \<Rightarrow> string \<Rightarrow> json_object \<Rightarrow> string" where
  "make_session_token jwt_encode clock ident role extra = jwt_encode (session_claims clock ident role extra)"

definition raw_signature_hex :: "env \<Rightarrow> nat \<Rightarrow> string \<Rightarrow> string" where
  "raw_signature_hex e k msg = (let (r, s) = key_sign e k msg in bytes_hex (to_bytes_big 32 r @ to_bytes_big 32 s))"

definition sign_candidate :: "env \<Rightarrow> nat \<Rightarrow> payload \<Rightarrow> payload" where
  "sign_candidate e k p =
     (let digest = content_hash e (case state_content p of None \<Rightarrow> [] | Some c \<Rightarrow> c)
      in p\<lparr>content_digest_sha256 := Some digest, agent_signature := Some (raw_signature_hex e k digest),
           signature_algorithm := Some ''ECDSA-P256-SHA256''\<rparr>)"

definition reset_seed_hash :: string where
  "reset_seed_hash = replicate 64 CHR ''e''"

definition client_utc :: "datetime \<Rightarrow> utc" where
  "client_utc t = replace_all ''+00:00'' ''Z'' (isoformat t)"

definition build_valid_candidate ::
    "env \<Rightarrow> (json_object \<Rightarrow> string) \<Rightarrow> int \<Rightarrow> datetime \<Rightarrow> datetime \<Rightarrow> nat \<Rightarrow> node_id \<Rightarrow> string \<Rightarrow> node_id list \<Rightarrow> json_object \<Rightarrow> string \<Rightarrow> payload" where
  "build_valid_candidate e jwt_encode clock now expires k pid bid parents content role =
     (let ident = encode_raw (keygen e k)
      in sign_candidate e k ((bare_payload pid (map (\<lambda>i. \<lparr>parent_node_id = i, parent_content_hash = Some reset_seed_hash, edge_class = None\<rparr>) parents))\<lparr>
        timestamp_utc := Some (client_utc now),
        ephemeral_nhi := Some \<lparr>identity_id = Some ident, session_token = Some (make_session_token jwt_encode clock ident role []),
          nhi_expires_at_utc = Some (client_utc expires)\<rparr>,
        declared_evidence_boundary := Some \<lparr>boundary_id = bid, fixed_at_utc = client_utc now, boundary_digest = replicate 64 CHR ''f''\<rparr>,
        state_content := Some content\<rparr>))"

text \<open>The harness replaces the parent hash by the digest it remembers of a write it submitted, if that is not empty.\<close>

definition fix_parent_hash :: "(node_id, string) dict \<Rightarrow> payload \<Rightarrow> payload" where
  "fix_parent_hash digests p = p\<lparr>parent_dependency_commitments := map (\<lambda>c.
     if truthy (map_of digests (parent_node_id c)) then c\<lparr>parent_content_hash := map_of digests (parent_node_id c)\<rparr> else c)
     (parent_dependency_commitments p)\<rparr>"

section \<open>What the gateway sees\<close>

lemma replace_all_not_Nil: "new \<noteq> [] \<Longrightarrow> s \<noteq> [] \<Longrightarrow> replace_all old new s \<noteq> []"
  by (cases s) auto

lemma client_utc_not_Nil: "client_utc t \<noteq> []"
  unfolding client_utc_def by (rule replace_all_not_Nil) (simp_all add: isoformat_def)

lemma candidate_sel:
  assumes "p = fix_parent_hash digests (build_valid_candidate e jwt_encode clock now expires k pid bid parents content role)"
  shows "payload_id p = pid" "parent_ids p = parents" "covers p = []" "node_type p = None" "state_content p = Some content"
    "content_digest_sha256 p = Some (content_hash e content)" "agent_signature p = Some (sign_content e k content)"
    "signature_algorithm p = Some ''ECDSA-P256-SHA256''" "nhi_identity p = Some (encode_raw (keygen e k))"
    "nhi_token p = Some (jwt_encode (session_claims clock (encode_raw (keygen e k)) role []))" "boundary_fixed p" "with_gap s p = p"
    "c \<in> set (parent_dependency_commitments p) \<Longrightarrow> truthy (map_of digests (parent_node_id c)) \<Longrightarrow> parent_content_hash c = map_of digests (parent_node_id c)"
  unfolding assms
  by (auto simp: fix_parent_hash_def build_valid_candidate_def sign_candidate_def Let_def bare_payload_def parent_ids_def comp_def sign_content_def raw_signature_hex_def
      encode_raw_def nhi_identity_def nhi_token_def make_session_token_def boundary_fixed_def client_utc_not_Nil with_gap_def split_beta intro!: map_idI)

lemma session_claims_sel:
  "map_of (session_claims clock ident role []) ''sub'' = Some (JStr ident)" "map_of (session_claims clock ident role []) ''is_nhi'' = Some (JBool True)"
  "map_of (session_claims clock ident role []) ''scope'' = Some (JStr ''agent:state:reconstruct'')"
  "map_of (session_claims clock ident role []) ''expires_at_epoch'' = Some (JNum (of_int (clock + 3600)))"
  "map_of (session_claims clock ident role []) ''verifier_execution_status'' = Some (JStr ''PASSED'')"
  by (simp_all add: session_claims_def)

lemma candidate_plain:
  assumes "p = fix_parent_hash digests (build_valid_candidate e jwt_encode clock now expires k pid bid parents content role)"
  shows "criticality_weight p = None" "c \<in> set (parent_dependency_commitments p) \<Longrightarrow> edge_class c = None"
  unfolding assms by (auto simp: fix_parent_hash_def build_valid_candidate_def sign_candidate_def Let_def bare_payload_def)

text \<open>The gate before the lock, the admission rules and the comparison of parent hashes, for a candidate of the client.\<close>

lemma signed_gate:
  assumes "gateway_crypto e" and "jwt_decode e tok = Some (session_claims clock (encode_raw (keygen e k)) role [])"
    and "state_content p = Some c" and "content_digest_sha256 p = Some (content_hash e c)" and "agent_signature p = Some (sign_content e k c)"
    and "nhi_identity p = Some (encode_raw (keygen e k))" and "nhi_token p = Some tok" and "signature_algorithm p = Some ''ECDSA-P256-SHA256''"
    and "validate p = None" and "len \<le> MAX_PAYLOAD_BYTES cfg" and "length (parent_ids p) \<le> 256"
  shows "submit_gate cfg e validate \<lparr>body_length = len, body_json = Some p\<rparr> = Inr (p, session_claims clock (encode_raw (keygen e k)) role [])"
proof -
  have "verify_cryptographic_signature e p" using assms(1,3,4,5,6) by (rule gateway_signature)
  then show ?thesis using assms(2,6-11) by (simp add: submit_gate_def verify_nhi_jwt_def session_claims_sel)
qed

lemma client_gate:
  assumes "gateway_crypto e" and "jwt_decode e (jwt_encode (session_claims clock (encode_raw (keygen e k)) role [])) = Some (session_claims clock (encode_raw (keygen e k)) role [])"
    and "p = fix_parent_hash digests (build_valid_candidate e jwt_encode clock now expires k pid bid parents content role)"
    and "validate p = None" and "len \<le> MAX_PAYLOAD_BYTES cfg" and "length parents \<le> 256"
  shows "submit_gate cfg e validate \<lparr>body_length = len, body_json = Some p\<rparr> = Inr (p, session_claims clock (encode_raw (keygen e k)) role [])"
  using assms candidate_sel [OF assms(3)] by (intro signed_gate) simp_all

lemma client_admission:
  assumes "p = fix_parent_hash digests (build_valid_candidate e jwt_encode clock now expires k pid bid parents content role)"
    and "set parents \<subseteq> set (keys (dag s))" and "set parents \<inter> set (quarantine_ledger s) = {}"
    and "pid \<noteq> ''none''" and "map_of content ''justification'' = None" and "epoch < clock + 3600"
  shows "evaluate_admission rego_engine epoch p parents (nodes_exist parents s) (are_quarantined parents s)
    (session_claims clock (encode_raw (keygen e k)) role []) = Inr Admit"
  unfolding admission_iff using assms(2-6) by (simp add: candidate_sel [OF assms(1)] session_claims_sel content_entry_def)

lemma client_hashes_match:
  assumes "p = fix_parent_hash digests (build_valid_candidate e jwt_encode clock now expires k pid bid parents content role)"
    and "\<And>i nd h. i \<in> set parents \<Longrightarrow> map_of (dag s) i = Some nd \<Longrightarrow> content_digest_sha256 nd = Some h \<Longrightarrow> h \<noteq> [] \<Longrightarrow> map_of digests i = Some h"
  shows "\<not> hash_mismatch (get_node_content_hashes parents s) p"
proof
  note sel = candidate_sel [OF assms(1)]
  assume "hash_mismatch (get_node_content_hashes parents s) p"
  then obtain c nd h where c: "c \<in> set (parent_dependency_commitments p)" "map_of (dag s) (parent_node_id c) = Some nd"
      "content_digest_sha256 nd = Some h" "h \<noteq> []" "hash_or_empty (parent_content_hash c) \<noteq> h"
    using hash_mismatch_iff [of p s] by (auto simp: sel(2))
  have "parent_node_id c \<in> set parents" using c(1) sel(2) by (auto simp: parent_ids_def)
  then have "map_of digests (parent_node_id c) = Some h" using c(2,3,4) by (rule assms(2))
  then show False using sel(13) [OF c(1)] c(4,5) by simp
qed


definition client_env :: env where
  "client_env = demo_env\<lparr>keygen := \<lambda>k. (7, 9), key_sign := \<lambda>k m. (7, 9),
     jwt_decode := \<lambda>_. Some (session_claims 0 (encode_raw (7, 9)) ''agent'' [])\<rparr>"


end
