(* ===== verification/Oracle.thy ===== *)
theory Oracle
  imports Containment
begin

text \<open>
  The oracle of the black-box tests (\<open>blackbox_test/property_runner.py\<close>, class \<open>Oracle\<close>): an independent breadth-first search over the graph that
  \<open>/db-state\<close> reports, and the three assertions built on it. The search is shown equal to the gateway's own blast radius, each
  assertion is characterised, and the assertions hold after the operations of the gateway.
\<close>

section \<open>The independent search\<close>

text \<open>\<open>children_map[p]\<close> and \<open>covers_map[c]\<close>: entries only for stored nodes, one per declaration.\<close>

definition children_map :: "(node_id, payload) dict \<Rightarrow> node_id \<Rightarrow> node_id list" where
  "children_map d n = (if n \<in> set (keys d) then [nid. (nid, nd) \<leftarrow> d, p \<leftarrow> parent_ids nd, p = n] else [])"

definition covers_map :: "(node_id, payload) dict \<Rightarrow> node_id \<Rightarrow> node_id list" where
  "covers_map d n = (if n \<in> set (keys d) then [nid. (nid, nd) \<leftarrow> d, c \<leftarrow> covers nd, c = n] else [])"

definition next_nodes :: "(node_id, payload) dict \<Rightarrow> node_id \<Rightarrow> node_id list" where
  "next_nodes d n = children_map d n @ covers_map d n"

definition stored_derives :: "(node_id, payload) dict \<Rightarrow> node_id \<Rightarrow> node_id \<Rightarrow> bool" where
  "stored_derives d x y \<longleftrightarrow> x \<in> set (keys d) \<and> derives d x y"

lemma set_next_nodes: "set (next_nodes d n) = {y. stored_derives d n y}"
  by (auto simp: next_nodes_def children_map_def covers_map_def stored_derives_def derives_def touches_def)

lemma next_nodes_keys: "set (next_nodes d n) \<subseteq> set (keys d)"
  by (auto simp: set_next_nodes stored_derives_def dest: derives_key)

function bfs_loop :: "(node_id, payload) dict \<Rightarrow> node_id list \<Rightarrow> node_id list \<Rightarrow> node_id list" where
  "bfs_loop d visited [] = visited"
| "bfs_loop d visited (cur # queue) =
     (if cur \<in> set visited then bfs_loop d visited queue else bfs_loop d (visited @ [cur]) (queue @ next_nodes d cur))"
  by pat_completeness auto
termination
proof (relation "measures [\<lambda>(d, V, Q). card (set (keys d) \<union> set Q - set V), \<lambda>(d, V, Q). length Q]", goal_cases)
  case (2 d visited cur queue)
  then have "set (keys d) \<union> set queue - set visited = set (keys d) \<union> set (cur # queue) - set visited" by auto
  then show ?case by simp
next
  case (3 d visited cur queue)
  then have "set (keys d) \<union> set (queue @ next_nodes d cur) - set (visited @ [cur]) \<subset> set (keys d) \<union> set (cur # queue) - set visited"
    using next_nodes_keys [of d cur] by auto
  then show ?case by (simp add: psubset_card_mono)
qed simp

definition independent_bfs :: "(node_id, payload) dict \<Rightarrow> node_id list \<Rightarrow> node_id list" where
  "independent_bfs d start = bfs_loop d [] start"

definition bfs_inv :: "(node_id, payload) dict \<Rightarrow> node_id set \<Rightarrow> node_id list \<Rightarrow> node_id list \<Rightarrow> bool" where
  "bfs_inv d R V Q \<longleftrightarrow> R \<subseteq> set V \<union> set Q \<and> set V \<union> set Q \<subseteq> reach_from (stored_derives d) R \<and>
     (\<forall>x\<in>set V. \<forall>y. stored_derives d x y \<longrightarrow> y \<in> set V \<union> set Q)"

lemma bfs_loop_result: "bfs_inv d R V Q \<Longrightarrow> set (bfs_loop d V Q) = reach_from (stored_derives d) R"
proof (induction d V Q rule: bfs_loop.induct)
  case (1 d V)
  then have "reach_from (stored_derives d) R \<subseteq> set V" by (intro reach_from_least) (auto simp: bfs_inv_def)
  then show ?case using 1 by (auto simp: bfs_inv_def)
next
  case (2 d V c Q)
  show ?case
  proof (cases "c \<in> set V")
    case True
    then have "bfs_inv d R V Q" using 2(3) by (auto simp: bfs_inv_def)
    then show ?thesis using 2(1) True by simp
  next
    case False
    have "c \<in> reach_from (stored_derives d) R" using 2(3) by (simp add: bfs_inv_def)
    then have "set (next_nodes d c) \<subseteq> reach_from (stored_derives d) R" by (auto simp: set_next_nodes intro: reach_from_step)
    then have "bfs_inv d R (V @ [c]) (Q @ next_nodes d c)" using 2(3) by (auto simp: bfs_inv_def set_next_nodes)
    then show ?thesis using 2(2) False by simp
  qed
qed

lemma set_independent_bfs: "set (independent_bfs d start) = reach_from (stored_derives d) (set start)"
  unfolding independent_bfs_def by (rule bfs_loop_result) (auto simp: bfs_inv_def intro: reach_from_start)

lemma reach_stored:
  assumes "R \<subseteq> set (keys d)"
  shows "reach_from (stored_derives d) R = reach_from (derives d) R"
proof
  show "reach_from (stored_derives d) R \<subseteq> reach_from (derives d) R" by (rule reach_from_mono) (auto simp: stored_derives_def)
  have "reach_from (derives d) R \<subseteq> reach_from (stored_derives d) R \<inter> set (keys d)"
    by (rule reach_from_least) (use assms in \<open>auto intro: reach_from_start reach_from_step simp: stored_derives_def dest: derives_key\<close>)
  then show "reach_from (derives d) R \<subseteq> reach_from (stored_derives d) R" by blast
qed

section \<open>The assertions\<close>

text \<open>\<open>q_roots\<close>: the non-empty roots of the quarantine events.\<close>

definition event_roots :: "quarantine_event list \<Rightarrow> node_id list" where
  "event_roots evs = filter (\<lambda>r. r \<noteq> []) (map poisoned_root_id evs)"

definition check_containment :: "gstate \<Rightarrow> bool" where
  "check_containment s \<longleftrightarrow>
     list_all (\<lambda>n. n \<in> set (quarantine_ledger s)) (independent_bfs (dag s) (event_roots (quarantine_events s)))"

text \<open>\<open>root_to_cp\<close>: per root the union of the recorded blast radii.\<close>

definition recorded_cp :: "quarantine_event list \<Rightarrow> node_id \<Rightarrow> node_id list" where
  "recorded_cp evs r = concat (map computed_blast_radius_C_p (filter (\<lambda>ev. poisoned_root_id ev = r) evs))"

definition check_closure_correctness :: "gstate \<Rightarrow> bool" where
  "check_closure_correctness s \<longleftrightarrow>
     list_all (\<lambda>r. set (recorded_cp (quarantine_events s) r) = set (independent_bfs (dag s) [r])) (event_roots (quarantine_events s))"

text \<open>The exposures and the escalations are what the report and the events say of continuity.\<close>

definition check_continuity :: "node_id list \<Rightarrow> node_id list \<Rightarrow> gstate \<Rightarrow> bool" where
  "check_continuity exposed escalated s \<longleftrightarrow>
     list_all (\<lambda>n. case map_of (dag s) n of None \<Rightarrow> True | Some nd \<Rightarrow> criticality nd > 0 \<longrightarrow> n \<in> set exposed \<or> n \<in> set escalated) (quarantine_ledger s)"

definition run_all :: "node_id list \<Rightarrow> node_id list \<Rightarrow> gstate \<Rightarrow> bool" where
  "run_all exposed escalated s \<longleftrightarrow> check_containment s \<and> check_closure_correctness s \<and> check_continuity exposed escalated s"

section \<open>The oracle and the gateway\<close>

text \<open>The oracle and the gateway compute the same closure. For a stored root the independent search of the black-box tests visits exactly the
  blast radius of the gateway, although it is organised differently: adjacency maps built once, duplicates in the queue, no order.\<close>

theorem oracle_equals_blast_radius:
  assumes "r \<in> set (keys (dag s))"
  shows "set (independent_bfs (dag s) [r]) = set (fst (compute_blast_radius r s))"
  using reach_stored [of "{r}" "dag s"] assms by (simp add: set_independent_bfs set_blast_radius)

theorem oracle_equals_blast_radius_witness:
  "set (independent_bfs (dag init_state) [''clean-parent-1'']) = set (fst (compute_blast_radius ''clean-parent-1'' init_state))"
  using oracle_equals_blast_radius [of "''clean-parent-1''" init_state] by (simp add: init_state_def)

definition demo_root_event :: quarantine_event where
  "demo_root_event = \<lparr>quarantine_event_id = ''e'', detected_at_utc = ''t'', poisoned_root_id = ''clean-parent-1'',
     computed_blast_radius_C_p = [''clean-parent-1''], monotonic_ledger_digest = [], designator_identity = None, designation_reason = None, detector_source = None\<rparr>"

text \<open>The containment assertion follows from the invariant, and is exact. In every state that satisfies the containment invariant and has the roots
  of the quarantine events in the ledger the assertion passes; and when it passes, everything that derives from a root through stored nodes
  is quarantined, so one missing dependent makes it fail.\<close>

theorem oracle_containment_exact:
  assumes "contained s" and "set (event_roots (quarantine_events s)) \<subseteq> set (quarantine_ledger s)"
  shows "check_containment s \<and>
    (check_containment s' \<longleftrightarrow> {n. \<exists>r\<in>set (event_roots (quarantine_events s')). (stored_derives (dag s'))\<^sup>*\<^sup>* r n} \<subseteq> set (quarantine_ledger s'))"
proof -
  have iff: "check_containment s \<longleftrightarrow> reach_from (stored_derives (dag s)) (set (event_roots (quarantine_events s))) \<subseteq> set (quarantine_ledger s)" for s
    by (auto simp: check_containment_def list_all_iff set_independent_bfs)
  have "reach_from (stored_derives (dag s)) (set (event_roots (quarantine_events s))) \<subseteq> set (quarantine_ledger s)"
    by (rule reach_from_least) (use assms in \<open>auto simp: contained_def closed_under_def stored_derives_def\<close>)
  then show ?thesis unfolding iff by (auto simp: reach_from_def)
qed

theorem oracle_containment_exact_witness:
  "check_containment (apply_quarantine_transaction demo_root_event [''clean-parent-1''] init_state)"
proof -
  have "contained (apply_quarantine_transaction demo_root_event [''clean-parent-1''] init_state)"
    by (simp add: contained_def closed_under_def derives_def touches_def init_state_def parent_ids_def apply_quarantine_transaction_def add_new_def)
  then show ?thesis
    by (rule conjunct1 [OF oracle_containment_exact])
      (simp add: event_roots_def init_state_def apply_quarantine_transaction_def demo_root_event_def add_new_def)
qed

text \<open>The closure assertion accepts every designation. If it holds before, and an event is recorded for a stored root with the blast radius of that
  root on the same graph, then it holds after.\<close>

theorem oracle_accepts_designation:
  assumes "check_closure_correctness s" and "poisoned_root_id ev \<in> set (keys (dag s))"
    and "computed_blast_radius_C_p ev = fst (compute_blast_radius (poisoned_root_id ev) s)"
  shows "check_closure_correctness (apply_quarantine_transaction ev c_p (snd (compute_blast_radius (poisoned_root_id ev) s)))"
proof -
  let ?r = "poisoned_root_id ev" and ?evs = "quarantine_events s"
  have cp: "set (computed_blast_radius_C_p ev) = set (independent_bfs (dag s) [?r])"
    using reach_stored [of "{?r}" "dag s"] assms(2,3) by (simp add: set_independent_bfs set_blast_radius)
  have "set (recorded_cp (?evs @ [ev]) r) = set (independent_bfs (dag s) [r])" if "r \<in> set (event_roots (?evs @ [ev]))" for r
  proof -
    have old: "set (recorded_cp ?evs r) = set (independent_bfs (dag s) [r])" if "r \<in> set (event_roots ?evs)"
      using assms(1) that by (simp add: check_closure_correctness_def list_all_iff)
    have none: "recorded_cp ?evs r = []" if "r \<notin> set (event_roots ?evs)" "r \<noteq> []"
      using that by (auto simp: recorded_cp_def event_roots_def filter_empty_conv)
    have "set (recorded_cp (?evs @ [ev]) r) = set (recorded_cp ?evs r) \<union> (if ?r = r then set (computed_blast_radius_C_p ev) else {})"
      by (simp add: recorded_cp_def)
    moreover have "r \<in> set (event_roots ?evs) \<or> r = ?r \<and> r \<noteq> []" using that by (auto simp: event_roots_def split: if_splits)
    ultimately show ?thesis using old none cp by (cases "r \<in> set (event_roots ?evs)") auto
  qed
  then show ?thesis by (simp add: check_closure_correctness_def list_all_iff)
qed

theorem oracle_accepts_designation_witness:
  "check_closure_correctness (apply_quarantine_transaction demo_root_event [''clean-parent-1'']
     (snd (compute_blast_radius (poisoned_root_id demo_root_event) init_state)))"
proof (rule oracle_accepts_designation)
  show "check_closure_correctness init_state" by (simp add: check_closure_correctness_def event_roots_def init_state_def)
  show "poisoned_root_id demo_root_event \<in> set (keys (dag init_state))" by (simp add: demo_root_event_def init_state_def)
  show "computed_blast_radius_C_p demo_root_event = fst (compute_blast_radius (poisoned_root_id demo_root_event) init_state)"
    by (simp add: demo_root_event_def init_state_def fst_compute_blast_radius search_def parent_ids_def)
qed

end
