(* ===== verification/Payload_Schema.thy ===== *)
theory Payload_Schema
  imports Submit Timestamps
begin

text \<open>
  The JSON schema of a state write (\<open>schemas/state_write_payload.json\<close>) as a predicate on payloads, and what it is to be a validator for it. The
  handler only relies on the validator raising or not, so a validator is any function that accepts exactly the valid payloads.
  Formats (\<open>uuid\<close>, \<open>date-time\<close>) are annotations that \<open>Draft202012Validator\<close> does not check by default.

  The example client \<open>examples/langgraph_agent_integration.py\<close> is modelled and measured against it.
\<close>

section \<open>The schema\<close>

text \<open>\<open>^[a-fA-F0-9]{64}$\<close>; in Python \<open>$\<close> also matches before a final newline.\<close>

definition hex_digits :: string where
  "hex_digits = ''0123456789abcdefABCDEF''"

definition matches_hex64 :: "string \<Rightarrow> bool" where
  "matches_hex64 s \<longleftrightarrow>
     (let t = (if s \<noteq> [] \<and> last s = CHR 0x0A then butlast s else s) in length t = 64 \<and> list_all (\<lambda>c. c \<in> set hex_digits) t)"

definition valid_nhi :: "nhi option \<Rightarrow> bool" where
  "valid_nhi n \<longleftrightarrow> (case n of None \<Rightarrow> False | Some i \<Rightarrow> identity_id i \<noteq> None \<and> session_token i \<noteq> None \<and> nhi_expires_at_utc i \<noteq> None)"

definition valid_boundary :: "evidence_boundary option \<Rightarrow> bool" where
  "valid_boundary b \<longleftrightarrow> (case b of None \<Rightarrow> False | Some x \<Rightarrow> matches_hex64 (boundary_digest x))"

definition valid_commitment :: "commitment \<Rightarrow> bool" where
  "valid_commitment c \<longleftrightarrow> (case parent_content_hash c of None \<Rightarrow> False | Some h \<Rightarrow> matches_hex64 h) \<and>
     (case edge_class c of None \<Rightarrow> True | Some k \<Rightarrow> k \<in> {''MATERIAL'', ''INCIDENTAL'', ''CARRIED''})"

definition schema_valid :: "payload \<Rightarrow> bool" where
  "schema_valid p \<longleftrightarrow>
     (case node_type p of None \<Rightarrow> True | Some t \<Rightarrow> t \<in> {''STANDARD'', ''COMPACTION''}) \<and>
     timestamp_utc p \<noteq> None \<and> valid_nhi (ephemeral_nhi p) \<and> valid_boundary (declared_evidence_boundary p) \<and>
     parent_dependency_commitments p \<noteq> [] \<and> list_all valid_commitment (parent_dependency_commitments p) \<and>
     state_content p \<noteq> None \<and> (case content_digest_sha256 p of None \<Rightarrow> False | Some d \<Rightarrow> matches_hex64 d) \<and>
     agent_signature p \<noteq> None \<and> signature_algorithm p = Some ''ECDSA-P256-SHA256'' \<and>
     (case criticality_weight p of None \<Rightarrow> True | Some w \<Rightarrow> 0 \<le> w \<and> w \<le> 1)"

definition validates :: "(payload \<Rightarrow> schema_error option) \<Rightarrow> bool" where
  "validates validate \<longleftrightarrow> (\<forall>p. validate p = None \<longleftrightarrow> schema_valid p)"

text \<open>A validator whose message is that of the first kind of violation it finds.\<close>

definition schema_validator :: "payload \<Rightarrow> schema_error option" where
  "schema_validator p = (if schema_valid p then None
     else Some (SchemaError (signature_algorithm p \<noteq> Some ''ECDSA-P256-SHA256'') ''payload does not match the schema''))"

lemma schema_validator_validates: "validates schema_validator"
  by (simp add: validates_def schema_validator_def)

lemma replicate_hex64 [simp]: "c \<in> set hex_digits \<Longrightarrow> matches_hex64 (replicate 64 c)"
  by (auto simp: matches_hex64_def hex_digits_def list_all_iff Let_def)

section \<open>What passes\<close>

text \<open>Every write that the gateway acknowledges or refuses for its lineage is valid: it declares a parent, and its digest, its boundary and its parent hashes have the form of a SHA-256 value.
  Anything else is turned away with 400 (or 413 for its size) before a token or a signature is looked at.\<close>

theorem invalid_payload_refused:
  assumes "validates validate" and "body_json req = Some p" and "\<not> schema_valid p"
  shows "\<exists>why. submit_candidate cfg e opa validate req w = (Inl (HTTPException (if body_length req > MAX_PAYLOAD_BYTES cfg then 413 else 400) why), w)"
proof -
  obtain er where "validate p = Some er" using assms(1,3) by (cases "validate p") (auto simp: validates_def)
  then show ?thesis using assms(2) by (simp add: submit_candidate_def submit_gate_def)
qed

section \<open>The example client\<close>

text \<open>\<open>sign_payload\<close> and \<open>compute_digest\<close> are mocks.\<close>

definition example_sign_payload :: string where
  "example_sign_payload = ''mock_cryptographic_signature_from_agent''"

definition example_compute_digest :: string where
  "example_compute_digest = ''mock_sha256_hash_of_content''"

definition example_payload :: "datetime \<Rightarrow> node_id \<Rightarrow> string \<Rightarrow> string \<Rightarrow> json_object \<Rightarrow> node_id list \<Rightarrow> payload" where
  "example_payload now pid session agent action parents =
     (bare_payload pid (map (\<lambda>i. \<lparr>parent_node_id = i, parent_content_hash = Some ''mock_hash'', edge_class = None\<rparr>) parents))\<lparr>
       timestamp_utc := Some (isoformat now),
       ephemeral_nhi := Some \<lparr>identity_id = Some agent, session_token = Some (''session_'' @ take 8 session), nhi_expires_at_utc = Some ''2026-12-31T23:59:59Z''\<rparr>,
       declared_evidence_boundary := Some \<lparr>boundary_id = ''langgraph-agent-boundary'', fixed_at_utc = isoformat now, boundary_digest = ''mock_boundary_digest''\<rparr>,
       state_content := Some action, content_digest_sha256 := Some example_compute_digest,
       agent_signature := Some example_sign_payload, signature_algorithm := Some ''ECDSA-P256-SHA256''\<rparr>"

text \<open>The branches on the status code: success returns the response, everything else prints and returns nothing.\<close>

definition submit_agent_action ::
    "settings \<Rightarrow> env \<Rightarrow> engine \<Rightarrow> (payload \<Rightarrow> schema_error option) \<Rightarrow> nat \<Rightarrow> datetime \<Rightarrow> node_id \<Rightarrow> string \<Rightarrow> string \<Rightarrow> json_object \<Rightarrow> node_id list \<Rightarrow> world
      \<Rightarrow> submit_response option \<times> world" where
  "submit_agent_action cfg e opa validate len now pid session agent action parents w =
     (let (r, w') = submit_candidate cfg e opa validate \<lparr>body_length = len, body_json = Some (example_payload now pid session agent action parents)\<rparr> w
      in (case r of Inr (Committed b) \<Rightarrow> Some (Committed b) | Inr Null_Response \<Rightarrow> Some Null_Response | _ \<Rightarrow> None, w'))"

text \<open>The example never succeeds: its digests are placeholders that the schema refuses, whatever the store, the policy and the settings.\<close>

theorem example_always_refused:
  assumes "validates validate"
  shows "submit_agent_action cfg e opa validate len now pid session agent action parents w = (None, w)"
proof -
  have "\<not> schema_valid (example_payload now pid session agent action parents)"
    by (simp add: schema_valid_def example_payload_def example_compute_digest_def matches_hex64_def)
  from invalid_payload_refused [OF assms _ this, of "\<lparr>body_length = len, body_json = Some (example_payload now pid session agent action parents)\<rparr>" cfg e opa w]
  show ?thesis by (auto simp: submit_agent_action_def)
qed

theorem example_always_refused_witness:
  "submit_agent_action enforcing submit_env rego_engine schema_validator 900 (Datetime 2026 1 1 0 0 0 0) ''x'' ''12345678'' ''langgraph-order-agent-01''
     [(''action'', JStr ''create_order''), (''item'', JStr ''laptop''), (''qty'', JNum 1)] [''clean-parent-1''] init_world = (None, init_world)"
  by (rule example_always_refused [OF schema_validator_validates])

end
