(* ===== verification/Storm.thy ===== *)
theory Storm
  imports Gateway Client Oracle Payload_Schema
begin

text \<open>
  The concurrent black-box runs: the write storm and the sleeper race of \<open>blackbox_test/property_runner.py\<close> and the race of
  \<open>blackbox_test/live_run.py\<close>, with \<open>submit\<close> and \<open>designate\<close> of \<open>harness.py\<close> as the clients. Any number of workers build candidates, send them, wait for an answer and count it, while a
  designator strikes at random nodes. Building, handling and receiving are separate steps, so requests of different workers overlap in
  every order; requests and answers may be lost, the server may be full or draining, and the policy engine may fail.

  The client and the gateway are composed here: the statements are about what the test programs print.
\<close>

section \<open>Workers, requests and answers\<close>

text \<open>The status of a response, as \<open>req\<close> of \<open>gasc.py\<close> reports it.\<close>

fun status_of :: "submit_response result \<Rightarrow> nat" where
  "status_of (Inl ex) = status_code ex"
| "status_of (Inr (Refused_Tainted info)) = 403"
| "status_of (Inr (Refused_Policy st r)) = st"
| "status_of (Inr _) = 200"

record storm =
  st_world :: world
  DIGEST :: "(node_id, string) dict"
  active_nodes :: "node_id list"
  st_drawn :: "node_id list" \<comment> \<open>identifiers that are taken\<close>
  st_sent :: "(int \<times> payload) list" \<comment> \<open>candidates on their way, with the clock of the client\<close>
  st_answers :: "(payload \<times> nat option) list" \<comment> \<open>answers on their way back; \<open>None\<close> if \<open>req\<close> catches an exception\<close>
  count_200 :: nat
  count_403 :: nat
  count_429 :: nat
  count_5xx :: nat
  count_other :: nat
  failed_payload_ids :: "node_id list"

text \<open>What \<open>submit\<close> and the worker do with an answer.\<close>

definition worker_answer :: "payload \<Rightarrow> nat option \<Rightarrow> storm \<Rightarrow> storm" where
  "worker_answer p st s =
     (if st = Some 200
      then s\<lparr>DIGEST := AList.update (payload_id p) (hash_or_empty (content_digest_sha256 p)) (DIGEST s),
             active_nodes := active_nodes s @ [payload_id p], count_200 := Suc (count_200 s)\<rparr>
      else if st = Some 403 then s\<lparr>count_403 := Suc (count_403 s)\<rparr>
      else if st = Some 429 then s\<lparr>count_429 := Suc (count_429 s)\<rparr>
      else if st \<noteq> None \<and> the st \<ge> 500
      then s\<lparr>count_5xx := Suc (count_5xx s), failed_payload_ids := failed_payload_ids s @ [payload_id p]\<rparr>
      else s\<lparr>count_other := Suc (count_other s)\<rparr>)"

text \<open>A candidate of \<open>submit\<close>, and of the storm: one parent, a random value.\<close>

definition client_candidate ::
    "env \<Rightarrow> (json_object \<Rightarrow> string) \<Rightarrow> (node_id, string) dict \<Rightarrow> int \<Rightarrow> datetime \<Rightarrow> datetime \<Rightarrow> nat \<Rightarrow> node_id \<Rightarrow> string \<Rightarrow> node_id list \<Rightarrow> json_object \<Rightarrow> payload" where
  "client_candidate e enc digests clock now expires k pid bid parents content =
     fix_parent_hash digests (build_valid_candidate e enc clock now expires k pid bid parents content ''agent'')"

definition storm_candidate ::
    "env \<Rightarrow> (json_object \<Rightarrow> string) \<Rightarrow> (node_id, string) dict \<Rightarrow> int \<Rightarrow> datetime \<Rightarrow> datetime \<Rightarrow> nat \<Rightarrow> node_id \<Rightarrow> string \<Rightarrow> node_id \<Rightarrow> string \<Rightarrow> payload" where
  "storm_candidate e enc digests clock now expires k pid bid par v =
     client_candidate e enc digests clock now expires k pid bid [par] [(''v'', JStr v)]"

inductive storm_step ::
    "settings \<Rightarrow> env \<Rightarrow> (json_object \<Rightarrow> string) \<Rightarrow> (payload \<Rightarrow> schema_error option) \<Rightarrow> (reconstruct_request \<Rightarrow> adapter_reply) \<Rightarrow> storm \<Rightarrow> storm \<Rightarrow> bool"
  for cfg e enc validate adapter where
  build: "par \<in> set (active_nodes s) \<Longrightarrow> pid \<notin> set (st_drawn s) \<Longrightarrow>
    storm_step cfg e enc validate adapter s (s\<lparr>st_drawn := pid # st_drawn s,
      st_sent := st_sent s @ [(clock, storm_candidate e enc (DIGEST s) clock now expires k pid bid par v)]\<rparr>)"
| handle: "st_sent s = us @ (clock, p) # vs \<Longrightarrow> epoch_of (e\<lparr>now_us := t\<rparr>) < clock + 3600 \<Longrightarrow> len \<le> MAX_PAYLOAD_BYTES cfg \<Longrightarrow>
    opa = rego_engine \<or> (\<forall>q i. \<not> answers (opa q i)) \<Longrightarrow>
    submit_candidate cfg (e\<lparr>now_us := t\<rparr>) opa validate \<lparr>body_length = len, body_json = Some p\<rparr> (st_world s) = (res, w) \<Longrightarrow>
    storm_step cfg e enc validate adapter s (s\<lparr>st_world := w, st_sent := us @ vs, st_answers := st_answers s @ [(p, Some (status_of res))]\<rparr>)"
| shed: "st_sent s = us @ (clock, p) # vs \<Longrightarrow> acquire_in_flight cfg ''/submit-candidate'' srv = (Some (st, d), srv) \<Longrightarrow>
    storm_step cfg e enc validate adapter s (s\<lparr>st_sent := us @ vs, st_answers := st_answers s @ [(p, Some st)]\<rparr>)"
| lose_request: "st_sent s = us @ (clock, p) # vs \<Longrightarrow>
    storm_step cfg e enc validate adapter s (s\<lparr>st_sent := us @ vs, st_answers := st_answers s @ [(p, None)]\<rparr>)"
| lose_answer: "st_answers s = us @ (p, st) # vs \<Longrightarrow> storm_step cfg e enc validate adapter s (s\<lparr>st_answers := us @ (p, None) # vs\<rparr>)"
| receive: "st_answers s = us @ (p, st) # vs \<Longrightarrow> storm_step cfg e enc validate adapter s (worker_answer p st (s\<lparr>st_answers := us @ vs\<rparr>))"
| designate: "n \<in> set (active_nodes s) \<Longrightarrow>
    storm_step cfg e enc validate adapter s (s\<lparr>st_world :=
      snd (designate_poison cfg (e\<lparr>now_us := t\<rparr>) adapter hdr \<lparr>poisoned_node_id = n, de_reason = why\<rparr> (st_world s))\<rparr>)"

inductive_cases storm_stepE: "storm_step cfg e enc validate adapter s s'"

text \<open>After \<open>reset()\<close>: the seed node is active with an empty digest; the names that the gateway uses itself are taken.\<close>

definition storm_start :: "world \<Rightarrow> storm" where
  "storm_start w = \<lparr>st_world = w\<lparr>gs := reset_sync (gs w)\<rparr>, DIGEST = [(''clean-parent-1'', [])], active_nodes = [''clean-parent-1''],
     st_drawn = [''none'', ''quarantined-node-A'', ''clean-parent-1''], st_sent = [], st_answers = [],
     count_200 = 0, count_403 = 0, count_429 = 0, count_5xx = 0, count_other = 0, failed_payload_ids = []\<rparr>"

text \<open>What the client relies on: the gateway enforces, its cryptography verifies what was signed, a token decodes to what was encoded, the validator implements the
  schema, and a hash is written with 64 hexadecimal digits.\<close>

definition client_ready :: "settings \<Rightarrow> env \<Rightarrow> (json_object \<Rightarrow> string) \<Rightarrow> (payload \<Rightarrow> schema_error option) \<Rightarrow> bool" where
  "client_ready cfg e enc validate \<longleftrightarrow> ENFORCEMENT_MODE cfg \<noteq> ''shadow'' \<and> gateway_crypto e \<and>
     (\<forall>clock k. jwt_decode e (enc (session_claims clock (encode_raw (keygen e k)) ''agent'' [])) = Some (session_claims clock (encode_raw (keygen e k)) ''agent'' [])) \<and>
     validates validate \<and> (\<forall>c. matches_hex64 (content_hash e c))"

definition digests_ok :: "(node_id, string) dict \<Rightarrow> bool" where
  "digests_ok digests \<longleftrightarrow> (\<forall>n h. map_of digests n = Some h \<longrightarrow> h = [] \<or> matches_hex64 h)"

section \<open>Graphs of plain writes\<close>

text \<open>Stores in which a designation adds nothing but quarantine: no compactions, no critical functions, parents stored.\<close>

definition plain_node :: "payload \<Rightarrow> bool" where
  "plain_node nd \<longleftrightarrow> covers nd = [] \<and> criticality_weight nd = None \<and> list_all (\<lambda>c. edge_class c = None) (parent_dependency_commitments nd)"

text \<open>A weaker condition allows compactions: no critical functions and no carried edges.\<close>

definition light_node :: "payload \<Rightarrow> bool" where
  "light_node nd \<longleftrightarrow> criticality_weight nd = None \<and> list_all (\<lambda>c. edge_class c = None) (parent_dependency_commitments nd)"

definition calm :: "gstate \<Rightarrow> bool" where
  "calm s \<longleftrightarrow> repair_candidates s = [] \<and> list_all (\<lambda>(n, nd). light_node nd) (dag s)"

definition quiet :: "gstate \<Rightarrow> bool" where
  "quiet s \<longleftrightarrow> repair_candidates s = [] \<and> list_all (\<lambda>(n, nd). plain_node nd \<and> set (parent_ids nd) \<subseteq> set (keys (dag s))) (dag s)"

lemma quiet_calm: "quiet s \<Longrightarrow> calm s"
  by (auto simp: quiet_def calm_def list_all_iff plain_node_def light_node_def)

lemma calm_radius:
  assumes "calm s"
  shows "snd (compute_blast_radius r s) = s"
proof -
  obtain c_p aff where f: "search (dag s) r = (c_p, aff)" by fastforce
  have "aff = []"
  proof (rule ccontr)
    assume "aff \<noteq> []"
    then obtain n where "n \<in> set aff" by (cases aff) auto
    then obtain nd c where "(n, nd) \<in> set (dag s)" "is_carried c nd" using search_affected_carried [OF f] by blast
    then show False using assms by (fastforce simp: calm_def list_all_iff light_node_def is_carried_def list_ex_iff)
  qed
  then show ?thesis by (simp add: compute_blast_radius_def f)
qed

lemma calm_no_critical:
  assumes "calm s"
  shows "get_critical_dependents ids s = []"
proof -
  have "critical_dep_of ids x = None" if "x \<in> set (dag s)" for x
    using that assms by (auto simp: calm_def list_all_iff light_node_def critical_dep_of_def Let_def criticality_def)
  then show ?thesis by (simp add: get_critical_dependents_def List.map_filter_def filter_empty_conv)
qed

lemma calm_aftermath: "calm (gs w) \<Longrightarrow> aftermath cfg e adapter qe w = w"
  by (simp add: aftermath_def attempt_safe_continuity_def attempt_reconstruction_def calm_no_critical) (simp add: calm_def)

lemma quiet_derives: "quiet s \<Longrightarrow> derives (dag s) c n \<Longrightarrow> c \<in> set (keys (dag s))"
  by (fastforce simp: quiet_def list_all_iff derives_def touches_def plain_node_def)

lemma quiet_commit:
  assumes "quiet s" and "plain_node p" and "set (parent_ids p) \<subseteq> set (keys (dag s))"
  shows "quiet (snd (commit_node p s))"
  using assms by (auto simp: quiet_def list_all_iff commit_node_def)

lemma calm_cong: "dag s' = dag s \<Longrightarrow> repair_candidates s' = repair_candidates s \<Longrightarrow> calm s' = calm s"
  by (simp add: calm_def)

lemma calm_process: "calm (gs w) \<Longrightarrow> calm (gs (process_recurrence cfg e n cls src ev w))"
  by (subst calm_cong [of _ "gs w"]) (simp_all add: process_recurrence_gs Let_def calm_radius apply_withdrawal_transaction_def)

lemma calm_hooks: "calm (gs w) \<Longrightarrow> calm (gs (run_hooks cfg e cls ns w))"
proof -
  have "calm (gs w) \<Longrightarrow> calm (gs (recurrence_hooks cfg e cls active ns w))" for active
    by (induction ns arbitrary: w) (auto intro: calm_process)
  then show "calm (gs w) \<Longrightarrow> ?thesis" by (simp add: run_hooks_def)
qed

lemma calm_candidates: "calm s \<Longrightarrow> repair_candidates s = []"
  by (simp add: calm_def)

section \<open>What one request does\<close>

text \<open>The effect of a request that the gateway answers with 200 or 403 on a candidate with one parent.\<close>

definition recorded :: "nat \<Rightarrow> payload \<Rightarrow> node_id \<Rightarrow> gstate \<Rightarrow> gstate \<Rightarrow> bool" where
  "recorded st p par g g' \<longleftrightarrow> dag g' = dag g @ [(payload_id p, p)] \<and> repair_candidates g' = [] \<and>
     (if st = 200
      then par \<notin> set (quarantine_ledger g) \<and> quarantine_ledger g' = quarantine_ledger g \<and> quarantine_events g' = quarantine_events g \<and> signal_attempts g' = signal_attempts g
      else st = 403 \<and> par \<in> set (quarantine_ledger g) \<and> set (quarantine_ledger g') = insert (payload_id p) (set (quarantine_ledger g)) \<and>
        (\<exists>ev. quarantine_events g' = quarantine_events g @ [ev] \<and> poisoned_root_id ev = par \<and>
           computed_blast_radius_C_p ev = fst (compute_blast_radius par g')))"

lemma client_facts:
  assumes "p = client_candidate e enc digests clock now expires k pid bid parents content"
  shows "payload_id p = pid" "parent_ids p = parents" "covers p = []" "node_type p = None" "with_gap s p = p" "plain_node p"
  using candidate_sel [OF assms [unfolded client_candidate_def]] candidate_plain [OF assms [unfolded client_candidate_def]]
  by (auto simp: plain_node_def list_all_iff)

lemmas candidate_facts = client_facts [where parents = "[par]" and content = "[(''v'', JStr v)]" for par v, folded storm_candidate_def]

lemma client_valid:
  assumes "client_ready cfg e enc validate" and "digests_ok digests" and "p = client_candidate e enc digests clock now expires k pid bid parents content"
    and "parents \<noteq> []"
  shows "validate p = None" and "matches_hex64 (hash_or_empty (content_digest_sha256 p))"
proof -
  have "CHR ''e'' \<in> set hex_digits" "CHR ''f'' \<in> set hex_digits" by (simp_all add: hex_digits_def)
  moreover have "\<And>n h. map_of digests n = Some h \<Longrightarrow> h \<noteq> [] \<Longrightarrow> matches_hex64 h" using assms(2) by (auto simp: digests_ok_def)
  ultimately have "schema_valid p" using assms(1,4)
    by (auto simp: assms(3) client_candidate_def fix_parent_hash_def build_valid_candidate_def sign_candidate_def bare_payload_def schema_valid_def valid_nhi_def valid_boundary_def
        valid_commitment_def client_ready_def reset_seed_hash_def Let_def list_all_iff split: option.split)
  then show "validate p = None" using assms(1) by (simp add: client_ready_def validates_def)
  show "matches_hex64 (hash_or_empty (content_digest_sha256 p))"
    using assms(1) candidate_sel(6) [OF assms(3) [unfolded client_candidate_def]] by (simp add: client_ready_def)
qed

lemmas candidate_valid = client_valid [where parents = "[par]" and content = "[(''v'', JStr v)]" for par v, folded storm_candidate_def, OF _ _ _ list.distinct(2)]

lemma env_clock [simp]:
  "gateway_crypto (e\<lparr>now_us := t\<rparr>) = gateway_crypto e"
  "client_candidate (e\<lparr>now_us := t\<rparr>) = client_candidate e"
  "storm_candidate (e\<lparr>now_us := t\<rparr>) = storm_candidate e"
  by (simp_all add: gateway_crypto_def fun_eq_iff storm_candidate_def client_candidate_def build_valid_candidate_def sign_candidate_def raw_signature_hex_def Let_def)

lemma refuse_recorded:
  assumes "quiet (gs w)" and "plain_node p" and "parent_ids p = [par]" and "par \<in> set (keys (dag (gs w)))"
    and "payload_id p \<notin> set (keys (dag (gs w)))" and "par \<in> set (quarantine_ledger (gs w))"
  shows "recorded 403 p par (gs w) (gs (snd (refuse_tainted cfg e p par w)))"
proof -
  let ?w1 = "on_gs (snd \<circ> commit_node p) w"
  have "quiet (gs ?w1)" unfolding on_gs_simps comp_def using assms(1,2) by (rule quiet_commit) (simp add: assms(3,4))
  then have calm: "calm (gs ?w1)" by (rule quiet_calm)
  then have "repair_candidates (gs (snd (refuse_tainted cfg e p par w))) =
      repair_candidates (gs (run_hooks cfg e ''PROHIBITED_PATH'' (fst (compute_blast_radius par (gs ?w1))) (?w1\<lparr>gs := gs ?w1\<rparr>)))"
    by (simp add: refuse_tainted_def fresh_uuid_def Let_def split_beta calm_radius record_tainted_rejection_def offer_replacement_def
        record_tainted_offer_def apply_quarantine_transaction_def record_shadow_decision_def split: option.split)
  also have "\<dots> = []" using calm by (intro calm_candidates calm_hooks) simp
  finally have "repair_candidates (gs (snd (refuse_tainted cfg e p par w))) = []" .
  moreover have "\<exists>ev. quarantine_events (gs (snd (refuse_tainted cfg e p par w))) = quarantine_events (gs w) @ [ev] \<and> poisoned_root_id ev = par \<and>
      computed_blast_radius_C_p ev = fst (compute_blast_radius par (snd (commit_node p (gs w))))"
    by (simp add: refuse_tainted_def fresh_uuid_def make_quarantine_event_def Let_def split_beta)
  moreover have "fst (compute_blast_radius par (snd (commit_node p (gs w)))) = fst (compute_blast_radius par (gs (snd (refuse_tainted cfg e p par w))))"
    by (simp add: fst_compute_blast_radius refuse_tainted_effect)
  ultimately show ?thesis using assms(5,6) by (simp add: recorded_def refuse_tainted_effect) (simp add: commit_node_def)
qed

lemma client_handle:
  assumes "client_ready cfg e enc validate" and "p = client_candidate e enc digests clock now expires k pid bid [par] content" and "digests_ok digests"
    and "quiet (gs w)" and "par \<in> set (keys (dag (gs w)))" and "pid \<notin> set (keys (dag (gs w)))" and "pid \<notin> set (quarantine_ledger (gs w))" and "pid \<noteq> ''none''"
    and "\<And>nd h. par \<notin> set (quarantine_ledger (gs w)) \<Longrightarrow> map_of (dag (gs w)) par = Some nd \<Longrightarrow> content_digest_sha256 nd = Some h \<Longrightarrow> h \<noteq> [] \<Longrightarrow> map_of digests par = Some h"
    and "epoch_of (e\<lparr>now_us := t\<rparr>) < clock + 3600" and "len \<le> MAX_PAYLOAD_BYTES cfg"
    and "opa = rego_engine \<or> (\<forall>q i. \<not> answers (opa q i))"
    and "submit_candidate cfg (e\<lparr>now_us := t\<rparr>) opa validate \<lparr>body_length = len, body_json = Some p\<rparr> w = (res, w')"
    and "map_of content ''justification'' = None"
  shows "opa \<noteq> rego_engine \<and> status_of res \<ge> 500 \<and> gs w' = gs w \<or> recorded (status_of res) p par (gs w) (gs w')"
proof -
  let ?e = "e\<lparr>now_us := t\<rparr>" and ?auth = "session_claims clock (encode_raw (keygen e k)) ''agent'' []" and ?w = "snd (fresh_uuid (e\<lparr>now_us := t\<rparr>) w)"
  have p: "p = fix_parent_hash digests (build_valid_candidate ?e enc clock now expires k pid bid [par] content ''agent'')"
    using assms(2) by (simp add: client_candidate_def [symmetric])
  note facts = client_facts [OF assms(2)]
  have "submit_gate cfg ?e validate \<lparr>body_length = len, body_json = Some p\<rparr> = Inr (p, ?auth)"
    using client_gate [OF _ _ p, of validate len cfg] assms(1,11) client_valid(1) [OF assms(1,3,2)] by (simp add: client_ready_def)
  then have run: "(res, w') = transaction (admission_transaction cfg ?e opa p ?auth) ?w"
    using assms(13) by (simp add: submit_candidate_def)
  show ?thesis
  proof (cases "opa = rego_engine")
    case False
    then have "\<exists>f. evaluate_admission opa (epoch_of ?e) p [par] (nodes_exist [par] (gs w)) (are_quarantined [par] (gs w)) ?auth = Inl f"
      using assms(12) by (intro policy_failure_not_admitted) auto
    then show ?thesis using run assms(7) False
      by (auto simp: transaction_def admission_transaction_def Let_def facts tainted_covers_def policy_exception_def split: policy_failure.splits)
  next
    case True
    show ?thesis
    proof (cases "par \<in> set (quarantine_ledger (gs w))")
      case False
      have "evaluate_admission rego_engine (epoch_of ?e) p [par] (nodes_exist [par] (gs w)) (are_quarantined [par] (gs w)) ?auth = Inr Admit"
        using client_admission [OF p, of "gs w" "epoch_of ?e"] False assms(5,8,10,14) by simp
      moreover have "\<not> hash_mismatch (get_node_content_hashes [par] (gs w)) p"
        using client_hashes_match [OF p, of "gs w"] assms(9) False by simp
      ultimately have "res = Inr (Committed False)" "gs w' = check_retry_completion p (record_shadow_decision False (snd (commit_node p (gs w))))"
        using run True assms(1,6,7)
        by (simp_all add: transaction_def admission_transaction_def Let_def facts tainted_covers_def enforce_decision_def client_ready_def commit_node_def)
      then show ?thesis using False assms(4,6) facts(1)
        by (simp add: recorded_def check_retry_completion_def) (simp add: commit_node_def quiet_def record_shadow_decision_def)
    next
      case q: True
      have "evaluate_admission rego_engine (epoch_of ?e) p [par] (nodes_exist [par] (gs w)) (are_quarantined [par] (gs w)) ?auth =
          Inr (Deny ''TAINTED_PARENT'' (Some par))"
        using q by (simp add: evaluate_admission_rego allow_state_write_iff integrity_denial_def tainted_parents_def)
      then have "res = Inr (fst (refuse_tainted cfg ?e p par ?w))" "w' = snd (refuse_tainted cfg ?e p par ?w)"
        using run True assms(1,7)
        by (simp_all add: transaction_def admission_transaction_def Let_def facts tainted_covers_def enforce_decision_def client_ready_def split_beta)
      then show ?thesis
        using refuse_recorded [of ?w p par cfg ?e] refuse_tainted_effect(3) [of cfg ?e p par ?w] q assms(4,5,6) facts(1,2,6) by auto
    qed
  qed
qed

lemmas storm_handle = client_handle [where content = "[(''v'', JStr v)]" for v, folded storm_candidate_def]

text \<open>A designation in such a store changes the ledger and the log only.\<close>

lemma calm_designate:
  assumes "calm (gs w)" and "w' = snd (designate_poison cfg e adapter hdr ev w)"
  shows "dag (gs w') = dag (gs w)" and "repair_candidates (gs w') = []"
    and "quarantine_ledger (gs w') = quarantine_ledger (gs w) \<and> quarantine_events (gs w') = quarantine_events (gs w) \<or>
      poisoned_node_id ev \<in> set (keys (dag (gs w))) \<and> poisoned_node_id ev \<notin> set (quarantine_ledger (gs w)) \<and>
      set (quarantine_ledger (gs w')) = set (quarantine_ledger (gs w)) \<union> reach_from (derives (dag (gs w))) {poisoned_node_id ev} \<and>
      (\<exists>qe. quarantine_events (gs w') = quarantine_events (gs w) @ [qe] \<and> poisoned_root_id qe = poisoned_node_id ev \<and>
         computed_blast_radius_C_p qe = fst (compute_blast_radius (poisoned_node_id ev) (gs w)))"
proof -
  have att: "calm (gs (on_gs (record_signal_attempt t who n kind out) w))" for t who n kind out
    using assms(1) by (subst calm_cong [of _ "gs w"]) (simp_all add: record_signal_attempt_def)
  have cont: "calm (gs (snd (contain cfg e ev who src w1)))" if "calm (gs w1)" for who src w1
    using calm_hooks [of "w1\<lparr>gs := gs w1\<rparr>" cfg e "''RENEWED_DESIGNATION''" "fst (compute_blast_radius (poisoned_node_id ev) (gs w1))"] that
    by (simp add: contain_def fresh_uuid_def Let_def split_beta calm_radius apply_quarantine_transaction_def)
      (simp add: calm_def)
  have tx: "\<exists>r. designation_transaction cfg e adapter ev who w1 =
      (Inr r, if poisoned_node_id ev \<in> set (keys (dag (gs w1))) - set (quarantine_ledger (gs w1)) then snd (contain cfg e ev who None w1) else w1)"
    if "calm (gs w1)" for who w1
    using calm_aftermath [OF cont [OF that]] by (simp add: designation_transaction_run Let_def split_beta)
  obtain w1 who where w1: "w1 = w \<or> (\<exists>t src n kind out. w1 = on_gs (record_signal_attempt t src n kind out) w)"
    and w': "w' = w1 \<or> poisoned_node_id ev \<in> set (keys (dag (gs w1))) - set (quarantine_ledger (gs w1)) \<and> w' = snd (contain cfg e ev who None w1)"
  proof (cases "verify_role_jwt e hdr ''designator''")
    case (Inl ex)
    then show ?thesis using that [of w] assms(2) by (simp add: designate_poison_def)
  next
    case (Inr claims)
    let ?who = "claim_sub claims ''unknown''"
    let ?sig = "\<lambda>out. on_gs (record_signal_attempt (now_utc e) ?who (poisoned_node_id ev) ''designation'' out) w"
    show ?thesis
    proof (cases "count_recent_signals ?who (horizon_start cfg e) (gs w) \<ge> DESIGNATION_RATE_LIMIT cfg")
      case True
      then have "\<exists>out. w' = ?sig out" using assms(2) by (auto simp: designate_poison_def Inr Let_def signal_limited_def)
      then show ?thesis using that by blast
    next
      case False
      then have "w' = snd (transaction (designation_transaction cfg e adapter ev ?who) (?sig ''PENDING''))"
        using assms(2) by (simp add: designate_poison_def Inr Let_def)
      then show ?thesis using that [of "?sig ''PENDING''" ?who] tx [of "?sig ''PENDING''" ?who, OF att] by (fastforce simp: transaction_def split: if_splits)
    qed
  qed
  have q: "calm (gs w1)" and same: "dag (gs w1) = dag (gs w)" "quarantine_ledger (gs w1) = quarantine_ledger (gs w)" "quarantine_events (gs w1) = quarantine_events (gs w)"
    using w1 assms(1) att by auto
  show "dag (gs w') = dag (gs w)" using w' same by (auto simp: contain_simps)
  show "repair_candidates (gs w') = []" using w' q cont [OF q] by (auto intro: calm_candidates)
  show "quarantine_ledger (gs w') = quarantine_ledger (gs w) \<and> quarantine_events (gs w') = quarantine_events (gs w) \<or>
      poisoned_node_id ev \<in> set (keys (dag (gs w))) \<and> poisoned_node_id ev \<notin> set (quarantine_ledger (gs w)) \<and>
      set (quarantine_ledger (gs w')) = set (quarantine_ledger (gs w)) \<union> reach_from (derives (dag (gs w))) {poisoned_node_id ev} \<and>
      (\<exists>qe. quarantine_events (gs w') = quarantine_events (gs w) @ [qe] \<and> poisoned_root_id qe = poisoned_node_id ev \<and>
         computed_blast_radius_C_p qe = fst (compute_blast_radius (poisoned_node_id ev) (gs w)))"
    using w' same by (auto simp: contain_simps fst_compute_blast_radius)
qed

lemmas storm_designate = calm_designate [OF quiet_calm]

section \<open>Invariants of the storm\<close>

text \<open>The store: plain, contained, and the roots of the events are quarantined.\<close>

definition store_ok :: "gstate \<Rightarrow> bool" where
  "store_ok g \<longleftrightarrow> quiet g \<and> contained g \<and> set (event_roots (quarantine_events g)) \<subseteq> set (quarantine_ledger g)"

text \<open>A stored node whose digest the client has.\<close>

definition known :: "gstate \<Rightarrow> (node_id, string) dict \<Rightarrow> node_id \<Rightarrow> bool" where
  "known g digests n \<longleftrightarrow> n \<in> set (keys (dag g)) \<and>
     (\<forall>nd h. map_of (dag g) n = Some nd \<longrightarrow> content_digest_sha256 nd = Some h \<longrightarrow> h \<noteq> [] \<longrightarrow> map_of digests n = Some h)"

definition sent_ok :: "env \<Rightarrow> (json_object \<Rightarrow> string) \<Rightarrow> gstate \<Rightarrow> int \<times> payload \<Rightarrow> bool" where
  "sent_ok e enc g x \<longleftrightarrow> (\<exists>digests now expires k pid bid par v.
     snd x = storm_candidate e enc digests (fst x) now expires k pid bid par v \<and> digests_ok digests \<and> known g digests par)"

definition clients_ok :: "env \<Rightarrow> (json_object \<Rightarrow> string) \<Rightarrow> storm \<Rightarrow> bool" where
  "clients_ok e enc s \<longleftrightarrow> digests_ok (DIGEST s) \<and> (\<forall>n\<in>set (active_nodes s). known (gs (st_world s)) (DIGEST s) n) \<and>
     (\<forall>x\<in>set (st_sent s). sent_ok e enc (gs (st_world s)) x) \<and>
     (\<forall>p. (p, Some 200) \<in> set (st_answers s) \<longrightarrow>
       map_of (dag (gs (st_world s))) (payload_id p) = Some p \<and> matches_hex64 (hash_or_empty (content_digest_sha256 p)))"

text \<open>Identifiers: of candidates on their way and of writes that failed.\<close>

definition sent_ids :: "storm \<Rightarrow> node_id list" where
  "sent_ids s = map (payload_id \<circ> snd) (st_sent s)"

definition dead_ids :: "storm \<Rightarrow> node_id set" where
  "dead_ids s = set (failed_payload_ids s) \<union> {payload_id p | p st. (p, Some st) \<in> set (st_answers s) \<and> st \<ge> 500}"

definition ids_ok :: "storm \<Rightarrow> bool" where
  "ids_ok s \<longleftrightarrow> (let K = set (keys (dag (gs (st_world s)))); L = set (quarantine_ledger (gs (st_world s))); S = set (sent_ids s); D = dead_ids s in
     distinct (sent_ids s) \<and> S \<inter> (K \<union> L \<union> {''none''}) = {} \<and> D \<inter> (K \<union> S) = {} \<and> K \<union> L \<union> S \<union> D \<union> {''none''} \<subseteq> set (st_drawn s))"

text \<open>The accounts: every identifier that was drawn is on its way or counted once; the graph has grown by the writes that were answered with 200 or 403, and at
  most by those whose answer was lost.\<close>

definition landed :: "(payload \<times> nat option) list \<Rightarrow> nat" where
  "landed as = length (filter (\<lambda>(p, st). st \<in> {Some 200, Some 403}) as)"

definition lost :: "(payload \<times> nat option) list \<Rightarrow> nat" where
  "lost as = length (filter (\<lambda>(p, st). st = None) as)"

definition counts_ok :: "storm \<Rightarrow> bool" where
  "counts_ok s \<longleftrightarrow> (let n = count_200 s + count_403 s + landed (st_answers s); g = length (dag (gs (st_world s))) in
     Suc n \<le> g \<and> g \<le> Suc (n + count_other s + lost (st_answers s)) \<and>
     length (st_drawn s) = 3 + length (st_sent s) + length (st_answers s) + count_200 s + count_403 s + count_429 s + count_5xx s + count_other s)"

definition storm_inv :: "env \<Rightarrow> (json_object \<Rightarrow> string) \<Rightarrow> storm \<Rightarrow> bool" where
  "storm_inv e enc s \<longleftrightarrow> store_ok (gs (st_world s)) \<and> clients_ok e enc s \<and> ids_ok s \<and> counts_ok s"

lemma known_extends: "known g digests n \<Longrightarrow> dag g' = dag g @ new \<Longrightarrow> known g' digests n"
  by (auto simp: known_def map_of_append map_add_Some_iff) (metis map_of_eq_None_keys option.distinct(1) map_add_None)

lemma sent_extends: "sent_ok e enc g x \<Longrightarrow> dag g' = dag g @ new \<Longrightarrow> sent_ok e enc g' x"
  unfolding sent_ok_def using known_extends by meson

lemma clients_extend:
  assumes "clients_ok e enc s" and "dag (gs w) = dag (gs (st_world s)) @ new"
  shows "clients_ok e enc (s\<lparr>st_world := w\<rparr>)"
proof -
  have "map_of (dag (gs w)) i = Some p" if "map_of (dag (gs (st_world s))) i = Some p" for i p
    using that by (simp add: assms(2) map_of_append)
  then show ?thesis using assms known_extends sent_extends unfolding clients_ok_def by fastforce
qed

lemma derives_append: "derives (d @ [(i, p)]) c n \<longleftrightarrow> derives d c n \<or> n = i \<and> touches c p"
  by (auto simp: derives_def)

lemma event_roots_append: "set (event_roots (evs @ [ev])) = set (event_roots evs) \<union> ({poisoned_root_id ev} - {[]})"
  by (auto simp: event_roots_def)

lemma recorded_store:
  assumes "store_ok g" and "recorded st p par g g'" and "plain_node p" and "parent_ids p = [par]" and "par \<in> set (keys (dag g))"
    and "payload_id p \<notin> set (keys (dag g))"
  shows "store_ok g'"
proof -
  have dag: "dag g' = dag g @ [(payload_id p, p)]" and "quiet g" using assms(1,2) by (auto simp: recorded_def store_ok_def)
  have "quiet g'" using \<open>quiet g\<close> assms(2-5) by (auto simp: quiet_def recorded_def list_all_iff)
  moreover have "contained g'"
    using assms quiet_derives [OF \<open>quiet g\<close>]
    by (auto simp: contained_def closed_under_def store_ok_def dag derives_append touches_def plain_node_def recorded_def split: if_splits)
  moreover have "set (event_roots (quarantine_events g')) \<subseteq> set (quarantine_ledger g')"
    using assms(1,2) by (auto simp: recorded_def store_ok_def event_roots_append split: if_splits)
  ultimately show ?thesis by (simp add: store_ok_def)
qed

lemma designated_store:
  assumes "store_ok (gs w)"
  shows "store_ok (gs (snd (designate_poison cfg e adapter hdr ev w)))"
proof -
  let ?w = "snd (designate_poison cfg e adapter hdr ev w)"
  have "quiet (gs w)" using assms by (simp add: store_ok_def)
  note d = storm_designate [OF this refl, of cfg e adapter hdr ev]
  have "quiet (gs ?w)" using \<open>quiet (gs w)\<close> d(1,2) by (auto simp: quiet_def)
  moreover have "contained (gs ?w)"
    using assms d(1,3) closed_under_reach [of "derives (dag (gs w))"] by (auto simp: contained_def store_ok_def)
  moreover have "set (event_roots (quarantine_events (gs ?w))) \<subseteq> set (quarantine_ledger (gs ?w))"
    using assms d(3) reach_from_start [of "poisoned_node_id ev" "{poisoned_node_id ev}" "derives (dag (gs w))"]
    by (auto simp: store_ok_def event_roots_append)
  ultimately show ?thesis by (simp add: store_ok_def)
qed

lemma handled:
  assumes "storm_inv e enc s" and "client_ready cfg e enc validate" and "st_sent s = us @ (clock, p) # vs"
    and "epoch_of (e\<lparr>now_us := t\<rparr>) < clock + 3600" and "len \<le> MAX_PAYLOAD_BYTES cfg" and "opa = rego_engine \<or> (\<forall>q i. \<not> answers (opa q i))"
    and "submit_candidate cfg (e\<lparr>now_us := t\<rparr>) opa validate \<lparr>body_length = len, body_json = Some p\<rparr> (st_world s) = (res, w)"
  shows "status_of res \<ge> 500 \<and> gs w = gs (st_world s) \<or>
    (\<exists>par. recorded (status_of res) p par (gs (st_world s)) (gs w) \<and> plain_node p \<and> parent_ids p = [par] \<and> par \<in> set (keys (dag (gs (st_world s)))))"
    and "payload_id p \<notin> set (keys (dag (gs (st_world s)))) \<union> set (quarantine_ledger (gs (st_world s)))"
    and "matches_hex64 (hash_or_empty (content_digest_sha256 p))"
proof -
  let ?g = "gs (st_world s)"
  obtain digests now expires k pid bid par v where p: "p = storm_candidate e enc digests clock now expires k pid bid par v" and ds: "digests_ok digests" and kn: "known ?g digests par"
    using assms(1,3) by (auto simp: storm_inv_def clients_ok_def sent_ok_def)
  show "matches_hex64 (hash_or_empty (content_digest_sha256 p))" using assms(2) ds p by (rule candidate_valid)
  have "payload_id p \<in> set (sent_ids s)" by (simp add: sent_ids_def assms(3))
  then have id: "payload_id p \<notin> set (keys (dag ?g)) \<union> set (quarantine_ledger ?g)" "payload_id p \<noteq> ''none''"
    using assms(1) by (auto simp: storm_inv_def ids_ok_def Let_def)
  then show "payload_id p \<notin> set (keys (dag ?g)) \<union> set (quarantine_ledger ?g)" by simp
  have "quiet ?g" using assms(1) by (simp add: storm_inv_def store_ok_def)
  from storm_handle [OF assms(2) p ds this _ _ _ _ _ assms(4-7)] kn id
  have "status_of res \<ge> 500 \<and> gs w = ?g \<or> recorded (status_of res) p par ?g (gs w)" by (auto simp: known_def candidate_facts [OF p])
  then show "status_of res \<ge> 500 \<and> gs w = ?g \<or>
    (\<exists>par. recorded (status_of res) p par ?g (gs w) \<and> plain_node p \<and> parent_ids p = [par] \<and> par \<in> set (keys (dag ?g)))"
    using kn candidate_facts [OF p] by (auto simp: known_def)
qed

lemma worker_answer_frame [simp]:
  "st_world (worker_answer p st s) = st_world s" "st_drawn (worker_answer p st s) = st_drawn s"
  "st_sent (worker_answer p st s) = st_sent s" "st_answers (worker_answer p st s) = st_answers s"
  by (simp_all add: worker_answer_def)

lemma step_store:
  assumes "storm_step cfg e enc validate adapter s s'" and "storm_inv e enc s" and "client_ready cfg e enc validate"
  shows "store_ok (gs (st_world s'))"
proof -
  have ok: "store_ok (gs (st_world s))" using assms(2) by (simp add: storm_inv_def)
  from assms(1) show ?thesis
  proof cases
    case (handle us clock p vs t len opa res w)
    note h = handled [OF assms(2,3) handle(2-6)]
    from h(1) show ?thesis using ok recorded_store [OF ok] h(2) handle(1) by auto
  next
    case (designate n t hdr why)
    then show ?thesis using designated_store [OF ok] by simp
  qed (use ok in simp_all)
qed

lemma step_clients:
  assumes "storm_step cfg e enc validate adapter s s'" and "storm_inv e enc s" and "client_ready cfg e enc validate"
  shows "clients_ok e enc s'"
proof -
  have ok: "clients_ok e enc s" "store_ok (gs (st_world s))" using assms(2) by (simp_all add: storm_inv_def)
  from assms(1) show ?thesis
  proof cases
    case (build par pid clock now expires k bid v)
    then have "known (gs (st_world s)) (DIGEST s) par" "digests_ok (DIGEST s)" using ok(1) by (simp_all add: clients_ok_def)
    then have "sent_ok e enc (gs (st_world s)) (clock, storm_candidate e enc (DIGEST s) clock now expires k pid bid par v)"
      unfolding sent_ok_def fst_conv snd_conv by blast
    then show ?thesis using ok(1) build(1) by (auto simp: clients_ok_def)
  next
    case (handle us clock p vs t len opa res w)
    note h = handled [OF assms(2,3) handle(2-6)]
    have "\<exists>new. dag (gs w) = dag (gs (st_world s)) @ new" using h(1) by (auto simp: recorded_def)
    then have ext: "clients_ok e enc (s\<lparr>st_world := w\<rparr>)" using clients_extend [OF ok(1)] by blast
    have "map_of (dag (gs w)) (payload_id p) = Some p" if "status_of res = 200"
      using h that by (auto simp: recorded_def map_add_def dest: map_of_eq_None_keys [THEN iffD2] split: option.splits)
    then show ?thesis using ext handle(1,2) h(3) by (auto simp: clients_ok_def)
  next
    case (shed us clock p vs srv st d)
    then have "st \<noteq> 200" by (auto simp: acquire_in_flight_def split: if_splits)
    then show ?thesis using ok(1) shed(1,2) by (auto simp: clients_ok_def)
  next
    case (receive us p st vs)
    then have "st = Some 200 \<Longrightarrow> map_of (dag (gs (st_world s))) (payload_id p) = Some p \<and> matches_hex64 (hash_or_empty (content_digest_sha256 p))"
      using ok(1) by (auto simp: clients_ok_def)
    moreover from this have "st = Some 200 \<Longrightarrow> payload_id p \<in> set (keys (dag (gs (st_world s))))" by (metis map_of_eq_None_keys option.distinct(1))
    ultimately show ?thesis using ok(1) receive by (auto simp: clients_ok_def worker_answer_def known_def map_of_update digests_ok_def)
  next
    case (designate n t hdr why)
    have "quiet (gs (st_world s))" using ok(2) by (simp add: store_ok_def)
    from storm_designate(1) [OF this refl] show ?thesis using designate clients_extend [OF ok(1), where new = "[]"] by simp
  qed (use ok(1) in \<open>auto simp: clients_ok_def\<close>)
qed

lemma step_counts:
  assumes "storm_step cfg e enc validate adapter s s'" and "storm_inv e enc s" and "client_ready cfg e enc validate"
  shows "counts_ok s'"
proof -
  have ok: "counts_ok s" "store_ok (gs (st_world s))" using assms(2) by (simp_all add: storm_inv_def)
  from assms(1) show ?thesis
  proof cases
    case (handle us clock p vs t len opa res w)
    note h = handled [OF assms(2,3) handle(2-6)]
    from h(1) show ?thesis using ok(1) handle(1,2) by (auto simp: counts_ok_def Let_def landed_def lost_def recorded_def split: if_splits)
  next
    case (shed us clock p vs srv st d)
    then have "st \<noteq> 200" "st \<noteq> 403" by (auto simp: acquire_in_flight_def split: if_splits)
    then show ?thesis using ok(1) shed(1,2) by (auto simp: counts_ok_def Let_def landed_def lost_def)
  next
    case (designate n t hdr why)
    have "quiet (gs (st_world s))" using ok(2) by (simp add: store_ok_def)
    from storm_designate(1) [OF this refl] show ?thesis using ok(1) designate by (simp add: counts_ok_def)
  qed (use ok(1) in \<open>auto simp: counts_ok_def Let_def landed_def lost_def worker_answer_def split: if_splits\<close>)
qed

lemma sent_removed:
  assumes "st_sent s = us @ (clock, p) # vs" and "st_sent s' = us @ vs"
  shows "set (sent_ids s) = insert (payload_id p) (set (sent_ids s'))"
    and "distinct (sent_ids s) \<Longrightarrow> distinct (sent_ids s') \<and> payload_id p \<notin> set (sent_ids s')"
  using assms by (auto simp: sent_ids_def)

lemma dead_answered:
  assumes "st_answers s' = st_answers s @ [(p, st)]" and "failed_payload_ids s' = failed_payload_ids s"
  shows "dead_ids s' = dead_ids s \<union> (if st \<noteq> None \<and> the st \<ge> 500 then {payload_id p} else {})"
  using assms by (cases st) (auto simp: dead_ids_def)

lemma ids_answered:
  assumes "ids_ok s" and "st_sent s = us @ (clock, p) # vs" and "st_sent s' = us @ vs" and "st_answers s' = st_answers s @ [(p, st)]"
    and "failed_payload_ids s' = failed_payload_ids s" and "st_drawn s' = st_drawn s"
    and "set (keys (dag (gs (st_world s')))) \<union> set (quarantine_ledger (gs (st_world s'))) \<subseteq>
      set (keys (dag (gs (st_world s)))) \<union> set (quarantine_ledger (gs (st_world s))) \<union> {payload_id p}"
    and "set (keys (dag (gs (st_world s')))) \<subseteq> set (keys (dag (gs (st_world s)))) \<union> (if st \<noteq> None \<and> the st \<ge> 500 then {} else {payload_id p})"
  shows "ids_ok s'"
proof -
  have "distinct (sent_ids s)" using assms(1) by (simp add: ids_ok_def Let_def)
  note r = sent_removed [OF assms(2,3)] and d = dead_answered [OF assms(4,5)]
  show ?thesis
    using assms(1,7,8) r(1) r(2) [OF \<open>distinct (sent_ids s)\<close>] unfolding ids_ok_def Let_def d assms(6) by (auto split: if_splits)
qed

lemma ids_received:
  assumes "ids_ok s" and "st_sent s' = st_sent s" and "st_drawn s' = st_drawn s" and "dead_ids s' \<subseteq> dead_ids s"
    and "set (keys (dag (gs (st_world s')))) = set (keys (dag (gs (st_world s))))"
    and "set (quarantine_ledger (gs (st_world s'))) \<subseteq> set (keys (dag (gs (st_world s)))) \<union> set (quarantine_ledger (gs (st_world s)))"
  shows "ids_ok s'"
proof -
  have "sent_ids s' = sent_ids s" by (simp add: sent_ids_def assms(2))
  then show ?thesis using assms(1,3-6) unfolding ids_ok_def Let_def by auto
qed

lemma step_ids:
  assumes "storm_step cfg e enc validate adapter s s'" and "storm_inv e enc s" and "client_ready cfg e enc validate"
  shows "ids_ok s'"
proof -
  have ok: "ids_ok s" "store_ok (gs (st_world s))" "clients_ok e enc s" using assms(2) by (simp_all add: storm_inv_def)
  from assms(1) show ?thesis
  proof cases
    case (build par pid clock now expires k bid v)
    have "payload_id (storm_candidate e enc (DIGEST s) clock now expires k pid bid par v) = pid" by (rule candidate_facts [OF refl])
    moreover have "dead_ids s' = dead_ids s" by (simp add: build(1) dead_ids_def)
    ultimately show ?thesis using ok(1) build by (auto simp: ids_ok_def Let_def sent_ids_def)
  next
    case (handle us clock p vs t len opa res w)
    note h = handled [OF assms(2,3) handle(2-6)]
    from h(1) show ?thesis
      by (intro ids_answered [OF ok(1) handle(2), where s' = s' and st = "Some (status_of res)"])
        (auto simp: handle(1) recorded_def split: if_splits)
  next
    case (shed us clock p vs srv st d)
    then show ?thesis by (intro ids_answered [OF ok(1) shed(2), where s' = s']) auto
  next
    case (lose_request us clock p vs)
    then show ?thesis by (intro ids_answered [OF ok(1) lose_request(2), where s' = s']) auto
  next
    case (lose_answer us p st vs)
    then have "dead_ids s' \<subseteq> dead_ids s" by (fastforce simp: dead_ids_def)
    then show ?thesis using ids_received [OF ok(1), of s'] lose_answer(1) by simp
  next
    case (receive us p st vs)
    then have "dead_ids s' \<subseteq> dead_ids s" by (auto simp: dead_ids_def worker_answer_def split: if_splits)
    then show ?thesis using ids_received [OF ok(1), of s'] receive(1) by simp
  next
    case (designate n t hdr why)
    have q: "quiet (gs (st_world s))" using ok(2) by (simp add: store_ok_def)
    note d = storm_designate [OF q refl, of cfg "e\<lparr>now_us := t\<rparr>" adapter hdr "\<lparr>poisoned_node_id = n, de_reason = why\<rparr>"]
    have n: "n \<in> set (keys (dag (gs (st_world s))))" using ok(3) designate(2) by (auto simp: clients_ok_def known_def)
    have "reach_from (derives (dag (gs (st_world s)))) {n} \<subseteq> set (keys (dag (gs (st_world s))))"
      by (rule reach_from_least) (use n in \<open>auto dest: derives_key\<close>)
    moreover have "dead_ids s' = dead_ids s" by (simp add: designate(1) dead_ids_def)
    ultimately show ?thesis using ids_received [OF ok(1), of s'] d(1,3) designate(1) by auto
  qed
qed

lemma run_inv:
  assumes "(storm_step cfg e enc validate adapter)\<^sup>*\<^sup>* s s'" and "storm_inv e enc s" and "client_ready cfg e enc validate"
  shows "storm_inv e enc s'"
  using assms(1,2)
proof (induction rule: rtranclp_induct)
  case (step s1 s2)
  then have "storm_inv e enc s1" by blast
  note i = step(2) this assms(3)
  show ?case unfolding storm_inv_def using step_store [OF i] step_clients [OF i] step_ids [OF i] step_counts [OF i] by blast
qed

lemma start_inv: "storm_inv e enc (storm_start w)"
  by (simp add: storm_inv_def store_ok_def quiet_def plain_node_def contained_def closed_under_def derives_def touches_def clients_ok_def digests_ok_def known_def ids_ok_def
      counts_ok_def storm_start_def reset_sync_def event_roots_def sent_ids_def dead_ids_def landed_def lost_def parent_ids_def Let_def)

section \<open>What the runs show\<close>

text \<open>C21: The storm's books balance. When all answers are in, the graph has grown by at least the number of writes that were answered with 200 or 403 and by at
  most that number plus the writes whose answer never came, every write that was started is counted in exactly one class, and no write answered with a status of 500 or more is in the graph, whatever
  the interleaving of workers and designator, the failures of the policy engine and the load of the server.\<close>

theorem storm_accounting:
  assumes "client_ready cfg e enc validate" and "(storm_step cfg e enc validate adapter)\<^sup>*\<^sup>* (storm_start w) s"
    and "st_sent s = []" and "st_answers s = []"
  shows "let growth = length (dag (gs (st_world s))) - length (dag (gs (st_world (storm_start w)))) in
    count_200 s + count_403 s \<le> growth \<and> growth \<le> count_200 s + count_403 s + count_other s \<and>
    length (st_drawn s) - length (st_drawn (storm_start w)) = count_200 s + count_403 s + count_429 s + count_5xx s + count_other s \<and>
    set (failed_payload_ids s) \<inter> set (keys (dag (gs (st_world s)))) = {}"
proof -
  have "storm_inv e enc s" using run_inv [OF assms(2) start_inv assms(1)] .
  then have "counts_ok s" "ids_ok s" by (simp_all add: storm_inv_def)
  moreover have "length (dag (gs (st_world (storm_start w)))) = 1" "length (st_drawn (storm_start w)) = 3" by (simp_all add: storm_start_def reset_sync_def)
  ultimately show ?thesis using assms(3,4) by (auto simp: counts_ok_def ids_ok_def dead_ids_def Let_def landed_def lost_def)
qed

text \<open>A client whose tokens carry the clock in unary.\<close>

definition unary_clock :: "int \<Rightarrow> string" where
  "unary_clock t = (if t \<ge> 0 then CHR ''p'' # replicate (nat t) CHR ''x'' else CHR ''m'' # replicate (nat (- t)) CHR ''x'')"

definition clock_of :: "string \<Rightarrow> int" where
  "clock_of tok = (case tok of [] \<Rightarrow> 0 | c # cs \<Rightarrow> if c = CHR ''p'' then int (length cs) else - int (length cs))"

definition unary_encode :: "json_object \<Rightarrow> string" where
  "unary_encode claims = (case map_of claims ''expires_at_epoch'' of Some (JNum q) \<Rightarrow> unary_clock (\<lfloor>q\<rfloor> - 3600) | _ \<Rightarrow> [])"

definition storm_env :: env where
  "storm_env = client_env\<lparr>jwt_decode := \<lambda>tok. Some (session_claims (clock_of tok) (encode_raw (7, 9)) ''agent'' []),
     content_hash := \<lambda>_. replicate 64 CHR ''a''\<rparr>"

lemma storm_env_ready: "client_ready enforcing storm_env unary_encode schema_validator"
proof -
  have "clock_of (unary_clock t) = t" for t by (simp add: clock_of_def unary_clock_def)
  moreover have "gateway_crypto storm_env" by (simp add: storm_env_def client_env_def demo_env_def gateway_crypto_def)
  moreover have "matches_hex64 (content_hash storm_env c)" for c by (simp add: storm_env_def hex_digits_def)
  ultimately show ?thesis
    by (simp add: client_ready_def enforcing_mode unary_encode_def session_claims_sel schema_validator_validates) (simp add: storm_env_def client_env_def)
qed

definition demo_candidate :: payload where
  "demo_candidate = storm_candidate storm_env unary_encode [(''clean-parent-1'', [])] 0 (Datetime 2026 1 1 0 0 0 0) (Datetime 2026 1 1 1 0 0 0) 0 ''w1'' ''b1'' ''clean-parent-1'' ''v''"

lemma demo_storm:
  "\<exists>s. (storm_step enforcing storm_env unary_encode schema_validator (\<lambda>_. Adapter_Timeout))\<^sup>*\<^sup>* (storm_start init_world) s \<and> st_sent s = [] \<and> st_answers s = [] \<and> count_200 s = 1"
proof -
  let ?step = "storm_step enforcing storm_env unary_encode schema_validator (\<lambda>_. Adapter_Timeout)" and ?s = "storm_start init_world"
  let ?s1 = "?s\<lparr>st_drawn := ''w1'' # st_drawn ?s, st_sent := st_sent ?s @ [(0, demo_candidate)]\<rparr>"
  obtain res w where run: "submit_candidate enforcing (storm_env\<lparr>now_us := 0\<rparr>) rego_engine schema_validator \<lparr>body_length = 900, body_json = Some demo_candidate\<rparr> (st_world ?s1) = (res, w)"
    by fastforce
  let ?s2 = "?s1\<lparr>st_world := w, st_sent := [], st_answers := st_answers ?s1 @ [(demo_candidate, Some (status_of res))]\<rparr>"
  have b: "?step ?s ?s1"
    using build [of "''clean-parent-1''" ?s "''w1''" enforcing storm_env unary_encode schema_validator "\<lambda>_. Adapter_Timeout" 0 "Datetime 2026 1 1 0 0 0 0" "Datetime 2026 1 1 1 0 0 0" 0 "''b1''" "''v''"]
    by (simp add: storm_start_def demo_candidate_def)
  have h: "?step ?s1 ?s2"
    using handle [OF _ _ _ _ run, of "[]" 0 "[]"] by (simp add: storm_start_def epoch_of_def enforcing_size)
  have r: "?step ?s2 (worker_answer demo_candidate (Some (status_of res)) (?s2\<lparr>st_answers := []\<rparr>))"
    using receive [of ?s2 "[]" demo_candidate "Some (status_of res)" "[]"] by (simp add: storm_start_def)
  have kn: "map_of [(''clean-parent-1'', [])] ''clean-parent-1'' = Some h"
    if "map_of (dag (gs (st_world ?s1))) ''clean-parent-1'' = Some nd" "content_digest_sha256 nd = Some h" "h \<noteq> []" for nd h
    using that by (auto simp: storm_start_def reset_sync_def)
  have "recorded (status_of res) demo_candidate ''clean-parent-1'' (gs (st_world ?s1)) (gs w)"
    using storm_handle [OF storm_env_ready demo_candidate_def _ _ _ _ _ _ kn _ _ _ run]
    by (simp add: storm_start_def reset_sync_def quiet_def plain_node_def parent_ids_def epoch_of_def enforcing_size digests_ok_def)
  then have "status_of res = 200" by (simp add: recorded_def storm_start_def reset_sync_def split: if_splits)
  moreover have "?step\<^sup>*\<^sup>* ?s (worker_answer demo_candidate (Some (status_of res)) (?s2\<lparr>st_answers := []\<rparr>))"
    by (rule converse_rtranclp_into_rtranclp [of ?step, OF b], rule converse_rtranclp_into_rtranclp [of ?step, OF h], rule r_into_rtranclp [of ?step, OF r])
  ultimately show ?thesis by (intro exI conjI) (auto simp: worker_answer_def storm_start_def)
qed

theorem storm_accounting_witness:
  "\<exists>s. count_200 s = 1 \<and> 2 \<le> length (dag (gs (st_world s))) \<and>
    (storm_step enforcing storm_env unary_encode schema_validator (\<lambda>_. Adapter_Timeout))\<^sup>*\<^sup>* (storm_start init_world) s"
proof -
  obtain s where s: "(storm_step enforcing storm_env unary_encode schema_validator (\<lambda>_. Adapter_Timeout))\<^sup>*\<^sup>* (storm_start init_world) s"
      "st_sent s = []" "st_answers s = []" "count_200 s = 1" using demo_storm by blast
  have "length (dag (gs (st_world (storm_start init_world)))) = 1" by (simp add: storm_start_def reset_sync_def)
  then have "2 \<le> length (dag (gs (st_world s)))" using storm_accounting [OF storm_env_ready s(1-3)] s(4) unfolding Let_def by linarith
  then show ?thesis using s(1,4) by blast
qed

lemma step_grows:
  assumes "storm_step cfg e enc validate adapter s s'"
  shows "grows (gs (st_world s)) (gs (st_world s'))"
  using assms
proof cases
  case (handle us clock p vs t len opa res w)
  then show ?thesis using submit_grows [of "st_world s" cfg "e\<lparr>now_us := t\<rparr>" opa validate "\<lparr>body_length = len, body_json = Some p\<rparr>"] by simp
qed (simp_all add: designate_grows)

lemma run_grows: "(storm_step cfg e enc validate adapter)\<^sup>*\<^sup>* s s' \<Longrightarrow> grows (gs (st_world s)) (gs (st_world s'))"
  by (induction rule: rtranclp_induct) (auto intro: grows_trans step_grows)

lemma store_oracle: "store_ok g \<Longrightarrow> check_containment g"
proof -
  assume ok: "store_ok g"
  have "reach_from (stored_derives (dag g)) (set (event_roots (quarantine_events g))) \<subseteq> set (quarantine_ledger g)"
    by (rule reach_from_least) (use ok in \<open>auto simp: store_ok_def contained_def closed_under_def stored_derives_def\<close>)
  then show ?thesis by (auto simp: check_containment_def list_all_iff set_independent_bfs)
qed

text \<open>C22: The race is safe. At every moment of every interleaving of submissions and designations, requests in flight included, no node whose parent is
  quarantined is outside the quarantine, the containment assertion of the oracle passes and the report counts no breach; and the quarantine never shrinks.\<close>

theorem storm_race_safe:
  assumes "client_ready cfg e enc validate" and "(storm_step cfg e enc validate adapter)\<^sup>*\<^sup>* (storm_start w) s"
    and "(storm_step cfg e enc validate adapter)\<^sup>*\<^sup>* s s'"
  shows "{n. \<exists>c nd. c \<in> set (quarantine_ledger (gs (st_world s))) \<and> (n, nd) \<in> set (dag (gs (st_world s))) \<and> c \<in> set (parent_ids nd)} \<subseteq> set (quarantine_ledger (gs (st_world s))) \<and>
    check_containment (gs (st_world s)) \<and> containment_breaches (gs (st_world s)) = [] \<and>
    set (quarantine_ledger (gs (st_world s))) \<subseteq> set (quarantine_ledger (gs (st_world s')))"
proof -
  let ?g = "gs (st_world s)"
  have ok: "store_ok ?g" using run_inv [OF assms(2) start_inv assms(1)] by (simp add: storm_inv_def)
  then have c: "contained ?g" by (simp add: store_ok_def)
  then have "containment_breaches ?g = []" using breaches_measure_containment by blast
  moreover have "set (quarantine_ledger ?g) \<subseteq> set (quarantine_ledger (gs (st_world s')))" using run_grows [OF assms(3)] by (simp add: grows_def)
  moreover have "n \<in> set (quarantine_ledger ?g)" if "m \<in> set (quarantine_ledger ?g)" "(n, nd) \<in> set (dag ?g)" "m \<in> set (parent_ids nd)" for m n nd
    using c that by (auto simp: contained_def closed_under_def derives_def touches_def)
  ultimately show ?thesis using store_oracle [OF ok] by blast
qed

theorem storm_race_safe_witness:
  "\<exists>s :: storm. count_200 s = 1 \<and> check_containment (gs (st_world s)) \<and> containment_breaches (gs (st_world s)) = []"
proof -
  obtain s where s: "(storm_step enforcing storm_env unary_encode schema_validator (\<lambda>_. Adapter_Timeout))\<^sup>*\<^sup>* (storm_start init_world) s" "count_200 s = 1"
    using demo_storm by blast
  from storm_race_safe [OF storm_env_ready s(1) rtranclp.rtrancl_refl] s(2) show ?thesis by blast
qed

end
