(* ===== verification/Live_Run.thy ===== *)
theory Live_Run
  imports Storm
begin

text \<open>
  The scripted scenarios of the black-box tests, as statements about every store instead of one run: the sleeper race and the falsifiability check of
  \<open>blackbox_test/property_runner.py\<close>, and the verdicts that \<open>blackbox_test/live_run.py\<close> prints for the laundering of poison through a compaction (C1), the recovery from a poisoned
  root (C3), the reuse of a quarantined identifier (C4) and the renewal of quarantined trust (R6).
\<close>

section \<open>The sleeper race\<close>

text \<open>\<open>designator_strike\<close> and \<open>greedy_child\<close> in any number and order on one node.\<close>

inductive race_step ::
    "settings \<Rightarrow> env \<Rightarrow> (json_object \<Rightarrow> string) \<Rightarrow> (payload \<Rightarrow> schema_error option) \<Rightarrow> (reconstruct_request \<Rightarrow> adapter_reply) \<Rightarrow> (node_id, string) dict \<Rightarrow> node_id \<Rightarrow> world \<Rightarrow> world \<Rightarrow> bool"
  for cfg e enc validate adapter digests poison where
  strike: "race_step cfg e enc validate adapter digests poison w
    (snd (designate_poison cfg (e\<lparr>now_us := t\<rparr>) adapter hdr \<lparr>poisoned_node_id = poison, de_reason = why\<rparr> w))"
| greedy: "pid \<notin> set (keys (dag (gs w))) \<union> set (quarantine_ledger (gs w)) \<union> {''none''} \<Longrightarrow> epoch_of (e\<lparr>now_us := t\<rparr>) < clock + 3600 \<Longrightarrow>
    len \<le> MAX_PAYLOAD_BYTES cfg \<Longrightarrow> opa = rego_engine \<or> (\<forall>q i. \<not> answers (opa q i)) \<Longrightarrow>
    race_step cfg e enc validate adapter digests poison w
      (snd (submit_candidate cfg (e\<lparr>now_us := t\<rparr>) opa validate
        \<lparr>body_length = len, body_json = Some (storm_candidate e enc digests clock now expires k pid bid poison v)\<rparr> w))"

text \<open>All events name the poisoned node, and together they list its closure.\<close>

definition race_inv :: "(node_id, string) dict \<Rightarrow> node_id \<Rightarrow> gstate \<Rightarrow> bool" where
  "race_inv digests r g \<longleftrightarrow> store_ok g \<and> digests_ok digests \<and> known g digests r \<and> (\<forall>ev\<in>set (quarantine_events g). poisoned_root_id ev = r) \<and>
     (quarantine_events g \<noteq> [] \<longrightarrow> set (recorded_cp (quarantine_events g) r) = reach_from (derives (dag g)) {r})"

lemma recorded_cp_append:
  "recorded_cp (evs @ [ev]) r = recorded_cp evs r @ (if poisoned_root_id ev = r then computed_blast_radius_C_p ev else [])"
  by (simp add: recorded_cp_def)

lemma race_events:
  assumes "race_inv digests r g" and "r \<noteq> []" and "r \<notin> set (quarantine_ledger g)"
  shows "quarantine_events g = []"
proof (rule ccontr)
  assume "quarantine_events g \<noteq> []"
  then have "r \<in> set (event_roots (quarantine_events g))"
    using assms(1,2) by (cases "quarantine_events g") (auto simp: race_inv_def event_roots_def)
  then show False using assms(1,3) by (auto simp: race_inv_def store_ok_def)
qed

lemma race_recorded:
  assumes "race_inv digests r g" and "r \<noteq> []" and "recorded st p r g g'" and "store_ok g'"
  shows "race_inv digests r g'"
proof -
  have dag: "dag g' = dag g @ [(payload_id p, p)]" using assms(3) by (simp add: recorded_def)
  have kn: "known g' digests r" using assms(1) known_extends [OF _ dag] by (simp add: race_inv_def)
  have mono: "reach_from (derives (dag g)) {r} \<subseteq> reach_from (derives (dag g')) {r}"
    by (rule reach_from_mono) (simp_all add: dag derives_append)
  show ?thesis
  proof (cases "st = 200")
    case True
    then have "quarantine_events g' = []" using race_events [OF assms(1,2)] assms(3) by (simp add: recorded_def)
    then show ?thesis using assms(1,4) kn by (simp add: race_inv_def)
  next
    case False
    then obtain ev where ev: "quarantine_events g' = quarantine_events g @ [ev]" "poisoned_root_id ev = r"
        "computed_blast_radius_C_p ev = fst (compute_blast_radius r g')" using assms(3) by (auto simp: recorded_def)
    have "set (recorded_cp (quarantine_events g) r) \<subseteq> reach_from (derives (dag g)) {r}"
      using assms(1) by (cases "quarantine_events g = []") (auto simp: race_inv_def recorded_cp_def)
    then have "set (recorded_cp (quarantine_events g') r) = reach_from (derives (dag g')) {r}"
      using mono by (auto simp: ev recorded_cp_append set_blast_radius)
    then show ?thesis using assms(1,4) kn by (auto simp: race_inv_def ev(1,2))
  qed
qed

lemma race_struck:
  assumes "race_inv digests r (gs w)" and "r \<noteq> []" and "poisoned_node_id ev = r"
  shows "race_inv digests r (gs (snd (designate_poison cfg e adapter hdr ev w)))"
proof -
  let ?w = "snd (designate_poison cfg e adapter hdr ev w)"
  have ok: "store_ok (gs w)" using assms(1) by (simp add: race_inv_def)
  then have "quiet (gs w)" by (simp add: store_ok_def)
  note d = storm_designate [OF this refl, of cfg e adapter hdr ev, unfolded assms(3)]
  have kn: "known (gs ?w) digests r" using assms(1) d(1) known_extends [of "gs w" digests r "gs ?w" "[]"] by (simp add: race_inv_def)
  from d(3) show ?thesis
  proof (elim disjE conjE exE)
    assume "quarantine_ledger (gs ?w) = quarantine_ledger (gs w)" "quarantine_events (gs ?w) = quarantine_events (gs w)"
    then show ?thesis using assms(1) kn designated_store [OF ok] d(1) by (simp add: race_inv_def)
  next
    fix qe
    assume "r \<notin> set (quarantine_ledger (gs w))" and qe: "quarantine_events (gs ?w) = quarantine_events (gs w) @ [qe]" "poisoned_root_id qe = r"
      "computed_blast_radius_C_p qe = fst (compute_blast_radius r (gs w))"
    then have "quarantine_events (gs ?w) = [qe]" using race_events [OF assms(1,2)] by simp
    then show ?thesis using assms(1) kn designated_store [OF ok] by (simp add: race_inv_def recorded_cp_def qe(2,3) set_blast_radius d(1))
  qed
qed

lemma race_run:
  assumes "(race_step cfg e enc validate adapter digests r)\<^sup>*\<^sup>* w w'" and "client_ready cfg e enc validate" and "r \<noteq> []" and "race_inv digests r (gs w)"
  shows "race_inv digests r (gs w')"
  using assms(1,4)
proof (induction rule: rtranclp_induct)
  case (step w1 w2)
  then have inv: "race_inv digests r (gs w1)" by blast
  from step(2) show ?case
  proof cases
    case (strike t hdr why)
    then show ?thesis using race_struck [OF inv assms(3)] by simp
  next
    case (greedy pid t clock len opa now expires k bid v)
    let ?p = "storm_candidate e enc digests clock now expires k pid bid r v"
    obtain res where "submit_candidate cfg (e\<lparr>now_us := t\<rparr>) opa validate \<lparr>body_length = len, body_json = Some ?p\<rparr> w1 = (res, w2)"
      using greedy(1) by (metis surj_pair snd_conv)
    note h = storm_handle [OF assms(2) refl _ _ _ _ _ _ _ greedy(3-5) this]
    have ok: "store_ok (gs w1)" "known (gs w1) digests r" "digests_ok digests" using inv by (auto simp: race_inv_def)
    have "opa \<noteq> rego_engine \<and> status_of res \<ge> 500 \<and> gs w2 = gs w1 \<or> recorded (status_of res) ?p r (gs w1) (gs w2)"
      by (rule h) (use ok greedy(2) in \<open>auto simp: store_ok_def known_def\<close>)
    then show ?thesis
    proof
      assume rec: "recorded (status_of res) ?p r (gs w1) (gs w2)"
      note f = candidate_facts [where p = ?p, OF refl]
      have "store_ok (gs w2)" by (rule recorded_store [OF ok(1) rec f(6,2)]) (use ok(2) greedy(2) f(1) in \<open>auto simp: known_def\<close>)
      then show ?thesis using race_recorded [OF inv assms(3) rec] by blast
    qed (use inv in simp)
  qed
qed

lemma race_oracle:
  assumes "race_inv digests r g" and "r \<noteq> []"
  shows "run_all exposed escalated g"
proof -
  have ok: "store_ok g" and r: "r \<in> set (keys (dag g))" using assms(1) by (auto simp: race_inv_def known_def)
  have "check_continuity exposed escalated g"
    using ok by (auto simp: check_continuity_def list_all_iff store_ok_def quiet_def plain_node_def criticality_def split: option.splits dest!: map_of_SomeD)
  moreover have "check_closure_correctness g"
  proof -
    have "x = r" if "x \<in> set (event_roots (quarantine_events g))" for x using that assms(1) by (auto simp: race_inv_def event_roots_def)
    moreover have "set (recorded_cp (quarantine_events g) r) = set (independent_bfs (dag g) [r])" if "quarantine_events g \<noteq> []"
      using that assms(1) r reach_stored [of "{r}" "dag g"] by (simp add: race_inv_def set_independent_bfs)
    ultimately show ?thesis by (force simp: check_closure_correctness_def list_all_iff event_roots_def)
  qed
  ultimately show ?thesis using store_oracle [OF ok] by (simp add: run_all_def)
qed

text \<open>The sleeper race ends well. From every state that the clients can reach before the first designation, any number of strikes at one node and of writes that
  build on it, in any order, leave a state on which all assertions of the oracle pass: what derives from the poison is quarantined, and the blast radii on record are the closure.\<close>

theorem sleeper_race_passes:
  assumes "client_ready cfg e enc validate" and "(storm_step cfg e enc validate adapter)\<^sup>*\<^sup>* (storm_start w) s" and "quarantine_events (gs (st_world s)) = []"
    and "poison \<in> set (active_nodes s)" and "poison \<noteq> []" and "(race_step cfg e enc validate adapter (DIGEST s) poison)\<^sup>*\<^sup>* (st_world s) w'"
  shows "run_all exposed escalated (gs w')"
proof -
  have "storm_inv e enc s" using run_inv [OF assms(2) start_inv assms(1)] .
  then have "race_inv (DIGEST s) poison (gs (st_world s))" using assms(3,4) by (simp add: race_inv_def storm_inv_def clients_ok_def)
  then show ?thesis using race_oracle race_run [OF assms(6,1,5)] assms(5) by blast
qed

theorem sleeper_race_passes_witness:
  "run_all [] [] (gs (snd (designate_poison enforcing (storm_env\<lparr>now_us := 0\<rparr>) (\<lambda>_. Adapter_Timeout) (Some ''Bearer t'')
     \<lparr>poisoned_node_id = ''clean-parent-1'', de_reason = ''poison''\<rparr> (st_world (storm_start init_world)))))"
proof (rule sleeper_race_passes [OF storm_env_ready rtranclp.rtrancl_refl])
  show "(race_step enforcing storm_env unary_encode schema_validator (\<lambda>_. Adapter_Timeout) (DIGEST (storm_start init_world)) ''clean-parent-1'')\<^sup>*\<^sup>* (st_world (storm_start init_world))
     (snd (designate_poison enforcing (storm_env\<lparr>now_us := 0\<rparr>) (\<lambda>_. Adapter_Timeout) (Some ''Bearer t'')
       \<lparr>poisoned_node_id = ''clean-parent-1'', de_reason = ''poison''\<rparr> (st_world (storm_start init_world))))"
    by (rule r_into_rtranclp) (rule strike)
qed (simp_all add: storm_start_def reset_sync_def)

text \<open>The closure assertion is sound for writes on the root only. After a refused write on another node of the closure, the event names that node as its root, the union
  of the radii recorded for the first root lacks the new node, and the assertion reports a mismatch although the node is quarantined.\<close>

theorem closure_assertion_stale:
  assumes "fst (submit_candidate cfg e rego_engine validate req w) = Inr (Refused_Tainted info)" and "body_json req = Some p" and "parent_ids p = [par]" and "par \<noteq> r"
    and "r \<in> set (event_roots (quarantine_events (gs w)))" and "set (recorded_cp (quarantine_events (gs w)) r) \<subseteq> set (keys (dag (gs w)))"
    and "(stored_derives (dag (gs w)))\<^sup>*\<^sup>* r par" and "payload_id p \<notin> set (keys (dag (gs w)))" and "par \<in> set (keys (dag (gs w)))"
  shows "\<not> check_closure_correctness (gs (snd (submit_candidate cfg e rego_engine validate req w)))"
proof -
  let ?g = "gs w" and ?g' = "gs (snd (submit_candidate cfg e rego_engine validate req w))"
  obtain t where t: "t \<in> set (parent_ids p)" and run: "snd (submit_candidate cfg e rego_engine validate req w) = snd (refuse_tainted cfg e (with_gap ?g p) t (snd (fresh_uuid e w)))"
    and "fst (refuse_tainted cfg e (with_gap ?g p) t (snd (fresh_uuid e w))) = Refused_Tainted info"
    using submit_taintedE [OF assms(1)] assms(2) by (metis IntD1 option.inject)
  have "t = par" using t assms(3) by simp
  have dag: "dag ?g' = dag ?g @ [(payload_id p, with_gap ?g p)]" using assms(8) by (simp add: run refuse_tainted_effect) (simp add: commit_node_def)
  obtain ev where ev: "quarantine_events ?g' = quarantine_events ?g @ [ev]" "poisoned_root_id ev = par"
    using refuse_tainted_effect(3) [of cfg e "with_gap ?g p" t "snd (fresh_uuid e w)"] by (auto simp: run \<open>t = par\<close>)
  have sub: "stored_derives (dag ?g) x y \<Longrightarrow> stored_derives (dag ?g') x y" for x y by (auto simp: stored_derives_def dag derives_append)
  have "(stored_derives (dag ?g'))\<^sup>*\<^sup>* r par" by (rule rtranclp_mono [THEN predicate2D, OF _ assms(7)]) (auto intro: sub)
  moreover have "stored_derives (dag ?g') par (payload_id p)" using assms(3,9) by (simp add: stored_derives_def dag derives_append touches_def)
  ultimately have "payload_id p \<in> set (independent_bfs (dag ?g') [r])"
    using rtranclp.rtrancl_into_rtrancl by (fastforce simp: set_independent_bfs reach_from_def)
  moreover have "payload_id p \<notin> set (recorded_cp (quarantine_events ?g') r)"
    using assms(4,6,8) by (auto simp: ev recorded_cp_append)
  moreover have "r \<in> set (event_roots (quarantine_events ?g'))" using assms(5) by (simp add: ev event_roots_append)
  ultimately show ?thesis by (auto simp: check_closure_correctness_def list_all_iff)
qed

section \<open>The oracle can fail\<close>

text \<open>The tampering of \<open>prove_falsifiability\<close>: one node is taken out of the quarantine, or out of the recorded blast radius.\<close>

definition drop_from_ledger :: "node_id \<Rightarrow> gstate \<Rightarrow> gstate" where
  "drop_from_ledger n s = s\<lparr>quarantine_ledger := removeAll n (quarantine_ledger s)\<rparr>"

definition drop_node :: "node_id \<Rightarrow> node_id \<Rightarrow> quarantine_event \<Rightarrow> quarantine_event" where
  "drop_node r n ev = (if poisoned_root_id ev = r then ev\<lparr>computed_blast_radius_C_p := removeAll n (computed_blast_radius_C_p ev)\<rparr> else ev)"

definition drop_from_events :: "node_id \<Rightarrow> node_id \<Rightarrow> gstate \<Rightarrow> gstate" where
  "drop_from_events r n s = s\<lparr>quarantine_events := map (drop_node r n) (quarantine_events s)\<rparr>"

lemma drop_node_sel:
  "poisoned_root_id (drop_node r n ev) = poisoned_root_id ev" "poisoned_root_id ev = r \<Longrightarrow> n \<notin> set (computed_blast_radius_C_p (drop_node r n ev))"
  by (simp_all add: drop_node_def)

lemma recorded_drop: "n \<notin> set (recorded_cp (map (drop_node r n) evs) r)"
  by (auto simp: recorded_cp_def drop_node_sel)

lemma drop_from_events_dag: "dag (drop_from_events r n s) = dag s"
  by (simp add: drop_from_events_def)

text \<open>The oracle is falsifiable, node by node. Whatever state it is shown, if a node that derives from the root of an event through parents or covers is missing from the quarantine
  the containment assertion fails, and if it is missing from the blast radii recorded for that root the closure assertion fails.\<close>

theorem oracle_falsifiable:
  assumes "r \<in> set (event_roots (quarantine_events s))" and "(stored_derives (dag s))\<^sup>*\<^sup>* r n"
  shows "\<not> check_containment (drop_from_ledger n s) \<and> \<not> check_closure_correctness (drop_from_events r n s)"
proof -
  have n: "n \<in> set (independent_bfs (dag s) [r])" "n \<in> set (independent_bfs (dag s) (event_roots (quarantine_events s)))"
    using assms by (auto simp: set_independent_bfs reach_from_def)
  have roots: "event_roots (quarantine_events (drop_from_events r n s)) = event_roots (quarantine_events s)"
    by (simp add: drop_from_events_def event_roots_def comp_def drop_node_sel)
  have "n \<notin> set (recorded_cp (quarantine_events (drop_from_events r n s)) r)"
    unfolding drop_from_events_def by (simp add: recorded_drop)
  then have "\<not> check_closure_correctness (drop_from_events r n s)"
    using n(1) assms(1) roots unfolding check_closure_correctness_def list_all_iff by (metis drop_from_events_dag)
  moreover have "\<not> check_containment (drop_from_ledger n s)"
    using n(2) by (auto simp: check_containment_def list_all_iff drop_from_ledger_def)
  ultimately show ?thesis by blast
qed

theorem oracle_falsifiable_witness:
  "\<not> check_containment (drop_from_ledger ''clean-parent-1'' (apply_quarantine_transaction demo_root_event [''clean-parent-1''] init_state))"
  using oracle_falsifiable [of "''clean-parent-1''" "apply_quarantine_transaction demo_root_event [''clean-parent-1''] init_state" "''clean-parent-1''"]
  by (simp add: apply_quarantine_transaction_def event_roots_def demo_root_event_def)

section \<open>Laundering through a compaction\<close>

text \<open>\<open>now\<close> of \<open>gasc.py\<close>: milliseconds and a \<open>Z\<close>.\<close>

definition gasc_now :: "datetime \<Rightarrow> utc" where
  "gasc_now t = take 23 (date_time t @ ''.'' @ digits 6 (microsecond t)) @ ''Z''"

definition compaction ::
    "env \<Rightarrow> (json_object \<Rightarrow> string) \<Rightarrow> int \<Rightarrow> datetime \<Rightarrow> datetime \<Rightarrow> nat \<Rightarrow> node_id \<Rightarrow> string \<Rightarrow> node_id \<Rightarrow> node_id list \<Rightarrow> json_object \<Rightarrow> payload" where
  "compaction e enc clock now expires k pid bid par cs content =
     (let ident = encode_raw (keygen e k); dig = content_hash e content
      in (bare_payload pid [\<lparr>parent_node_id = par, parent_content_hash = Some reset_seed_hash, edge_class = None\<rparr>])\<lparr>
        timestamp_utc := Some (gasc_now now),
        ephemeral_nhi := Some \<lparr>identity_id = Some ident, session_token = Some (make_session_token enc clock ident ''agent'' []), nhi_expires_at_utc = Some (gasc_now expires)\<rparr>,
        declared_evidence_boundary := Some \<lparr>boundary_id = bid, fixed_at_utc = gasc_now now, boundary_digest = replicate 64 CHR ''f''\<rparr>,
        state_content := Some content, content_digest_sha256 := Some dig, agent_signature := Some (raw_signature_hex e k dig),
        signature_algorithm := Some ''ECDSA-P256-SHA256'', node_type := Some ''COMPACTION'', covers := cs,
        summarizer := Some \<lparr>method_id = Some ''m'', config_digest = Some ''d''\<rparr>\<rparr>)"

lemma compaction_sel:
  assumes "p = compaction e enc clock now expires k pid bid par cs content"
  shows "payload_id p = pid" "parent_ids p = [par]" "covers p = cs" "node_type p = Some ''COMPACTION''" "state_content p = Some content"
    "content_digest_sha256 p = Some (content_hash e content)" "agent_signature p = Some (sign_content e k content)" "nhi_identity p = Some (encode_raw (keygen e k))"
    "nhi_token p = Some (enc (session_claims clock (encode_raw (keygen e k)) ''agent'' []))" "signature_algorithm p = Some ''ECDSA-P256-SHA256''" "boundary_fixed p"
    "boundary_fixed (with_gap s p)"
  unfolding assms
  by (simp_all add: compaction_def Let_def bare_payload_def parent_ids_def sign_content_def raw_signature_hex_def encode_raw_def nhi_identity_def nhi_token_def
      make_session_token_def boundary_fixed_def gasc_now_def with_gap_def split_beta)

lemma compaction_gate:
  assumes "client_ready cfg e enc validate" and "p = compaction e enc clock now expires k pid bid par cs content" and "len \<le> MAX_PAYLOAD_BYTES cfg"
  shows "submit_gate cfg e validate \<lparr>body_length = len, body_json = Some p\<rparr> = Inr (p, session_claims clock (encode_raw (keygen e k)) ''agent'' [])"
proof (rule signed_gate)
  have "CHR ''e'' \<in> set hex_digits" "CHR ''f'' \<in> set hex_digits" by (simp_all add: hex_digits_def)
  then have "schema_valid p" using assms(1)
    by (simp add: assms(2) compaction_def bare_payload_def schema_valid_def valid_nhi_def valid_boundary_def valid_commitment_def client_ready_def reset_seed_hash_def Let_def)
  then show "validate p = None" using assms(1) by (simp add: client_ready_def validates_def)
qed (use assms(1,3) compaction_sel [OF assms(2)] in \<open>simp_all add: client_ready_def\<close>)

text \<open>A compaction that passed the gate: refused for what it covers, or committed.\<close>

lemma compaction_refused:
  assumes "submit_gate cfg e validate rq = Inr (p, auth)" and "node_type p = Some ''COMPACTION''" and "payload_id p \<notin> set (quarantine_ledger (gs w))"
    and "set (covers p) \<inter> set (quarantine_ledger (gs w)) \<noteq> {}"
  shows "fst (submit_candidate cfg e opa validate rq w) = Inl (HTTPException 403 ''TAINTED_COVERS'')" and "gs (snd (submit_candidate cfg e opa validate rq w)) = gs w"
proof -
  have "tainted_covers (gs w) p \<noteq> []" using assms(2,4) by (simp add: tainted_covers_Nil)
  then show "fst (submit_candidate cfg e opa validate rq w) = Inl (HTTPException 403 ''TAINTED_COVERS'')" "gs (snd (submit_candidate cfg e opa validate rq w)) = gs w"
    using assms(1,3) by (simp_all add: submit_candidate_def transaction_def admission_transaction_def Let_def)
qed

lemma compaction_committed:
  assumes "submit_gate cfg e validate rq = Inr (p, session_claims clock ident role [])" and "ENFORCEMENT_MODE cfg \<noteq> ''shadow''"
    and "node_type p = Some ''COMPACTION''" and "parent_ids p = [par]" and "boundary_fixed (with_gap (gs w) p)"
    and "state_content p = Some content" and "map_of content ''justification'' = None" and "epoch_of e < clock + 3600"
    and "payload_id p \<notin> set (keys (dag (gs w))) \<union> set (quarantine_ledger (gs w)) \<union> {''none''}"
    and "map_of (dag (gs w)) par = Some nd" and "content_digest_sha256 nd = None" and "par \<notin> set (quarantine_ledger (gs w))"
    and "set (covers p) \<inter> set (quarantine_ledger (gs w)) = {}" and "r = submit_candidate cfg e rego_engine validate rq w"
  shows "fst r = Inr (Committed False)" and "dag (gs (snd r)) = dag (gs w) @ [(payload_id p, with_gap (gs w) p)]"
    and "quarantine_ledger (gs (snd r)) = quarantine_ledger (gs w)" and "quarantine_events (gs (snd r)) = quarantine_events (gs w)"
    and "signal_attempts (gs (snd r)) = signal_attempts (gs w)" and "repair_candidates (gs (snd r)) = repair_candidates (gs w)"
proof -
  let ?auth = "session_claims clock ident role []" and ?p = "with_gap (gs w) p"
  have run: "r = transaction (admission_transaction cfg e rego_engine p ?auth) (snd (fresh_uuid e w))" by (simp add: assms(1,14) submit_candidate_def)
  have "par \<in> set (keys (dag (gs w)))" using assms(10) map_of_eq_None_keys [of "dag (gs w)" par] by auto
  then have adm: "evaluate_admission rego_engine (epoch_of e) ?p [par] (nodes_exist [par] (gs w)) (are_quarantined [par] (gs w)) ?auth = Inr Admit"
    unfolding admission_iff using assms(4-9,12) by (simp add: session_claims_sel content_entry_def)
  have nm: "\<not> hash_mismatch (get_node_content_hashes [par] (gs w)) p"
  proof -
    have "parent_node_id c = par" if "c \<in> set (parent_dependency_commitments p)" for c using assms(4) that by (auto simp: parent_ids_def)
    then show ?thesis using hash_mismatch_iff [of p "gs w"] assms(4,10,11) by auto
  qed
  have "tainted_covers (gs w) p = []" using assms(13) by (simp add: tainted_covers_Nil)
  then show "fst r = Inr (Committed False)" "dag (gs (snd r)) = dag (gs w) @ [(payload_id p, ?p)]" "quarantine_ledger (gs (snd r)) = quarantine_ledger (gs w)"
    "quarantine_events (gs (snd r)) = quarantine_events (gs w)" "signal_attempts (gs (snd r)) = signal_attempts (gs w)" "repair_candidates (gs (snd r)) = repair_candidates (gs w)"
    using adm nm assms(2,4,9)
    by (simp_all add: run transaction_def admission_transaction_def Let_def enforce_decision_def commit_node_def check_retry_completion_def record_shadow_decision_def)
qed

text \<open>A designation sweeps what covers the designated node.\<close>

lemma designation_sweeps:
  assumes "fst (designate_poison cfg e adapter hdr ev w) = Inr (Designated qe sv)" and "derives (dag (gs w)) (poisoned_node_id ev) n"
  shows "n \<in> set (quarantine_ledger (gs (snd (designate_poison cfg e adapter hdr ev w))))"
  using designated_effect [OF assms(1)] assms(2) by (auto simp: Let_def)

text \<open>C23: Poison cannot be laundered through a summary. A compaction with a clean parent that covers a quarantined node is refused with 403 and leaves no trace; one that covers
  clean nodes is committed, and when a node it covers is designated later it is quarantined with it.\<close>

theorem laundering_blocked:
  assumes "client_ready cfg e enc validate" and "p = compaction e enc clock now expires k pid bid par cs content" and "len \<le> MAX_PAYLOAD_BYTES cfg" and "epoch_of e < clock + 3600"
    and "pid \<notin> set (keys (dag (gs w))) \<union> set (quarantine_ledger (gs w)) \<union> {''none''}" and "map_of (dag (gs w)) par = Some nd" and "content_digest_sha256 nd = None"
    and "par \<notin> set (quarantine_ledger (gs w))" and "map_of content ''justification'' = None"
    and "r = submit_candidate cfg e rego_engine validate \<lparr>body_length = len, body_json = Some p\<rparr> w"
  shows "if set cs \<inter> set (quarantine_ledger (gs w)) \<noteq> {}
    then fst r = Inl (HTTPException 403 ''TAINTED_COVERS'') \<and> gs (snd r) = gs w
    else fst r = Inr (Committed False) \<and>
      (\<forall>c\<in>set cs. \<forall>e' adapter hdr why qe sv. let d = designate_poison cfg e' adapter hdr \<lparr>poisoned_node_id = c, de_reason = why\<rparr> (snd r) in
         fst d = Inr (Designated qe sv) \<longrightarrow> pid \<in> set (quarantine_ledger (gs (snd d))))"
proof -
  note sel = compaction_sel [OF assms(2)] and gate = compaction_gate [OF assms(1-3)]
  show ?thesis
  proof (cases "set cs \<inter> set (quarantine_ledger (gs w)) = {}")
    case False
    then show ?thesis using compaction_refused [OF gate, of w rego_engine] assms(5,10) by (simp add: sel)
  next
    case True
    then have ok: "fst r = Inr (Committed False)" and st: "dag (gs (snd r)) = dag (gs w) @ [(pid, with_gap (gs w) p)]"
      using compaction_committed(1,2) [OF gate, of par w content nd r] assms(1,4-10) by (simp_all add: sel client_ready_def)
    have "derives (dag (gs (snd r))) c pid" if "c \<in> set cs" for c
      using that by (simp add: st derives_append touches_def sel)
    then show ?thesis using True ok designation_sweeps by (simp add: Let_def)
  qed
qed

theorem laundering_blocked_witness:
  "fst (submit_candidate enforcing storm_env rego_engine schema_validator \<lparr>body_length = 900, body_json = Some (compaction storm_env unary_encode 0
     (Datetime 2026 1 1 0 0 0 0) (Datetime 2026 1 1 1 0 0 0) 0 ''c1'' ''b1'' ''clean-parent-1'' [''quarantined-node-A''] [(''summary'', JStr ''x'')])\<rparr> init_world)
     = Inl (HTTPException 403 ''TAINTED_COVERS'')"
proof -
  have "set [''quarantined-node-A''] \<inter> set (quarantine_ledger (gs init_world)) \<noteq> {}" by (simp add: init_world_sel)
  moreover have "map_of (dag (gs init_world)) ''clean-parent-1'' = Some (bare_payload ''clean-parent-1'' [])" by (simp add: init_world_def init_state_def)
  moreover have "epoch_of storm_env < 0 + 3600" by (simp add: epoch_of_def storm_env_def client_env_def demo_env_def)
  ultimately show ?thesis
    using laundering_blocked [OF storm_env_ready refl _ _ _ _ _ _ _ refl, where w = init_world and cs = "[''quarantined-node-A'']" and pid = "''c1''" and par = "''clean-parent-1''" and
      nd = "bare_payload ''clean-parent-1'' []" and content = "[(''summary'', JStr ''x'')]" and len = 900 and clock = 0]
    by (simp add: enforcing_size init_world_sel)
qed

section \<open>Recovery from a poisoned root\<close>

text \<open>Designating a root does not deny writes for ever. However much is quarantined, an administrator can seed a new root under an unused name, and from then on the client, which reads the digest of the root
  from the database, is served on it; nobody else can seed one.\<close>

theorem seed_restores_writes:
  assumes "client_ready cfg e enc validate" and "verify_role_jwt e hdr ''admin'' = Inr claims" and "i \<noteq> []" and "i \<notin> set (keys (dag (gs w))) \<union> set (quarantine_ledger (gs w))"
    and "w1 = snd (seed_root e hdr (Some i) w)" and "map_of digests i = Option.bind (map_of (dag (gs w1)) i) content_digest_sha256" and "digests_ok digests"
    and "p = storm_candidate e enc digests clock now expires k pid bid i v" and "pid \<notin> set (quarantine_ledger (gs w)) \<union> {''none''}"
    and "len \<le> MAX_PAYLOAD_BYTES cfg" and "epoch_of e < clock + 3600"
  shows "fst (submit_candidate cfg e rego_engine validate \<lparr>body_length = len, body_json = Some p\<rparr> w1) = Inr (Committed (pid \<in> insert i (set (keys (dag (gs w))))))"
proof -
  obtain k0 pub where sp: "dag (gs w1) = dag (gs w) @ [(i, seed_payload e (claim_sub claims ''unknown'') k0 pub i)]" "quarantine_ledger (gs w1) = quarantine_ledger (gs w)"
    using assms(2-5) by (auto simp: seed_root_def generate_key_def draw_def Let_def seed_payload_def commit_node_def)
  have p: "p = fix_parent_hash digests (build_valid_candidate e enc clock now expires k pid bid [i] [(''v'', JStr v)] ''agent'')"
    using assms(8) by (simp add: storm_candidate_def client_candidate_def)
  note sel = candidate_sel [OF p]
  have gate: "submit_gate cfg e validate \<lparr>body_length = len, body_json = Some p\<rparr> = Inr (p, session_claims clock (encode_raw (keygen e k)) ''agent'' [])"
    using client_gate [OF _ _ p, of validate len cfg] assms(1,10) candidate_valid(1) [OF assms(1,7,8)] by (simp add: client_ready_def)
  have adm: "evaluate_admission rego_engine (epoch_of e) p [i] (nodes_exist [i] (gs w1)) (are_quarantined [i] (gs w1)) (session_claims clock (encode_raw (keygen e k)) ''agent'' []) = Inr Admit"
    using client_admission [OF p, of "gs w1" "epoch_of e"] assms(4,9,11) by (simp add: sp)
  have "\<not> hash_mismatch (get_node_content_hashes [i] (gs w1)) p" using client_hashes_match [OF p, of "gs w1"] assms(6) by simp
  then show ?thesis
    using adm assms(1,9)
    by (auto simp: submit_candidate_def gate fst_transaction admission_transaction_def Let_def enforce_decision_def tainted_covers_def sel client_ready_def split_beta commit_node_new sp)
qed

definition admin_storm_env :: env where
  "admin_storm_env = storm_env\<lparr>jwt_decode := \<lambda>tok. if tok = ''admin'' then Some [(''role'', JStr ''admin'')] else jwt_decode storm_env tok\<rparr>"

lemma admin_env_ready: "client_ready enforcing admin_storm_env unary_encode schema_validator"
proof -
  have "unary_encode (session_claims clock i ''agent'' []) \<noteq> ''admin''" for clock i by (simp add: unary_encode_def session_claims_sel unary_clock_def)
  then show ?thesis using storm_env_ready by (simp add: client_ready_def admin_storm_env_def gateway_crypto_def)
qed

theorem seed_restores_writes_witness:
  "fst (submit_candidate enforcing admin_storm_env rego_engine schema_validator \<lparr>body_length = 900, body_json = Some (storm_candidate admin_storm_env unary_encode
     [(''new-root-1'', replicate 64 CHR ''a'')] 0 (Datetime 2026 1 1 0 0 0 0) (Datetime 2026 1 1 1 0 0 0) 0 ''w1'' ''b1'' ''new-root-1'' ''restored'')\<rparr>
     (snd (seed_root admin_storm_env (Some ''Bearer admin'') (Some ''new-root-1'') init_world))) = Inr (Committed False)"
proof -
  let ?w1 = "snd (seed_root admin_storm_env (Some ''Bearer admin'') (Some ''new-root-1'') init_world)"
  have role: "verify_role_jwt admin_storm_env (Some ''Bearer admin'') ''admin'' = Inr [(''role'', JStr ''admin'')]"
    by (simp add: verify_role_jwt_def bearer_token_def admin_storm_env_def)
  have "map_of [(''new-root-1'', replicate 64 CHR ''a'')] ''new-root-1'' = Option.bind (map_of (dag (gs ?w1)) ''new-root-1'') content_digest_sha256"
    by (simp add: seed_root_def role generate_key_def draw_def Let_def seed_payload_def commit_node_def init_world_def init_state_def)
      (simp add: admin_storm_env_def storm_env_def)
  moreover have "digests_ok [(''new-root-1'', replicate 64 CHR ''a'')]" by (simp add: digests_ok_def hex_digits_def)
  moreover have "epoch_of admin_storm_env < 0 + 3600" by (simp add: epoch_of_def admin_storm_env_def storm_env_def client_env_def demo_env_def)
  ultimately show ?thesis
    using seed_restores_writes [OF admin_env_ready role _ _ refl _ _ refl, of "''new-root-1''" init_world "[(''new-root-1'', replicate 64 CHR ''a'')]" "''w1''" 900 0]
    by (simp add: init_world_sel enforcing_size)
qed

text \<open>The guards that must stay held: nobody but an administrator seeds a root, a quarantined identifier is not accepted again in any request, trust in a quarantined node is
  not renewed, and it is not exposed as a substitute.\<close>

theorem seed_needs_admin:
  assumes "verify_role_jwt e hdr ''admin'' = Inl ex"
  shows "seed_root e hdr root_id w = (Inl ex, w) \<and> status_code ex = 401"
  using assms by (auto simp: seed_root_def) (auto simp: verify_role_jwt_def split: option.splits if_splits)

theorem quarantine_not_rehabilitated:
  assumes "n \<in> set (quarantine_ledger (gs w))"
  shows "submit_gate cfg e validate req = Inr (p, auth) \<Longrightarrow> payload_id p = n \<Longrightarrow>
      fst (submit_candidate cfg e opa validate req w) = Inl (HTTPException 409 ''payload_id is quarantined; cannot reuse a quarantined identity'')"
    and "verify_role_jwt e hdr ''designator'' = Inr claims \<Longrightarrow> \<exists>why. renew_trust_handler cfg e hdr n w = (Inl (HTTPException 403 why), w)"
    and "n \<noteq> [] \<Longrightarrow> \<exists>ex. continuity_expose e hdr (Some n) status w = (Inl ex, w)"
  using assms
  by (auto simp: submit_candidate_def fst_transaction admission_transaction_def Let_def renew_trust_handler_def)
    (auto simp: continuity_expose_def Let_def split: sum.splits)

end
