(* ===== verification/Harness.thy ===== *)
theory Harness
  imports Live_Run Reports
begin

text \<open>
  The scripted client of the black-box tests: \<open>req\<close> and \<open>mint_jwt\<close> of \<open>blackbox_test/gasc.py\<close>, and \<open>submit\<close>, \<open>designate\<close>, \<open>reset\<close>, \<open>db\<close> and
  \<open>quarantine_set\<close> of \<open>blackbox_test/harness.py\<close> as operations on a session, which is the gateway's state and the digests the client remembers.
  What the client draws for a request (identifier, key, times) is a parameter of the request. The last section says when a
  write is accepted, when it is refused, and when a designation succeeds.
\<close>

section \<open>Requests\<close>

datatype http_outcome =
    Http_Response nat string
  | Http_Error nat string \<comment> \<open>\<open>urllib\<close> raises for a status of 400 and above\<close>
  | Net_Exception string \<comment> \<open>any other exception\<close>

record req_result =
  rq_status :: "nat option"
  rq_body :: "string option"
  rq_json :: "json option"
  rq_error :: "string option"

definition req_headers :: "string option \<Rightarrow> (string, string) dict \<Rightarrow> (string, string) dict" where
  "req_headers token raw = foldl (\<lambda>d (k, v). AList.update k v d)
     ((''Content-Type'', ''application/json'') # (case token of None \<Rightarrow> [] | Some t \<Rightarrow> [(''Authorization'', ''Bearer '' @ t)])) raw"

definition http_req :: "(string \<Rightarrow> json option) \<Rightarrow> bool \<Rightarrow> http_outcome \<Rightarrow> req_result" where
  "http_req loads expect_json out =
     (case out of
        Net_Exception r \<Rightarrow> \<lparr>rq_status = None, rq_body = None, rq_json = None, rq_error = Some r\<rparr>
      | Http_Response code raw \<Rightarrow> \<lparr>rq_status = Some code, rq_body = Some raw, rq_json = (if expect_json then loads raw else None), rq_error = None\<rparr>
      | Http_Error code raw \<Rightarrow> \<lparr>rq_status = Some code, rq_body = Some raw, rq_json = (if expect_json then loads raw else None), rq_error = None\<rparr>)"

text \<open>How \<open>urllib\<close> hands over an answer of the gateway; \<open>req\<close> reports its status either way.\<close>

definition deliver :: "nat \<Rightarrow> string \<Rightarrow> http_outcome" where
  "deliver code raw = (if code < 400 then Http_Response code raw else Http_Error code raw)"

lemma req_deliver: "rq_status (http_req loads ej (deliver code raw)) = Some code" "rq_body (http_req loads ej (deliver code raw)) = Some raw"
  by (simp_all add: http_req_def deliver_def)

definition mint_jwt :: "(json_object \<Rightarrow> string) \<Rightarrow> string \<Rightarrow> string \<Rightarrow> string" where
  "mint_jwt enc sub role = enc [(''sub'', JStr sub), (''role'', JStr role)]"

text \<open>The header that \<open>req\<close> sends with such a token, as the gateway reads it.\<close>

definition auth_header :: "string \<Rightarrow> string option" where
  "auth_header tok = map_of (req_headers (Some tok) []) ''Authorization''"

section \<open>Sessions\<close>

record site =
  s_cfg :: settings
  s_env :: env
  s_enc :: "json_object \<Rightarrow> string"
  s_validate :: "payload \<Rightarrow> schema_error option"
  s_adapter :: "reconstruct_request \<Rightarrow> adapter_reply"

record client_session =
  h_world :: world
  h_digest :: "(node_id, string) dict" \<comment> \<open>\<open>DIGEST\<close>\<close>

text \<open>What the client draws for a request, and the time at the gateway.\<close>

record request_draw =
  d_us :: int
  d_clock :: int
  d_now :: datetime
  d_expires :: datetime
  d_key :: nat
  d_pid :: node_id
  d_bid :: string
  d_len :: nat

definition env_at :: "site \<Rightarrow> int \<Rightarrow> env" where
  "env_at x t = (s_env x)\<lparr>now_us := t\<rparr>"

definition admin_header :: "site \<Rightarrow> string option" where
  "admin_header x = auth_header (mint_jwt (s_enc x) ''x'' ''admin'')"

text \<open>\<open>submit\<close> with its default arguments; \<open>mutate\<close> changes the candidate before it is sent.\<close>

definition h_candidate :: "site \<Rightarrow> request_draw \<Rightarrow> node_id list \<Rightarrow> json_object \<Rightarrow> (node_id, string) dict \<Rightarrow> payload" where
  "h_candidate x d parents state digests =
     client_candidate (s_env x) (s_enc x) digests (d_clock d) (d_now d) (d_expires d) (d_key d) (d_pid d) (d_bid d) parents state"

definition post_candidate :: "site \<Rightarrow> request_draw \<Rightarrow> payload \<Rightarrow> world \<Rightarrow> nat \<times> world" where
  "post_candidate x d p w =
     (case submit_candidate (s_cfg x) (env_at x (d_us d)) rego_engine (s_validate x) \<lparr>body_length = d_len d, body_json = Some p\<rparr> w of
        (res, w') \<Rightarrow> (status_of res, w'))"

definition h_submit :: "site \<Rightarrow> request_draw \<Rightarrow> (payload \<Rightarrow> payload) \<Rightarrow> node_id list \<Rightarrow> json_object \<Rightarrow> client_session \<Rightarrow> (node_id \<times> nat) \<times> client_session" where
  "h_submit x d mutate parents state s =
     (let p = mutate (h_candidate x d parents state (h_digest s)) in
      case post_candidate x d p (h_world s) of
        (st, w) \<Rightarrow> ((payload_id p, st), \<lparr>h_world = w,
          h_digest = (if st = 200 then AList.update (payload_id p) (content_hash (s_env x) (case state_content p of None \<Rightarrow> [] | Some c \<Rightarrow> c)) (h_digest s) else h_digest s)\<rparr>))"

fun designate_status :: "designate_response result \<Rightarrow> nat" where
  "designate_status (Inl ex) = status_code ex"
| "designate_status (Inr Node_Not_Found) = 404"
| "designate_status (Inr _) = 200"

definition h_designate :: "site \<Rightarrow> int \<Rightarrow> node_id \<Rightarrow> client_session \<Rightarrow> nat \<times> client_session" where
  "h_designate x t n s =
     (case designate_poison (s_cfg x) (env_at x t) (s_adapter x) (auth_header (mint_jwt (s_enc x) ''designator'' ''designator''))
        \<lparr>poisoned_node_id = n, de_reason = ''poison''\<rparr> (h_world s) of (r, w) \<Rightarrow> (designate_status r, s\<lparr>h_world := w\<rparr>))"

fun plain_status :: "'a result \<Rightarrow> nat" where
  "plain_status (Inl ex) = status_code ex"
| "plain_status (Inr _) = 200"

definition h_reset :: "site \<Rightarrow> client_session \<Rightarrow> nat \<times> client_session" where
  "h_reset x s = (case reset_db (s_cfg x) (s_env x) (admin_header x) (h_world s) of (r, w) \<Rightarrow> (plain_status r, s\<lparr>h_world := w\<rparr>))"

text \<open>\<open>db()\<close>, \<open>quarantine_set()\<close> and \<open>dag_ids()\<close>; the answer to a refused request has none of the keys.\<close>

definition h_dag :: "site \<Rightarrow> client_session \<Rightarrow> (node_id, payload) dict" where
  "h_dag x s = (case get_db_state (s_cfg x) (s_env x) (admin_header x) (gs (h_world s)) of Inl _ \<Rightarrow> [] | Inr (d, l, ev, rc) \<Rightarrow> d)"

definition quarantine_set :: "site \<Rightarrow> client_session \<Rightarrow> node_id set" where
  "quarantine_set x s = (case get_db_state (s_cfg x) (s_env x) (admin_header x) (gs (h_world s)) of Inl _ \<Rightarrow> {} | Inr (d, l, ev, rc) \<Rightarrow> set l)"

definition dag_ids :: "site \<Rightarrow> client_session \<Rightarrow> node_id set" where
  "dag_ids x s = set (keys (h_dag x s))"

section \<open>What a session relies on\<close>

definition token_ok :: "site \<Rightarrow> string \<Rightarrow> string \<Rightarrow> bool" where
  "token_ok x sub role \<longleftrightarrow> CHR '' '' \<notin> set (mint_jwt (s_enc x) sub role) \<and>
     jwt_decode (s_env x) (mint_jwt (s_enc x) sub role) = Some [(''sub'', JStr sub), (''role'', JStr role)]"

text \<open>The gateway runs in debug mode, accepts the tokens of the scripts, and admits at least one designation.\<close>

definition site_ready :: "site \<Rightarrow> bool" where
  "site_ready x \<longleftrightarrow> client_ready (s_cfg x) (s_env x) (s_enc x) (s_validate x) \<and> DEBUG_MODE (s_cfg x) \<and> 0 < DESIGNATION_RATE_LIMIT (s_cfg x) \<and>
     token_ok x ''x'' ''admin'' \<and> token_ok x ''designator'' ''designator'' \<and> token_ok x ''d'' ''designator'' \<and> token_ok x ''s'' ''agent''"

text \<open>A request that arrives in time, of a permitted size, with an identifier that is in use nowhere.\<close>

definition request_ok :: "site \<Rightarrow> request_draw \<Rightarrow> gstate \<Rightarrow> bool" where
  "request_ok x d g \<longleftrightarrow> epoch_of (env_at x (d_us d)) < d_clock d + 3600 \<and> d_len d \<le> MAX_PAYLOAD_BYTES (s_cfg x) \<and>
     d_pid d \<notin> set (keys (dag g)) \<union> set (quarantine_ledger g) \<union> {''none''}"

text \<open>The store is plain and contained, and the client knows the digest of every stored node that is not quarantined.\<close>

definition session_ok :: "client_session \<Rightarrow> bool" where
  "session_ok s \<longleftrightarrow> store_ok (gs (h_world s)) \<and> digests_ok (h_digest s) \<and> 
     (\<forall>n\<in>set (keys (dag (gs (h_world s)))) - set (quarantine_ledger (gs (h_world s))). known (gs (h_world s)) (h_digest s) n)"

lemma auth_header_eq: "auth_header tok = Some (''Bearer '' @ tok)"
  by (simp add: auth_header_def req_headers_def)

lemma verify_minted:
  assumes "token_ok x sub role"
  shows "verify_role_jwt (env_at x t) (auth_header (mint_jwt (s_enc x) sub role)) want =
    (if role = want then Inr [(''sub'', JStr sub), (''role'', JStr role)] else Inl (HTTPException 401 (''Unauthorized: Token must have '' @ want @ '' role'')))"
proof -
  have "bearer_token (''Bearer '' @ mint_jwt (s_enc x) sub role) = mint_jwt (s_enc x) sub role"
    using assms by (auto simp: bearer_token_def token_ok_def takeWhile_eq_all_conv)
  then show ?thesis using assms by (simp add: verify_role_jwt_def auth_header_eq env_at_def token_ok_def)
qed

lemma env_at_now: "env_at x (now_us (s_env x)) = s_env x"
  by (simp add: env_at_def)

lemma admin_verified: "site_ready x \<Longrightarrow> verify_role_jwt (s_env x) (admin_header x) ''admin'' = Inr [(''sub'', JStr ''x''), (''role'', JStr ''admin'')]"
  using verify_minted [of x "''x''" "''admin''" "now_us (s_env x)" "''admin''"] by (simp add: site_ready_def env_at_now admin_header_def)

lemma reads_of_ready:
  assumes "site_ready x"
  shows "h_dag x s = dag (gs (h_world s))" "quarantine_set x s = set (quarantine_ledger (gs (h_world s)))" "dag_ids x s = set (keys (dag (gs (h_world s))))"
proof -
  have "DEBUG_MODE (s_cfg x)" using assms by (simp add: site_ready_def)
  then show d: "h_dag x s = dag (gs (h_world s))" "quarantine_set x s = set (quarantine_ledger (gs (h_world s)))"
    by (simp_all add: h_dag_def quarantine_set_def get_db_state_def admin_verified [OF assms])
  then show "dag_ids x s = set (keys (dag (gs (h_world s))))" by (simp add: dag_ids_def)
qed

section \<open>What the operations do\<close>

lemma reset_ok:
  assumes "site_ready x" and "digests_ok (h_digest s)"
  shows "fst (h_reset x s) = 200" and "gs (h_world (snd (h_reset x s))) = reset_sync (gs (h_world s))" and "h_digest (snd (h_reset x s)) = h_digest s"
    and "session_ok (snd (h_reset x s))"
proof -
  have "DEBUG_MODE (s_cfg x)" using assms(1) by (simp add: site_ready_def)
  then have r: "h_reset x s = (200, s\<lparr>h_world := on_gs reset_sync (h_world s)\<rparr>)" by (simp add: h_reset_def reset_db_def admin_verified [OF assms(1)])
  then show "fst (h_reset x s) = 200" "gs (h_world (snd (h_reset x s))) = reset_sync (gs (h_world s))" "h_digest (snd (h_reset x s)) = h_digest s" by simp_all
  have "store_ok (reset_sync g)" for g
    by (auto simp: store_ok_def quiet_def reset_sync_def plain_node_def bare_payload_def parent_ids_def contained_def closed_under_def derives_def touches_def event_roots_def)
  then show "session_ok (snd (h_reset x s))" using assms(2) by (simp add: r session_ok_def known_def) (simp add: reset_sync_def bare_payload_def)
qed

text \<open>A write of the client on one stored parent: accepted if the parent is clean, refused and recorded as tainted if it is not.\<close>

lemma submit_recorded:
  assumes "site_ready x" and "session_ok s" and "request_ok x d (gs (h_world s))" and "par \<in> set (keys (dag (gs (h_world s))))"
    and "map_of state ''justification'' = None" and "p = h_candidate x d [par] state (h_digest s)"
    and "h_submit x d (\<lambda>p. p) [par] state s = ((i, st), s')"
  shows "i = d_pid d" and "recorded st p par (gs (h_world s)) (gs (h_world s'))" and "session_ok s'"
proof -
  let ?g = "gs (h_world s)" and ?g' = "gs (h_world s')"
  have ready: "client_ready (s_cfg x) (s_env x) (s_enc x) (s_validate x)" using assms(1) by (simp add: site_ready_def)
  have c: "p = client_candidate (s_env x) (s_enc x) (h_digest s) (d_clock d) (d_now d) (d_expires d) (d_key d) (d_pid d) (d_bid d) [par] state"
    using assms(6) by (simp add: h_candidate_def)
  note f = client_facts [OF c]
  have ok: "store_ok ?g" "digests_ok (h_digest s)" "par \<notin> set (quarantine_ledger ?g) \<Longrightarrow> known ?g (h_digest s) par" using assms(2,4) by (auto simp: session_ok_def)
  obtain res w where r: "submit_candidate (s_cfg x) (env_at x (d_us d)) rego_engine (s_validate x) \<lparr>body_length = d_len d, body_json = Some p\<rparr> (h_world s) = (res, w)" by fastforce
  have out: "i = payload_id p" "st = status_of res" "h_world s' = w"
    "h_digest s' = (if st = 200 then AList.update (d_pid d) (content_hash (s_env x) state) (h_digest s) else h_digest s)"
    using assms(7) r candidate_sel(5) [OF c [unfolded client_candidate_def]] f(1)
    by (auto simp: h_submit_def post_candidate_def Let_def assms(6) [symmetric])
  show "i = d_pid d" using out(1) f(1) by simp
  have "recorded st p par ?g (gs w)"
    using client_handle [OF ready c ok(2) _ _ _ _ _ _ _ _ _ r [unfolded env_at_def] assms(5)] ok assms(3,4) out(2)
    by (auto simp: store_ok_def request_ok_def known_def env_at_def)
  then show rec: "recorded st p par ?g ?g'" by (simp add: out(3))
  have fresh: "payload_id p \<notin> set (keys (dag ?g))" using assms(3) f(1) by (simp add: request_ok_def)
  have "store_ok ?g'" by (rule recorded_store [OF ok(1) rec f(6,2) assms(4) fresh])
  moreover have "digests_ok (h_digest s')"
    using ok(2) ready by (auto simp: out(4) digests_ok_def update_conv' client_ready_def)
  moreover have "known ?g' (h_digest s') n" if n: "n \<in> set (keys (dag ?g')) - set (quarantine_ledger ?g')" for n
  proof -
    have dag: "dag ?g' = dag ?g @ [(payload_id p, p)]" using rec by (simp add: recorded_def)
    show ?thesis
    proof (cases "n = payload_id p")
      case True
      have "st = 200" using rec n True by (auto simp: recorded_def split: if_splits)
      moreover have "content_digest_sha256 p = Some (content_hash (s_env x) state)" using candidate_sel(6) [OF c [unfolded client_candidate_def]] .
      moreover have "map_of (dag ?g) (d_pid d) = None" using fresh f(1) by (simp add: map_of_eq_None_keys)
      ultimately show ?thesis using True f(1) by (auto simp: known_def dag out(4) update_conv' map_of_append)
    next
      case False
      moreover have "n \<notin> set (quarantine_ledger ?g)" using n rec by (auto simp: recorded_def split: if_splits)
      ultimately have "known ?g (h_digest s) n" using n assms(2) by (auto simp: session_ok_def dag)
      then show ?thesis using False f(1) fresh by (auto simp: known_def dag out(4) update_conv' map_of_append map_add_Some_iff)
    qed
  qed
  ultimately show "session_ok s'" by (simp add: session_ok_def)
qed

lemma submit_accepted:
  assumes "site_ready x" and "session_ok s" and "request_ok x d (gs (h_world s))" and "par \<in> set (keys (dag (gs (h_world s))))"
    and "map_of state ''justification'' = None" and "par \<notin> set (quarantine_ledger (gs (h_world s)))" and "r = h_submit x d (\<lambda>p. p) [par] state s"
  shows "fst r = (d_pid d, 200)" and "session_ok (snd r)"
    and "dag (gs (h_world (snd r))) = dag (gs (h_world s)) @ [(d_pid d, h_candidate x d [par] state (h_digest s))]"
    and "quarantine_ledger (gs (h_world (snd r))) = quarantine_ledger (gs (h_world s))" and "quarantine_events (gs (h_world (snd r))) = quarantine_events (gs (h_world s))"
    and "signal_attempts (gs (h_world (snd r))) = signal_attempts (gs (h_world s))"
proof -
  obtain i st s' where r: "r = ((i, st), s')" by (metis surj_pair)
  note f = submit_recorded [OF assms(1-5) refl, of i st s']
  have h: "h_submit x d (\<lambda>p. p) [par] state s = ((i, st), s')" using assms(7) r by simp
  have "payload_id (h_candidate x d [par] state (h_digest s)) = d_pid d" by (rule client_facts(1) [OF h_candidate_def])
  with f [OF h] assms(6) show "fst r = (d_pid d, 200)" "session_ok (snd r)"
    "dag (gs (h_world (snd r))) = dag (gs (h_world s)) @ [(d_pid d, h_candidate x d [par] state (h_digest s))]"
    "quarantine_ledger (gs (h_world (snd r))) = quarantine_ledger (gs (h_world s))" "quarantine_events (gs (h_world (snd r))) = quarantine_events (gs (h_world s))"
    "signal_attempts (gs (h_world (snd r))) = signal_attempts (gs (h_world s))"
    by (auto simp: r recorded_def split: if_splits)
qed

lemma submit_refused:
  assumes "site_ready x" and "session_ok s" and "request_ok x d (gs (h_world s))" and "par \<in> set (keys (dag (gs (h_world s))))"
    and "map_of state ''justification'' = None" and "par \<in> set (quarantine_ledger (gs (h_world s)))" and "r = h_submit x d (\<lambda>p. p) [par] state s"
  shows "fst r = (d_pid d, 403)" and "session_ok (snd r)"
    and "set (quarantine_ledger (gs (h_world (snd r)))) = insert (d_pid d) (set (quarantine_ledger (gs (h_world s))))"
proof -
  obtain i st s' where r: "r = ((i, st), s')" by (metis surj_pair)
  have h: "h_submit x d (\<lambda>p. p) [par] state s = ((i, st), s')" using assms(7) r by simp
  have "payload_id (h_candidate x d [par] state (h_digest s)) = d_pid d" by (rule client_facts(1) [OF h_candidate_def])
  with submit_recorded [OF assms(1-5) refl h] assms(6) show "fst r = (d_pid d, 403)" "session_ok (snd r)"
    "set (quarantine_ledger (gs (h_world (snd r)))) = insert (d_pid d) (set (quarantine_ledger (gs (h_world s))))"
    by (auto simp: r recorded_def split: if_splits)
qed

text \<open>The first designation after a reset, of a stored clean node, succeeds and quarantines its closure.\<close>

lemma designate_granted:
  assumes "verify_role_jwt e hdr ''designator'' = Inr claims" and "signal_attempts (gs w) = []" and "0 < DESIGNATION_RATE_LIMIT cfg"
    and "poisoned_node_id ev \<in> set (keys (dag (gs w)))" and "poisoned_node_id ev \<notin> set (quarantine_ledger (gs w))"
  shows "\<exists>qe sv. fst (designate_poison cfg e adapter hdr ev w) = Inr (Designated qe sv)"
proof -
  let ?w = "on_gs (record_signal_attempt (now_utc e) (claim_sub claims ''unknown'') (poisoned_node_id ev) ''designation'' ''PENDING'') w"
  have "\<exists>qe sv w'. designation_transaction cfg e adapter ev (claim_sub claims ''unknown'') ?w = (Inr (Designated qe sv), w')"
    using assms(4,5) by (simp add: designation_transaction_run Let_def split_beta)
  then show ?thesis using assms(1-3) by (auto simp: designate_poison_def count_recent_signals_def Let_def transaction_def)
qed

lemma designate_ok:
  assumes "site_ready x" and "session_ok s" and "signal_attempts (gs (h_world s)) = []"
    and "n \<in> set (keys (dag (gs (h_world s))))" and "n \<notin> set (quarantine_ledger (gs (h_world s)))" and "r = h_designate x t n s"
  shows "fst r = 200" and "session_ok (snd r)" and "dag (gs (h_world (snd r))) = dag (gs (h_world s))" and "h_digest (snd r) = h_digest s"
    and "set (quarantine_ledger (gs (h_world (snd r)))) = set (quarantine_ledger (gs (h_world s))) \<union> {m. (derives (dag (gs (h_world s))))\<^sup>*\<^sup>* n m}"
proof -
  let ?hdr = "auth_header (mint_jwt (s_enc x) ''designator'' ''designator'')" and ?ev = "\<lparr>poisoned_node_id = n, de_reason = ''poison''\<rparr>"
  let ?d = "designate_poison (s_cfg x) (env_at x t) (s_adapter x) ?hdr ?ev (h_world s)"
  have "verify_role_jwt (env_at x t) ?hdr ''designator'' = Inr [(''sub'', JStr ''designator''), (''role'', JStr ''designator'')]"
    using assms(1) by (simp add: verify_minted site_ready_def)
  moreover have "0 < DESIGNATION_RATE_LIMIT (s_cfg x)" using assms(1) by (simp add: site_ready_def)
  ultimately obtain qe sv where d: "fst ?d = Inr (Designated qe sv)"
    using designate_granted [of "env_at x t" ?hdr _ "h_world s" "s_cfg x" ?ev "s_adapter x"] assms(3-5) by auto
  have r: "r = (200, s\<lparr>h_world := snd ?d\<rparr>)" using d by (simp add: assms(6) h_designate_def split_beta)
  have ok: "store_ok (gs (h_world s))" using assms(2) by (simp add: session_ok_def)
  then have "quiet (gs (h_world s))" by (simp add: store_ok_def)
  note q = storm_designate [OF this refl, of "s_cfg x" "env_at x t" "s_adapter x" ?hdr ?ev]
  show "fst r = 200" "dag (gs (h_world (snd r))) = dag (gs (h_world s))" "h_digest (snd r) = h_digest s" using q(1) by (simp_all add: r)
  show l: "set (quarantine_ledger (gs (h_world (snd r)))) = set (quarantine_ledger (gs (h_world s))) \<union> {m. (derives (dag (gs (h_world s))))\<^sup>*\<^sup>* n m}"
    using designated_effect [OF d] by (simp add: r Let_def)
  show "session_ok (snd r)" using assms(2) l q(1) designated_store [OF ok] by (auto simp: session_ok_def r known_def)
qed

end
