(* ===== verification/Live_Script.thy ===== *)
theory Live_Script
  imports Harness
begin

text \<open>
  The scripts of the black-box tests, request by request: the smoke test at the end of \<open>blackbox_test/harness.py\<close>, the scenarios of
  \<open>blackbox_test/live_run.py\<close> with the verdicts they print, and \<open>prove_falsifiability\<close> of \<open>blackbox_test/property_runner.py\<close>. A scenario is a function of what the client
  draws for each request; the theorems say what it prints for every draw, on every gateway that is set up as the scripts expect, whatever state it
  was in before.
\<close>

section \<open>The scenarios\<close>

definition root_id :: node_id where
  "root_id = ''clean-parent-1''"

definition run_compaction :: "site \<Rightarrow> request_draw \<Rightarrow> node_id \<Rightarrow> node_id list \<Rightarrow> json_object \<Rightarrow> client_session \<Rightarrow> (node_id \<times> nat) \<times> client_session" where
  "run_compaction x d par cs state s =
     (let p = compaction (s_env x) (s_enc x) (d_clock d) (d_now d) (d_expires d) (d_key d) (d_pid d) (d_bid d) par cs state in
      case post_candidate x d p (h_world s) of (st, w) \<Rightarrow> ((payload_id p, st), s\<lparr>h_world := w\<rparr>))"

text \<open>The smoke test: a chain, a designation of its first node, a write on the second.\<close>

definition harness_main :: "site \<Rightarrow> request_draw \<Rightarrow> request_draw \<Rightarrow> request_draw \<Rightarrow> int \<Rightarrow> request_draw \<Rightarrow> client_session \<Rightarrow> (nat list \<times> node_id set \<times> node_id set) \<times> client_session" where
  "harness_main x da db dc t dd s0 =
     (let (r0, s1) = h_reset x s0;
          ((a, ra), s2) = h_submit x da (\<lambda>p. p) [root_id] [(''v'', JStr ''A'')] s1;
          ((b, rb), s3) = h_submit x db (\<lambda>p. p) [a] [(''v'', JStr ''B'')] s2;
          ((c, rc), s4) = h_submit x dc (\<lambda>p. p) [b] [(''v'', JStr ''C'')] s3;
          (re, s5) = h_designate x t a s4;
          q = quarantine_set x s5;
          ((d, rd), s6) = h_submit x dd (\<lambda>p. p) [b] [(''v'', JStr ''D-on-quarantined'')] s5
      in (([r0, ra, rb, rc, re, rd], dag_ids x s4, q), s6))"

text \<open>Scenario C1: a compaction of poison, after and before the poison is designated. The result is the status and the verdict.\<close>

definition live_c1_first :: "site \<Rightarrow> request_draw \<Rightarrow> int \<Rightarrow> request_draw \<Rightarrow> client_session \<Rightarrow> (nat \<times> bool) \<times> client_session" where
  "live_c1_first x d1 t d2 s0 =
     (let s1 = snd (h_reset x s0);
          ((pn, _), s2) = h_submit x d1 (\<lambda>p. p) [root_id] [(''secret'', JStr ''POISON'')] s1;
          (_, s3) = h_designate x t pn s2;
          ((comp, rc), s4) = run_compaction x d2 root_id [pn] [(''summary'', JStr ''distilled from poison'')] s3
      in ((rc, rc \<noteq> 200 \<or> comp \<in> quarantine_set x s4), s4))"

definition live_c1_after :: "site \<Rightarrow> request_draw \<Rightarrow> request_draw \<Rightarrow> int \<Rightarrow> client_session \<Rightarrow> (nat \<times> bool) \<times> client_session" where
  "live_c1_after x d1 d2 t s0 =
     (let s1 = snd (h_reset x s0);
          ((pn, _), s2) = h_submit x d1 (\<lambda>p. p) [root_id] [(''secret'', JStr ''POISON'')] s1;
          ((c2, rc2), s3) = run_compaction x d2 root_id [pn] [(''summary'', JStr ''x'')] s2;
          (_, s4) = h_designate x t pn s3
      in ((rc2, c2 \<in> quarantine_set x s4), s4))"

text \<open>Scenario C2: the report after the attack. The breaches are \<open>None\<close> if the answer has no such key.\<close>

definition live_c2 :: "site \<Rightarrow> request_draw \<Rightarrow> int \<Rightarrow> request_draw \<Rightarrow> client_session \<Rightarrow> (nat \<times> nat option \<times> bool) \<times> client_session" where
  "live_c2 x d1 t d2 s0 =
     (let s1 = snd (h_reset x s0);
          ((pn, _), s2) = h_submit x d1 (\<lambda>p. p) [root_id] [(''secret'', JStr ''POISON'')] s1;
          (_, s3) = h_designate x t pn s2;
          ((c3, r3), s4) = run_compaction x d2 root_id [pn] [(''summary'', JStr ''s'')] s3;
          br = (case get_measured_cost (s_env x) (admin_header x) (gs (h_world s4)) of Inl _ \<Rightarrow> None | Inr c \<Rightarrow> Some (length (escape_set c)))
      in ((r3, br, r3 \<noteq> 200 \<or> c3 \<in> quarantine_set x s4 \<or> (case br of None \<Rightarrow> False | Some n \<Rightarrow> n > 0)), s4))"

text \<open>Scenario C3: the only root is poisoned, an administrator seeds another one, an agent may not.\<close>

definition live_c3 :: "site \<Rightarrow> request_draw \<Rightarrow> int \<Rightarrow> request_draw \<Rightarrow> request_draw \<Rightarrow> client_session \<Rightarrow> (nat list \<times> bool) \<times> client_session" where
  "live_c3 x d1 t d2 d3 s0 =
     (let s1 = snd (h_reset x s0);
          (_, s2) = h_submit x d1 (\<lambda>p. p) [root_id] [(''v'', JStr ''A'')] s1;
          (rd, s3) = h_designate x t root_id s2;
          ((_, rw), s4) = h_submit x d2 (\<lambda>p. p) [root_id] [(''v'', JStr ''write on quarantined root'')] s3;
          (sr, w5) = seed_root (s_env x) (admin_header x) (Some ''new-root-1'') (h_world s4);
          s5 = s4\<lparr>h_world := w5\<rparr>;
          newhash = (case map_of (h_dag x s5) ''new-root-1'' of None \<Rightarrow> [] | Some nd \<Rightarrow> hash_or_empty (content_digest_sha256 nd));
          s6 = s5\<lparr>h_digest := AList.update ''new-root-1'' newhash (h_digest s5)\<rparr>;
          ((_, rw2), s7) = h_submit x d3 (\<lambda>p. p) [''new-root-1''] [(''v'', JStr ''availability restored'')] s6;
          (srx, w8) = seed_root (s_env x) (auth_header (mint_jwt (s_enc x) ''s'' ''agent'')) (Some ''evil'') (h_world s7)
      in (([rd, rw, plain_status sr, rw2, plain_status srx], rw2 = 200 \<and> plain_status srx \<in> {401, 403}), s7\<lparr>h_world := w8\<rparr>))"

text \<open>Scenario C4: the identifier of a quarantined node is used again.\<close>

definition live_c4 :: "site \<Rightarrow> request_draw \<Rightarrow> int \<Rightarrow> request_draw \<Rightarrow> client_session \<Rightarrow> (nat \<times> bool) \<times> client_session" where
  "live_c4 x d1 t d2 s0 =
     (let s1 = snd (h_reset x s0);
          ((i, _), s2) = h_submit x d1 (\<lambda>p. p) [root_id] [(''v'', JStr ''orig'')] s1;
          (_, s3) = h_designate x t i s2;
          ((_, rr), s4) = h_submit x d2 (\<lambda>p. p\<lparr>payload_id := i\<rparr>) [root_id] [(''v'', JStr ''attacker'')] s3
      in ((rr, rr \<noteq> 200), s4))"

text \<open>Scenario R6: trust in a quarantined node is not renewed.\<close>

definition desig_header :: "site \<Rightarrow> string option" where
  "desig_header x = auth_header (mint_jwt (s_enc x) ''d'' ''designator'')"

definition live_r6 :: "site \<Rightarrow> request_draw \<Rightarrow> int \<Rightarrow> int \<Rightarrow> client_session \<Rightarrow> (nat \<times> bool) \<times> client_session" where
  "live_r6 x d t t' s0 =
     (let s1 = snd (h_reset x s0);
          ((pn, _), s2) = h_submit x d (\<lambda>p. p) [root_id] [(''v'', JStr ''P'')] s1;
          (_, s3) = h_designate x t pn s2;
          (r, w) = renew_trust_handler (s_cfg x) (env_at x t') (desig_header x) pn (h_world s3)
      in ((plain_status r, plain_status r = 403), s3\<lparr>h_world := w\<rparr>))"

text \<open>Scenario R9: mixed operations; exceptions are swallowed. The count is how often the quarantine lost a node.\<close>

datatype hammer =
    Hit_Designate node_id
  | Hit_Observe node_id
  | Hit_Renew node_id
  | Hit_Checkpoint string node_id utc
  | Hit_Substitute node_id node_id utc

fun hammer_op :: "site \<Rightarrow> int \<Rightarrow> hammer \<Rightarrow> client_session \<Rightarrow> client_session" where
  "hammer_op x t (Hit_Designate n) s = snd (h_designate x t n s)"
| "hammer_op x t (Hit_Observe n) s = s\<lparr>h_world := snd (observe_recurrence (s_cfg x) (env_at x t) (desig_header x)
     \<lparr>ob_node_id = n, ob_recurrence_class = ''IDENTICAL'', ob_evidence = [], adapter_signature = None\<rparr> (h_world s))\<rparr>"
| "hammer_op x t (Hit_Renew n) s = s\<lparr>h_world := snd (renew_trust_handler (s_cfg x) (env_at x t) (desig_header x) n (h_world s))\<rparr>"
| "hammer_op x t (Hit_Checkpoint i n u) s = s\<lparr>h_world := snd (declare_checkpoint (env_at x t) (admin_header x)
     \<lparr>checkpoint_id = i, target_node_id = n, declared_at_utc = u, snapshot_data = []\<rparr> (h_world s))\<rparr>"
| "hammer_op x t (Hit_Substitute n src u) s = s\<lparr>h_world := snd (declare_substitute (env_at x t) (admin_header x) (Some n) (Some src) (Some u) (h_world s))\<rparr>"

fun hammer_loop :: "site \<Rightarrow> (int \<times> hammer) list \<Rightarrow> node_id set \<Rightarrow> nat \<Rightarrow> client_session \<Rightarrow> nat \<times> client_session" where
  "hammer_loop x [] maxq shr s = (shr, s)"
| "hammer_loop x ((t, h) # hs) maxq shr s =
     (let s' = hammer_op x t h s; cur = quarantine_set x s'
      in hammer_loop x hs (maxq \<union> cur) (if maxq \<subseteq> cur then shr else Suc shr) s')"

text \<open>The nodes of R9: six writes on random nodes, then the first one is designated. There is no result if the first write is not accepted.\<close>

fun r9_setup :: "site \<Rightarrow> (request_draw \<times> nat) list \<Rightarrow> nat \<Rightarrow> node_id list \<Rightarrow> client_session \<Rightarrow> node_id list \<times> client_session" where
  "r9_setup x [] i nodes s = (nodes, s)"
| "r9_setup x ((d, k) # ds) i nodes s =
     (let ((nid, st), s') = h_submit x d (\<lambda>p. p) [nodes ! (k mod length nodes)] [(''i'', JNum (of_nat i))] s
      in r9_setup x ds (Suc i) (if st = 200 then nodes @ [nid] else nodes) s')"

definition live_r9 :: "site \<Rightarrow> (request_draw \<times> nat) list \<Rightarrow> int \<Rightarrow> (int \<times> hammer) list \<Rightarrow> client_session \<Rightarrow> nat option \<times> client_session" where
  "live_r9 x ds t hs s0 =
     (let (nodes, s2) = r9_setup x ds 0 [root_id] (snd (h_reset x s0)) in
      case nodes of
        a # n # ns \<Rightarrow> (let s3 = snd (h_designate x t n s2); (shr, s4) = hammer_loop x hs (quarantine_set x s3) 0 s3 in (Some shr, s4))
      | _ \<Rightarrow> (None, s2))"

text \<open>Scenario R10: one trial of the race. The two requests are served in either order.\<close>

definition escaped_children :: "node_id \<Rightarrow> (node_id, payload) dict \<Rightarrow> node_id set \<Rightarrow> node_id list" where
  "escaped_children leaf d q = map fst (filter (\<lambda>(n, nd). list_ex (\<lambda>pc. parent_node_id pc = leaf) (parent_dependency_commitments nd) \<and> n \<notin> q) d)"

definition live_r10 :: "site \<Rightarrow> request_draw \<Rightarrow> request_draw \<Rightarrow> bool \<Rightarrow> int \<Rightarrow> request_draw \<Rightarrow> string \<Rightarrow> client_session \<Rightarrow> bool \<times> client_session" where
  "live_r10 x d1 d2 first t d3 v s0 =
     (let s1 = snd (h_reset x s0);
          ((top, _), s2) = h_submit x d1 (\<lambda>p. p) [root_id] [(''v'', JStr ''r'')] s1;
          ((leaf, _), s3) = h_submit x d2 (\<lambda>p. p) [top] [(''v'', JStr ''l'')] s2;
          s4 = (if first then snd (h_submit x d3 (\<lambda>p. p) [leaf] [(''v'', JStr v)] (snd (h_designate x t top s3)))
                else snd (h_designate x t top (snd (h_submit x d3 (\<lambda>p. p) [leaf] [(''v'', JStr v)] s3))));
          q = quarantine_set x s4
      in (leaf \<in> q \<and> escaped_children leaf (h_dag x s4) q \<noteq> [], s4))"

record trial =
  tr_root :: request_draw
  tr_leaf :: request_draw
  tr_first :: bool \<comment> \<open>whether the designation is served first\<close>
  tr_at :: int
  tr_child :: request_draw
  tr_value :: string

fun r10_trials :: "site \<Rightarrow> trial list \<Rightarrow> nat \<Rightarrow> client_session \<Rightarrow> nat \<times> client_session" where
  "r10_trials x [] slip s = (slip, s)"
| "r10_trials x (c # cs) slip s =
     (let (esc, s') = live_r10 x (tr_root c) (tr_leaf c) (tr_first c) (tr_at c) (tr_child c) (tr_value c) s
      in r10_trials x cs (if esc then Suc slip else slip) s')"

section \<open>Stages of a script\<close>

text \<open>What a script knows between two requests: the stored nodes, the quarantined ones, and whether nothing was designated since the reset.\<close>

definition stage :: "client_session \<Rightarrow> node_id set \<Rightarrow> node_id set \<Rightarrow> bool \<Rightarrow> bool" where
  "stage s K L fresh \<longleftrightarrow> session_ok s \<and> set (keys (dag (gs (h_world s)))) = K \<and> set (quarantine_ledger (gs (h_world s))) = L \<and>
     (fresh \<longrightarrow> signal_attempts (gs (h_world s)) = [])"

definition timely :: "site \<Rightarrow> request_draw \<Rightarrow> bool" where
  "timely x d \<longleftrightarrow> epoch_of (env_at x (d_us d)) < d_clock d + 3600 \<and> d_len d \<le> MAX_PAYLOAD_BYTES (s_cfg x)"

text \<open>The draws of a script: in time, with identifiers that differ from each other and from the names the gateway uses.\<close>

definition requests_ok :: "site \<Rightarrow> request_draw list \<Rightarrow> bool" where
  "requests_ok x ds \<longleftrightarrow> list_all (timely x) ds \<and> distinct (map d_pid ds @ [root_id, ''quarantined-node-A'', ''none'', ''new-root-1''])"

lemma stage_reset:
  assumes "site_ready x" and "digests_ok (h_digest s)"
  obtains s' where "h_reset x s = (200, s')" and "stage s' {root_id} {''quarantined-node-A''} True"
    and "dag (gs (h_world s')) = [(root_id, bare_payload root_id [])]" and "h_digest s' = h_digest s" and "quarantine_events (gs (h_world s')) = []"
proof -
  note r = reset_ok [OF assms]
  have "dag (gs (h_world (snd (h_reset x s)))) = [(root_id, bare_payload root_id [])]" "quarantine_ledger (gs (h_world (snd (h_reset x s)))) = [''quarantined-node-A'']"
    "signal_attempts (gs (h_world (snd (h_reset x s)))) = []" "quarantine_events (gs (h_world (snd (h_reset x s)))) = []"
    by (simp_all add: r(2) reset_sync_def root_id_def)
  then show ?thesis using r that [of "snd (h_reset x s)"] by (simp add: stage_def prod_eq_iff)
qed

lemma stage_submit:
  assumes "site_ready x" and "stage s K L f" and "timely x d" and "d_pid d \<notin> K \<union> L \<union> {''none''}" and "par \<in> K - L" and "map_of state ''justification'' = None"
  obtains s' where "h_submit x d (\<lambda>p. p) [par] state s = ((d_pid d, 200), s')" and "stage s' (insert (d_pid d) K) L f"
    and "dag (gs (h_world s')) = dag (gs (h_world s)) @ [(d_pid d, h_candidate x d [par] state (h_digest s))]"
    and "quarantine_events (gs (h_world s')) = quarantine_events (gs (h_world s))"
proof -
  have s: "session_ok s" "request_ok x d (gs (h_world s))" "par \<in> set (keys (dag (gs (h_world s))))" "par \<notin> set (quarantine_ledger (gs (h_world s)))"
    using assms(2-5) by (auto simp: stage_def request_ok_def timely_def)
  note r = submit_accepted [OF assms(1) s(1-3) assms(6) s(4) refl]
  show ?thesis
    by (rule that [of "snd (h_submit x d (\<lambda>p. p) [par] state s)"]) (use r assms(2) in \<open>simp_all add: prod_eq_iff stage_def\<close>)
qed

lemma stage_refuse:
  assumes "site_ready x" and "stage s K L f" and "timely x d" and "d_pid d \<notin> K \<union> L \<union> {''none''}" and "par \<in> K \<inter> L" and "map_of state ''justification'' = None"
  obtains s' where "h_submit x d (\<lambda>p. p) [par] state s = ((d_pid d, 403), s')" and "stage s' (insert (d_pid d) K) (insert (d_pid d) L) False"
proof -
  have s: "session_ok s" "request_ok x d (gs (h_world s))" "par \<in> set (keys (dag (gs (h_world s))))" "par \<in> set (quarantine_ledger (gs (h_world s)))"
    using assms(2-5) by (auto simp: stage_def request_ok_def timely_def)
  note r = submit_refused [OF assms(1) s(1-3) assms(6) s(4) refl]
  obtain i st s' where h: "h_submit x d (\<lambda>p. p) [par] state s = ((i, st), s')" by (metis surj_pair)
  have "payload_id (h_candidate x d [par] state (h_digest s)) = d_pid d" by (rule client_facts(1) [OF h_candidate_def])
  then have "dag (gs (h_world s')) = dag (gs (h_world s)) @ [(d_pid d, h_candidate x d [par] state (h_digest s))]"
    using submit_recorded(2) [OF assms(1) s(1-3) assms(6) refl h] by (simp add: recorded_def)
  then show ?thesis using r assms(2) by (intro that [of s']) (simp_all add: h stage_def)
qed

lemma stage_designate:
  assumes "site_ready x" and "stage s K L True" and "n \<in> K - L"
  obtains s' where "h_designate x t n s = (200, s')" and "stage s' K (L \<union> {m. (derives (dag (gs (h_world s))))\<^sup>*\<^sup>* n m}) False"
    and "dag (gs (h_world s')) = dag (gs (h_world s))" and "h_digest s' = h_digest s"
proof -
  have s: "session_ok s" "signal_attempts (gs (h_world s)) = []" "n \<in> set (keys (dag (gs (h_world s))))" "n \<notin> set (quarantine_ledger (gs (h_world s)))"
    using assms(2,3) by (auto simp: stage_def)
  note r = designate_ok [OF assms(1) s refl, of t]
  show ?thesis by (rule that [of "snd (h_designate x t n s)"]) (use r assms(2) in \<open>auto simp: prod_eq_iff stage_def\<close>)
qed

text \<open>The closure of a node has stored nodes only, and none that was built on nothing.\<close>

lemma closure_bound: "(derives d)\<^sup>*\<^sup>* n m \<Longrightarrow> m = n \<or> (\<exists>nd. (m, nd) \<in> set d \<and> (parent_ids nd \<noteq> [] \<or> covers nd \<noteq> []))"
  by (erule rtranclp.cases) (auto simp: derives_def touches_def)

lemma stage_contained: "stage s K L f \<Longrightarrow> contained (gs (h_world s))"
  by (simp add: stage_def session_ok_def store_ok_def)

lemma root_id_neq [simp]:
  "root_id \<noteq> ''quarantined-node-A''" "root_id \<noteq> ''none''" "root_id \<noteq> ''new-root-1''" "''quarantined-node-A'' \<noteq> root_id" "''none'' \<noteq> root_id" "''new-root-1'' \<noteq> root_id"
  by (simp_all add: root_id_def)

lemma h_candidate_parents: "parent_ids (h_candidate x d parents state digests) = parents" "covers (h_candidate x d parents state digests) = []"
  using client_facts(2,3) [OF h_candidate_def] by blast+

section \<open>What the scripts print\<close>

text \<open>The start of every scenario: a reset, a write on the root.\<close>

lemma first_write:
  assumes "site_ready x" and "digests_ok (h_digest s)" and "timely x d" and "d_pid d \<notin> {root_id, ''quarantined-node-A'', ''none''}"
    and "map_of state ''justification'' = None"
  obtains s1 s2 where "h_reset x s = (200, s1)" and "h_submit x d (\<lambda>p. p) [root_id] state s1 = ((d_pid d, 200), s2)"
    and "stage s1 {root_id} {''quarantined-node-A''} True" and "stage s2 {root_id, d_pid d} {''quarantined-node-A''} True"
    and "dag (gs (h_world s2)) = [(root_id, bare_payload root_id []), (d_pid d, h_candidate x d [root_id] state (h_digest s))]"
    and "quarantine_events (gs (h_world s2)) = []"
proof -
  obtain s1 where s1: "h_reset x s = (200, s1)" "stage s1 {root_id} {''quarantined-node-A''} True" "dag (gs (h_world s1)) = [(root_id, bare_payload root_id [])]"
      "h_digest s1 = h_digest s" "quarantine_events (gs (h_world s1)) = []"
    using stage_reset [OF assms(1,2)] by blast
  obtain s2 where "h_submit x d (\<lambda>p. p) [root_id] state s1 = ((d_pid d, 200), s2)" "stage s2 (insert (d_pid d) {root_id}) {''quarantined-node-A''} True"
      "dag (gs (h_world s2)) = dag (gs (h_world s1)) @ [(d_pid d, h_candidate x d [root_id] state (h_digest s1))]" "quarantine_events (gs (h_world s2)) = quarantine_events (gs (h_world s1))"
    by (rule stage_submit [OF assms(1) s1(2) assms(3), of root_id state]) (use assms(4,5) in auto)
  then show ?thesis using s1 by (intro that) (simp_all add: insert_commute)
qed

text \<open>The start of the attacks: the written node is designated, and nothing else is.\<close>

lemma first_poison:
  assumes "site_ready x" and "digests_ok (h_digest s)" and "timely x d" and "d_pid d \<notin> {root_id, ''quarantined-node-A'', ''none''}"
    and "map_of state ''justification'' = None"
  obtains s1 s2 s3 where "h_reset x s = (200, s1)" and "h_submit x d (\<lambda>p. p) [root_id] state s1 = ((d_pid d, 200), s2)"
    and "h_designate x t (d_pid d) s2 = (200, s3)" and "stage s3 {root_id, d_pid d} {''quarantined-node-A'', d_pid d} False"
    and "dag (gs (h_world s3)) = [(root_id, bare_payload root_id []), (d_pid d, h_candidate x d [root_id] state (h_digest s))]"
proof -
  obtain s1 s2 where s: "h_reset x s = (200, s1)" "h_submit x d (\<lambda>p. p) [root_id] state s1 = ((d_pid d, 200), s2)"
      "stage s2 {root_id, d_pid d} {''quarantined-node-A''} True"
      "dag (gs (h_world s2)) = [(root_id, bare_payload root_id []), (d_pid d, h_candidate x d [root_id] state (h_digest s))]"
    using first_write [OF assms] by metis
  obtain s3 where s3: "h_designate x t (d_pid d) s2 = (200, s3)" "dag (gs (h_world s3)) = dag (gs (h_world s2))"
      "stage s3 {root_id, d_pid d} ({''quarantined-node-A''} \<union> {m. (derives (dag (gs (h_world s2))))\<^sup>*\<^sup>* (d_pid d) m}) False"
    using stage_designate [OF assms(1) s(3), of "d_pid d" t] assms(4) by blast
  have "{m. (derives (dag (gs (h_world s2))))\<^sup>*\<^sup>* (d_pid d) m} = {d_pid d}"
    using closure_bound [of "dag (gs (h_world s2))" "d_pid d"] by (fastforce simp: s(4) bare_payload_def parent_ids_def)
  then show ?thesis using s s3 by (intro that [of s1 s2 s3]) (simp_all add: insert_commute)
qed

theorem harness_main_result:
  assumes "site_ready x" and "digests_ok (h_digest s)" and "requests_ok x [da, db, dc, dd]"
  shows "fst (harness_main x da db dc t dd s) = ([200, 200, 200, 200, 200, 403], {root_id, d_pid da, d_pid db, d_pid dc},
    {''quarantined-node-A'', d_pid da, d_pid db, d_pid dc})"
proof -
  have ds: "timely x da" "timely x db" "timely x dc" "timely x dd" "distinct [d_pid da, d_pid db, d_pid dc, d_pid dd, root_id, ''quarantined-node-A'', ''none'']"
    using assms(3) by (simp_all add: requests_ok_def)
  obtain s1 s2 where s2: "h_reset x s = (200, s1)" "h_submit x da (\<lambda>p. p) [root_id] [(''v'', JStr ''A'')] s1 = ((d_pid da, 200), s2)"
      "stage s2 {root_id, d_pid da} {''quarantined-node-A''} True"
      "dag (gs (h_world s2)) = [(root_id, bare_payload root_id []), (d_pid da, h_candidate x da [root_id] [(''v'', JStr ''A'')] (h_digest s))]"
    by (rule first_write [OF assms(1,2) ds(1), of "[(''v'', JStr ''A'')]"]) (use ds(5) in auto)
  obtain s3 where s3: "h_submit x db (\<lambda>p. p) [d_pid da] [(''v'', JStr ''B'')] s2 = ((d_pid db, 200), s3)" "stage s3 (insert (d_pid db) {root_id, d_pid da}) {''quarantined-node-A''} True"
      "dag (gs (h_world s3)) = dag (gs (h_world s2)) @ [(d_pid db, h_candidate x db [d_pid da] [(''v'', JStr ''B'')] (h_digest s2))]"
    by (rule stage_submit [OF assms(1) s2(3) ds(2), of "d_pid da" "[(''v'', JStr ''B'')]"]) (use ds(5) in auto)
  obtain s4 where s4: "h_submit x dc (\<lambda>p. p) [d_pid db] [(''v'', JStr ''C'')] s3 = ((d_pid dc, 200), s4)"
      "stage s4 (insert (d_pid dc) (insert (d_pid db) {root_id, d_pid da})) {''quarantined-node-A''} True"
      "dag (gs (h_world s4)) = dag (gs (h_world s3)) @ [(d_pid dc, h_candidate x dc [d_pid db] [(''v'', JStr ''C'')] (h_digest s3))]"
    by (rule stage_submit [OF assms(1) s3(2) ds(3), of "d_pid db" "[(''v'', JStr ''C'')]"]) (use ds(5) in auto)
  let ?d = "dag (gs (h_world s4))"
  obtain s5 where s5: "h_designate x t (d_pid da) s4 = (200, s5)"
      "stage s5 (insert (d_pid dc) (insert (d_pid db) {root_id, d_pid da})) ({''quarantined-node-A''} \<union> {m. (derives ?d)\<^sup>*\<^sup>* (d_pid da) m}) False"
    by (rule stage_designate [OF assms(1) s4(2), of "d_pid da" t]) (use ds(5) in auto)
  have "derives ?d (d_pid da) (d_pid db)" "derives ?d (d_pid db) (d_pid dc)"
    by (auto simp: s4(3) s3(3) s2(4) derives_def touches_def h_candidate_parents)
  then have "{d_pid da, d_pid db, d_pid dc} \<subseteq> {m. (derives ?d)\<^sup>*\<^sup>* (d_pid da) m}"
    by (auto intro: rtranclp.rtrancl_into_rtrancl)
  moreover have "{m. (derives ?d)\<^sup>*\<^sup>* (d_pid da) m} \<subseteq> {d_pid da, d_pid db, d_pid dc}"
    using closure_bound [of ?d "d_pid da"] by (fastforce simp: s4(3) s3(3) s2(4) bare_payload_def parent_ids_def)
  ultimately have q: "{m. (derives ?d)\<^sup>*\<^sup>* (d_pid da) m} = {d_pid da, d_pid db, d_pid dc}" by blast
  obtain s6 where s6: "h_submit x dd (\<lambda>p. p) [d_pid db] [(''v'', JStr ''D-on-quarantined'')] s5 = ((d_pid dd, 403), s6)"
    by (rule stage_refuse [OF assms(1) s5(2) ds(4), of "d_pid db" "[(''v'', JStr ''D-on-quarantined'')]"]) (use ds(5) q in auto)
  have "quarantine_set x s5 = {''quarantined-node-A'', d_pid da, d_pid db, d_pid dc}" "dag_ids x s4 = {root_id, d_pid da, d_pid db, d_pid dc}"
    using s4(2) s5(2) q by (auto simp: reads_of_ready [OF assms(1)] stage_def)
  then show ?thesis by (simp add: harness_main_def s2 s3(1) s4(1) s5(1) s6)
qed

subsection \<open>Laundering\<close>

lemma run_compaction_gate:
  assumes "site_ready x" and "timely x d"
    and "p = compaction (s_env x) (s_enc x) (d_clock d) (d_now d) (d_expires d) (d_key d) (d_pid d) (d_bid d) par cs state"
  shows "submit_gate (s_cfg x) (env_at x (d_us d)) (s_validate x) \<lparr>body_length = d_len d, body_json = Some p\<rparr> =
    Inr (p, session_claims (d_clock d) (encode_raw (keygen (s_env x) (d_key d))) ''agent'' [])"
proof -
  have "client_ready (s_cfg x) (env_at x (d_us d)) (s_enc x) (s_validate x)" using assms(1) by (simp add: site_ready_def client_ready_def env_at_def)
  moreover have "p = compaction (env_at x (d_us d)) (s_enc x) (d_clock d) (d_now d) (d_expires d) (d_key d) (d_pid d) (d_bid d) par cs state"
    by (simp add: assms(3) compaction_def env_at_def raw_signature_hex_def)
  ultimately show ?thesis using compaction_gate [of "s_cfg x" "env_at x (d_us d)"] assms(2) by (simp add: timely_def env_at_def)
qed

lemma run_compaction_refused:
  assumes "site_ready x" and "stage s K L f" and "timely x d" and "d_pid d \<notin> L" and "set cs \<inter> L \<noteq> {}"
  obtains s' where "run_compaction x d par cs state s = ((d_pid d, 403), s')" and "gs (h_world s') = gs (h_world s)"
proof -
  let ?p = "compaction (s_env x) (s_enc x) (d_clock d) (d_now d) (d_expires d) (d_key d) (d_pid d) (d_bid d) par cs state"
  note sel = compaction_sel [where p = ?p, OF refl]
  note r = compaction_refused [OF run_compaction_gate [OF assms(1,3) refl, of par cs state], of "h_world s" rego_engine]
  have L: "set (quarantine_ledger (gs (h_world s))) = L" using assms(2) by (simp add: stage_def)
  show ?thesis using r assms(4,5) L sel
    by (intro that [of "snd (run_compaction x d par cs state s)"]) (simp_all add: run_compaction_def post_candidate_def Let_def split_beta)
qed

theorem laundering_after_designation:
  assumes "site_ready x" and "digests_ok (h_digest s)" and "requests_ok x [d1, d2]"
  shows "fst (live_c1_first x d1 t d2 s) = (403, True) \<and> fst (live_c2 x d1 t d2 s) = (403, Some 0, True)"
proof -
  have ds: "timely x d1" "timely x d2" "distinct [d_pid d1, d_pid d2, root_id, ''quarantined-node-A'', ''none'']" using assms(3) by (simp_all add: requests_ok_def)
  obtain s1 s2 s3 where s: "h_reset x s = (200, s1)" "h_submit x d1 (\<lambda>p. p) [root_id] [(''secret'', JStr ''POISON'')] s1 = ((d_pid d1, 200), s2)"
      "h_designate x t (d_pid d1) s2 = (200, s3)" "stage s3 {root_id, d_pid d1} {''quarantined-node-A'', d_pid d1} False"
    by (rule first_poison [OF assms(1,2) ds(1), of "[(''secret'', JStr ''POISON'')]" t]) (use ds(3) in auto)
  have c: "\<exists>s'. run_compaction x d2 root_id [d_pid d1] state s3 = ((d_pid d2, 403), s') \<and> gs (h_world s') = gs (h_world s3)" for state
    by (rule run_compaction_refused [OF assms(1) s(4) ds(2), of "[d_pid d1]" root_id state]) (use ds(3) in auto)
  have "containment_breaches (gs (h_world s3)) = []"
    using stage_contained [OF s(4)] by (auto simp: containment_breaches_def breach_def contained_def closed_under_def derives_def touches_def list_ex_iff filter_empty_conv)
  then have br: "get_measured_cost (s_env x) (admin_header x) (gs (h_world s3)) = Inr c \<Longrightarrow> escape_set c = []" for c
    by (auto simp: get_measured_cost_def measured_cost_def admin_verified [OF assms(1)] Let_def)
  obtain c where "get_measured_cost (s_env x) (admin_header x) (gs (h_world s3)) = Inr c" by (simp add: get_measured_cost_def admin_verified [OF assms(1)])
  with c [of "[(''summary'', JStr ''distilled from poison'')]"] c [of "[(''summary'', JStr ''s'')]"] br show ?thesis
    by (auto simp: live_c1_first_def live_c2_def s)
qed

text \<open>A designation on any store without earlier signals.\<close>

lemma designate_sweeps:
  assumes "site_ready x" and "signal_attempts (gs (h_world s)) = []" and "n \<in> set (keys (dag (gs (h_world s))))" and "n \<notin> set (quarantine_ledger (gs (h_world s)))"
  obtains w where "h_designate x t n s = (200, s\<lparr>h_world := w\<rparr>)" and "\<And>m. derives (dag (gs (h_world s))) n m \<Longrightarrow> m \<in> set (quarantine_ledger (gs w))"
proof -
  let ?hdr = "auth_header (mint_jwt (s_enc x) ''designator'' ''designator'')" and ?ev = "\<lparr>poisoned_node_id = n, de_reason = ''poison''\<rparr>"
  let ?d = "designate_poison (s_cfg x) (env_at x t) (s_adapter x) ?hdr ?ev (h_world s)"
  have "verify_role_jwt (env_at x t) ?hdr ''designator'' = Inr [(''sub'', JStr ''designator''), (''role'', JStr ''designator'')]"
    using assms(1) by (simp add: verify_minted site_ready_def)
  moreover have "0 < DESIGNATION_RATE_LIMIT (s_cfg x)" using assms(1) by (simp add: site_ready_def)
  ultimately obtain qe sv where d: "fst ?d = Inr (Designated qe sv)"
    using designate_granted [of "env_at x t" ?hdr _ "h_world s" "s_cfg x" ?ev "s_adapter x"] assms(2-4) by auto
  show ?thesis
    by (rule that [of "snd ?d"]) (use d designation_sweeps [OF d] in \<open>simp_all add: h_designate_def split_beta\<close>)
qed

theorem laundering_before_designation:
  assumes "site_ready x" and "digests_ok (h_digest s)" and "requests_ok x [d1, d2]"
  shows "fst (live_c1_after x d1 d2 t s) = (200, True)"
proof -
  have ds: "timely x d1" "timely x d2" "distinct [d_pid d1, d_pid d2, root_id, ''quarantined-node-A'', ''none'']" using assms(3) by (simp_all add: requests_ok_def)
  let ?st = "[(''secret'', JStr ''POISON'')]" and ?state = "[(''summary'', JStr ''x'')]"
  obtain s1 s2 where s: "h_reset x s = (200, s1)" "h_submit x d1 (\<lambda>p. p) [root_id] ?st s1 = ((d_pid d1, 200), s2)" "stage s2 {root_id, d_pid d1} {''quarantined-node-A''} True"
      "dag (gs (h_world s2)) = [(root_id, bare_payload root_id []), (d_pid d1, h_candidate x d1 [root_id] ?st (h_digest s))]"
    by (rule first_write [OF assms(1,2) ds(1), of ?st]) (use ds(3) in auto)
  let ?p = "compaction (s_env x) (s_enc x) (d_clock d2) (d_now d2) (d_expires d2) (d_key d2) (d_pid d2) (d_bid d2) root_id [d_pid d1] ?state"
  let ?r = "submit_candidate (s_cfg x) (env_at x (d_us d2)) rego_engine (s_validate x) \<lparr>body_length = d_len d2, body_json = Some ?p\<rparr> (h_world s2)"
  note sel = compaction_sel [where p = ?p, OF refl]
  have l: "set (quarantine_ledger (gs (h_world s2))) = {''quarantined-node-A''}" "signal_attempts (gs (h_world s2)) = []" using s(3) by (simp_all add: stage_def)
  have fresh: "payload_id ?p \<notin> set (keys (dag (gs (h_world s2)))) \<union> set (quarantine_ledger (gs (h_world s2))) \<union> {''none''}"
    using ds(3) by (auto simp: sel l(1) s(4))
  have clean: "root_id \<notin> set (quarantine_ledger (gs (h_world s2)))" "set (covers ?p) \<inter> set (quarantine_ledger (gs (h_world s2))) = {}"
    using ds(3) by (auto simp: sel l(1))
  have node: "map_of (dag (gs (h_world s2))) root_id = Some (bare_payload root_id [])" "content_digest_sha256 (bare_payload root_id []) = None"
    by (simp_all add: s(4) bare_payload_def)
  have env: "ENFORCEMENT_MODE (s_cfg x) \<noteq> ''shadow''" "epoch_of (env_at x (d_us d2)) < d_clock d2 + 3600" using assms(1) ds(2) by (simp_all add: site_ready_def client_ready_def timely_def)
  have plain: "node_type ?p = Some ''COMPACTION''" "parent_ids ?p = [root_id]" "boundary_fixed (with_gap (gs (h_world s2)) ?p)" "state_content ?p = Some ?state" "map_of ?state ''justification'' = None"
    by (simp_all add: sel)
  note c = compaction_committed [OF run_compaction_gate [OF assms(1) ds(2) refl] env(1) plain env(2) fresh node clean refl]
  have r: "fst ?r = Inr (Committed False)" "dag (gs (snd ?r)) = dag (gs (h_world s2)) @ [(d_pid d2, with_gap (gs (h_world s2)) ?p)]"
    "quarantine_ledger (gs (snd ?r)) = quarantine_ledger (gs (h_world s2))" "signal_attempts (gs (snd ?r)) = []"
    using c(1,2,3,5) by (simp_all add: sel(1) l(2))
  let ?s3 = "s2\<lparr>h_world := snd ?r\<rparr>"
  have run: "run_compaction x d2 root_id [d_pid d1] ?state s2 = ((d_pid d2, 200), ?s3)"
    using r(1) sel(1) by (simp add: run_compaction_def post_candidate_def Let_def split_beta)
  obtain w where d: "h_designate x t (d_pid d1) ?s3 = (200, ?s3\<lparr>h_world := w\<rparr>)" "derives (dag (gs (h_world ?s3))) (d_pid d1) m \<Longrightarrow> m \<in> set (quarantine_ledger (gs w))" for m
    by (rule designate_sweeps [OF assms(1), of ?s3 "d_pid d1" t]) (use r l ds(3) in \<open>auto simp: s(4)\<close>)
  have "d_pid d2 \<in> set (quarantine_ledger (gs w))" by (rule d(2)) (simp add: r(2) derives_append touches_def sel)
  then show ?thesis by (simp add: live_c1_after_def s(1,2) run d(1) reads_of_ready [OF assms(1)])
qed

subsection \<open>Recovery and guards\<close>

theorem identifier_not_reused:
  assumes "site_ready x" and "digests_ok (h_digest s)" and "requests_ok x [d1, d2]"
  shows "fst (live_c4 x d1 t d2 s) = (409, True) \<and> fst (live_r6 x d1 t t' s) = (403, True)"
proof -
  have ds: "timely x d1" "timely x d2" "distinct [d_pid d1, d_pid d2, root_id, ''quarantined-node-A'', ''none'']" using assms(3) by (simp_all add: requests_ok_def)
  have start: "\<exists>s1 s2 s3. h_reset x s = (200, s1) \<and> h_submit x d1 (\<lambda>p. p) [root_id] st s1 = ((d_pid d1, 200), s2) \<and> h_designate x t (d_pid d1) s2 = (200, s3) \<and>
      stage s3 {root_id, d_pid d1} {''quarantined-node-A'', d_pid d1} False" if "map_of st ''justification'' = None" for st
    using that ds(3) by (rule_tac first_poison [OF assms(1,2) ds(1), of st t]) auto
  obtain s1 s2 s3 where s: "h_reset x s = (200, s1)" "h_submit x d1 (\<lambda>p. p) [root_id] [(''v'', JStr ''orig'')] s1 = ((d_pid d1, 200), s2)"
      "h_designate x t (d_pid d1) s2 = (200, s3)" "stage s3 {root_id, d_pid d1} {''quarantined-node-A'', d_pid d1} False"
    using start [of "[(''v'', JStr ''orig'')]"] by auto
  let ?d = "d2\<lparr>d_pid := d_pid d1\<rparr>" and ?st = "[(''v'', JStr ''attacker'')]"
  have p: "(h_candidate x d2 [root_id] ?st (h_digest s3))\<lparr>payload_id := d_pid d1\<rparr> = h_candidate x ?d [root_id] ?st (h_digest s3)"
    by (simp add: h_candidate_def client_candidate_def fix_parent_hash_def build_valid_candidate_def sign_candidate_def bare_payload_def Let_def)
  have ready: "client_ready (s_cfg x) (env_at x (d_us d2)) (s_enc x) (s_validate x)" using assms(1) by (simp add: site_ready_def client_ready_def env_at_def)
  have c: "h_candidate x ?d [root_id] ?st (h_digest s3) = client_candidate (env_at x (d_us d2)) (s_enc x) (h_digest s3) (d_clock d2) (d_now d2) (d_expires d2) (d_key d2) (d_pid d1) (d_bid d2) [root_id] ?st"
    by (simp add: h_candidate_def env_at_def)
  have dg: "digests_ok (h_digest s3)" "d_pid d1 \<in> set (quarantine_ledger (gs (h_world s3)))" using s(4) by (simp_all add: stage_def session_ok_def)
  have "submit_gate (s_cfg x) (env_at x (d_us d2)) (s_validate x) \<lparr>body_length = d_len d2, body_json = Some (h_candidate x ?d [root_id] ?st (h_digest s3))\<rparr> =
      Inr (h_candidate x ?d [root_id] ?st (h_digest s3), session_claims (d_clock d2) (encode_raw (keygen (env_at x (d_us d2)) (d_key d2))) ''agent'' [])"
    by (rule client_gate [OF _ _ c [unfolded client_candidate_def]]) (use ready ds(2) client_valid(1) [OF ready dg(1) c] in \<open>simp_all add: client_ready_def timely_def\<close>)
  moreover have "payload_id (h_candidate x ?d [root_id] ?st (h_digest s3)) = d_pid d1" using client_facts(1) [OF c] .
  ultimately have "fst (submit_candidate (s_cfg x) (env_at x (d_us d2)) rego_engine (s_validate x) \<lparr>body_length = d_len d2, body_json = Some (h_candidate x ?d [root_id] ?st (h_digest s3))\<rparr> (h_world s3)) =
      Inl (HTTPException 409 ''payload_id is quarantined; cannot reuse a quarantined identity'')"
    using dg(2) by (simp add: submit_candidate_def fst_transaction admission_transaction_def Let_def)
  then have "fst (h_submit x d2 (\<lambda>p. p\<lparr>payload_id := d_pid d1\<rparr>) [root_id] ?st s3) = (d_pid d1, 409)"
    by (simp add: h_submit_def p post_candidate_def Let_def split_beta client_facts(1) [OF c])
  then have "fst (live_c4 x d1 t d2 s) = (409, True)" by (simp add: live_c4_def s split_beta)
  moreover obtain u1 u2 u3 where u: "h_reset x s = (200, u1)" "h_submit x d1 (\<lambda>p. p) [root_id] [(''v'', JStr ''P'')] u1 = ((d_pid d1, 200), u2)"
      "h_designate x t (d_pid d1) u2 = (200, u3)" "stage u3 {root_id, d_pid d1} {''quarantined-node-A'', d_pid d1} False"
    using start [of "[(''v'', JStr ''P'')]"] by auto
  have "verify_role_jwt (env_at x t') (desig_header x) ''designator'' = Inr [(''sub'', JStr ''d''), (''role'', JStr ''designator'')]"
    using assms(1) by (simp add: verify_minted site_ready_def desig_header_def)
  then have "fst (live_r6 x d1 t t' s) = (403, True)" using u(4) by (simp add: live_r6_def u(1,2,3) renew_trust_handler_def stage_def split_beta)
  ultimately show ?thesis ..
qed

text \<open>A new root on which the client's table has the digest.\<close>

lemma seed_payload_id: "payload_id (seed_payload e who k pub i) = i"
  by (simp add: seed_payload_def bare_payload_def Let_def)

lemma stage_seed:
  assumes "site_ready x" and "stage s K L f" and "i \<noteq> []" and "i \<notin> K \<union> L" and "seed_root (s_env x) (admin_header x) (Some i) (h_world s) = (r, w)"
    and "s' = s\<lparr>h_world := w, h_digest := AList.update i (case map_of (h_dag x (s\<lparr>h_world := w\<rparr>)) i of None \<Rightarrow> [] | Some nd \<Rightarrow> hash_or_empty (content_digest_sha256 nd)) (h_digest s)\<rparr>"
  shows "plain_status r = 200" and "stage s' (insert i K) L f"
proof -
  let ?g = "gs (h_world s)"
  have i: "i \<notin> set (keys (dag ?g))" "i \<notin> set (quarantine_ledger ?g)" using assms(2,4) by (auto simp: stage_def)
  obtain who k pub where sp: "dag (gs w) = dag ?g @ [(i, seed_payload (s_env x) who k pub i)]" "plain_status r = 200" "quarantine_ledger (gs w) = quarantine_ledger ?g"
      "signal_attempts (gs w) = signal_attempts ?g" "quarantine_events (gs w) = quarantine_events ?g" "repair_candidates (gs w) = repair_candidates ?g"
    using assms(3,5) i by (auto simp: seed_root_def admin_verified [OF assms(1)] generate_key_def draw_def Let_def commit_node_def seed_payload_id)
  define p where "p = seed_payload (s_env x) who k pub i"
  have p: "dag (gs w) = dag ?g @ [(i, p)]" "covers p = []" "criticality_weight p = None" "parent_dependency_commitments p = []"
      "\<exists>c. content_digest_sha256 p = Some (content_hash (s_env x) c)" "plain_status r = 200" "quarantine_ledger (gs w) = quarantine_ledger ?g"
      "signal_attempts (gs w) = signal_attempts ?g" "quarantine_events (gs w) = quarantine_events ?g" "repair_candidates (gs w) = repair_candidates ?g"
    using sp by (simp_all add: p_def) (auto simp: seed_payload_def bare_payload_def Let_def)
  show "plain_status r = 200" by (fact p(6))
  have ok: "session_ok s" using assms(2) by (simp add: stage_def)
  have hex: "matches_hex64 (content_hash (s_env x) c)" for c using assms(1) by (simp add: site_ready_def client_ready_def)
  have "map_of (dag ?g) i = None" using i(1) by (simp add: map_of_eq_None_keys)
  then have dig: "h_digest s' = AList.update i (the (content_digest_sha256 p)) (h_digest s)" "gs (h_world s') = gs w"
    using p(5) by (auto simp: assms(6) reads_of_ready(1) [OF assms(1)] p(1) map_add_def hash_or_empty_def)
  have "store_ok (gs w)"
    using ok i by (fastforce simp: session_ok_def store_ok_def quiet_def contained_def closed_under_def derives_append touches_def p plain_node_def parent_ids_def list_all_iff)
  moreover have "digests_ok (h_digest s')" using ok hex p(5) by (auto simp: dig session_ok_def digests_ok_def update_conv')
  moreover have "known (gs w) (h_digest s') n" if "n \<in> set (keys (dag (gs w))) - set (quarantine_ledger (gs w))" for n
    using that ok i p(5) \<open>map_of (dag ?g) i = None\<close> by (cases "n = i") (auto simp: session_ok_def known_def p(1,7) dig update_conv' map_of_append)
  ultimately have "session_ok s'" by (simp add: session_ok_def dig(2))
  then show "stage s' (insert i K) L f" using assms(2) by (auto simp: stage_def dig(2) p)
qed

theorem root_loss_is_recoverable:
  assumes "site_ready x" and "digests_ok (h_digest s)" and "requests_ok x [d1, d2, d3]"
  shows "fst (live_c3 x d1 t d2 d3 s) = ([200, 403, 200, 200, 401], True)"
proof -
  have ds: "timely x d1" "timely x d2" "timely x d3" "distinct [d_pid d1, d_pid d2, d_pid d3, root_id, ''quarantined-node-A'', ''none'', ''new-root-1'']"
    using assms(3) by (simp_all add: requests_ok_def)
  let ?w = "[(''v'', JStr ''write on quarantined root'')]" and ?n = "''new-root-1''"
  obtain s1 s2 where s: "h_reset x s = (200, s1)" "h_submit x d1 (\<lambda>p. p) [root_id] [(''v'', JStr ''A'')] s1 = ((d_pid d1, 200), s2)" "stage s2 {root_id, d_pid d1} {''quarantined-node-A''} True"
      "dag (gs (h_world s2)) = [(root_id, bare_payload root_id []), (d_pid d1, h_candidate x d1 [root_id] [(''v'', JStr ''A'')] (h_digest s))]"
    by (rule first_write [OF assms(1,2) ds(1), of "[(''v'', JStr ''A'')]"]) (use ds(4) in auto)
  let ?L = "{''quarantined-node-A''} \<union> {m. (derives (dag (gs (h_world s2))))\<^sup>*\<^sup>* root_id m}"
  obtain s3 where s3: "h_designate x t root_id s2 = (200, s3)" "stage s3 {root_id, d_pid d1} ?L False"
    by (rule stage_designate [OF assms(1) s(3), of root_id t]) auto
  have L: "?L \<subseteq> {''quarantined-node-A'', root_id, d_pid d1}"
    using closure_bound [of "dag (gs (h_world s2))" root_id] by (fastforce simp: s(4))
  obtain s4 where s4: "h_submit x d2 (\<lambda>p. p) [root_id] ?w s3 = ((d_pid d2, 403), s4)" "stage s4 (insert (d_pid d2) {root_id, d_pid d1}) (insert (d_pid d2) ?L) False"
    by (rule stage_refuse [OF assms(1) s3(2) ds(2), of root_id ?w]) (use ds(4) L in auto)
  obtain sr w5 where w5: "seed_root (s_env x) (admin_header x) (Some ?n) (h_world s4) = (sr, w5)" by fastforce
  define s6 where "s6 = s4\<lparr>h_world := w5, h_digest := AList.update ?n (case map_of (h_dag x (s4\<lparr>h_world := w5\<rparr>)) ?n of None \<Rightarrow> [] | Some nd \<Rightarrow> hash_or_empty (content_digest_sha256 nd)) (h_digest s4)\<rparr>"
  have new: "?n \<notin> insert (d_pid d2) {root_id, d_pid d1} \<union> insert (d_pid d2) ?L" using ds(4) L by auto
  note s6 = stage_seed [OF assms(1) s4(2) _ new w5 s6_def]
  obtain s7 where s7: "h_submit x d3 (\<lambda>p. p) [?n] [(''v'', JStr ''availability restored'')] s6 = ((d_pid d3, 200), s7)"
    by (rule stage_submit [OF assms(1) s6(2) ds(3), of ?n "[(''v'', JStr ''availability restored'')]"]) (use ds(4) L new in auto)
  have "token_ok x ''s'' ''agent''" using assms(1) by (simp add: site_ready_def)
  then have "verify_role_jwt (s_env x) (auth_header (mint_jwt (s_enc x) ''s'' ''agent'')) ''admin'' = Inl (HTTPException 401 ''Unauthorized: Token must have admin role'')"
    using verify_minted [of x "''s''" "''agent''" "now_us (s_env x)" "''admin''"] by (simp add: env_at_now)
  then have "seed_root (s_env x) (auth_header (mint_jwt (s_enc x) ''s'' ''agent'')) (Some ''evil'') w = (Inl (HTTPException 401 ''Unauthorized: Token must have admin role''), w)" for w
    by (simp add: seed_root_def)
  then show ?thesis using s6(1) s7 by (simp add: live_c3_def s(1,2) s3(1) s4(1) w5 s6_def)
qed

subsection \<open>Monotonicity\<close>

lemma hammer_op_grows: "grows (gs (h_world s)) (gs (h_world (hammer_op x t h s)))"
  by (cases h) (simp_all add: handler_grows h_designate_def split_beta)

lemma quarantine_set_grows: "grows (gs (h_world s)) (gs (h_world s')) \<Longrightarrow> quarantine_set x s \<subseteq> quarantine_set x s'"
  by (auto simp: quarantine_set_def get_db_state_def grows_def split: sum.splits if_splits)

lemma hammer_never_shrinks:
  assumes "maxq \<subseteq> quarantine_set x s"
  shows "fst (hammer_loop x hs maxq shr s) = shr"
  using assms
proof (induction hs arbitrary: maxq shr s)
  case (Cons a hs)
  obtain t h where a: "a = (t, h)" by fastforce
  have "quarantine_set x s \<subseteq> quarantine_set x (hammer_op x t h s)" by (rule quarantine_set_grows [OF hammer_op_grows])
  then have "maxq \<subseteq> quarantine_set x (hammer_op x t h s)" using Cons.prems by blast
  then show ?case using Cons.IH [of "maxq \<union> quarantine_set x (hammer_op x t h s)" "hammer_op x t h s"] by (simp add: a Let_def)
qed simp

subsection \<open>The race\<close>

lemma stage_no_escape:
  assumes "site_ready x" and "stage s K L f" and "leaf \<in> quarantine_set x s"
  shows "escaped_children leaf (h_dag x s) (quarantine_set x s) = []"
  using stage_contained [OF assms(2)] assms(3)
  by (auto simp: escaped_children_def filter_empty_conv reads_of_ready [OF assms(1)] contained_def closed_under_def derives_def touches_def parent_ids_def list_ex_iff)

lemma race_trial:
  assumes "site_ready x" and "digests_ok (h_digest s)" and "requests_ok x [d1, d2, d3]"
  shows "\<not> fst (live_r10 x d1 d2 first t d3 v s)" and "digests_ok (h_digest (snd (live_r10 x d1 d2 first t d3 v s)))"
proof -
  have ds: "timely x d1" "timely x d2" "timely x d3" "distinct [d_pid d1, d_pid d2, d_pid d3, root_id, ''quarantined-node-A'', ''none'', ''new-root-1'']"
    using assms(3) by (simp_all add: requests_ok_def)
  let ?r = "[(''v'', JStr ''r'')]" and ?l = "[(''v'', JStr ''l'')]" and ?c = "[(''v'', JStr v)]"
  obtain s1 s2 where s: "h_reset x s = (200, s1)" "h_submit x d1 (\<lambda>p. p) [root_id] ?r s1 = ((d_pid d1, 200), s2)" "stage s2 {root_id, d_pid d1} {''quarantined-node-A''} True"
      "dag (gs (h_world s2)) = [(root_id, bare_payload root_id []), (d_pid d1, h_candidate x d1 [root_id] ?r (h_digest s))]"
    by (rule first_write [OF assms(1,2) ds(1), of ?r]) (use ds(4) in auto)
  obtain s3 where s3: "h_submit x d2 (\<lambda>p. p) [d_pid d1] ?l s2 = ((d_pid d2, 200), s3)" "stage s3 (insert (d_pid d2) {root_id, d_pid d1}) {''quarantined-node-A''} True"
      "dag (gs (h_world s3)) = dag (gs (h_world s2)) @ [(d_pid d2, h_candidate x d2 [d_pid d1] ?l (h_digest s2))]"
    by (rule stage_submit [OF assms(1) s(3) ds(2), of "d_pid d1" ?l]) (use ds(4) in auto)
  let ?C = "{m. (derives (dag (gs (h_world s3))))\<^sup>*\<^sup>* (d_pid d1) m}"
  have "derives (dag (gs (h_world s3))) (d_pid d1) (d_pid d2)" by (auto simp: s3(3) derives_append touches_def h_candidate_parents)
  then have C1: "d_pid d2 \<in> ?C" by (simp add: r_into_rtranclp)
  have C2: "?C \<subseteq> {d_pid d1, d_pid d2}"
    using closure_bound [of "dag (gs (h_world s3))" "d_pid d1"] by (fastforce simp: s3(3) s(4) bare_payload_def parent_ids_def)
  obtain s4 where s4: "h_designate x t (d_pid d1) s3 = (200, s4)" "stage s4 (insert (d_pid d2) {root_id, d_pid d1}) ({''quarantined-node-A''} \<union> ?C) False"
    by (rule stage_designate [OF assms(1) s3(2), of "d_pid d1" t]) (use ds(4) in auto)
  obtain s5 where s5: "h_submit x d3 (\<lambda>p. p) [d_pid d2] ?c s4 = ((d_pid d3, 403), s5)"
      "stage s5 (insert (d_pid d3) (insert (d_pid d2) {root_id, d_pid d1})) (insert (d_pid d3) ({''quarantined-node-A''} \<union> ?C)) False"
    by (rule stage_refuse [OF assms(1) s4(2) ds(3), of "d_pid d2" ?c]) (use ds(4) C1 C2 in auto)
  obtain u4 where u4: "h_submit x d3 (\<lambda>p. p) [d_pid d2] ?c s3 = ((d_pid d3, 200), u4)" "stage u4 (insert (d_pid d3) (insert (d_pid d2) {root_id, d_pid d1})) {''quarantined-node-A''} True"
    by (rule stage_submit [OF assms(1) s3(2) ds(3), of "d_pid d2" ?c]) (use ds(4) in auto)
  obtain u5 L where u5: "h_designate x t (d_pid d1) u4 = (200, u5)" "stage u5 (insert (d_pid d3) (insert (d_pid d2) {root_id, d_pid d1})) L False"
    by (rule stage_designate [OF assms(1) u4(2), of "d_pid d1" t]) (use ds(4) in auto)
  show "\<not> fst (live_r10 x d1 d2 first t d3 v s)"
    using stage_no_escape [OF assms(1) s5(2)] stage_no_escape [OF assms(1) u5(2)]
    by (cases first) (auto simp: live_r10_def s(1,2) s3(1) s4(1) s5(1) u4(1) u5(1) Let_def)
  show "digests_ok (h_digest (snd (live_r10 x d1 d2 first t d3 v s)))"
    using s5(2) u5(2) by (cases first) (simp_all add: live_r10_def s(1,2) s3(1) s4(1) s5(1) u4(1) u5(1) Let_def stage_def session_ok_def)
qed

lemma race_never_slips:
  assumes "site_ready x" and "digests_ok (h_digest s)" and "\<forall>c\<in>set cs. requests_ok x [tr_root c, tr_leaf c, tr_child c]"
  shows "fst (r10_trials x cs slip s) = slip"
  using assms(2,3)
proof (induction cs arbitrary: s)
  case (Cons c cs)
  then show ?case using race_trial [OF assms(1) Cons.prems(1), of "tr_root c" "tr_leaf c" "tr_child c" "tr_first c" "tr_at c" "tr_value c"]
    by (simp add: split_beta)
qed simp

text \<open>A fifth of the operations of R9 does nothing: the gateway refuses the recurrence class that they send.\<close>

theorem hammer_observes_nothing: "hammer_op x t (Hit_Observe n) s = s"
  by (simp add: observe_recurrence_def Let_def split: sum.split)

lemma r9_nodes:
  assumes "site_ready x" and "stage s (set nodes) {''quarantined-node-A''} True" and "nodes \<noteq> []" and "''quarantined-node-A'' \<notin> set nodes"
    and "list_all (\<lambda>(d, k). timely x d) ds" and "distinct (map (d_pid \<circ> fst) ds @ nodes @ [''quarantined-node-A'', ''none''])"
  shows "length (fst (r9_setup x ds i nodes s)) = length nodes + length ds"
  using assms(2-6)
proof (induction ds arbitrary: i nodes s)
  case (Cons a ds)
  obtain d k where a: "a = (d, k)" by fastforce
  have par: "nodes ! (k mod length nodes) \<in> set nodes - {''quarantined-node-A''}" using Cons.prems(2,3) by auto
  obtain s' where s': "h_submit x d (\<lambda>p. p) [nodes ! (k mod length nodes)] [(''i'', JNum (of_nat i))] s = ((d_pid d, 200), s')"
      "stage s' (insert (d_pid d) (set nodes)) {''quarantined-node-A''} True"
    by (rule stage_submit [OF assms(1) Cons.prems(1) _ _ par, of d "[(''i'', JNum (of_nat i))]"]) (use Cons.prems(4,5) in \<open>auto simp: a\<close>)
  have "length (fst (r9_setup x ds (Suc i) (nodes @ [d_pid d]) s')) = length (nodes @ [d_pid d]) + length ds"
    by (rule Cons.IH) (use Cons.prems s'(2) in \<open>auto simp: a\<close>)
  then show ?case by (simp add: a s'(1))
qed simp

lemma quarantine_kept_by_hammer:
  assumes "site_ready x" and "digests_ok (h_digest s)" and "requests_ok x (map fst ds)" and "ds \<noteq> []"
  shows "fst (live_r9 x ds t hs s) = Some 0"
proof -
  obtain s1 where s1: "h_reset x s = (200, s1)" "stage s1 {root_id} {''quarantined-node-A''} True" using stage_reset [OF assms(1,2)] by blast
  have "length (fst (r9_setup x ds 0 [root_id] s1)) = 1 + length ds"
    using r9_nodes [OF assms(1), of s1 "[root_id]" ds 0] s1(2) assms(3) by (simp add: requests_ok_def list_all_iff split_beta comp_def)
  moreover obtain nodes s2 where r: "r9_setup x ds 0 [root_id] s1 = (nodes, s2)" by fastforce
  ultimately obtain a n ns where "nodes = a # n # ns" using assms(4) by (cases nodes; cases "tl nodes") (auto simp: neq_Nil_conv)
  then show ?thesis using hammer_never_shrinks [OF subset_refl] by (simp add: live_r9_def s1(1) r split_beta Let_def)
qed

section \<open>The run\<close>

text \<open>C39: The scripted attacks of \<open>live_run.py\<close> come out as secure on every gateway, not in one run. Whatever state the gateway was in, whatever times, keys and identifiers the client
  draws, in both orders of the race and for every sequence of operations in the monotonicity test: the compaction over poison is refused, or swept with it (C1), the report shows no breach (C2), writes resume on a
  root that an administrator seeds and nobody else can (C3), a quarantined identifier is not accepted again (C4), its trust is not renewed (R6), the quarantine never shrinks (R9) and no child escapes (R10). The statuses are those
  that the script prints.\<close>

theorem live_run_secure:
  assumes "site_ready x" and "digests_ok (h_digest s)" and "requests_ok x [d1, d2, d3]" and "requests_ok x (map fst ds)" and "ds \<noteq> []"
    and "\<forall>c\<in>set cs. requests_ok x [tr_root c, tr_leaf c, tr_child c]"
  shows "fst (live_c1_first x d1 t d2 s) = (403, True) \<and> fst (live_c1_after x d1 d2 t s) = (200, True) \<and> fst (live_c2 x d1 t d2 s) = (403, Some 0, True) \<and>
    fst (live_c3 x d1 t d2 d3 s) = ([200, 403, 200, 200, 401], True) \<and> fst (live_c4 x d1 t d2 s) = (409, True) \<and> fst (live_r6 x d1 t t' s) = (403, True) \<and>
    fst (live_r9 x ds t hs s) = Some 0 \<and> fst (r10_trials x cs 0 s) = 0"
proof -
  have d: "requests_ok x [d1, d2]" using assms(3) by (simp add: requests_ok_def)
  note b = assms(1,2)
  show ?thesis
    using laundering_after_designation [OF b d, of t] laundering_before_designation [OF b d, of t] root_loss_is_recoverable [OF b assms(3), of t] identifier_not_reused [OF b d, of t t']
      quarantine_kept_by_hammer [OF b assms(4,5), of t hs] race_never_slips [OF b assms(6), of 0]
    by simp
qed

text \<open>A gateway as the scripts expect it, with tokens that spell out their claims.\<close>

definition script_encode :: "json_object \<Rightarrow> string" where
  "script_encode c = (case (map_of c ''expires_at_epoch'', map_of c ''sub'', map_of c ''role'') of
     (None, Some (JStr u), Some (JStr r)) \<Rightarrow> u @ ''.'' @ r | _ \<Rightarrow> unary_encode c)"

definition script_claims :: "string \<Rightarrow> string \<Rightarrow> json_object" where
  "script_claims u r = [(''sub'', JStr u), (''role'', JStr r)]"

definition script_env :: env where
  "script_env = storm_env\<lparr>jwt_decode := \<lambda>tok. case map_of [(''x.admin'', script_claims ''x'' ''admin''), (''designator.designator'', script_claims ''designator'' ''designator''),
     (''d.designator'', script_claims ''d'' ''designator''), (''s.agent'', script_claims ''s'' ''agent'')] tok of Some c \<Rightarrow> Some c | None \<Rightarrow> jwt_decode storm_env tok\<rparr>"

definition script_site :: site where
  "script_site = \<lparr>s_cfg = enforcing\<lparr>DEBUG_MODE := True\<rparr>, s_env = script_env, s_enc = script_encode, s_validate = schema_validator, s_adapter = \<lambda>_. Adapter_Timeout\<rparr>"

definition script_session :: client_session where
  "script_session = \<lparr>h_world = init_world, h_digest = [(root_id, [])]\<rparr>"

definition script_draw :: "node_id \<Rightarrow> request_draw" where
  "script_draw i = \<lparr>d_us = 0, d_clock = 0, d_now = Datetime 2026 1 1 0 0 0 0, d_expires = Datetime 2026 1 1 1 0 0 0, d_key = 0, d_pid = i, d_bid = ''b1'', d_len = 900\<rparr>"

lemma script_ready: "site_ready script_site"
proof -
  have s: "client_ready enforcing storm_env unary_encode schema_validator" by (rule storm_env_ready)
  have enc: "script_encode (session_claims clock i ''agent'' []) = unary_encode (session_claims clock i ''agent'' [])" for clock i
    by (simp add: script_encode_def session_claims_sel)
  have u: "unary_encode (session_claims clock i ''agent'' []) \<notin> {''x.admin'', ''designator.designator'', ''d.designator'', ''s.agent''}" for clock i
    by (simp add: unary_encode_def session_claims_sel unary_clock_def)
  have "client_ready (enforcing\<lparr>DEBUG_MODE := True\<rparr>) script_env script_encode schema_validator"
    using s u by (simp add: client_ready_def script_env_def gateway_crypto_def enc)
  then show ?thesis
    by (simp add: site_ready_def script_site_def token_ok_def mint_jwt_def script_encode_def script_env_def script_claims_def) (simp add: enforcing_def default_settings_def)
qed

lemma script_draws: "distinct (is @ [root_id, ''quarantined-node-A'', ''none'', ''new-root-1'']) \<Longrightarrow> requests_ok script_site (map script_draw is)"
  by (auto simp: requests_ok_def list_all_iff timely_def script_draw_def script_site_def enforcing_size epoch_of_def env_at_def comp_def)

lemma script_digests: "digests_ok (h_digest script_session)"
  by (simp add: script_session_def digests_ok_def)

theorem live_run_secure_witness:
  "fst (live_c3 script_site (script_draw ''a'') 0 (script_draw ''b'') (script_draw ''c'') script_session) = ([200, 403, 200, 200, 401], True)"
proof -
  have d: "requests_ok script_site [script_draw ''a'', script_draw ''b'', script_draw ''c'']"
    using script_draws [of "[''a'', ''b'', ''c'']"] by (simp add: root_id_def)
  then have "requests_ok script_site (map fst [(script_draw ''a'', 0 :: nat)])" by (simp add: requests_ok_def)
  then show ?thesis
    using live_run_secure [OF script_ready script_digests d, of "[(script_draw ''a'', 0)]" "[\<lparr>tr_root = script_draw ''a'', tr_leaf = script_draw ''b'', tr_first = True, tr_at = 0, tr_child = script_draw ''c'', tr_value = ''c0''\<rparr>]" 0 0 "[]"] d
    by simp
qed

end
