(* ===== verification/Oracle_Script.thy ===== *)
theory Oracle_Script
  imports Live_Script Store_Invariant
begin

text \<open>
  \<open>prove_falsifiability\<close> of \<open>blackbox_test/property_runner.py\<close>, request by request: a graph with a parent edge and a covers edge under a designated node, the oracle's
  assertions on what the gateway returns, and the three manipulations that they must detect.
\<close>

section \<open>The script\<close>

text \<open>What \<open>Oracle()\<close> reads.\<close>

definition oracle_state :: "site \<Rightarrow> client_session \<Rightarrow> gstate" where
  "oracle_state x s = (case get_db_state (s_cfg x) (s_env x) (admin_header x) (gs (h_world s)) of
     Inl _ \<Rightarrow> (gs (h_world s))\<lparr>dag := [], quarantine_ledger := [], quarantine_events := []\<rparr>
   | Inr (d, l, ev, rc) \<Rightarrow> (gs (h_world s))\<lparr>dag := d, quarantine_ledger := l, quarantine_events := ev\<rparr>)"

definition mutate_c1 :: "node_id \<Rightarrow> payload \<Rightarrow> payload" where
  "mutate_c1 p1 p = p\<lparr>node_type := Some ''COMPACTION'', covers := [p1], summarizer := Some \<lparr>method_id = Some ''m'', config_digest = Some (replicate 64 CHR ''c'')\<rparr>\<rparr>"

text \<open>\<open>q_set.remove(n)\<close> and \<open>q_events[0][...].remove(n)\<close>, which raise if there is nothing to remove.\<close>

definition take_from_set :: "node_id \<Rightarrow> gstate \<Rightarrow> gstate option" where
  "take_from_set n o' = (if n \<in> set (quarantine_ledger o') then Some (drop_from_ledger n o') else None)"

definition take_from_first_event :: "node_id \<Rightarrow> gstate \<Rightarrow> gstate option" where
  "take_from_first_event n o' =
     (case quarantine_events o' of [] \<Rightarrow> None
      | ev # evs \<Rightarrow> if n \<in> set (computed_blast_radius_C_p ev)
          then Some (o'\<lparr>quarantine_events := ev\<lparr>computed_blast_radius_C_p := remove1 n (computed_blast_radius_C_p ev)\<rparr> # evs\<rparr>) else None)"

definition detected :: "(gstate \<Rightarrow> bool) \<Rightarrow> gstate option \<Rightarrow> bool" where
  "detected check o' = (case o' of None \<Rightarrow> False | Some g \<Rightarrow> \<not> check g)"

text \<open>The script prints \<open>PASS\<close> if every assertion holds and nothing raises.\<close>

definition prove_falsifiability :: "site \<Rightarrow> request_draw \<Rightarrow> request_draw \<Rightarrow> request_draw \<Rightarrow> int \<Rightarrow> int \<Rightarrow> client_session \<Rightarrow> bool \<times> client_session" where
  "prove_falsifiability x e1 e2 e3 t t' s0 =
     (let s1 = snd (h_reset x s0);
          ((p1, _), s2) = h_submit x e1 (\<lambda>p. p) [root_id] [(''v'', JStr ''P1'')] s1;
          ((d1, _), s3) = h_submit x e2 (\<lambda>p. p) [p1] [(''v'', JStr ''D1'')] s2;
          ((c1, _), s4) = h_submit x e3 (mutate_c1 p1) [root_id] [(''v'', JStr ''C1'')] s3;
          (_, s5) = h_designate x t p1 s4;
          o' = oracle_state x s5;
          (_, s6) = h_designate x t' p1 s5
      in (check_containment o' \<and> check_closure_correctness o' \<and>
          detected check_containment (take_from_set d1 o') \<and> detected check_containment (take_from_set c1 o') \<and>
          detected check_closure_correctness (take_from_first_event d1 o'), s6))"

section \<open>The assertions see a missing node\<close>

lemma missing_from_set:
  assumes "r \<in> set (event_roots (quarantine_events g))" and "(stored_derives (dag g))\<^sup>*\<^sup>* r n" and "n \<in> set (quarantine_ledger g)"
  shows "detected check_containment (take_from_set n g)"
proof -
  have "n \<in> set (independent_bfs (dag g) (event_roots (quarantine_events g)))" using assms(1,2) by (auto simp: set_independent_bfs reach_from_def)
  then show ?thesis using assms(3) by (auto simp: detected_def take_from_set_def check_containment_def list_all_iff drop_from_ledger_def)
qed

lemma missing_from_event:
  assumes "quarantine_events g = [ev]" and "poisoned_root_id ev = r" and "r \<noteq> []" and "(stored_derives (dag g))\<^sup>*\<^sup>* r n"
    and "distinct (computed_blast_radius_C_p ev)" and "n \<in> set (computed_blast_radius_C_p ev)"
  shows "detected check_closure_correctness (take_from_first_event n g)"
proof -
  have "n \<in> set (independent_bfs (dag g) [r])" using assms(4) by (simp add: set_independent_bfs reach_from_def)
  then show ?thesis using assms by (auto simp: detected_def take_from_first_event_def check_closure_correctness_def event_roots_def recorded_cp_def)
qed

section \<open>What the script prints\<close>

lemma mutated_gate:
  assumes "site_ready x" and "timely x d" and "digests_ok digests" and "p = mutate_c1 p1 (h_candidate x d [par] state digests)"
  shows "submit_gate (s_cfg x) (env_at x (d_us d)) (s_validate x) \<lparr>body_length = d_len d, body_json = Some p\<rparr> =
    Inr (p, session_claims (d_clock d) (encode_raw (keygen (env_at x (d_us d)) (d_key d))) ''agent'' [])"
proof -
  have ready: "client_ready (s_cfg x) (env_at x (d_us d)) (s_enc x) (s_validate x)" using assms(1) by (simp add: site_ready_def client_ready_def env_at_def)
  let ?q = "h_candidate x d [par] state digests"
  have q: "?q = client_candidate (env_at x (d_us d)) (s_enc x) digests (d_clock d) (d_now d) (d_expires d) (d_key d) (d_pid d) (d_bid d) [par] state"
    by (simp add: h_candidate_def env_at_def)
  note sel = candidate_sel [OF q [unfolded client_candidate_def]]
  have "schema_valid ?q" using client_valid(1) [OF ready assms(3) q] ready by (simp add: client_ready_def validates_def)
  then have "schema_valid p" by (simp add: assms(4) mutate_c1_def schema_valid_def)
  then have v: "s_validate x p = None" using ready by (simp add: client_ready_def validates_def)
  show ?thesis
    by (rule signed_gate [where c = state and tok = "s_enc x (session_claims (d_clock d) (encode_raw (keygen (env_at x (d_us d)) (d_key d))) ''agent'' [])"])
      (use ready assms(2) sel v in \<open>simp_all add: client_ready_def timely_def assms(4) mutate_c1_def parent_ids_def nhi_identity_def nhi_token_def\<close>)
qed

lemma mutated_committed:
  assumes "site_ready x" and "stage s K L True" and "timely x d" and "d_pid d \<notin> K \<union> L \<union> {''none''}" and "p1 \<notin> L" and "par \<notin> L"
    and "map_of (dag (gs (h_world s))) par = Some nd" and "content_digest_sha256 nd = None" and "map_of state ''justification'' = None"
    and "p = mutate_c1 p1 (h_candidate x d [par] state (h_digest s))"
  obtains s' where "h_submit x d (mutate_c1 p1) [par] state s = ((d_pid d, 200), s')"
    and "dag (gs (h_world s')) = dag (gs (h_world s)) @ [(d_pid d, with_gap (gs (h_world s)) p)]" and "quarantine_ledger (gs (h_world s')) = quarantine_ledger (gs (h_world s))"
    and "quarantine_events (gs (h_world s')) = quarantine_events (gs (h_world s))" and "signal_attempts (gs (h_world s')) = []" and "repair_candidates (gs (h_world s')) = []"
proof -
  let ?g = "gs (h_world s)" and ?q = "h_candidate x d [par] state (h_digest s)"
  let ?r = "submit_candidate (s_cfg x) (env_at x (d_us d)) rego_engine (s_validate x) \<lparr>body_length = d_len d, body_json = Some p\<rparr> (h_world s)"
  have st: "digests_ok (h_digest s)" "set (quarantine_ledger ?g) = L" "set (keys (dag ?g)) = K" "signal_attempts ?g = []" "repair_candidates ?g = []"
    using assms(2) by (simp_all add: stage_def session_ok_def store_ok_def quiet_def)
  note sel = candidate_sel [where p = ?q, OF h_candidate_def [unfolded client_candidate_def]]
  have p: "payload_id p = d_pid d" "node_type p = Some ''COMPACTION''" "parent_ids p = [par]" "state_content p = Some state" "covers p = [p1]" "boundary_fixed (with_gap ?g p)"
    using sel(1,2,5,11) by (simp_all add: assms(10) mutate_c1_def parent_ids_def boundary_fixed_def with_gap_def split_beta)
  have env: "ENFORCEMENT_MODE (s_cfg x) \<noteq> ''shadow''" "epoch_of (env_at x (d_us d)) < d_clock d + 3600" using assms(1,3) by (simp_all add: site_ready_def client_ready_def timely_def)
  have fresh: "payload_id p \<notin> set (keys (dag ?g)) \<union> set (quarantine_ledger ?g) \<union> {''none''}" using assms(4) by (simp add: p(1) st)
  have clean: "par \<notin> set (quarantine_ledger ?g)" "set (covers p) \<inter> set (quarantine_ledger ?g) = {}" using assms(5,6) by (simp_all add: p(5) st(2))
  note c = compaction_committed [OF mutated_gate [OF assms(1,3) st(1) assms(10)] env(1) p(2,3,6,4) assms(9) env(2) fresh assms(7,8) clean refl]
  show ?thesis
    by (rule that [of "snd (h_submit x d (mutate_c1 p1) [par] state s)"])
      (use c st in \<open>simp_all add: h_submit_def post_candidate_def Let_def split_beta assms(10) [symmetric] p(1) prod_eq_iff\<close>)
qed

text \<open>What the oracle reads after the designation of a stored node: one event, which lists the closure, and a quarantine that contains it.\<close>

lemma oracle_after_designation:
  assumes "site_ready x" and "calm (gs (h_world s))" and "signal_attempts (gs (h_world s)) = []" and "quarantine_events (gs (h_world s)) = []"
    and "n \<in> set (keys (dag (gs (h_world s)))) - set (quarantine_ledger (gs (h_world s)))" and "n \<noteq> []" and "o' = oracle_state x (snd (h_designate x t n s))"
  obtains ev where "dag o' = dag (gs (h_world s))" and "quarantine_events o' = [ev]" and "poisoned_root_id ev = n" and "distinct (computed_blast_radius_C_p ev)"
    and "set (computed_blast_radius_C_p ev) = reach_from (stored_derives (dag o')) {n}" and "reach_from (stored_derives (dag o')) {n} \<subseteq> set (quarantine_ledger o')"
proof -
  let ?g = "gs (h_world s)" and ?ev = "\<lparr>poisoned_node_id = n, de_reason = ''poison''\<rparr>"
  let ?d = "designate_poison (s_cfg x) (env_at x t) (s_adapter x) (auth_header (mint_jwt (s_enc x) ''designator'' ''designator'')) ?ev (h_world s)"
  have "verify_role_jwt (env_at x t) (auth_header (mint_jwt (s_enc x) ''designator'' ''designator'')) ''designator'' = Inr [(''sub'', JStr ''designator''), (''role'', JStr ''designator'')]"
    "0 < DESIGNATION_RATE_LIMIT (s_cfg x)" using assms(1) by (simp_all add: verify_minted site_ready_def)
  then obtain qe sv where d: "fst ?d = Inr (Designated qe sv)"
    using designate_granted [of "env_at x t" _ _ "h_world s" "s_cfg x" ?ev "s_adapter x"] assms(3,5) by fastforce
  have "DEBUG_MODE (s_cfg x)" using assms(1) by (simp add: site_ready_def)
  then have o': "dag o' = dag (gs (snd ?d))" "quarantine_events o' = quarantine_events (gs (snd ?d))" "quarantine_ledger o' = quarantine_ledger (gs (snd ?d))"
    by (simp_all add: assms(7) oracle_state_def h_designate_def split_beta get_db_state_def admin_verified [OF assms(1)])
  note q = calm_designate [OF assms(2) refl, of "s_cfg x" "env_at x t" "s_adapter x" "auth_header (mint_jwt (s_enc x) ''designator'' ''designator'')" ?ev]
  have new: "quarantine_events (gs (snd ?d)) \<noteq> quarantine_events ?g" using designated_effect [OF d] by (simp add: Let_def)
  then obtain ev where ev: "quarantine_events (gs (snd ?d)) = [ev]" "poisoned_root_id ev = n" "computed_blast_radius_C_p ev = fst (compute_blast_radius n ?g)"
      "reach_from (derives (dag ?g)) {n} \<subseteq> set (quarantine_ledger (gs (snd ?d)))"
    using q(3) assms(4) by auto
  have "reach_from (stored_derives (dag ?g)) {n} = reach_from (derives (dag ?g)) {n}" using assms(5) by (intro reach_stored) auto
  then show ?thesis using ev by (intro that [of ev]) (simp_all add: o' q(1) set_blast_radius distinct_blast_radius)
qed

text \<open>The graph of the script before the designation.\<close>

lemma falsifiability_graph:
  assumes "site_ready x" and "digests_ok (h_digest s)" and "requests_ok x [e1, e2, e3]"
  obtains s1 s2 s3 s4 where "h_reset x s = (200, s1)" and "h_submit x e1 (\<lambda>p. p) [root_id] [(''v'', JStr ''P1'')] s1 = ((d_pid e1, 200), s2)"
    and "h_submit x e2 (\<lambda>p. p) [d_pid e1] [(''v'', JStr ''D1'')] s2 = ((d_pid e2, 200), s3)" and "h_submit x e3 (mutate_c1 (d_pid e1)) [root_id] [(''v'', JStr ''C1'')] s3 = ((d_pid e3, 200), s4)"
    and "calm (gs (h_world s4))" and "signal_attempts (gs (h_world s4)) = []" and "quarantine_events (gs (h_world s4)) = []"
    and "d_pid e1 \<in> set (keys (dag (gs (h_world s4)))) - set (quarantine_ledger (gs (h_world s4)))"
    and "derives (dag (gs (h_world s4))) (d_pid e1) (d_pid e2)" and "derives (dag (gs (h_world s4))) (d_pid e1) (d_pid e3)"
proof -
  have ds: "timely x e1" "timely x e2" "timely x e3" "distinct [d_pid e1, d_pid e2, d_pid e3, root_id, ''quarantined-node-A'', ''none'']"
    using assms(3) by (simp_all add: requests_ok_def)
  let ?c = "[(''v'', JStr ''C1'')]" and ?A = "''quarantined-node-A''"
  obtain s1 s2 where s: "h_reset x s = (200, s1)" "h_submit x e1 (\<lambda>p. p) [root_id] [(''v'', JStr ''P1'')] s1 = ((d_pid e1, 200), s2)" "stage s2 {root_id, d_pid e1} {?A} True"
      "dag (gs (h_world s2)) = [(root_id, bare_payload root_id []), (d_pid e1, h_candidate x e1 [root_id] [(''v'', JStr ''P1'')] (h_digest s))]" "quarantine_events (gs (h_world s2)) = []"
    by (rule first_write [OF assms(1,2) ds(1), of "[(''v'', JStr ''P1'')]"]) (use ds(4) in auto)
  obtain s3 where s3: "h_submit x e2 (\<lambda>p. p) [d_pid e1] [(''v'', JStr ''D1'')] s2 = ((d_pid e2, 200), s3)" "stage s3 (insert (d_pid e2) {root_id, d_pid e1}) {?A} True"
      "dag (gs (h_world s3)) = dag (gs (h_world s2)) @ [(d_pid e2, h_candidate x e2 [d_pid e1] [(''v'', JStr ''D1'')] (h_digest s2))]" "quarantine_events (gs (h_world s3)) = []"
    by (rule stage_submit [OF assms(1) s(3) ds(2), of "d_pid e1" "[(''v'', JStr ''D1'')]"]) (use ds(4) s(5) in auto)
  let ?p = "mutate_c1 (d_pid e1) (h_candidate x e3 [root_id] ?c (h_digest s3))"
  have node: "map_of (dag (gs (h_world s3))) root_id = Some (bare_payload root_id [])" "content_digest_sha256 (bare_payload root_id []) = None"
    by (simp_all add: s3(3) s(4) bare_payload_def)
  obtain s4 where s4: "h_submit x e3 (mutate_c1 (d_pid e1)) [root_id] ?c s3 = ((d_pid e3, 200), s4)" "dag (gs (h_world s4)) = dag (gs (h_world s3)) @ [(d_pid e3, with_gap (gs (h_world s3)) ?p)]"
      "quarantine_ledger (gs (h_world s4)) = quarantine_ledger (gs (h_world s3))" "quarantine_events (gs (h_world s4)) = []" "signal_attempts (gs (h_world s4)) = []" "repair_candidates (gs (h_world s4)) = []"
    by (rule mutated_committed [OF assms(1) s3(2) ds(3) _ _ _ node _ refl, of "d_pid e1" ?c]) (use ds(4) s3(4) in auto)
  have "light_node (h_candidate x d par state dg)" for d par state dg
    using client_facts(6) [OF h_candidate_def] by (simp add: plain_node_def light_node_def)
  then have calm: "calm (gs (h_world s4))"
    by (simp add: calm_def s4(2,6) s3(3) s(4)) (simp add: light_node_def mutate_c1_def with_gap_def split_beta bare_payload_def)
  have stored: "d_pid e1 \<in> set (keys (dag (gs (h_world s4)))) - set (quarantine_ledger (gs (h_world s4)))"
    using s3(2) ds(4) by (auto simp: stage_def s4(2,3) s3(3) s(4))
  have "derives (dag (gs (h_world s4))) (d_pid e1) (d_pid e2)" "derives (dag (gs (h_world s4))) (d_pid e1) (d_pid e3)"
    unfolding s4(2) s3(3) derives_append touches_def by (simp_all add: h_candidate_parents mutate_c1_def)
  then show ?thesis using s(1,2) s3(1) s4(1) calm s4(5,4) stored by (intro that)
qed

text \<open>C36: The falsifiability check of the oracle passes on every gateway, whatever state it was in and whatever the client draws: both assertions hold on what the gateway returns after the designation, and
  each fails once the child, the covering compaction or the child's entry in the recorded blast radius is taken away; nothing that the script removes is absent.\<close>

theorem falsifiability_passes:
  assumes "site_ready x" and "digests_ok (h_digest s)" and "requests_ok x [e1, e2, e3]" and "d_pid e1 \<noteq> []"
  shows "fst (prove_falsifiability x e1 e2 e3 t t' s)"
proof -
  obtain s1 s2 s3 s4 where g: "h_reset x s = (200, s1)" "h_submit x e1 (\<lambda>p. p) [root_id] [(''v'', JStr ''P1'')] s1 = ((d_pid e1, 200), s2)"
      "h_submit x e2 (\<lambda>p. p) [d_pid e1] [(''v'', JStr ''D1'')] s2 = ((d_pid e2, 200), s3)" "h_submit x e3 (mutate_c1 (d_pid e1)) [root_id] [(''v'', JStr ''C1'')] s3 = ((d_pid e3, 200), s4)"
      "calm (gs (h_world s4))" "signal_attempts (gs (h_world s4)) = []" "quarantine_events (gs (h_world s4)) = []"
      "d_pid e1 \<in> set (keys (dag (gs (h_world s4)))) - set (quarantine_ledger (gs (h_world s4)))"
      "derives (dag (gs (h_world s4))) (d_pid e1) (d_pid e2)" "derives (dag (gs (h_world s4))) (d_pid e1) (d_pid e3)"
    by (rule falsifiability_graph [OF assms(1-3)])
  define o' where "o' = oracle_state x (snd (h_designate x t (d_pid e1) s4))"
  obtain ev where ev: "dag o' = dag (gs (h_world s4))" "quarantine_events o' = [ev]" "poisoned_root_id ev = d_pid e1" "distinct (computed_blast_radius_C_p ev)"
      "set (computed_blast_radius_C_p ev) = reach_from (stored_derives (dag o')) {d_pid e1}" "reach_from (stored_derives (dag o')) {d_pid e1} \<subseteq> set (quarantine_ledger o')"
    by (rule oracle_after_designation [OF assms(1) g(5-8) assms(4) o'_def])
  have r: "(stored_derives (dag o'))\<^sup>*\<^sup>* (d_pid e1) (d_pid e2)" "(stored_derives (dag o'))\<^sup>*\<^sup>* (d_pid e1) (d_pid e3)"
    using g(8-10) by (simp_all add: r_into_rtranclp stored_derives_def ev(1))
  then have in_reach: "{d_pid e2, d_pid e3} \<subseteq> reach_from (stored_derives (dag o')) {d_pid e1}" by (simp add: reach_from_def)
  have roots: "event_roots (quarantine_events o') = [d_pid e1]" using assms(4) by (simp add: ev event_roots_def)
  have "check_containment o'" "check_closure_correctness o'"
    using ev(5,6) roots by (auto simp: check_containment_def check_closure_correctness_def list_all_iff set_independent_bfs recorded_cp_def ev(2,3))
  moreover have "detected check_containment (take_from_set n o')" if "n \<in> {d_pid e2, d_pid e3}" for n
    using missing_from_set [of "d_pid e1" o' n] roots r in_reach ev(6) that by auto
  moreover have "detected check_closure_correctness (take_from_first_event (d_pid e2) o')"
    using missing_from_event [OF ev(2,3) assms(4) r(1) ev(4)] in_reach ev(5) by simp
  ultimately show ?thesis by (simp add: prove_falsifiability_def g(1-4) split_beta o'_def)
qed

theorem falsifiability_passes_witness:
  "fst (prove_falsifiability script_site (script_draw ''a'') (script_draw ''b'') (script_draw ''c'') 0 0 script_session)"
proof -
  have "requests_ok script_site [script_draw ''a'', script_draw ''b'', script_draw ''c'']"
    using script_draws [of "[''a'', ''b'', ''c'']"] by (simp add: root_id_def)
  then show ?thesis
    by (rule falsifiability_passes [OF script_ready script_digests]) (simp add: script_draw_def)
qed

section \<open>The verdicts of the storm\<close>

text \<open>What \<open>run_concurrency_storm\<close> prints when its threads have ended: whether the growth of the graph is accounted for, and whether a write answered with 5xx is in it.\<close>

definition storm_verdict :: "nat \<Rightarrow> storm \<Rightarrow> bool \<times> bool" where
  "storm_verdict start_dag_size s =
     (let final_dag = dag (gs (st_world s));
          diff = int (length final_dag) - int start_dag_size;
          expected_growth = int (count_200 s + count_403 s);
          leaks = filter (\<lambda>pid. pid \<in> set (keys final_dag)) (failed_payload_ids s)
      in (diff = expected_growth, leaks = []))"

theorem storm_verdicts:
  assumes "client_ready cfg e enc validate" and "(storm_step cfg e enc validate adapter)\<^sup>*\<^sup>* (storm_start w) s" and "st_sent s = []" and "st_answers s = []"
    and "start = length (dag (gs (st_world (storm_start w))))"
  shows "snd (storm_verdict start s) \<and> (count_other s = 0 \<longrightarrow> fst (storm_verdict start s))"
proof -
  have "storm_inv e enc s" using run_inv [OF assms(2) start_inv assms(1)] .
  then have "counts_ok s" "ids_ok s" by (simp_all add: storm_inv_def)
  moreover have "start = 1" by (simp add: assms(5) storm_start_def reset_sync_def)
  ultimately show ?thesis
    using assms(3,4) by (auto simp: storm_verdict_def counts_ok_def ids_ok_def dead_ids_def Let_def landed_def lost_def filter_empty_conv)
qed

section \<open>The verdict of the sleeper race\<close>

text \<open>\<open>poller\<close> looks at the size of the quarantine again and again; the verdict combines it with the oracle.\<close>

definition poll_step :: "bool \<times> nat \<Rightarrow> nat \<Rightarrow> bool \<times> nat" where
  "poll_step s q_len = (case s of (mon_ok, max_q) \<Rightarrow> (mon_ok \<and> \<not> q_len < max_q, max max_q q_len))"

definition poller :: "nat list \<Rightarrow> bool" where
  "poller samples = fst (foldl poll_step (True, 0) samples)"

definition sleeper_verdict :: "nat list \<Rightarrow> node_id list \<Rightarrow> node_id list \<Rightarrow> gstate \<Rightarrow> bool" where
  "sleeper_verdict samples exposed escalated s \<longleftrightarrow> poller samples \<and> run_all exposed escalated s"

lemma poller_sorted: "poller samples \<longleftrightarrow> sorted samples"
proof -
  have "foldl poll_step (b, m) xs = (b \<and> sorted (m # xs), foldl max m xs)" for b m xs
    by (induction xs arbitrary: b m) (auto simp: poll_step_def max_def)
  then show ?thesis by (simp add: poller_def)
qed

text \<open>The sizes that are seen while the gateway handles any requests never shrink.\<close>

theorem poller_sees_growth:
  assumes "wf_state (gs (hd ws))" and "successively (gateway_step cfg opa validate adapter)\<^sup>*\<^sup>* ws"
  shows "poller (map (\<lambda>w. length (quarantine_ledger (gs w))) ws)"
proof -
  have "sorted (map (\<lambda>w. length (quarantine_ledger (gs w))) ws)"
    using assms
  proof (induction ws rule: induct_list012)
    case (3 w w' ws)
    have run: "(gateway_step cfg opa validate adapter)\<^sup>*\<^sup>* w w'" using 3(4) by simp
    have wf: "wf_state (gs w)" "wf_state (gs w')" using 3(3) typed.run [OF run] by simp_all
    have "set (quarantine_ledger (gs w)) \<subseteq> set (quarantine_ledger (gs w'))" using gateway_run_grows [OF run] by (simp add: grows_def)
    then have "length (quarantine_ledger (gs w)) \<le> length (quarantine_ledger (gs w'))"
      using wf card_mono [OF finite_set] by (fastforce simp: wf_state_def distinct_card)
    then show ?case using 3(2) 3(4) wf by (auto intro: order_trans)
  qed simp_all
  then show ?thesis by (simp add: poller_sorted)
qed

end
