(* ===== verification/Scale_Test.thy ===== *)
theory Scale_Test
  imports Sqlite_Backend Timestamps
begin

text \<open>
  \<open>build_scale_dag\<close> of \<open>blackbox_test/property_runner.py\<close>, which fills the SQLite tables for the latency test without going through the gateway. The random choices
  are an argument. Shown: the rows it inserts never violate a key, the edges table agrees with the payloads as after commits through the backend, and so the search of the backend is exact on it as
  long as its depth bound is not below the number of nodes.
\<close>

section \<open>The generator\<close>

text \<open>Decimal numerals as Python writes them.\<close>

fun decimal :: "nat \<Rightarrow> string" where
  "decimal n = (if n < 10 then [digit n] else decimal (n div 10) @ [digit (n mod 10)])"

declare decimal.simps [simp del]

definition scale_id :: "nat \<Rightarrow> node_id" where
  "scale_id i = (if i = 0 then ''clean-parent-1'' else CHR ''n'' # decimal i)"

text \<open>What is drawn for one node: the parents, and the covers before those that are parents are taken out.\<close>

type_synonym scale_draw = "node_id list \<times> node_id list"

definition scale_covers :: "scale_draw \<Rightarrow> node_id list" where
  "scale_covers dr = filter (\<lambda>c. c \<notin> set (fst dr)) (snd dr)"

text \<open>The payload lacks the key \<open>payload_id\<close>; the column \<open>node_id\<close> stands for it.\<close>

definition scale_node :: "nat \<Rightarrow> scale_draw \<Rightarrow> payload" where
  "scale_node i dr = (bare_payload (scale_id i) (map (\<lambda>p. \<lparr>parent_node_id = p, parent_content_hash = Some (replicate 64 CHR ''c''), edge_class = None\<rparr>) (fst dr)))\<lparr>
     covers := scale_covers dr\<rparr>"

definition scale_edges :: "nat \<Rightarrow> scale_draw \<Rightarrow> (node_id \<times> node_id \<times> string) list" where
  "scale_edges i dr = map (\<lambda>c. (scale_id i, c, ''COVERS'')) (scale_covers dr) @ map (\<lambda>p. (scale_id i, p, ''MATERIAL'')) (fst dr)"

fun nodes_data :: "nat \<Rightarrow> scale_draw list \<Rightarrow> (node_id, payload) dict" where
  "nodes_data i [] = []"
| "nodes_data i (dr # drs) = (scale_id i, scale_node i dr) # nodes_data (Suc i) drs"

fun edges_data :: "nat \<Rightarrow> scale_draw list \<Rightarrow> (node_id \<times> node_id \<times> string) list" where
  "edges_data i [] = []"
| "edges_data i (dr # drs) = scale_edges i dr @ edges_data (Suc i) drs"

text \<open>\<open>executemany\<close> of a plain \<open>INSERT\<close> into an emptied table: a repeated key raises \<open>IntegrityError\<close>.\<close>

definition insert_many :: "('r \<Rightarrow> 'k) \<Rightarrow> 'r list \<Rightarrow> 'r list option" where
  "insert_many key rows = (if distinct (map key rows) then Some rows else None)"

definition build_scale_dag :: "scale_draw list \<Rightarrow> sqlite_state \<Rightarrow> (node_id list \<times> sqlite_state) option" where
  "build_scale_dag draws t =
     (case insert_many fst ((''clean-parent-1'', bare_payload ''clean-parent-1'' []) # nodes_data 1 draws) of None \<Rightarrow> None
      | Some ns \<Rightarrow> (case insert_many (\<lambda>(c, p, k). (c, p)) (edges_data 1 draws) of None \<Rightarrow> None
        | Some es \<Rightarrow> Some (keys ns, t\<lparr>tables := (tables t)\<lparr>dag := ns, quarantine_ledger := [], quarantine_events := []\<rparr>, edges := es, event_depths := []\<rparr>)))"

text \<open>What \<open>random.sample\<close> can draw for node \<open>i\<close>: one to three different nodes of the last hundred, and up to two different earlier nodes.\<close>

definition draw_ok :: "nat \<Rightarrow> scale_draw \<Rightarrow> bool" where
  "draw_ok i dr \<longleftrightarrow> distinct (fst dr) \<and> 1 \<le> length (fst dr) \<and> length (fst dr) \<le> 3 \<and> set (fst dr) \<subseteq> scale_id ` {i - 100..<i} \<and>
     distinct (snd dr) \<and> length (snd dr) \<le> 2 \<and> set (snd dr) \<subseteq> scale_id ` {0..<i}"

definition draws_ok :: "scale_draw list \<Rightarrow> bool" where
  "draws_ok draws \<longleftrightarrow> (\<forall>j<length draws. draw_ok (Suc j) (draws ! j))"

section \<open>Keys\<close>

lemma decimal_inj: "decimal m = decimal n \<Longrightarrow> m = n"
proof (induction m arbitrary: n rule: less_induct)
  case (less m)
  have d: "decimal k = (if k < 10 then [] else decimal (k div 10)) @ [digit (k mod 10)]" for k by (subst decimal.simps) simp
  have ne: "decimal k \<noteq> []" for k using d [of k] by auto
  have "(if m < 10 then [] else decimal (m div 10)) @ [digit (m mod 10)] = (if n < 10 then [] else decimal (n div 10)) @ [digit (n mod 10)]"
    using less(2) d [of m] d [of n] by (rule box_equals)
  then have eq: "(if m < 10 then [] else decimal (m div 10)) = (if n < 10 then [] else decimal (n div 10))" and "digit (m mod 10) = digit (n mod 10)"
    unfolding append1_eq_conv by blast+
  then have m: "m mod 10 = n mod 10" by (simp add: digit_inj)
  show ?case
  proof (cases "m < 10")
    case True
    then have "n < 10" using eq ne [of "n div 10"] by (simp split: if_splits)
    then show ?thesis using True m by simp
  next
    case False
    then have dec: "decimal (m div 10) = (if n < 10 then [] else decimal (n div 10))" using eq by simp
    then have "\<not> n < 10" using ne [of "m div 10"] by (auto split: if_splits)
    then have "decimal (m div 10) = decimal (n div 10)" using dec by simp
    moreover have "m div 10 < m" using False by simp
    ultimately have "m div 10 = n div 10" using less(1) by blast
    then show ?thesis using m by (metis div_mult_mod_eq)
  qed
qed

lemma scale_id_inj: "scale_id i = scale_id j \<longleftrightarrow> i = j"
  by (auto simp: scale_id_def decimal_inj)

lemma keys_nodes_data: "keys (nodes_data i drs) = map scale_id [i..<i + length drs]"
  by (induction drs arbitrary: i) (simp_all add: upt_conv_Cons del: upt_Suc)

lemma edges_children: "(c, p, k) \<in> set (edges_data i drs) \<Longrightarrow> \<exists>j\<ge>i. c = scale_id j"
proof (induction drs arbitrary: i)
  case (Cons dr drs)
  show ?case
  proof (cases "(c, p, k) \<in> set (scale_edges i dr)")
    case True
    then show ?thesis by (auto simp: scale_edges_def)
  next
    case False
    then show ?thesis using Cons(1) [of "Suc i"] Cons(2) by (auto dest: Suc_leD)
  qed
qed simp

lemma distinct_edges:
  assumes "\<And>j. j < length drs \<Longrightarrow> distinct (fst (drs ! j)) \<and> distinct (snd (drs ! j))"
  shows "distinct (map (\<lambda>(c, p, k). (c, p)) (edges_data i drs))"
  using assms
proof (induction drs arbitrary: i)
  case (Cons dr drs)
  have "distinct (fst dr)" "distinct (snd dr)" using Cons(2) [of 0] by simp_all
  then have "distinct (map (\<lambda>(c, p, k). (c, p)) (scale_edges i dr))"
    by (auto simp: scale_edges_def scale_covers_def comp_def distinct_map inj_on_def)
  moreover have "distinct (map (\<lambda>(c, p, k). (c, p)) (edges_data (Suc i) drs))" using Cons(1) Cons(2) [of "Suc _"] by simp
  moreover have "fst ` set (scale_edges i dr) \<subseteq> {scale_id i}" by (auto simp: scale_edges_def)
  moreover have "scale_id i \<notin> fst ` set (edges_data (Suc i) drs)" using edges_children by (fastforce simp: scale_id_inj)
  ultimately show ?case by (force simp: image_iff)
qed simp

lemma scale_rel: "(\<exists>k. (y, x, k) \<in> set (edges_data i drs)) \<longleftrightarrow> derives (nodes_data i drs) x y"
proof (induction drs arbitrary: i)
  case (Cons dr drs)
  have "(\<exists>k. (y, x, k) \<in> set (scale_edges i dr)) \<longleftrightarrow> y = scale_id i \<and> touches x (scale_node i dr)"
    by (auto simp: scale_edges_def touches_def scale_node_def parent_ids_def comp_def)
  moreover have "derives (nodes_data i (dr # drs)) x y \<longleftrightarrow> y = scale_id i \<and> touches x (scale_node i dr) \<or> derives (nodes_data (Suc i) drs) x y"
    by (auto simp: derives_def)
  moreover have "(\<exists>k. (y, x, k) \<in> set (edges_data i (dr # drs))) \<longleftrightarrow> (\<exists>k. (y, x, k) \<in> set (scale_edges i dr)) \<or> (\<exists>k. (y, x, k) \<in> set (edges_data (Suc i) drs))" by auto
  ultimately show ?case using Cons by simp
qed (simp add: derives_def)

section \<open>The search on generated graphs\<close>

text \<open>The generated database is as good as one that was committed. Whatever the generator draws, no key is violated, edges and payloads agree, and with a depth bound not below the number of
  nodes the SQLite search returns the forward closure.\<close>

theorem scale_dag_exact:
  assumes "draws_ok draws"
  shows "\<exists>ids t'. build_scale_dag draws t = Some (ids, t') \<and> ids = map scale_id [0..<Suc (length draws)] \<and> edges_ok t' \<and>
    (\<forall>depth r. length ids \<le> depth \<longrightarrow> set (fst (sq_compute_blast_radius depth r t')) = {n. (derives (dag (tables t')))\<^sup>*\<^sup>* r n})"
proof -
  let ?ns = "(''clean-parent-1'', bare_payload ''clean-parent-1'' []) # nodes_data 1 draws"
  define t' where "t' = t\<lparr>tables := (tables t)\<lparr>dag := ?ns, quarantine_ledger := [], quarantine_events := []\<rparr>, edges := edges_data 1 draws, event_depths := []\<rparr>"
  have ks: "keys ?ns = map scale_id [0..<Suc (length draws)]"
    using upt_conv_Cons [of 0 "Suc (length draws)"] by (simp add: keys_nodes_data scale_id_def del: upt_Suc)
  then have dist: "distinct (keys ?ns)" by (simp add: distinct_map inj_on_def scale_id_inj del: upt_Suc)
  have "distinct (map (\<lambda>(c, p, k). (c, p)) (edges_data 1 draws))" using assms by (intro distinct_edges) (simp add: draws_ok_def draw_ok_def)
  then have run: "build_scale_dag draws t = Some (keys ?ns, t')" using dist by (simp add: build_scale_dag_def insert_many_def keys_def t'_def)
  have "derives ?ns x y = derives (nodes_data 1 draws) x y" for x y by (auto simp: derives_def touches_def parent_ids_def)
  then have ok: "edges_ok t'" using dist scale_rel [of _ _ 1 draws] by (simp add: edges_ok_def t'_def wf_dict_def edge_rel_def fun_eq_iff)
  have "set (fst (sq_compute_blast_radius depth r t')) = {n. (derives (dag (tables t')))\<^sup>*\<^sup>* r n}" if "length (keys ?ns) \<le> depth" for depth r
  proof -
    have "card (set (keys (dag (tables t')))) \<le> depth" using that card_length [of "keys ?ns"] by (simp add: t'_def)
    then show ?thesis using set_sq_visited(1) [OF ok, of depth r] deep_enough [of "set (keys (dag (tables t')))" "derives (dag (tables t'))" depth r]
      by (auto simp: sq_radius_eq derives_key reach_from_def)
  qed
  then show ?thesis using run ks ok by (intro exI [of _ "keys ?ns"] exI [of _ t']) blast
qed

end
