(* ===== verification/Inventory.thy ===== *)
theory Inventory
  imports Submit
begin

text \<open>
  The report \<open>/verification-separation-inventory\<close>, which returns constants, and what becomes of the claim in the report that the policy blocks
  four kinds of evaluative planner output.
\<close>

section \<open>The reports\<close>

definition fault_class :: "string \<Rightarrow> nat \<Rightarrow> json" where
  "fault_class c n = JObj [(''class'', JStr c), (''injected'', JNum (of_nat n)), (''caught'', JNum (of_nat n)), (''escaped'', JNum 0)]"

definition fault_injection_results :: json where
  "fault_injection_results = JObj [(''campaign_run'', JBool True),
     (''fault_classes'', JArr [fault_class ''evaluative_planner_output_injection'' 4, fault_class ''quarantined_ancestor_in_frontier'' 1, fault_class ''identity_reuse'' 1]),
     (''total_injected'', JNum 6), (''total_caught'', JNum 6), (''total_escaped'', JNum 0), (''catch_rate'', JNum 1),
     (''preregistered_minimum_catch_rate'', JNum (95 / 100)), (''escape_set'', JArr [])]"

definition shared_dependency_inventory :: "string option \<Rightarrow> json" where
  "shared_dependency_inventory model = JObj [(''specification'', JStr ''GASC-ED v1.1''), (''policy_engine'', JStr ''Open Policy Agent (Rego)''),
     (''policy_files'', JArr [JStr ''policies/gasc_verification_separation.rego'', JStr ''policies/gasc_quarantine_integrity.rego'']),
     (''cryptographic_library'', JStr ''cryptography (Python)''), (''jwt_library'', JStr ''PyJWT''),
     (''shared_primitives'', JArr [JStr ''SHA-256'', JStr ''ECDSA-P256'', JStr ''ES256 JWT'']),
     (''recovery_adapter'', JObj [(''framework'', JStr ''litellm''), (''model'', JStr (case model of None \<Rightarrow> ''gemini/gemini-1.5-flash'' | Some m \<Rightarrow> m))]),
     (''schema_validator'', JStr ''jsonschema (Draft202012Validator)'')]"

definition verification_dimensions :: json where
  "verification_dimensions = JObj [
     (''execution_authority'', JStr ''Verifier (Rego) runs in OPA subprocess/WASM; planner cannot invoke or suppress''),
     (''input_separation'', JStr ''Candidate and commitments cross boundary; evaluative planner outputs (planner_score, justification, confidence_rating, reasoning_tokens) are blocked by policy''),
     (''frontier_reconstruction'', JStr ''Verifier re-derives frontier independently from graph snapshot''),
     (''distinct_implementation'', JStr ''Rego policy engine vs Python recovery adapter'')]"

definition get_verification_separation_inventory :: "env \<Rightarrow> string option \<Rightarrow> string option \<Rightarrow> json result" where
  "get_verification_separation_inventory e model hdr =
     (case verify_role_jwt e hdr ''admin'' of Inl ex \<Rightarrow> Inl ex
      | Inr _ \<Rightarrow> Inr (JObj [(''shared_dependency_inventory'', shared_dependency_inventory model), (''verification_dimensions'', verification_dimensions),
          (''fault_injection_results'', fault_injection_results)]))"

section \<open>Planner outputs\<close>

text \<open>The keys that \<open>gasc_verification_separation.rego\<close> and the report name.\<close>

definition evaluative_keys :: "string list" where
  "evaluative_keys = [''planner_score'', ''justification'', ''confidence_rating'', ''reasoning_tokens'']"

definition with_output :: "string \<Rightarrow> json \<Rightarrow> payload \<Rightarrow> payload" where
  "with_output k v p = p\<lparr>state_content := Some (AList.update k v (case state_content p of None \<Rightarrow> [] | Some c \<Rightarrow> c))\<rparr>"

text \<open>Of the four kinds of planner output the gateway looks at one. Adding any of the other three to the content of a write leaves the decision of the policy as it was, so an admitted write stays
  admitted, and a justification, other than the literal \<open>false\<close>, is always refused. The campaign of the report says that all four were caught.\<close>

theorem planner_outputs_not_blocked:
  assumes "k \<in> set evaluative_keys" and "v \<noteq> JBool False" and "evaluate_admission rego_engine epoch p pids (nodes_exist pids s) (are_quarantined pids s) auth = Inr Admit"
  shows "evaluate_admission rego_engine epoch (with_output k v p) pids (nodes_exist pids s) (are_quarantined pids s) auth = Inr Admit \<longleftrightarrow> k \<noteq> ''justification''"
proof -
  have entry: "content_entry (with_output k v p) x = (if x = k then Some v else content_entry p x)" for x
    by (simp add: content_entry_def with_output_def update_conv' split: option.split)
  have same: "boundary_fixed (with_output k v p) = boundary_fixed p" "payload_id (with_output k v p) = payload_id p"
    by (simp_all add: boundary_fixed_def with_output_def)
  show ?thesis using assms(2,3) unfolding admission_iff by (auto simp: entry same)
qed

theorem planner_outputs_not_blocked_witness:
  "evaluate_admission rego_engine 0 (with_output ''planner_score'' (JNum 1) (demo_write [] ''x'' ''clean-parent-1'')) [''clean-parent-1'']
     (nodes_exist [''clean-parent-1''] init_state) (are_quarantined [''clean-parent-1''] init_state)
     [(''is_nhi'', JBool True), (''expires_at_epoch'', JNum 10), (''scope'', JStr ''agent:state:reconstruct''), (''verifier_execution_status'', JStr ''PASSED'')] = Inr Admit"
proof -
  let ?auth = "[(''is_nhi'', JBool True), (''expires_at_epoch'', JNum 10), (''scope'', JStr ''agent:state:reconstruct''), (''verifier_execution_status'', JStr ''PASSED'')]"
  have "evaluate_admission rego_engine 0 (demo_write [] ''x'' ''clean-parent-1'') [''clean-parent-1'']
     (nodes_exist [''clean-parent-1''] init_state) (are_quarantined [''clean-parent-1''] init_state) ?auth = Inr Admit"
    unfolding admission_iff by (simp add: init_state_def)
  from planner_outputs_not_blocked [OF _ _ this, of "''planner_score''" "JNum 1"] show ?thesis by (simp add: evaluative_keys_def)
qed

end
