(* ===== verification/Utf8.thy ===== *)
theory Utf8
  imports Main "HOL-Library.Word"
begin

text \<open>
  Python's strict UTF-8 codec, with which \<open>OpaWasmEngine\<close> moves text into and out of the memory of a WASM module: a text is a list of
  code points, a byte an 8-bit word. What is encoded decodes to itself, and a text without the code point 0 has no zero byte.
\<close>

type_synonym byte = "8 word"
type_synonym codepoints = "nat list"

definition trail :: "nat \<Rightarrow> byte" where
  "trail x = of_nat (128 + x mod 64)"

definition utf8_char :: "nat \<Rightarrow> byte list option" where
  "utf8_char c =
     (if c < 128 then Some [of_nat c]
      else if c < 2048 then Some [of_nat (192 + c div 64), trail c]
      else if 55296 \<le> c \<and> c < 57344 then None
      else if c < 65536 then Some [of_nat (224 + c div 4096), trail (c div 64), trail c]
      else if c < 1114112 then Some [of_nat (240 + c div 262144), trail (c div 4096), trail (c div 64), trail c]
      else None)"

text \<open>\<open>str.encode("utf-8")\<close> raises on a surrogate; \<open>bytes.decode("utf-8")\<close> raises on a stray byte, an overlong form and a surrogate.\<close>

fun utf8_encode :: "codepoints \<Rightarrow> byte list option" where
  "utf8_encode [] = Some []"
| "utf8_encode (c # cs) = (case utf8_char c of None \<Rightarrow> None | Some b \<Rightarrow> map_option ((@) b) (utf8_encode cs))"

definition trails :: "byte list \<Rightarrow> bool" where
  "trails = list_all (\<lambda>b. 128 \<le> unat b \<and> unat b < 192)"

definition payload_of :: "nat \<Rightarrow> byte list \<Rightarrow> nat" where
  "payload_of x = foldl (\<lambda>acc b. acc * 64 + (unat b - 128)) x"

definition utf8_head :: "byte list \<Rightarrow> (nat \<times> byte list) option" where
  "utf8_head bs =
     (case bs of [] \<Rightarrow> None
      | b # r \<Rightarrow>
          if unat b < 128 then Some (unat b, r)
          else let (k, x) = (if unat b < 224 then (1, unat b - 192) else if unat b < 240 then (2, unat b - 224) else (3, unat b - 240));
                   c = payload_of x (take k r)
               in if 192 \<le> unat b \<and> k \<le> length r \<and> trails (take k r) \<and> utf8_char c = Some (b # take k r) then Some (c, drop k r) else None)"

lemma utf8_head_shorter: "utf8_head bs = Some (c, r) \<Longrightarrow> length r < length bs"
  by (auto simp: utf8_head_def Let_def split: list.splits if_splits prod.splits)

function utf8_decode :: "byte list \<Rightarrow> codepoints option" where
  "utf8_decode bs =
     (if bs = [] then Some []
      else case utf8_head bs of None \<Rightarrow> None | Some (c, r) \<Rightarrow> map_option (Cons c) (utf8_decode r))"
  by pat_completeness auto
termination
  by (relation "measure length") (auto dest: utf8_head_shorter)

declare utf8_decode.simps [simp del]

lemma unat_byte: "n < 256 \<Longrightarrow> unat (of_nat n :: byte) = n"
  by (simp add: unat_of_nat take_bit_eq_mod)

lemma trail_unat [simp]: "unat (trail x) = 128 + x mod 64"
  unfolding trail_def by (rule unat_byte) (use mod_less_divisor [of 64 x] in simp)

lemma payload_digits:
  "payload_of (c div 64) [trail c] = c"
  "payload_of (c div 4096) [trail (c div 64), trail c] = c"
  "payload_of (c div 262144) [trail (c div 4096), trail (c div 64), trail c] = c"
proof -
  have "c div 4096 = c div 64 div 64" "c div 262144 = c div 64 div 64 div 64" by (simp_all add: div_mult2_eq [symmetric])
  then show "payload_of (c div 64) [trail c] = c" "payload_of (c div 4096) [trail (c div 64), trail c] = c"
    "payload_of (c div 262144) [trail (c div 4096), trail (c div 64), trail c] = c"
    by (simp_all only: payload_of_def foldl.simps trail_unat diff_add_inverse div_mult_mod_eq)
qed

lemma take_drop_trails:
  "take 2 (x # y # r) = [x, y]" "drop 2 (x # y # r) = r" "take 3 (x # y # z # r) = [x, y, z]" "drop 3 (x # y # z # r) = r"
  by (simp_all add: numeral_2_eq_2 numeral_3_eq_3)

lemma utf8_head_char:
  assumes "utf8_char c = Some b"
  shows "utf8_head (b @ r) = Some (c, r)"
proof -
  consider "c < 128" | "128 \<le> c" "c < 2048" | "2048 \<le> c" "c < 65536" "\<not> (55296 \<le> c \<and> c < 57344)" | "65536 \<le> c" "c < 1114112"
    using assms by (fastforce simp: utf8_char_def split: if_splits)
  then show ?thesis
  proof cases
    case 1
    then have "b = [of_nat c]" using assms by (simp add: utf8_char_def)
    with 1 show ?thesis by (simp add: utf8_head_def unat_byte)
  next
    case 2
    then have b: "b = [of_nat (192 + c div 64), trail c]" using assms by (simp add: utf8_char_def)
    have "c div 64 < 32" using 2 by linarith
    moreover from this have "unat (of_nat (192 + c div 64) :: byte) = 192 + c div 64" by (intro unat_byte) linarith
    ultimately show ?thesis using assms unfolding b utf8_head_def trails_def by (simp add: payload_digits del: of_nat_add)
  next
    case 3
    then have b: "b = [of_nat (224 + c div 4096), trail (c div 64), trail c]" using assms by (simp add: utf8_char_def del: of_nat_add split: if_splits)
    have "c div 4096 < 16" using 3 by linarith
    moreover from this have "unat (of_nat (224 + c div 4096) :: byte) = 224 + c div 4096" by (intro unat_byte) linarith
    ultimately show ?thesis using assms unfolding b utf8_head_def trails_def
      by (simp add: payload_digits take_drop_trails del: of_nat_add)
  next
    case 4
    then have b: "b = [of_nat (240 + c div 262144), trail (c div 4096), trail (c div 64), trail c]" using assms by (simp add: utf8_char_def del: of_nat_add split: if_splits)
    have "c div 262144 < 16" using 4 by linarith
    moreover from this have "unat (of_nat (240 + c div 262144) :: byte) = 240 + c div 262144" by (intro unat_byte) linarith
    ultimately show ?thesis using assms unfolding b utf8_head_def trails_def
      by (simp add: payload_digits take_drop_trails del: of_nat_add)
  qed
qed

lemma utf8_char_nonempty: "utf8_char c = Some b \<Longrightarrow> b \<noteq> []"
  by (auto simp: utf8_char_def split: if_splits)

lemma utf8_roundtrip: "utf8_encode t = Some bs \<Longrightarrow> utf8_decode bs = Some t"
proof (induction t arbitrary: bs)
  case Nil
  then show ?case by (simp add: utf8_decode.simps)
next
  case (Cons c t)
  then obtain b r where b: "utf8_char c = Some b" and r: "utf8_encode t = Some r" and bs: "bs = b @ r"
    by (auto split: option.splits)
  then show ?case using Cons.IH [OF r] utf8_head_char [OF b, of r] utf8_char_nonempty [OF b]
    by (subst utf8_decode.simps) simp
qed

lemma utf8_char_zero:
  assumes "utf8_char c = Some b" "0 < c"
  shows "(0::byte) \<notin> set b"
proof -
  have nz: "unat x \<noteq> 0 \<Longrightarrow> x \<noteq> 0" for x :: byte by auto
  have t: "trail x \<noteq> 0" for x by (rule nz) simp
  have l: "0 < n \<Longrightarrow> n < 256 \<Longrightarrow> (of_nat n :: byte) \<noteq> 0" for n by (rule nz) (simp add: unat_byte)
  have "c < 2048 \<Longrightarrow> 192 + c div 64 < 256" "c < 65536 \<Longrightarrow> 224 + c div 4096 < 256" "c < 1114112 \<Longrightarrow> 240 + c div 262144 < 256"
    by linarith+
  with l [of c] l [of "192 + c div 64"] l [of "224 + c div 4096"] l [of "240 + c div 262144"] assms t show ?thesis
    by (auto simp: utf8_char_def simp del: of_nat_add split: if_splits)
qed

lemma utf8_no_nul: "utf8_encode t = Some bs \<Longrightarrow> 0 \<notin> set t \<Longrightarrow> 0 \<notin> set bs"
proof (induction t arbitrary: bs)
  case (Cons c t)
  then obtain b r where "utf8_char c = Some b" "utf8_encode t = Some r" "bs = b @ r"
    by (auto split: option.splits)
  then show ?case using Cons utf8_char_zero [of c b] by auto
qed simp

end
