(* ===== verification/Wasm_Host.thy ===== *)
theory Wasm_Host
  imports Policy_Transport Utf8
begin

text \<open>
  \<open>src/wasm_engine.py\<close> below \<open>wasm_evaluate\<close>: the linear memory that the host shares with the module, the import table the
  constructor links, the entry-point table it reads, \<open>evaluate\<close> as a sequence of calls of the module's exports, and the process-wide
  cache of engines in \<open>evaluate_opa_policy\<close>. The module (its exports and what instantiation leaves in the memory) and the text of the
  JSON codec are parameters. An address is a signed 32-bit integer for the host, as wasmtime hands it over; a copy or a read that
  leaves the linear memory is the outcome \<open>Corrupted\<close>, because \<open>ctypes\<close> checks nothing.
\<close>

section \<open>The memory and the calls of the module\<close>

type_synonym i32 = "32 word"

record 'g wasm_state =
  linear :: "byte list"
  globals :: 'g \<comment> \<open>everything else of the instance\<close>

datatype host_error = Raised py_error | Corrupted

type_synonym ('g, 'a) host = "'g wasm_state \<Rightarrow> (host_error + 'a) \<times> 'g wasm_state"
type_synonym ('g, 'a) export = "'g wasm_state \<Rightarrow> 'a option \<times> 'g wasm_state" \<comment> \<open>\<open>None\<close> for a trap\<close>

record 'g opa_exports =
  opa_malloc :: "i32 \<Rightarrow> ('g, i32) export"
  opa_json_parse :: "i32 \<Rightarrow> i32 \<Rightarrow> ('g, i32) export"
  opa_json_dump :: "i32 \<Rightarrow> ('g, i32) export"
  opa_eval_ctx_new :: "('g, i32) export"
  opa_eval_ctx_set_input :: "i32 \<Rightarrow> i32 \<Rightarrow> ('g, unit) export"
  opa_eval_ctx_set_entrypoint :: "i32 \<Rightarrow> i32 \<Rightarrow> ('g, unit) export"
  eval_func :: "i32 \<Rightarrow> ('g, i32) export"
  opa_eval_ctx_get_result :: "i32 \<Rightarrow> ('g, i32) export"
  entrypoints_func :: "('g, i32) export"

definition hret :: "'a \<Rightarrow> ('g, 'a) host" where
  "hret x s = (Inr x, s)"

definition hraise :: "py_error \<Rightarrow> ('g, 'a) host" where
  "hraise e s = (Inl (Raised e), s)"

definition hbind :: "('g, 'a) host \<Rightarrow> ('a \<Rightarrow> ('g, 'b) host) \<Rightarrow> ('g, 'b) host" where
  "hbind m f s = (case m s of (Inl e, s') \<Rightarrow> (Inl e, s') | (Inr x, s') \<Rightarrow> f x s')"

definition hlift :: "py_error + 'a \<Rightarrow> ('g, 'a) host" where
  "hlift r = (case r of Inl e \<Rightarrow> hraise e | Inr x \<Rightarrow> hret x)"

text \<open>A trap, and the exception of \<open>opa_abort\<close>, surface in the host as an exception that is not a \<open>RuntimeError\<close>.\<close>

definition call_export :: "('g, 'a) export \<Rightarrow> ('g, 'a) host" where
  "call_export f s = (case f s of (None, s') \<Rightarrow> (Inl (Raised OtherError), s') | (Some x, s') \<Rightarrow> (Inr x, s'))"

text \<open>\<open>ctypes.memmove(ptr + addr, \<dots>)\<close> and \<open>ctypes.string_at(ptr + addr)\<close>.\<close>

definition poke :: "nat \<Rightarrow> byte list \<Rightarrow> byte list \<Rightarrow> byte list" where
  "poke a bs mem = take a mem @ bs @ drop (a + length bs) mem"

definition memmove :: "int \<Rightarrow> byte list \<Rightarrow> ('g, unit) host" where
  "memmove off bs s =
     (if bs = [] then (Inr (), s)
      else if 0 \<le> off \<and> nat off + length bs \<le> length (linear s) then (Inr (), s\<lparr>linear := poke (nat off) bs (linear s)\<rparr>)
      else (Inl Corrupted, s))"

definition string_at :: "int \<Rightarrow> ('g, byte list) host" where
  "string_at off s =
     (if 0 \<le> off \<and> 0 \<in> set (drop (nat off) (linear s)) then (Inr (takeWhile (\<lambda>b. b \<noteq> 0) (drop (nat off) (linear s))), s)
      else (Inl Corrupted, s))"

definition write_string :: "'g opa_exports \<Rightarrow> codepoints \<Rightarrow> ('g, i32 \<times> i32) host" where
  "write_string x t =
     (case utf8_encode t of None \<Rightarrow> hraise OtherError
      | Some bs \<Rightarrow> hbind (call_export (opa_malloc x (of_nat (length bs)))) (\<lambda>addr.
          hbind (memmove (sint addr) bs) (\<lambda>_. hret (addr, of_nat (length bs)))))"

definition read_string :: "i32 \<Rightarrow> ('g, codepoints) host" where
  "read_string addr = hbind (string_at (sint addr)) (\<lambda>bs. case utf8_decode bs of None \<Rightarrow> hraise OtherError | Some t \<Rightarrow> hret t)"

section \<open>Linking and loading\<close>

datatype extern_type =
    Func_Type nat bool \<comment> \<open>the number of \<open>i32\<close> parameters, and whether there is an \<open>i32\<close> result\<close>
  | Memory_Type nat "nat option" \<comment> \<open>minimum and maximum in pages\<close>

definition host_imports :: "(string \<times> extern_type) list" where
  "host_imports = [(''opa_abort'', Func_Type 1 False), (''opa_println'', Func_Type 1 False), (''opa_builtin0'', Func_Type 2 True),
     (''opa_builtin1'', Func_Type 3 True), (''opa_builtin2'', Func_Type 4 True), (''opa_builtin3'', Func_Type 5 True),
     (''opa_builtin4'', Func_Type 6 True), (''memory'', Memory_Type 2 None)]"

text \<open>The imported functions: \<open>opa_abort\<close> raises, \<open>opa_println\<close> does nothing, and every builtin answers the address 0, which is undefined in Rego.\<close>

definition host_function :: "string \<Rightarrow> i32 list \<Rightarrow> i32 option option" where
  "host_function f args = (if f = ''opa_abort'' then None else if f = ''opa_println'' then Some None else Some (Some 0))"

text \<open>An import is satisfied by a function of the same type, or by a memory that is at least as large and at most as growable.\<close>

fun import_matches :: "extern_type \<Rightarrow> extern_type \<Rightarrow> bool" where
  "import_matches (Func_Type n r) (Func_Type n' r') = (n = n' \<and> r = r')"
| "import_matches (Memory_Type lo hi) (Memory_Type lo' hi') =
     (lo \<le> lo' \<and> (case hi of None \<Rightarrow> True | Some h \<Rightarrow> (case hi' of None \<Rightarrow> False | Some h' \<Rightarrow> h' \<le> h)))"
| "import_matches _ _ = False"

record 'g wasm_binary =
  needed :: "((string \<times> string) \<times> extern_type) list" \<comment> \<open>module, name and type of its imports\<close>
  export_names :: "string list"
  instantiate :: "(string \<Rightarrow> i32 list \<Rightarrow> i32 option option) \<Rightarrow> byte list \<Rightarrow> ('g opa_exports \<times> 'g wasm_state) option"

record json_codec =
  input_text :: "policy_input \<Rightarrow> codepoints" \<comment> \<open>\<open>json.dumps\<close>\<close>
  loads_text :: "codepoints \<Rightarrow> json option" \<comment> \<open>\<open>json.loads\<close>; \<open>None\<close> if it raises\<close>

record 'g wasm_engine =
  engine_exports :: "'g opa_exports"
  can_set_entrypoint :: bool
  entry_table :: json

definition linked :: "'g wasm_binary \<Rightarrow> bool" where
  "linked b = list_all (\<lambda>((m, n), t). m = ''env'' \<and> (case map_of host_imports n of None \<Rightarrow> False | Some p \<Rightarrow> import_matches t p)) (needed b)"

definition required_exports :: "string list" where
  "required_exports = [''opa_malloc'', ''opa_json_parse'', ''opa_json_dump'', ''opa_eval_ctx_new'', ''opa_eval_ctx_set_input'', ''eval'',
     ''opa_eval_ctx_get_result'']"

definition parse_entrypoints :: "json_codec \<Rightarrow> 'g opa_exports \<Rightarrow> ('g, json) host" where
  "parse_entrypoints c x =
     hbind (call_export (entrypoints_func x)) (\<lambda>ep_addr. hbind (call_export (opa_json_dump x ep_addr)) (\<lambda>ep_dump_addr.
       hbind (read_string ep_dump_addr) (\<lambda>ep_str.
         if ep_str = [] then hret (JObj []) else (case loads_text c ep_str of None \<Rightarrow> hraise JSONDecodeError | Some j \<Rightarrow> hret j))))"

definition load_engine :: "json_codec \<Rightarrow> 'g wasm_binary \<Rightarrow> host_error + 'g wasm_engine \<times> 'g wasm_state" where
  "load_engine c b =
     (if \<not> linked b then Inl (Raised OtherError)
      else case instantiate b host_function (replicate (2 * 65536) 0) of None \<Rightarrow> Inl (Raised OtherError)
      | Some (x, s) \<Rightarrow>
          if \<not> list_all (\<lambda>n. n \<in> set (export_names b)) required_exports then Inl (Raised KeyError)
          else case (if ''entrypoints'' \<in> set (export_names b) then parse_entrypoints c x s else (Inr (JObj []), s)) of
              (Inl e, s') \<Rightarrow> Inl e
            | (Inr j, s') \<Rightarrow> Inr (\<lparr>engine_exports = x, can_set_entrypoint = ''opa_eval_ctx_set_entrypoint'' \<in> set (export_names b),
                entry_table = j\<rparr>, s'))"

section \<open>Evaluation\<close>

text \<open>An integer argument of a WASM function; \<open>bool\<close> is an \<open>int\<close> in Python.\<close>

fun as_i32 :: "json \<Rightarrow> py_error + i32" where
  "as_i32 (JNum q) = (if q = of_int \<lfloor>q\<rfloor> then Inr (of_int \<lfloor>q\<rfloor>) else Inl TypeError)"
| "as_i32 (JBool v) = Inr (if v then 1 else 0)"
| "as_i32 _ = Inl TypeError"

definition load_input :: "json_codec \<Rightarrow> 'g wasm_engine \<Rightarrow> policy_input \<Rightarrow> ('g, i32) host" where
  "load_input c e i = (let x = engine_exports e in
     hbind (write_string x (input_text c i)) (\<lambda>(addr, len). hbind (call_export (opa_json_parse x addr len)) (\<lambda>parsed_addr.
       if parsed_addr = 0 then hraise OtherError
       else hbind (call_export (opa_eval_ctx_new x)) (\<lambda>ctx. hbind (call_export (opa_eval_ctx_set_input x ctx parsed_addr)) (\<lambda>_. hret ctx)))))"

definition select_entrypoint :: "'g wasm_engine \<Rightarrow> string \<Rightarrow> i32 \<Rightarrow> ('g, unit) host" where
  "select_entrypoint e q ctx =
     (if q \<noteq> [] \<and> can_set_entrypoint e
      then hbind (hlift (contains (ep_key q) (entry_table e))) (\<lambda>known.
        if known then hbind (hlift (item (entry_table e) (ep_key q))) (\<lambda>v. hbind (hlift (as_i32 v)) (\<lambda>n.
          call_export (opa_eval_ctx_set_entrypoint (engine_exports e) ctx n)))
        else hraise RuntimeError)
      else hret ())"

definition fetch_result :: "json_codec \<Rightarrow> 'g wasm_engine \<Rightarrow> i32 \<Rightarrow> ('g, json) host" where
  "fetch_result c e ctx = (let x = engine_exports e in
     hbind (call_export (eval_func x ctx)) (\<lambda>_. hbind (call_export (opa_eval_ctx_get_result x ctx)) (\<lambda>result_addr.
       hbind (call_export (opa_json_dump x result_addr)) (\<lambda>dump_addr. hbind (read_string dump_addr) (\<lambda>result_str.
         case loads_text c result_str of None \<Rightarrow> hraise JSONDecodeError | Some j \<Rightarrow> hret j)))))"

definition host_evaluate :: "json_codec \<Rightarrow> 'g wasm_engine \<Rightarrow> policy_input \<Rightarrow> string \<Rightarrow> ('g, json list) host" where
  "host_evaluate c e i q =
     hbind (load_input c e i) (\<lambda>ctx. hbind (select_entrypoint e q ctx) (\<lambda>_. hbind (fetch_result c e ctx) (\<lambda>j. hret (normalise_results j))))"

text \<open>
  The cache of engines, for the bundle of the settings: an engine is loaded on the first query and kept for the life of the
  process; a load that raises leaves the cache empty.
\<close>

definition cached_evaluate :: "json_codec \<Rightarrow> 'g wasm_binary \<Rightarrow> policy_input \<Rightarrow> string \<Rightarrow> ('g wasm_engine \<times> 'g wasm_state) option
    \<Rightarrow> (host_error + json list) \<times> ('g wasm_engine \<times> 'g wasm_state) option" where
  "cached_evaluate c b i q cache =
     (case (case cache of None \<Rightarrow> load_engine c b | Some es \<Rightarrow> Inr es) of
        Inl e \<Rightarrow> (Inl e, None)
      | Inr (e, s) \<Rightarrow> (case host_evaluate c e i q s of (r, s') \<Rightarrow> (r, Some (e, s'))))"

fun cached_run :: "json_codec \<Rightarrow> 'g wasm_binary \<Rightarrow> (policy_input \<times> string) list \<Rightarrow> ('g wasm_engine \<times> 'g wasm_state) option
    \<Rightarrow> (host_error + json list) list \<times> ('g wasm_engine \<times> 'g wasm_state) option" where
  "cached_run c b [] cache = ([], cache)"
| "cached_run c b ((i, q) # qs) cache =
     (case cached_evaluate c b i q cache of (r, cache') \<Rightarrow> (case cached_run c b qs cache' of (rs, cache'') \<Rightarrow> (r # rs, cache'')))"

section \<open>Laws of the host's calls\<close>

lemma hbind_simps [simp]:
  "m s = (Inr x, s') \<Longrightarrow> hbind m f s = f x s'"
  "m s = (Inl e, s') \<Longrightarrow> hbind m f s = (Inl e, s')"
  by (simp_all add: hbind_def)

lemma hbind_Inr: "hbind m f s = (Inr y, s'') \<longleftrightarrow> (\<exists>x s'. m s = (Inr x, s') \<and> f x s' = (Inr y, s''))"
  by (auto simp: hbind_def split: prod.splits sum.splits)

lemma hlift_simps [simp]: "hlift (Inl e) = hraise e" "hlift (Inr x) = hret x"
  by (simp_all add: hlift_def)

lemma hret_bind [simp]: "hbind (hret x) f = f x" "hbind (hraise e) f = hraise e"
  by (simp_all add: fun_eq_iff hbind_def hret_def hraise_def)

lemma poke_length [simp]: "a + length bs \<le> length mem \<Longrightarrow> length (poke a bs mem) = length mem"
  by (simp add: poke_def)

lemma drop_poke [simp]: "a + length bs \<le> length mem \<Longrightarrow> drop a (poke a bs mem) = bs @ drop (a + length bs) mem"
  by (simp add: poke_def)

text \<open>
  A text that \<open>_write_string\<close> places in the memory, and that the module terminates with a zero byte, is the text \<open>_read_string\<close>
  returns, whatever code points other than 0 it has.
\<close>

theorem write_then_read:
  assumes "write_string x t s = (Inr (addr, len), s')" and "0 \<notin> set t"
    and "linear s'' = (linear s')[nat (sint addr) + unat len := 0]" and "nat (sint addr) + unat len < length (linear s')"
    and "t \<noteq> []" and "\<forall>bs. utf8_encode t = Some bs \<longrightarrow> length bs < 2 ^ 32"
  shows "read_string addr s'' = (Inr t, s'')"
proof -
  obtain bs where bs: "utf8_encode t = Some bs" using assms(1) by (auto simp: write_string_def hraise_def split: option.splits)
  then have ne: "bs \<noteq> []" using assms(5) by (cases t) (auto dest: utf8_char_nonempty split: option.splits)
  have "length bs < 2 ^ 32" using assms(6) bs by blast
  then have len: "unat len = length bs" "len = of_nat (length bs)"
    using assms(1) bs by (auto simp: write_string_def hbind_Inr hret_def unat_of_nat take_bit_eq_mod)
  obtain s1 where off: "0 \<le> sint addr" "nat (sint addr) + length bs \<le> length (linear s1)"
    and lin: "linear s' = poke (nat (sint addr)) bs (linear s1)"
    using assms(1) bs ne by (auto simp: write_string_def hbind_Inr hret_def memmove_def split: if_splits) (metis wasm_state.select_convs(1) poke_def)
  let ?a = "nat (sint addr)"
  have "drop ?a (linear s'') = (bs @ drop (?a + length bs) (linear s1)) [length bs := 0]"
    using assms(3,4) off len by (simp add: lin drop_update_swap)
  also have "\<dots> = bs @ 0 # drop (Suc (?a + length bs)) (linear s1)"
    using assms(4) off len by (simp add: lin list_update_append Cons_nth_drop_Suc [symmetric])
  finally have d: "drop ?a (linear s'') = bs @ 0 # drop (Suc (?a + length bs)) (linear s1)" .
  have "0 \<notin> set bs" by (rule utf8_no_nul [OF bs assms(2)])
  then have "takeWhile (\<lambda>b. b \<noteq> 0) (drop ?a (linear s'')) = bs" unfolding d by (subst takeWhile_append2) auto
  then show ?thesis using off d utf8_roundtrip [OF bs] by (simp add: read_string_def string_at_def hret_def)
qed

section \<open>Evaluation as \<open>Policy_Transport\<close> sees it\<close>

text \<open>What one state of the engine answers, as the module of \<open>Policy_Transport\<close>.\<close>

definition entry_json :: "(string, nat) dict \<Rightarrow> json" where
  "entry_json tab = JObj (map (\<lambda>(k, n). (k, JNum (of_nat n))) tab)"

definition set_entry :: "'g wasm_engine \<Rightarrow> nat option \<Rightarrow> i32 \<Rightarrow> ('g, unit) host" where
  "set_entry e ep ctx = (case ep of None \<Rightarrow> hret () | Some n \<Rightarrow> call_export (opa_eval_ctx_set_entrypoint (engine_exports e) ctx (of_nat n)))"

definition module_at :: "json_codec \<Rightarrow> 'g wasm_engine \<Rightarrow> (string, nat) dict \<Rightarrow> 'g wasm_state \<Rightarrow> wasm_module" where
  "module_at c e tab s = \<lparr>entrypoints = tab, sets_entrypoint = can_set_entrypoint e,
     parses_input = (\<lambda>i. case fst (load_input c e i s) of Inl _ \<Rightarrow> False | Inr _ \<Rightarrow> True),
     wasm_eval = (\<lambda>ep i. case fst (hbind (load_input c e i) (\<lambda>ctx. hbind (set_entry e ep ctx) (\<lambda>_. fetch_result c e ctx)) s) of
        Inl (Raised x) \<Rightarrow> Inl x | Inl Corrupted \<Rightarrow> Inl OtherError | Inr j \<Rightarrow> Inr j)\<rparr>"

definition only_other :: "('g, 'a) host \<Rightarrow> bool" where
  "only_other m \<longleftrightarrow> (\<forall>s x. fst (m s) = Inl (Raised x) \<longrightarrow> x = OtherError)"

lemma only_otherI [intro!]:
  "only_other (hret x)" "only_other (hraise OtherError)" "only_other (call_export f)" "only_other (memmove off bs)"
  by (auto simp: only_other_def hret_def hraise_def call_export_def memmove_def split: prod.splits option.splits)

lemma only_other_bind [intro!]: "only_other m \<Longrightarrow> (\<And>x. only_other (f x)) \<Longrightarrow> only_other (hbind m f)"
  unfolding only_other_def hbind_def by (auto split: prod.splits sum.splits) (metis fst_conv)

lemma load_input_error: "only_other (load_input c e i)"
  unfolding load_input_def Let_def by (auto simp: write_string_def split: option.splits prod.splits)

lemma entry_json_lookup:
  "contains k (entry_json tab) = Inr (map_of tab k \<noteq> None)"
  "map_of tab k = Some n \<Longrightarrow> item (entry_json tab) k = Inr (JNum (of_nat n))"
proof -
  have m: "map_of (map (\<lambda>(k, n). (k, JNum (of_nat n))) tab) k = map_option (\<lambda>n. JNum (of_nat n)) (map_of tab k)" for k
    by (induction tab) auto
  show "contains k (entry_json tab) = Inr (map_of tab k \<noteq> None)"
    by (simp add: entry_json_def keys_def map_of_eq_None_iff image_image split_def)
  show "map_of tab k = Some n \<Longrightarrow> item (entry_json tab) k = Inr (JNum (of_nat n))"
    by (simp add: entry_json_def m)
qed

lemma select_entrypoint_table:
  assumes "entry_table e = entry_json tab"
  shows "select_entrypoint e q ctx =
    (if q \<noteq> [] \<and> can_set_entrypoint e then (case map_of tab (ep_key q) of None \<Rightarrow> hraise RuntimeError | Some n \<Rightarrow> set_entry e (Some n) ctx)
     else set_entry e None ctx)"
  using assms by (simp add: select_entrypoint_def entry_json_lookup set_entry_def split: option.splits)


section \<open>The memory over the life of an engine\<close>

text \<open>
  What the host relies on: with \<open>ok\<close> the consistent states of the instance and \<open>live\<close> the bytes of the blocks handed to the host and not
  given back, \<open>opa_malloc\<close> returns a fresh block inside the memory and in its lower half, \<open>opa_json_dump\<close> a zero-terminated string
  there, and no export takes back a block of the host.
\<close>

definition keeps_blocks :: "('g wasm_state \<Rightarrow> bool) \<Rightarrow> ('g wasm_state \<Rightarrow> nat) \<Rightarrow> ('g, 'a) export \<Rightarrow> bool" where
  "keeps_blocks ok live f \<longleftrightarrow> (\<forall>s. ok s \<longrightarrow> ok (snd (f s)) \<and> live s \<le> live (snd (f s)))"

definition allocates :: "('g wasm_state \<Rightarrow> bool) \<Rightarrow> ('g wasm_state \<Rightarrow> nat) \<Rightarrow> (i32 \<Rightarrow> ('g, i32) export) \<Rightarrow> bool" where
  "allocates ok live f \<longleftrightarrow> (\<forall>n s a s'. ok s \<longrightarrow> f n s = (Some a, s') \<longrightarrow>
     0 \<le> sint a \<and> nat (sint a) + unat n \<le> length (linear s') \<and>
     (\<forall>bs. length bs = unat n \<longrightarrow> ok (s'\<lparr>linear := poke (nat (sint a)) bs (linear s')\<rparr>) \<and>
        live s + unat n \<le> live (s'\<lparr>linear := poke (nat (sint a)) bs (linear s')\<rparr>)))"

definition dumps_string :: "('g wasm_state \<Rightarrow> bool) \<Rightarrow> (i32 \<Rightarrow> ('g, i32) export) \<Rightarrow> bool" where
  "dumps_string ok f \<longleftrightarrow> (\<forall>r s d s'. ok s \<longrightarrow> f r s = (Some d, s') \<longrightarrow> 0 \<le> sint d \<and> 0 \<in> set (drop (nat (sint d)) (linear s')))"

definition exports_documented :: "('g wasm_state \<Rightarrow> bool) \<Rightarrow> ('g wasm_state \<Rightarrow> nat) \<Rightarrow> 'g opa_exports \<Rightarrow> bool" where
  "exports_documented ok live x \<longleftrightarrow> allocates ok live (opa_malloc x) \<and> dumps_string ok (opa_json_dump x) \<and>
     (\<forall>n. keeps_blocks ok live (opa_malloc x n)) \<and> (\<forall>r. keeps_blocks ok live (opa_json_dump x r)) \<and>
     (\<forall>a n. keeps_blocks ok live (opa_json_parse x a n)) \<and> keeps_blocks ok live (opa_eval_ctx_new x) \<and>
     (\<forall>k p. keeps_blocks ok live (opa_eval_ctx_set_input x k p)) \<and> (\<forall>k n. keeps_blocks ok live (opa_eval_ctx_set_entrypoint x k n)) \<and>
     (\<forall>k. keeps_blocks ok live (eval_func x k)) \<and> (\<forall>k. keeps_blocks ok live (opa_eval_ctx_get_result x k)) \<and>
     keeps_blocks ok live (entrypoints_func x)"

definition binary_documented :: "('g wasm_state \<Rightarrow> bool) \<Rightarrow> ('g wasm_state \<Rightarrow> nat) \<Rightarrow> 'g wasm_binary \<Rightarrow> bool" where
  "binary_documented ok live b \<longleftrightarrow> (\<forall>s. ok s \<longrightarrow> live s \<le> length (linear s) \<and> length (linear s) \<le> 2 ^ 32) \<and>
     (\<forall>x s. instantiate b host_function (replicate (2 * 65536) 0) = Some (x, s) \<longrightarrow> ok s \<and> exports_documented ok live x)"

text \<open>A run of the host that stays inside the memory and, when it returns, has taken at least \<open>k\<close> more bytes.\<close>

definition takes :: "('g wasm_state \<Rightarrow> bool) \<Rightarrow> ('g wasm_state \<Rightarrow> nat) \<Rightarrow> nat \<Rightarrow> ('g, 'a) host \<Rightarrow> bool" where
  "takes ok live k m \<longleftrightarrow> (\<forall>s. ok s \<longrightarrow> fst (m s) \<noteq> Inl Corrupted \<and> ok (snd (m s)) \<and> live s \<le> live (snd (m s)) \<and>
     (\<forall>x. fst (m s) = Inr x \<longrightarrow> live s + k \<le> live (snd (m s))))"

lemma takes_bind:
  assumes "takes ok live k m" and "\<And>x. takes ok live 0 (f x)"
  shows "takes ok live k (hbind m f)"
  unfolding takes_def
proof (intro allI impI)
  fix s assume ok: "ok s"
  obtain r s' where ms: "m s = (r, s')" by fastforce
  show "fst (hbind m f s) \<noteq> Inl Corrupted \<and> ok (snd (hbind m f s)) \<and> live s \<le> live (snd (hbind m f s)) \<and>
     (\<forall>x. fst (hbind m f s) = Inr x \<longrightarrow> live s + k \<le> live (snd (hbind m f s)))"
  proof (cases r)
    case (Inl e)
    then show ?thesis using assms(1) ok ms unfolding takes_def by fastforce
  next
    case (Inr x)
    then have "ok s'" "live s + k \<le> live s'" using assms(1) ok ms unfolding takes_def by fastforce+
    then show ?thesis using assms(2) [of x] ms Inr unfolding takes_def by fastforce
  qed
qed

lemma takes_basic:
  "takes ok live 0 (hret x)" "takes ok live 0 (hraise e)" "takes ok live 0 (hlift r)"
  "keeps_blocks ok live f \<Longrightarrow> takes ok live 0 (call_export f)"
  by (auto simp: takes_def hret_def hraise_def hlift_def call_export_def keeps_blocks_def split: prod.splits option.splits sum.splits)

lemma hbind_assoc: "hbind (hbind m f) g = hbind m (\<lambda>x. hbind (f x) g)"
  by (rule ext) (auto simp: hbind_def split: prod.splits sum.splits)

lemma takes_write:
  assumes x: "exports_documented ok live x" and bs: "utf8_encode t = Some bs" "length bs < 2 ^ 32" "k \<le> length bs"
  shows "takes ok live k (write_string x t)"
  unfolding takes_def
proof (intro allI impI)
  fix s assume ok: "ok s"
  let ?n = "of_nat (length bs) :: i32" let ?r = "write_string x t s"
  have n: "unat ?n = length bs" using bs(2) by (simp add: unat_of_nat take_bit_eq_mod)
  obtain r s' where m: "opa_malloc x ?n s = (r, s')" by fastforce
  have kept: "ok s'" "live s \<le> live s'" using x ok m unfolding exports_documented_def keeps_blocks_def by (metis snd_conv)+
  show "fst ?r \<noteq> Inl Corrupted \<and> ok (snd ?r) \<and> live s \<le> live (snd ?r) \<and> (\<forall>y. fst ?r = Inr y \<longrightarrow> live s + k \<le> live (snd ?r))"
  proof (cases r)
    case None
    then show ?thesis using m bs(1) kept by (simp add: write_string_def call_export_def)
  next
    case (Some a)
    let ?s = "s'\<lparr>linear := poke (nat (sint a)) bs (linear s')\<rparr>"
    have a: "0 \<le> sint a" "nat (sint a) + length bs \<le> length (linear s')" "ok ?s" "live s + length bs \<le> live ?s"
      using x ok m Some n unfolding exports_documented_def allocates_def by metis+
    then have "?r = (if bs = [] then (Inr (a, ?n), s') else (Inr (a, ?n), ?s))"
      using m Some bs(1) by (simp add: write_string_def call_export_def memmove_def hret_def hbind_def)
    then show ?thesis using a kept bs(3) by auto
  qed
qed

lemma takes_dump:
  assumes "exports_documented ok live x"
  shows "takes ok live 0 (hbind (call_export (opa_json_dump x r)) read_string)"
  unfolding takes_def
proof (intro allI impI)
  fix s assume ok: "ok s"
  let ?r = "hbind (call_export (opa_json_dump x r)) read_string s"
  obtain v s' where m: "opa_json_dump x r s = (v, s')" by fastforce
  have "ok s'" "live s \<le> live s'" using assms ok m unfolding exports_documented_def keeps_blocks_def by (metis snd_conv)+
  moreover have "0 \<le> sint d \<and> 0 \<in> set (drop (nat (sint d)) (linear s'))" if "v = Some d" for d
    using assms ok m that unfolding exports_documented_def dumps_string_def by blast
  ultimately show "fst ?r \<noteq> Inl Corrupted \<and> ok (snd ?r) \<and> live s \<le> live (snd ?r) \<and> (\<forall>y. fst ?r = Inr y \<longrightarrow> live s + 0 \<le> live (snd ?r))"
    using m by (cases v) (auto simp: call_export_def hbind_def read_string_def string_at_def hret_def hraise_def split: option.splits)
qed

lemma takes_dump_then:
  assumes "exports_documented ok live x" and "\<And>t. takes ok live 0 (g t)"
  shows "takes ok live 0 (hbind (call_export (opa_json_dump x r)) (\<lambda>d. hbind (read_string d) g))"
  using takes_bind [OF takes_dump [OF assms(1)] assms(2)] by (simp add: hbind_assoc)

lemma takes_evaluate:
  assumes x: "exports_documented ok live (engine_exports e)" and bs: "utf8_encode (input_text c i) = Some bs" "length bs < 2 ^ 32" "k \<le> length bs"
  shows "takes ok live k (host_evaluate c e i q)"
proof -
  note docs = x [unfolded exports_documented_def]
  have "takes ok live k (load_input c e i)" unfolding load_input_def Let_def
    by (rule takes_bind [OF takes_write [OF x bs]]) (use docs in \<open>auto intro!: takes_bind takes_basic split: prod.splits\<close>)
  moreover have "takes ok live 0 (select_entrypoint e q ctx)" for ctx unfolding select_entrypoint_def
    using docs by (auto intro!: takes_bind takes_basic)
  moreover have "takes ok live 0 (fetch_result c e ctx)" for ctx unfolding fetch_result_def Let_def
    using docs by (auto intro!: takes_bind [OF takes_basic(4)] takes_dump_then [OF x] takes_basic split: option.splits)
  ultimately show ?thesis unfolding host_evaluate_def by (auto intro!: takes_bind takes_basic)
qed

lemma load_engine_documented:
  assumes b: "binary_documented ok live b"
  shows "load_engine c b \<noteq> Inl Corrupted" and "load_engine c b = Inr (e, s) \<Longrightarrow> ok s \<and> exports_documented ok live (engine_exports e)"
proof -
  have "takes ok live 0 (parse_entrypoints c x)" if "exports_documented ok live x" for x
    using that unfolding parse_entrypoints_def exports_documented_def
    by (intro takes_bind [OF takes_basic(4)] takes_dump_then [OF that]) (auto intro!: takes_basic split: option.splits)
  then have p: "fst (parse_entrypoints c x s) \<noteq> Inl Corrupted \<and> ok (snd (parse_entrypoints c x s))"
    if "exports_documented ok live x" "ok s" for x s using that unfolding takes_def by blast
  have "load_engine c b \<noteq> Inl Corrupted \<and> (\<forall>e s. load_engine c b = Inr (e, s) \<longrightarrow> ok s \<and> exports_documented ok live (engine_exports e))"
  proof (cases "instantiate b host_function (replicate (2 * 65536) 0)")
    case None
    then show ?thesis by (simp only: load_engine_def option.case if_cancel) (auto split: if_splits)
  next
    case (Some xs)
    obtain x s0 where xs: "xs = (x, s0)" by fastforce
    have d: "ok s0" "exports_documented ok live x" using b Some xs unfolding binary_documented_def by blast+
    obtain r s1 where r: "parse_entrypoints c x s0 = (r, s1)" by fastforce
    have "r \<noteq> Inl Corrupted" "ok s1" using p [OF d(2,1)] r by simp_all
    then show ?thesis unfolding load_engine_def Some xs option.case prod.case r
      using d by (cases r) (auto split: if_splits)
  qed
  then show "load_engine c b \<noteq> Inl Corrupted" "load_engine c b = Inr (e, s) \<Longrightarrow> ok s \<and> exports_documented ok live (engine_exports e)" by blast+
qed

text \<open>The queries of a run whose texts can be transferred and have at least \<open>k\<close> bytes.\<close>

definition transferable :: "json_codec \<Rightarrow> nat \<Rightarrow> (policy_input \<times> string) list \<Rightarrow> bool" where
  "transferable c k qs = list_all (\<lambda>(i, q). case utf8_encode (input_text c i) of None \<Rightarrow> False | Some bs \<Rightarrow> k \<le> length bs \<and> length bs < 2 ^ 32) qs"

definition answered :: "(host_error + json list) list \<Rightarrow> nat" where
  "answered rs = length (filter (\<lambda>r. case r of Inl _ \<Rightarrow> False | Inr _ \<Rightarrow> True) rs)"

definition cache_ok :: "('g wasm_state \<Rightarrow> bool) \<Rightarrow> ('g wasm_state \<Rightarrow> nat) \<Rightarrow> ('g wasm_engine \<times> 'g wasm_state) option \<Rightarrow> bool" where
  "cache_ok ok live cache = (case cache of None \<Rightarrow> True | Some (e, s) \<Rightarrow> ok s \<and> exports_documented ok live (engine_exports e))"

definition cache_live :: "('g wasm_state \<Rightarrow> nat) \<Rightarrow> ('g wasm_engine \<times> 'g wasm_state) option \<Rightarrow> nat" where
  "cache_live live cache = (case cache of None \<Rightarrow> 0 | Some (e, s) \<Rightarrow> live s)"

lemma cached_evaluate_step:
  assumes b: "binary_documented ok live b" and cache: "cache_ok ok live cache" and t: "transferable c k [(i, q)]"
    and r: "cached_evaluate c b i q cache = (r, cache')"
  shows "r \<noteq> Inl Corrupted \<and> cache_ok ok live cache' \<and> cache_live live cache + k * answered [r] \<le> cache_live live cache'"
proof -
  obtain bs where bs: "utf8_encode (input_text c i) = Some bs" "length bs < 2 ^ 32" "k \<le> length bs"
    using t by (auto simp: transferable_def split: option.splits)
  have run: ?thesis if "ok s" "exports_documented ok live (engine_exports e)" "cache_live live cache \<le> live s"
    "host_evaluate c e i q s = (r, s')" "cache' = Some (e, s')" for e s s'
  proof -
    have "r \<noteq> Inl Corrupted" "ok s'" "live s + (if \<exists>x. r = Inr x then k else 0) \<le> live s'"
      using takes_evaluate [OF that(2) bs, of q] that(1,4) unfolding takes_def by force+
    then show ?thesis using that by (auto simp: cache_ok_def cache_live_def answered_def split: sum.splits)
  qed
  show ?thesis
  proof (cases cache)
    case None
    show ?thesis
    proof (cases "load_engine c b")
      case (Inl x)
      then show ?thesis using None r load_engine_documented(1) [OF b, of c]
        by (auto simp: cached_evaluate_def cache_ok_def cache_live_def answered_def)
    next
      case (Inr es)
      then obtain e s where es: "load_engine c b = Inr (e, s)" by (cases es) auto
      then obtain s' where "host_evaluate c e i q s = (r, s')" "cache' = Some (e, s')"
        using None r by (auto simp: cached_evaluate_def split: prod.splits)
      with load_engine_documented(2) [OF b es] None show ?thesis by (intro run) (simp_all add: cache_live_def)
    qed
  next
    case (Some es)
    then obtain e s s' where es: "cache = Some (e, s)" "host_evaluate c e i q s = (r, s')" "cache' = Some (e, s')"
      using r by (cases es) (auto simp: cached_evaluate_def split: prod.splits)
    then show ?thesis using cache by (intro run) (simp_all add: cache_live_def cache_ok_def)
  qed
qed

lemma cached_run_steps:
  assumes "binary_documented ok live b" and "cache_ok ok live cache" and "transferable c k qs" and "cached_run c b qs cache = (rs, cache')"
  shows "Inl Corrupted \<notin> set rs \<and> cache_ok ok live cache' \<and> cache_live live cache + k * answered rs \<le> cache_live live cache'"
  using assms(2-)
proof (induction qs arbitrary: cache rs)
  case Nil
  then show ?case by (simp add: answered_def)
next
  case (Cons iq qs)
  obtain i q where iq: "iq = (i, q)" by fastforce
  obtain r c1 where r: "cached_evaluate c b i q cache = (r, c1)" by fastforce
  obtain rs' where rs: "cached_run c b qs c1 = (rs', cache')" "rs = r # rs'"
    using Cons.prems(3) r by (auto simp: iq split: prod.splits)
  have "transferable c k [(i, q)]" "transferable c k qs" using Cons.prems(2) by (simp_all add: iq transferable_def)
  with cached_evaluate_step [OF assms(1) Cons.prems(1) _ r] Cons.IH [OF _ _ rs(1)]
  have "r \<noteq> Inl Corrupted" "Inl Corrupted \<notin> set rs'" "cache_ok ok live cache'"
    "cache_live live cache + k * answered [r] + k * answered rs' \<le> cache_live live cache'" by fastforce+
  moreover have "answered (r # rs') = answered [r] + answered rs'" by (simp add: answered_def)
  ultimately show ?case by (simp add: rs(2) algebra_simps)
qed

text \<open>
  Over the whole life of the process, with a module whose exports behave as documented and whose addresses stay in the lower half of the
  address space, no transfer of text between host and module leaves the module's memory: no query has the outcome \<open>Corrupted\<close>.
\<close>

theorem transfers_stay_inside:
  assumes "binary_documented ok live b" and "transferable c k qs"
  shows "Inl Corrupted \<notin> set (fst (cached_run c b qs None))"
  using cached_run_steps [OF assms(1) _ assms(2)] by (metis cache_ok_def fst_conv option.case(1) surj_pair)


text \<open>
  An address in the upper half of the module's memory is negative for the host: when \<open>opa_malloc\<close> returns one, the input is copied
  below the module's memory.
\<close>

theorem high_address_corrupts:
  assumes "utf8_encode (input_text c i) = Some bs" and "bs \<noteq> []"
    and "opa_malloc (engine_exports e) (of_nat (length bs)) s = (Some addr, s')" and "sint addr < 0"
  shows "fst (host_evaluate c e i q s) = Inl Corrupted"
  using assms by (simp add: host_evaluate_def load_input_def write_string_def call_export_def memmove_def hbind_def Let_def)

section \<open>A module\<close>

text \<open>A module of sixteen bytes with a bump allocator, whose result is always \<open>true\<close>; it meets the contract and answers until its memory is used up.\<close>

definition demo_exports :: "nat opa_exports" where
  "demo_exports = \<lparr>opa_malloc = (\<lambda>n s. if globals s + unat n \<le> length (linear s) then (Some (of_nat (globals s)), s\<lparr>globals := globals s + unat n\<rparr>) else (None, s)),
     opa_json_parse = (\<lambda>a n s. (Some 4, s)), opa_json_dump = (\<lambda>r s. (Some 0, s)), opa_eval_ctx_new = (\<lambda>s. (Some 1, s)),
     opa_eval_ctx_set_input = (\<lambda>k p s. (Some (), s)), opa_eval_ctx_set_entrypoint = (\<lambda>k n s. (Some (), s)), eval_func = (\<lambda>k s. (Some 0, s)),
     opa_eval_ctx_get_result = (\<lambda>k s. (Some 4, s)), entrypoints_func = (\<lambda>s. (Some 8, s))\<rparr>"

definition demo_state :: "nat wasm_state" where
  "demo_state = \<lparr>linear = [116, 114, 117, 101, 0] @ replicate 11 0, globals = 5\<rparr>"

definition demo_binary :: "nat wasm_binary" where
  "demo_binary = \<lparr>needed = [((''env'', ''memory''), Memory_Type 2 None), ((''env'', ''opa_abort''), Func_Type 1 False)],
     export_names = ''opa_eval_ctx_set_entrypoint'' # required_exports, instantiate = (\<lambda>f mem. Some (demo_exports, demo_state))\<rparr>"

definition demo_codec :: json_codec where
  "demo_codec = \<lparr>input_text = (\<lambda>i. [123, 125]), loads_text = (\<lambda>t. if t = [116, 114, 117, 101] then Some (JBool True) else None)\<rparr>"

definition demo_ok :: "nat wasm_state \<Rightarrow> bool" where
  "demo_ok s \<longleftrightarrow> length (linear s) = 16 \<and> 5 \<le> globals s \<and> globals s \<le> 16 \<and> 0 \<in> set (take 5 (linear s))"

definition demo_live :: "nat wasm_state \<Rightarrow> nat" where
  "demo_live s = globals s - 5"

definition demo_engine :: "nat wasm_engine" where
  "demo_engine = \<lparr>engine_exports = demo_exports, can_set_entrypoint = True, entry_table = entry_json [(''gasc/governor/integrity/allow_state_write'', 1)]\<rparr>"

lemma sint_small: "n < 2 ^ 31 \<Longrightarrow> sint (of_nat n :: i32) = int n"
  by (simp add: signed_of_nat signed_take_bit_int_eq_self)

lemma demo_documented: "binary_documented demo_ok demo_live demo_binary"
proof -
  have "take 5 (poke a bs mem) = take 5 mem" if "5 \<le> a" "a \<le> length mem" for a bs and mem :: "byte list"
    using that by (simp add: poke_def)
  then have "allocates demo_ok demo_live (opa_malloc demo_exports)"
    by (auto simp: allocates_def demo_exports_def demo_ok_def demo_live_def sint_small split: if_splits)
  moreover have "dumps_string demo_ok (opa_json_dump demo_exports)"
    by (auto simp: dumps_string_def demo_exports_def demo_ok_def dest: in_set_takeD)
  ultimately have "exports_documented demo_ok demo_live demo_exports"
    by (auto simp: exports_documented_def keeps_blocks_def demo_exports_def demo_ok_def demo_live_def)
  moreover have "demo_ok demo_state" by (simp add: demo_ok_def demo_state_def)
  moreover have "demo_live s \<le> length (linear s) \<and> length (linear s) \<le> 2 ^ 32" if "demo_ok s" for s
    using that by (auto simp: demo_ok_def demo_live_def)
  ultimately show ?thesis by (auto simp: binary_documented_def demo_binary_def)
qed

lemma demo_transferable: "transferable demo_codec 2 (replicate n (i, q))"
  by (induction n) (simp_all add: transferable_def demo_codec_def utf8_char_def)

definition demo_input :: policy_input where
  "demo_input = Integrity_Input \<lparr>write_request = bare_payload ''x'' [], parent_status_list = []\<rparr>"

definition demo_loaded :: "nat wasm_engine" where
  "demo_loaded = \<lparr>engine_exports = demo_exports, can_set_entrypoint = True, entry_table = JObj []\<rparr>"

definition demo_after :: "nat \<Rightarrow> nat wasm_state" where
  "demo_after n = \<lparr>linear = [116, 114, 117, 101, 0] @ concat (replicate n [123, 125]) @ replicate (11 - 2 * n) 0, globals = 5 + 2 * n\<rparr>"

lemma demo_load: "load_engine demo_codec demo_binary = Inr (demo_loaded, demo_after 0)"
  by (simp add: load_engine_def demo_binary_def linked_def host_imports_def required_exports_def demo_loaded_def demo_after_def demo_state_def)

lemma demo_text: "utf8_encode (input_text demo_codec i) = Some [123, 125]"
  by (simp add: demo_codec_def utf8_char_def)

lemma demo_true: "utf8_decode [116, 114, 117, 101] = Some [116, 114, 117, 101]"
  by (rule utf8_roundtrip) (simp add: utf8_char_def)

lemma demo_after_simps: "n \<le> 5 \<Longrightarrow> length (linear (demo_after n)) = 16" "globals (demo_after n) = 5 + 2 * n"
  by (simp_all add: demo_after_def length_concat sum_list_replicate)

lemma demo_write:
  assumes "n < 5"
  shows "write_string demo_exports (input_text demo_codec i) (demo_after n) = (Inr (of_nat (5 + 2 * n), 2), demo_after (Suc n))"
proof -
  have "n \<in> {0, 1, 2, 3, 4}" using assms by auto
  then have "poke (5 + 2 * n) [123, 125] (linear (demo_after n)) = linear (demo_after (Suc n))" by (auto simp: poke_def demo_after_def eval_nat_numeral)
  then have s: "(demo_after n)\<lparr>globals := 7 + 2 * n, linear := poke (5 + 2 * n) [123, 125] (linear (demo_after n))\<rparr> = demo_after (Suc n)"
    by (simp add: demo_after_def)
  have "opa_malloc demo_exports 2 (demo_after n) = (Some (of_nat (5 + 2 * n)), (demo_after n)\<lparr>globals := 7 + 2 * n\<rparr>)"
    using assms by (simp add: demo_exports_def demo_after_simps)
  moreover have "memmove (sint (of_nat (5 + 2 * n) :: i32)) [123, 125] ((demo_after n)\<lparr>globals := 7 + 2 * n\<rparr>) = (Inr (), demo_after (Suc n))"
    using assms s by (simp add: memmove_def sint_small demo_after_simps nat_add_distrib nat_mult_distrib del: of_nat_add of_nat_mult)
  ultimately show ?thesis by (simp add: write_string_def demo_text hbind_def call_export_def hret_def del: of_nat_add of_nat_mult)
qed

lemma demo_read: "read_string 0 (demo_after n) = (Inr [116, 114, 117, 101], demo_after n)"
  by (simp add: read_string_def string_at_def demo_after_def hbind_def hret_def demo_true)

lemma demo_calls:
  "call_export (opa_json_parse demo_exports a n) = hret 4" "call_export (opa_json_dump demo_exports r) = hret 0"
  "call_export (opa_eval_ctx_new demo_exports) = hret 1" "call_export (opa_eval_ctx_set_input demo_exports k p) = hret ()"
  "call_export (opa_eval_ctx_set_entrypoint demo_exports k n) = hret ()" "call_export (eval_func demo_exports k) = hret 0"
  "call_export (opa_eval_ctx_get_result demo_exports k) = hret 4"
  by (simp_all add: demo_exports_def call_export_def hret_def fun_eq_iff)

lemma demo_input_loads: "n < 5 \<Longrightarrow> engine_exports e = demo_exports \<Longrightarrow> load_input demo_codec e i (demo_after n) = (Inr 1, demo_after (Suc n))"
  by (simp add: load_input_def demo_write demo_calls) (simp add: hret_def)

lemma demo_fetch: "engine_exports e = demo_exports \<Longrightarrow> fetch_result demo_codec e ctx (demo_after n) = (Inr (JBool True), demo_after n)"
  by (simp add: fetch_result_def demo_calls demo_read) (simp add: demo_codec_def hret_def)

lemma demo_evaluate:
  "n < 5 \<Longrightarrow> host_evaluate demo_codec demo_loaded i [] (demo_after n) = (Inr [JObj [(''result'', JBool True)]], demo_after (Suc n))"
  "host_evaluate demo_codec demo_loaded i [] (demo_after 5) = (Inl (Raised OtherError), demo_after 5)"
proof -
  have x: "engine_exports demo_loaded = demo_exports" by (simp add: demo_loaded_def)
  show "host_evaluate demo_codec demo_loaded i [] (demo_after n) = (Inr [JObj [(''result'', JBool True)]], demo_after (Suc n))" if "n < 5"
    using that by (simp add: host_evaluate_def demo_input_loads x select_entrypoint_def demo_fetch normalise_results_def) (simp add: hret_def)
  have "opa_malloc demo_exports 2 (demo_after 5) = (None, demo_after 5)" by (simp add: demo_exports_def demo_after_simps)
  then show "host_evaluate demo_codec demo_loaded i [] (demo_after 5) = (Inl (Raised OtherError), demo_after 5)"
    by (simp add: host_evaluate_def load_input_def x write_string_def demo_text hbind_def call_export_def)
qed

lemma demo_run:
  "fst (cached_run demo_codec demo_binary (replicate 6 (i, [])) None) = replicate 5 (Inr [JObj [(''result'', JBool True)]]) @ [Inl (Raised OtherError)]"
proof -
  have "cached_evaluate demo_codec demo_binary i [] None = (Inr [JObj [(''result'', JBool True)]], Some (demo_loaded, demo_after 1))"
    by (simp add: cached_evaluate_def demo_load demo_evaluate)
  moreover have "n < 5 \<Longrightarrow> cached_evaluate demo_codec demo_binary i [] (Some (demo_loaded, demo_after n)) =
      (Inr [JObj [(''result'', JBool True)]], Some (demo_loaded, demo_after (Suc n)))"
    "cached_evaluate demo_codec demo_binary i [] (Some (demo_loaded, demo_after 5)) = (Inl (Raised OtherError), Some (demo_loaded, demo_after 5))" for n
    by (simp_all add: cached_evaluate_def demo_evaluate)
  ultimately show ?thesis by (simp add: eval_nat_numeral)
qed

theorem write_then_read_witness:
  "read_string 5 ((demo_after 1)\<lparr>linear := (linear (demo_after 1))[7 := 0]\<rparr>) = (Inr [123, 125], (demo_after 1)\<lparr>linear := (linear (demo_after 1))[7 := 0]\<rparr>)"
proof -
  have w: "write_string demo_exports [123, 125] (demo_after 0) = (Inr (5, 2), demo_after 1)"
    using demo_write [of 0 demo_input] by (simp add: demo_codec_def)
  have a: "nat (sint (5 :: i32)) = 5" using sint_small [of 5] by simp
  show ?thesis by (rule write_then_read [OF w]) (simp_all add: a demo_after_simps utf8_char_def)
qed


theorem transfers_stay_inside_witness:
  "Inl Corrupted \<notin> set (fst (cached_run demo_codec demo_binary (replicate 6 (demo_input, [])) None))"
  by (rule transfers_stay_inside [OF demo_documented demo_transferable])


theorem high_address_corrupts_witness:
  "fst (host_evaluate demo_codec (demo_engine\<lparr>engine_exports := demo_exports\<lparr>opa_malloc := \<lambda>n s. (Some (2 ^ 31), s)\<rparr>\<rparr>) demo_input [] demo_state) = Inl Corrupted"
  by (rule high_address_corrupts [OF demo_text, where addr = "2 ^ 31"]) (simp_all add: demo_engine_def)

end
