(* ===== verification/Backend_Reads.thy ===== *)
theory Backend_Reads
  imports Postgres_Backend Containment
begin

text \<open>
  The reads of \<open>BaseStateBackend\<close> that return whole tables: the memory backend copies its dictionaries, the SQL backends build a
  dictionary from the rows of a table. The locale \<open>backend_reads\<close> says what they return of the abstract store of \<open>Backend_Spec\<close>; what the
  reports compute from them is proved there once, for every backend.
\<close>

section \<open>The reads\<close>

text \<open>\<open>{row[0]: row[1] for row in rows}\<close>: a later row replaces the value of an earlier one with the same key.\<close>

definition dict_of_rows :: "('k \<times> 'v) list \<Rightarrow> ('k, 'v) dict" where
  "dict_of_rows rows = foldl (\<lambda>d (k, v). AList.update k v d) [] rows"

definition get_dag :: "gstate \<Rightarrow> (node_id, payload) dict" where
  "get_dag s = dag s"

definition get_quarantine_ledger :: "gstate \<Rightarrow> node_id list" where
  "get_quarantine_ledger s = quarantine_ledger s"

definition get_repair_candidates :: "gstate \<Rightarrow> (node_id, repair_candidate) dict" where
  "get_repair_candidates s = repair_candidates s"

definition get_quarantine_events :: "gstate \<Rightarrow> quarantine_event list" where
  "get_quarantine_events s = quarantine_events s"

definition get_checkpoints :: "gstate \<Rightarrow> (string, checkpoint) dict" where
  "get_checkpoints s = checkpoints s"

definition get_substitute_declarations :: "gstate \<Rightarrow> (node_id, substitute_declaration) dict" where
  "get_substitute_declarations s = substitute_declarations s"

definition get_withdrawal_ledger :: "gstate \<Rightarrow> (node_id, utc \<times> string \<times> string) dict" where
  "get_withdrawal_ledger s = map (\<lambda>(n, w). (n, withdrawn_at_utc w, triggering_event_id w, withdrawal_reason w)) (withdrawal_ledger s)"

definition sq_get_dag :: "sqlite_state \<Rightarrow> (node_id, payload) dict" where
  "sq_get_dag t = dict_of_rows (dag (tables t))"

definition sq_get_quarantine_ledger :: "sqlite_state \<Rightarrow> node_id list" where
  "sq_get_quarantine_ledger t = quarantine_ledger (tables t)"

definition sq_get_repair_candidates :: "sqlite_state \<Rightarrow> (node_id, repair_candidate) dict" where
  "sq_get_repair_candidates t = dict_of_rows (repair_candidates (tables t))"

text \<open>The event with the key \<open>max_traversal_depth\<close> that the SQL backends added to it.\<close>

definition sq_get_quarantine_events :: "sqlite_state \<Rightarrow> (quarantine_event \<times> nat option) list" where
  "sq_get_quarantine_events t = map (\<lambda>ev. (ev, map_of (event_depths t) (quarantine_event_id ev))) (quarantine_events (tables t))"

definition sq_get_checkpoints :: "sqlite_state \<Rightarrow> (string, checkpoint) dict" where
  "sq_get_checkpoints t = dict_of_rows (checkpoints (tables t))"

definition sq_get_substitute_declarations :: "sqlite_state \<Rightarrow> (node_id, substitute_declaration) dict" where
  "sq_get_substitute_declarations t = dict_of_rows (substitute_declarations (tables t))"

definition sq_get_withdrawal_ledger :: "sqlite_state \<Rightarrow> (node_id, utc \<times> string \<times> string) dict" where
  "sq_get_withdrawal_ledger t = dict_of_rows (map (\<lambda>(n, w). (n, withdrawn_at_utc w, triggering_event_id w, withdrawal_reason w)) (withdrawal_ledger (tables t)))"

definition pg_get_dag :: "pg_state \<Rightarrow> (node_id, payload) dict" where
  "pg_get_dag u = dict_of_rows (pg_nodes u)"

definition pg_get_quarantine_ledger :: "pg_state \<Rightarrow> node_id list" where
  "pg_get_quarantine_ledger u = pg_ledger u"

definition pg_get_repair_candidates :: "pg_state \<Rightarrow> (node_id, repair_candidate) dict" where
  "pg_get_repair_candidates u = dict_of_rows (pg_candidates u)"

definition pg_get_quarantine_events :: "pg_state \<Rightarrow> (quarantine_event \<times> nat option) list" where
  "pg_get_quarantine_events u = map snd (pg_events u)"

definition pg_get_checkpoints :: "pg_state \<Rightarrow> (string, checkpoint) dict" where
  "pg_get_checkpoints u = dict_of_rows (pg_checkpoints u)"

definition pg_get_substitute_declarations :: "pg_state \<Rightarrow> (node_id, substitute_declaration) dict" where
  "pg_get_substitute_declarations u = dict_of_rows (pg_substitutes u)"

text \<open>The escape set of \<open>/measured-cost\<close>, from what the two reads returned.\<close>

definition escape_set :: "(node_id, payload) dict \<Rightarrow> node_id list \<Rightarrow> node_id list" where
  "escape_set d ledger = map fst (filter (\<lambda>(nid, nd). nid \<notin> set ledger \<and>
     (list_ex (\<lambda>p. p \<in> set ledger) (parent_ids nd) \<or> list_ex (\<lambda>c. c \<in> set ledger) (covers nd))) d)"

lemma escape_set_breaches: "escape_set (get_dag s) (get_quarantine_ledger s) = containment_breaches s"
  by (auto simp: escape_set_def get_dag_def get_quarantine_ledger_def containment_breaches_def breach_def split: if_splits intro!: filter_cong arg_cong [of _ _ "map fst"])

section \<open>Dictionaries of rows\<close>

lemma wf_dict_of_rows [simp]: "wf_dict (dict_of_rows rows)"
proof -
  have "wf_dict d \<Longrightarrow> wf_dict (foldl (\<lambda>d (k, v). AList.update k v d) d rows)" for d :: "('a, 'b) dict"
    by (induction rows arbitrary: d) auto
  then show ?thesis by (simp add: dict_of_rows_def)
qed

lemma map_of_dict_of_rows: "map_of (dict_of_rows rows) = map_of (rev rows)"
proof -
  have "map_of (foldl (\<lambda>d (k, v). AList.update k v d) d rows) = map_of d ++ map_of (rev rows)" for d :: "('a, 'b) dict"
    by (induction rows arbitrary: d) (auto simp: update_conv' map_add_def fun_eq_iff split: option.split)
  then show ?thesis by (simp add: dict_of_rows_def)
qed

lemma map_of_key_rows [simp]: "wf_dict rows \<Longrightarrow> map_of (dict_of_rows rows) = map_of rows"
proof (rule ext)
  fix k
  assume "wf_dict rows"
  moreover from this have "wf_dict (rev rows)" by (simp add: wf_dict_def keys_def rev_map [symmetric])
  ultimately have "map_of (rev rows) k = Some v \<longleftrightarrow> map_of rows k = Some v" for v by (simp add: mem_set_map_of [symmetric])
  then show "map_of (dict_of_rows rows) k = map_of rows k" unfolding map_of_dict_of_rows by (metis option.exhaust)
qed

section \<open>What the reads promise\<close>

locale backend_reads =
  fixes view :: "'s \<Rightarrow> store" and invar :: "'s \<Rightarrow> bool"
    and dag_of :: "'s \<Rightarrow> (node_id, payload) dict" and ledger_of :: "'s \<Rightarrow> node_id list"
    and checkpoints_of :: "'s \<Rightarrow> (string, checkpoint) dict" and substitutes_of :: "'s \<Rightarrow> (node_id, substitute_declaration) dict"
  assumes dag_keys: "invar s \<Longrightarrow> wf_dict (dag_of s)"
    and dag_answer: "invar s \<Longrightarrow> map_of (dag_of s) = st_nodes (view s)"
    and ledger_answer: "invar s \<Longrightarrow> set (ledger_of s) = st_ledger (view s)"
    and checkpoints_answer: "invar s \<Longrightarrow> map_of (checkpoints_of s) = st_checkpoints (view s)"
    and substitutes_answer: "invar s \<Longrightarrow> map_of (substitutes_of s) = st_substitutes (view s)"
begin

text \<open>The escape set is the set of stored nodes outside the quarantine that touch it, each listed once.\<close>

lemma escapes:
  assumes "invar s"
  shows "set (escape_set (dag_of s) (ledger_of s)) = {n. n \<notin> st_ledger (view s) \<and> (\<exists>c. c \<in> st_ledger (view s) \<and> derives_map (st_nodes (view s)) c n)}"
    and "distinct (escape_set (dag_of s) (ledger_of s))"
proof -
  note mem = mem_set_map_of [OF dag_keys [OF assms]]
  show "set (escape_set (dag_of s) (ledger_of s)) = {n. n \<notin> st_ledger (view s) \<and> (\<exists>c. c \<in> st_ledger (view s) \<and> derives_map (st_nodes (view s)) c n)}"
    by (force simp: escape_set_def list_ex_iff mem dag_answer [OF assms] ledger_answer [OF assms] derives_map_def touches_def)
  show "distinct (escape_set (dag_of s) (ledger_of s))"
    using dag_keys [OF assms] by (simp add: escape_set_def wf_dict_def keys_def distinct_map_filter)
qed

text \<open>The report shows no escape exactly when the store is contained.\<close>

lemma no_escape_iff: "invar s \<Longrightarrow> escape_set (dag_of s) (ledger_of s) = [] \<longleftrightarrow> st_contained (view s)"
  unfolding set_empty [symmetric] escapes(1) st_contained_def by blast

end

section \<open>The three backends\<close>

text \<open>The primary keys of the tables that are read.\<close>

definition sq_readable :: "sqlite_state \<Rightarrow> bool" where
  "sq_readable t \<longleftrightarrow> sq_invar t \<and> wf_dict (checkpoints (tables t)) \<and> wf_dict (substitute_declarations (tables t))"

definition pg_readable :: "pg_state \<Rightarrow> bool" where
  "pg_readable u \<longleftrightarrow> pg_invar u \<and> wf_dict (pg_checkpoints u) \<and> wf_dict (pg_substitutes u)"

interpretation memory_reads: backend_reads mem_view mem_invar get_dag get_quarantine_ledger get_checkpoints get_substitute_declarations
  by unfold_locales (simp_all add: mem_invar_def mem_view_def get_dag_def get_quarantine_ledger_def get_checkpoints_def get_substitute_declarations_def)

interpretation sqlite_reads: backend_reads sq_view sq_readable sq_get_dag sq_get_quarantine_ledger sq_get_checkpoints sq_get_substitute_declarations
  by unfold_locales (simp_all add: sq_readable_def sq_invar_def edges_ok_def sq_view_def mem_view_def sq_get_dag_def sq_get_quarantine_ledger_def
      sq_get_checkpoints_def sq_get_substitute_declarations_def)

interpretation postgres_reads: backend_reads pg_view pg_readable pg_get_dag pg_get_quarantine_ledger pg_get_checkpoints pg_get_substitute_declarations
  by unfold_locales (simp_all add: pg_readable_def pg_invar_def pg_view_def pg_get_dag_def pg_get_quarantine_ledger_def
      pg_get_checkpoints_def pg_get_substitute_declarations_def)

lemma sq_exec_readable: "sq_readable t \<Longrightarrow> sq_readable (sq_exec depth now expires op t)"
proof (cases op)
  case (Commit p)
  assume "sq_readable t"
  then show ?thesis using sq_exec_invar [of t depth now expires op]
    by (auto simp: Commit sq_readable_def sq_commit_tables commit_node_def)
next
  case (Radius r)
  assume "sq_readable t"
  moreover obtain rcs where "snd (sq_compute_blast_radius depth r t) = t\<lparr>tables := (tables t)\<lparr>repair_candidates := rcs\<rparr>\<rparr>"
    using sq_radius_only_candidates by blast
  ultimately show ?thesis using sq_exec_invar [of t depth now expires op] by (simp add: Radius sq_readable_def)
qed (use sq_exec_invar [of t depth now expires op] in \<open>auto simp: sq_readable_def sq_writes\<close>)

lemma pg_exec_readable: "pg_readable u \<Longrightarrow> pg_readable (pg_exec depth now expires op u)"
proof (cases op)
  case (Commit p)
  assume "pg_readable u"
  then show ?thesis using pg_exec_invar [of u depth now expires op] by (simp add: Commit pg_readable_def pg_commit_simps)
next
  case (Radius r)
  assume "pg_readable u"
  then show ?thesis using pg_exec_invar [of u depth now expires op] pg_plan_frame [of depth r u] by (auto simp: Radius pg_readable_def)
qed (use pg_exec_invar [of u depth now expires op] in \<open>auto simp: pg_readable_def pg_writes\<close>)

lemma sq_run_readable: "sq_readable t \<Longrightarrow> sq_readable (fold (sq_exec depth now expires) ops t)"
  by (induction ops arbitrary: t) (simp_all add: sq_exec_readable)

lemma pg_run_readable: "pg_readable u \<Longrightarrow> pg_readable (fold (pg_exec depth now expires) ops u)"
  by (induction ops arbitrary: u) (simp_all add: pg_exec_readable)

lemma reset_readable: "substitute_declarations (tables t) = [] \<Longrightarrow> sq_readable (sq_reset t)" "pg_readable (pg_reset u)"
proof -
  show "sq_readable (sq_reset t)" if "substitute_declarations (tables t) = []"
    using that reset_views(5) [of t] unfolding sq_readable_def
    by (simp add: sq_reset_def Let_def sq_commit_tables commit_node_def add_to_quarantine_ledger_def)
  show "pg_readable (pg_reset u)" using reset_views(2) [of u] unfolding pg_readable_def
    by (simp add: pg_reset_def Let_def pg_commit_node_def pg_add_to_quarantine_ledger_def)
qed

text \<open>C12: After any sequence of writes the reads of the three backends return the same graph, ledger, checkpoints and substitutes, and the report of
  \<open>/measured-cost\<close> lists the same escaped nodes on all three, none of them exactly when everything that derives from quarantined material is quarantined.\<close>

theorem measured_escapes_agree:
  assumes "substitute_declarations (tables t') = []"
  shows "let s = fold (mem_exec now expires) ops (reset_sync s'); t = fold (sq_exec depth now' expires') ops (sq_reset t');
      u = fold (pg_exec depth now'' expires'') ops (pg_reset u')
    in map_of (sq_get_dag t) = map_of (get_dag s) \<and> map_of (pg_get_dag u) = map_of (get_dag s) \<and>
      set (sq_get_quarantine_ledger t) = set (get_quarantine_ledger s) \<and> set (pg_get_quarantine_ledger u) = set (get_quarantine_ledger s) \<and>
      map_of (sq_get_checkpoints t) = map_of (get_checkpoints s) \<and> map_of (pg_get_checkpoints u) = map_of (get_checkpoints s) \<and>
      map_of (sq_get_substitute_declarations t) = map_of (get_substitute_declarations s) \<and>
      map_of (pg_get_substitute_declarations u) = map_of (get_substitute_declarations s) \<and>
      set (escape_set (sq_get_dag t) (sq_get_quarantine_ledger t)) = set (containment_breaches s) \<and>
      set (escape_set (pg_get_dag u) (pg_get_quarantine_ledger u)) = set (containment_breaches s) \<and>
      length (escape_set (sq_get_dag t) (sq_get_quarantine_ledger t)) = length (containment_breaches s) \<and>
      length (escape_set (pg_get_dag u) (pg_get_quarantine_ledger u)) = length (containment_breaches s) \<and>
      (containment_breaches s = [] \<longleftrightarrow> st_contained (mem_view s))"
proof -
  define s where "s = fold (mem_exec now expires) ops (reset_sync s')"
  define t where "t = fold (sq_exec depth now' expires') ops (sq_reset t')"
  define u where "u = fold (pg_exec depth now'' expires'') ops (pg_reset u')"
  have s: "mem_invar s" and t: "sq_readable t" and u: "pg_readable u"
    unfolding s_def t_def u_def by (intro memory.run_invar sq_run_readable pg_run_readable reset_views reset_readable assms)+
  have v: "sq_view t = mem_view s" "pg_view u = mem_view s"
    unfolding s_def t_def u_def by (simp_all add: memory.run_view sqlite.run_view postgres.run_view reset_views(1,2,5) reset_views(3) [of u' s'] reset_views(4) [OF assms, of s'])
  note reads = memory_reads.dag_answer [OF s] memory_reads.ledger_answer [OF s] memory_reads.checkpoints_answer [OF s] memory_reads.substitutes_answer [OF s]
    sqlite_reads.dag_answer [OF t] sqlite_reads.ledger_answer [OF t] sqlite_reads.checkpoints_answer [OF t] sqlite_reads.substitutes_answer [OF t]
    postgres_reads.dag_answer [OF u] postgres_reads.ledger_answer [OF u] postgres_reads.checkpoints_answer [OF u] postgres_reads.substitutes_answer [OF u]
  have sets: "set (escape_set (sq_get_dag t) (sq_get_quarantine_ledger t)) = set (containment_breaches s)"
    "set (escape_set (pg_get_dag u) (pg_get_quarantine_ledger u)) = set (containment_breaches s)"
    unfolding escape_set_breaches [symmetric] memory_reads.escapes(1) [OF s] sqlite_reads.escapes(1) [OF t] postgres_reads.escapes(1) [OF u] v by (rule refl)+
  have "distinct (containment_breaches s)" using memory_reads.escapes(2) [OF s] by (simp add: escape_set_breaches)
  then have len: "length (escape_set (sq_get_dag t) (sq_get_quarantine_ledger t)) = length (containment_breaches s)"
    "length (escape_set (pg_get_dag u) (pg_get_quarantine_ledger u)) = length (containment_breaches s)"
    using sets sqlite_reads.escapes(2) [OF t] postgres_reads.escapes(2) [OF u] by (metis distinct_card)+
  have "containment_breaches s = [] \<longleftrightarrow> st_contained (mem_view s)"
    using memory_reads.no_escape_iff [OF s] by (simp add: escape_set_breaches)
  with sets len show ?thesis unfolding Let_def s_def [symmetric] t_def [symmetric] u_def [symmetric] reads v by blast
qed

theorem measured_escapes_agree_witness:
  "let ops = [Commit (bare_payload ''b'' [demo_edge ''a'']), Ledger_Add ''a'']; t1 = Datetime 2026 1 1 0 0 0 0; t2 = Datetime 2026 1 2 0 0 0 0;
     u = fold (pg_exec 9 t1 t2) ops (pg_reset pg_empty)
   in set (escape_set (pg_get_dag u) (pg_get_quarantine_ledger u)) = {''b''}"
proof -
  have "substitute_declarations (tables \<lparr>tables = init_state, edges = [], event_depths = []\<rparr>) = []" by (simp add: init_state_def)
  from measured_escapes_agree [OF this, where ?ops = "[Commit (bare_payload ''b'' [demo_edge ''a'']), Ledger_Add ''a'']" and ?now = "''t''" and ?expires = "''u''"
      and ?now'' = "Datetime 2026 1 1 0 0 0 0" and ?expires'' = "Datetime 2026 1 2 0 0 0 0" and ?depth = 9 and ?s' = init_state and ?u' = pg_empty]
  moreover have "containment_breaches (fold (mem_exec ''t'' ''u'') [Commit (bare_payload ''b'' [demo_edge ''a'']), Ledger_Add ''a''] (reset_sync init_state)) = [''b'']"
    by (simp add: reset_sync_def commit_node_def add_to_quarantine_ledger_def containment_breaches_def breach_def bare_payload_def parent_ids_def demo_edge_def)
  ultimately show ?thesis by (simp add: Let_def)
qed

end
