(* ===== verification/Benchmark.thy ===== *)
theory Benchmark
  imports Payload_Schema
begin

text \<open>
  \<open>benchmark_admission.py\<close>: one fixed payload is posted to \<open>/submit-candidate\<close> ten times to warm up and then a hundred times under the clock. The token check, the signature check and the
  lookup of the parent are replaced by mocks; everything else is the handler. The theorem says what the hundred timed requests do.
\<close>

section \<open>The payload and the mocks\<close>

definition bench_digest :: string where
  "bench_digest = concat (replicate 4 ''0123456789abcdef'')"

definition bench_payload :: "utc \<Rightarrow> utc \<Rightarrow> utc \<Rightarrow> payload" where
  "bench_payload stamp expires fixed =
     (bare_payload ''bench-node-1'' [\<lparr>parent_node_id = ''p1'', parent_content_hash = Some bench_digest, edge_class = None\<rparr>])\<lparr>
       timestamp_utc := Some stamp,
       ephemeral_nhi := Some \<lparr>identity_id = Some ''agent-1'', session_token = Some ''mocked'', nhi_expires_at_utc = Some expires\<rparr>,
       node_type := Some ''STANDARD'',
       declared_evidence_boundary := Some \<lparr>boundary_id = ''b1'', fixed_at_utc = fixed, boundary_digest = bench_digest\<rparr>,
       content_digest_sha256 := Some bench_digest, agent_signature := Some bench_digest, signature_algorithm := Some ''ECDSA-P256-SHA256'', state_content := Some []\<rparr>"

definition valid_auth :: "int \<Rightarrow> json_object" where
  "valid_auth clock = [(''is_nhi'', JBool True), (''expires_at_epoch'', JNum (of_int (clock + 3600))), (''scope'', JStr ''agent:state:reconstruct''),
     (''verifier_execution_status'', JStr ''PASSED'')]"

text \<open>The handler under \<open>patch\<close>: \<open>verify_nhi_jwt\<close> returns \<open>valid_auth\<close>, \<open>verify_cryptographic_signature\<close> is true, \<open>nodes_exist\<close> returns a fixed dictionary.\<close>

definition mocked_transaction ::
    "settings \<Rightarrow> env \<Rightarrow> engine \<Rightarrow> (node_id, bool) dict \<Rightarrow> payload \<Rightarrow> json_object \<Rightarrow> world \<Rightarrow> submit_response result \<times> world" where
  "mocked_transaction cfg e opa found p auth w =
     (let s = gs w; pids = parent_ids p in
      if get_bool (are_quarantined [payload_id p] s) (payload_id p)
      then (Inl (HTTPException 409 ''payload_id is quarantined; cannot reuse a quarantined identity''), w)
      else if tainted_covers s p \<noteq> [] then (Inl (HTTPException 403 ''TAINTED_COVERS''), w)
      else let p' = with_gap s p in
        case evaluate_admission opa (epoch_of e) p' pids found (are_quarantined pids s) auth of
          Inl err \<Rightarrow> (Inl (policy_exception err), w)
        | Inr d \<Rightarrow>
            (if ENFORCEMENT_MODE cfg = ''shadow'' then (Inr Null_Response, on_gs (snd \<circ> commit_node p') w)
             else enforce_decision cfg e p' (get_node_content_hashes pids s) d w))"

definition mocked_gate :: "settings \<Rightarrow> (payload \<Rightarrow> schema_error option) \<Rightarrow> request_body \<Rightarrow> payload result" where
  "mocked_gate cfg validate rq =
     (if body_length rq > MAX_PAYLOAD_BYTES cfg then Inl (HTTPException 413 ''Payload exceeds maximum allowed size'')
      else case body_json rq of
        None \<Rightarrow> Inl (HTTPException 400 ''Invalid JSON format'')
      | Some p \<Rightarrow>
        (case validate p of
           Some er \<Rightarrow> Inl (HTTPException 400
             (if names_signature_algorithm er then ''signature_algorithm is required and must be ECDSA-P256-SHA256'' else ''Schema validation failed: '' @ message er))
         | None \<Rightarrow>
           (if signature_algorithm p \<noteq> Some ''ECDSA-P256-SHA256'' then Inl (HTTPException 400 ''Unsupported signature_algorithm'')
            else if length (parent_ids p) > 256 then Inl (HTTPException 400 ''Too many declared parents'') else Inr p)))"

definition mocked_post ::
    "settings \<Rightarrow> env \<Rightarrow> engine \<Rightarrow> (payload \<Rightarrow> schema_error option) \<Rightarrow> json_object \<Rightarrow> request_body \<Rightarrow> world \<Rightarrow> submit_response result \<times> world" where
  "mocked_post cfg e opa validate auth rq w =
     (case mocked_gate cfg validate rq of
        Inl ex \<Rightarrow> (Inl ex, w)
      | Inr p \<Rightarrow> transaction (mocked_transaction cfg e opa [(''p1'', True)] p auth) (snd (fresh_uuid e w)))"

text \<open>\<open>run_bench\<close>: the requests arrive at the given times; the answers of the warm-up are dropped.\<close>

fun posts ::
    "settings \<Rightarrow> env \<Rightarrow> engine \<Rightarrow> (payload \<Rightarrow> schema_error option) \<Rightarrow> json_object \<Rightarrow> request_body \<Rightarrow> int list \<Rightarrow> world \<Rightarrow> submit_response result list \<times> world" where
  "posts cfg e opa validate auth rq [] w = ([], w)"
| "posts cfg e opa validate auth rq (t # ts) w =
     (let (r, w') = mocked_post cfg (e\<lparr>now_us := t\<rparr>) opa validate auth rq w; (rs, w'') = posts cfg e opa validate auth rq ts w' in (r # rs, w''))"

definition run_bench ::
    "settings \<Rightarrow> env \<Rightarrow> engine \<Rightarrow> (payload \<Rightarrow> schema_error option) \<Rightarrow> json_object \<Rightarrow> request_body \<Rightarrow> int list \<Rightarrow> int list \<Rightarrow> world
     \<Rightarrow> submit_response result list \<times> world \<times> world" where
  "run_bench cfg e opa validate auth rq warmup timed w =
     (let w1 = snd (posts cfg e opa validate auth rq warmup w); (rs, w2) = posts cfg e opa validate auth rq timed w1 in (rs, w1, w2))"

section \<open>What is measured\<close>

text \<open>Without mocks in effect the mocked handler is the handler.\<close>

lemma mocked_is_handler: "mocked_transaction cfg e opa (nodes_exist (parent_ids p) (gs w)) p auth w = admission_transaction cfg e opa p auth w"
  by (simp add: mocked_transaction_def admission_transaction_def)

lemma bench_sel:
  assumes "p = bench_payload stamp expires fixed"
  shows "payload_id p = ''bench-node-1''" "parent_ids p = [''p1'']" "node_type p = Some ''STANDARD''" "state_content p = Some []" "boundary_fixed p \<longleftrightarrow> fixed \<noteq> []"
    "with_gap s p = p" "tainted_covers s p = []" "signature_algorithm p = Some ''ECDSA-P256-SHA256''" "schema_valid p"
  unfolding assms
  by (simp_all add: bench_payload_def bare_payload_def parent_ids_def boundary_fixed_def with_gap_def tainted_covers_def schema_valid_def valid_nhi_def valid_boundary_def
      valid_commitment_def bench_digest_def matches_hex64_def hex_digits_def numeral_eq_Suc)

text \<open>One request of the benchmark on a store without a node \<open>p1\<close> of its own: it commits once.\<close>

lemma bench_post:
  assumes "validates validate" and "p = bench_payload stamp expires fixed" and "fixed \<noteq> []" and "body_json rq = Some p" and "body_length rq \<le> MAX_PAYLOAD_BYTES cfg"
    and "epoch_of e < clock + 3600" and "{''p1'', ''bench-node-1''} \<inter> set (quarantine_ledger (gs w)) = {}" and "''p1'' \<notin> set (keys (dag (gs w)))"
    and "r = mocked_post cfg e rego_engine validate (valid_auth clock) rq w" and "old \<longleftrightarrow> ''bench-node-1'' \<in> set (keys (dag (gs w)))"
  shows "fst r = Inr (if ENFORCEMENT_MODE cfg = ''shadow'' then Null_Response else Committed old)"
    and "dag (gs (snd r)) = (if old then dag (gs w) else dag (gs w) @ [(''bench-node-1'', p)])" and "quarantine_ledger (gs (snd r)) = quarantine_ledger (gs w)"
    and "old \<Longrightarrow> gs (snd r) = gs w"
proof -
  note sel = bench_sel [OF assms(2)]
  let ?w = "snd (fresh_uuid e w)" and ?g = "gs w" and ?auth = "valid_auth clock"
  have "validate p = None" using assms(1) sel(9) by (simp add: validates_def)
  then have run: "r = transaction (mocked_transaction cfg e rego_engine [(''p1'', True)] p ?auth) ?w"
    using assms(4,5) sel(2,8) by (simp add: assms(9) mocked_post_def mocked_gate_def)
  define g' where "g' = ?g\<lparr>dag := dag ?g @ [(''p1'', bare_payload ''p1'' [])]\<rparr>"
  have "evaluate_admission rego_engine (epoch_of e) p [''p1''] (nodes_exist [''p1''] g') (are_quarantined [''p1''] g') ?auth = Inr Admit"
    unfolding admission_iff using assms(3,6,7) sel(1,4,5) by (simp add: g'_def content_entry_def valid_auth_def)
  moreover have "nodes_exist [''p1''] g' = [(''p1'', True)]" "are_quarantined [''p1''] g' = are_quarantined [''p1''] ?g"
    by (simp_all add: nodes_exist_def are_quarantined_def g'_def)
  ultimately have adm: "evaluate_admission rego_engine (epoch_of e) p [''p1''] [(''p1'', True)] (are_quarantined [''p1''] ?g) ?auth = Inr Admit" by simp
  have "\<not> hash_mismatch (get_node_content_hashes (parent_ids p) ?g) p"
    using assms(8) map_of_eq_None_keys [of "dag ?g" "''p1''"] unfolding hash_mismatch_iff by (auto simp: assms(2) bench_payload_def bare_payload_def)
  then have tx: "mocked_transaction cfg e rego_engine [(''p1'', True)] p ?auth ?w =
      (if ENFORCEMENT_MODE cfg = ''shadow'' then (Inr Null_Response, on_gs (snd \<circ> commit_node p) ?w)
       else enforce_decision cfg e p (get_node_content_hashes [''p1''] ?g) Admit ?w)"
    and "\<not> hash_mismatch (get_node_content_hashes [''p1''] ?g) p"
    using adm assms(7) by (simp_all add: mocked_transaction_def sel(1,2,6,7))
  then show "fst r = Inr (if ENFORCEMENT_MODE cfg = ''shadow'' then Null_Response else Committed old)"
    "dag (gs (snd r)) = (if old then dag ?g else dag ?g @ [(''bench-node-1'', p)])" "quarantine_ledger (gs (snd r)) = quarantine_ledger ?g" "old \<Longrightarrow> gs (snd r) = ?g"
    using assms(10) sel(1) by (simp_all add: run transaction_def enforce_decision_def commit_node_def check_retry_completion_def record_shadow_decision_def)
qed

lemma bench_posts:
  assumes "validates validate" and "p = bench_payload stamp expires fixed" and "fixed \<noteq> []" and "body_json rq = Some p" and "body_length rq \<le> MAX_PAYLOAD_BYTES cfg"
    and "\<forall>t\<in>set ts. t div 1000000 < clock + 3600" and "{''p1'', ''bench-node-1''} \<inter> set (quarantine_ledger (gs w)) = {}" and "''p1'' \<notin> set (keys (dag (gs w)))"
    and "''bench-node-1'' \<in> set (keys (dag (gs w)))"
  shows "fst (posts cfg e rego_engine validate (valid_auth clock) rq ts w) = replicate (length ts) (Inr (if ENFORCEMENT_MODE cfg = ''shadow'' then Null_Response else Committed True)) \<and>
    gs (snd (posts cfg e rego_engine validate (valid_auth clock) rq ts w)) = gs w"
  using assms(6-9)
proof (induction ts arbitrary: w)
  case (Cons t ts)
  let ?r = "mocked_post cfg (e\<lparr>now_us := t\<rparr>) rego_engine validate (valid_auth clock) rq w"
  have t: "epoch_of (e\<lparr>now_us := t\<rparr>) < clock + 3600" using Cons.prems(1) by (simp add: epoch_of_def)
  have old: "True \<longleftrightarrow> ''bench-node-1'' \<in> set (keys (dag (gs w)))" using Cons.prems(4) by simp
  note r = bench_post [OF assms(1-5) t Cons.prems(2,3) refl old]
  then show ?case using Cons.IH [of "snd ?r"] Cons.prems by (simp add: split_beta)
qed simp

text \<open>The admission benchmark never times an admission. The warm-up already stores the one node of the benchmark, so each of the timed requests, however many there are and in either enforcement mode, is answered as
  a duplicate (or, in shadow mode, with the empty answer) and leaves the store exactly as the warm-up left it; the whole run adds one node.\<close>

theorem benchmark_times_duplicates:
  assumes "validates validate" and "fixed \<noteq> []" and "body_json rq = Some (bench_payload stamp expires fixed)" and "body_length rq \<le> MAX_PAYLOAD_BYTES cfg"
    and "\<forall>t\<in>set warmup \<union> set timed. t div 1000000 < clock + 3600" and "warmup \<noteq> []"
    and "{''p1'', ''bench-node-1''} \<inter> set (quarantine_ledger (gs w)) = {}" and "{''p1'', ''bench-node-1''} \<inter> set (keys (dag (gs w))) = {}"
  shows "case run_bench cfg e rego_engine validate (valid_auth clock) rq warmup timed w of (got, w1, w2) \<Rightarrow>
    got = replicate (length timed) (Inr (if ENFORCEMENT_MODE cfg = ''shadow'' then Null_Response else Committed True)) \<and> gs w2 = gs w1 \<and>
    length (dag (gs w2)) = Suc (length (dag (gs w)))"
proof -
  let ?p = "bench_payload stamp expires fixed" and ?posts = "posts cfg e rego_engine validate (valid_auth clock) rq"
  obtain t ts where w: "warmup = t # ts" using assms(6) by (cases warmup) auto
  let ?r = "mocked_post cfg (e\<lparr>now_us := t\<rparr>) rego_engine validate (valid_auth clock) rq w"
  have "epoch_of (e\<lparr>now_us := t\<rparr>) < clock + 3600" "\<forall>t\<in>set ts. t div 1000000 < clock + 3600" using assms(5) by (simp_all add: epoch_of_def w)
  note t = this
  have new: "False \<longleftrightarrow> ''bench-node-1'' \<in> set (keys (dag (gs w)))" "''p1'' \<notin> set (keys (dag (gs w)))" using assms(8) by simp_all
  note r = bench_post [OF assms(1) refl assms(2-4) t(1) assms(7) new(2) refl new(1)]
  have g: "dag (gs (snd ?r)) = dag (gs w) @ [(''bench-node-1'', ?p)]" "{''p1'', ''bench-node-1''} \<inter> set (quarantine_ledger (gs (snd ?r))) = {}" using r(2,3) assms(7) by simp_all
  then have k: "''p1'' \<notin> set (keys (dag (gs (snd ?r))))" "''bench-node-1'' \<in> set (keys (dag (gs (snd ?r))))" using new(2) by simp_all
  have w1: "gs (snd (?posts warmup w)) = gs (snd ?r)"
    using bench_posts [OF assms(1) refl assms(2-4) t(2) g(2) k] by (simp add: w split_beta)
  have d: "\<forall>t\<in>set timed. t div 1000000 < clock + 3600" using assms(5) by simp
  note f = bench_posts [OF assms(1) refl assms(2-4) d, of "snd (?posts warmup w)"]
  show ?thesis using f g k w1 by (simp add: run_bench_def split_beta Let_def)
qed

theorem benchmark_times_duplicates_witness:
  "case run_bench default_settings demo_env rego_engine schema_validator (valid_auth 0) \<lparr>body_length = 900, body_json = Some (bench_payload ''t'' ''x'' ''f'')\<rparr> (replicate 10 0) (replicate 100 0) init_world of
     (got, w1, w2) \<Rightarrow> got = replicate 100 (Inr Null_Response) \<and> gs w2 = gs w1 \<and> length (dag (gs w2)) = Suc (length (dag (gs init_world)))"
  using benchmark_times_duplicates [OF schema_validator_validates, of "''f''" "\<lparr>body_length = 900, body_json = Some (bench_payload ''t'' ''x'' ''f'')\<rparr>" "''t''" "''x''" default_settings "replicate 10 0" "replicate 100 0" 0 init_world demo_env]
  by (simp add: default_settings_def init_world_def init_state_def)

end
