(* ===== verification/Interface.thy ===== *)
theory Interface
  imports Detectors
begin

text \<open>
  The abstract classes and the classes that claim to implement them, as the signatures that the class bodies declare: \<open>BaseStateBackend\<close> of \<open>src/governor_service.py\<close>, the three backends, the second
  \<open>BaseStateBackend\<close> of \<open>src/state_backend.py\<close> that no module imports, and the detector adapters. Python refuses to create an object of a class that leaves a method abstract, so the choice of the
  backend when the module is loaded either binds an object or raises.
\<close>

section \<open>Signatures\<close>

record signature =
  m_name :: string
  m_params :: "string list" \<comment> \<open>without \<open>self\<close>\<close>
  m_defaults :: nat \<comment> \<open>how many of the last parameters are optional\<close>
  m_async :: bool

abbreviation coro :: "string \<Rightarrow> string list \<Rightarrow> nat \<Rightarrow> signature" where
  "coro n ps k \<equiv> \<lparr>m_name = n, m_params = ps, m_defaults = k, m_async = True\<rparr>"

abbreviation plain :: "string \<Rightarrow> string list \<Rightarrow> nat \<Rightarrow> signature" where
  "plain n ps k \<equiv> \<lparr>m_name = n, m_params = ps, m_defaults = k, m_async = False\<rparr>"

text \<open>A later definition in a class body replaces an earlier one.\<close>

definition method_of :: "signature list \<Rightarrow> string \<Rightarrow> signature option" where
  "method_of c n = map_of (rev (map (\<lambda>m. (m_name m, m)) c)) n"

definition left_abstract :: "signature list \<Rightarrow> signature list \<Rightarrow> string list" where
  "left_abstract base c = filter (\<lambda>n. method_of c n = None) (map m_name base)"

text \<open>Creating an object of class \<open>c\<close>, all of whose inherited methods are abstract in \<open>base\<close>: the error names what is missing.\<close>

definition instantiate :: "signature list \<Rightarrow> signature list \<Rightarrow> string list + signature list" where
  "instantiate base c = (if left_abstract base c = [] then Inr c else Inl (left_abstract base c))"

text \<open>Calls that the abstract signature allows are understood by the method that is called.\<close>

definition overrides_well :: "signature list \<Rightarrow> signature \<Rightarrow> bool" where
  "overrides_well c m \<longleftrightarrow> (case method_of c (m_name m) of None \<Rightarrow> False
     | Some k \<Rightarrow> m_params k = m_params m \<and> m_defaults k = m_defaults m \<and> m_async k = m_async m)"

section \<open>The classes\<close>

definition base_state_backend :: "signature list" where
  "base_state_backend = [
    coro ''transaction'' [] 0, coro ''get_dag'' [] 0, coro ''get_quarantine_ledger'' [] 0, coro ''get_repair_candidates'' [] 0,
    coro ''update_repair_candidate'' [''node_id'', ''data''] 0, coro ''commit_node'' [''payload''] 0, coro ''log_quarantine_event'' [''event''] 0,
    coro ''add_to_quarantine_ledger'' [''node_id''] 0, coro ''apply_quarantine_transaction'' [''event'', ''c_p''] 0, coro ''get_quarantine_events'' [] 0,
    coro ''compute_blast_radius'' [''poisoned_root_id''] 0, coro ''add_checkpoint'' [''checkpoint''] 0,
    coro ''add_external_effect'' [''idempotency_key'', ''node_id'', ''effect_type''] 0, coro ''check_external_effect'' [''idempotency_key''] 0,
    coro ''has_external_effects'' [''node_ids''] 0, coro ''get_checkpoints'' [] 0, coro ''reset'' [] 0,
    coro ''record_signal_attempt'' [''signal_source'', ''node_id'', ''signal_kind'', ''outcome''] 0, coro ''count_recent_signals'' [''signal_source'', ''since_utc''] 0,
    coro ''count_recent_signals_global'' [''since_utc''] 0, coro ''get_signal_outcome_counts'' [] 0, coro ''get_node_content_hashes'' [''node_ids''] 0,
    coro ''add_substitute_declaration'' [''declaration''] 0, coro ''get_substitute_declarations'' [] 0, coro ''record_detector_event'' [''event''] 0,
    coro ''get_detector_events'' [] 0, coro ''get_critical_dependents'' [''quarantined_node_ids''] 0,
    coro ''record_tainted_rejection'' [''node_id'', ''parent_id'', ''rejected_at_utc'', ''author_identity''] 1,
    coro ''record_tainted_offer'' [''rejection_node_id'', ''replacement_node_id'', ''replacement_type''] 0,
    coro ''record_tainted_completion'' [''rejection_node_id'', ''completed_by_node_id''] 0, coro ''check_retry_completion'' [''payload''] 0,
    coro ''get_tainted_action_stats'' [] 0, coro ''find_continuity_replacement'' [''tainted_node_id''] 0]"

definition memory_state_backend :: "signature list" where
  "memory_state_backend = [
    plain ''__init__'' [] 0, plain ''_reset_sync'' [] 0, coro ''get_dag'' [] 0, coro ''get_quarantine_ledger'' [] 0, coro ''get_repair_candidates'' [] 0,
    coro ''update_repair_candidate'' [''node_id'', ''data''] 0, coro ''commit_node'' [''payload''] 0, coro ''log_quarantine_event'' [''event''] 0,
    coro ''add_to_quarantine_ledger'' [''node_id''] 0, coro ''apply_quarantine_transaction'' [''event'', ''c_p''] 0, coro ''get_quarantine_events'' [] 0,
    coro ''add_checkpoint'' [''checkpoint''] 0, coro ''get_checkpoints'' [] 0, coro ''compute_blast_radius'' [''poisoned_root_id''] 0,
    coro ''add_external_effect'' [''idempotency_key'', ''node_id'', ''effect_type''] 0, coro ''check_external_effect'' [''idempotency_key''] 0,
    coro ''has_external_effects'' [''node_ids''] 0, coro ''reset'' [] 0, coro ''record_reintegration'' [''node_id'', ''predecessor_id'', ''horizon_seconds''] 0,
    coro ''get_active_horizon_set'' [] 0, coro ''get_expired_horizon_set'' [] 0, coro ''renew_trust'' [''node_id'', ''horizon_seconds''] 0,
    coro ''apply_withdrawal_transaction'' [''event'', ''w_r''] 0, coro ''get_withdrawal_ledger'' [] 0, coro ''record_calibration_run'' [''run''] 0,
    coro ''get_calibration_runs'' [] 0, coro ''record_signal_attempt'' [''signal_source'', ''node_id'', ''signal_kind'', ''outcome''] 0,
    coro ''count_recent_signals'' [''signal_source'', ''since_utc''] 0, coro ''count_recent_signals_global'' [''since_utc''] 0, coro ''get_signal_outcome_counts'' [] 0,
    coro ''record_shadow_decision'' [''decision_id'', ''node_id'', ''evaluated_at_utc'', ''would_have_blocked'', ''reason'', ''parent_status_json'', ''policy_bundle_digest'', ''writer_identity''] 0,
    coro ''nodes_exist'' [''node_ids''] 0, coro ''are_quarantined'' [''node_ids''] 0, coro ''get_node_content_hashes'' [''node_ids''] 0,
    coro ''compute_covers_interval_gap'' [''covers''] 0, coro ''compute_quarantine_digest'' [''additional_node_ids''] 0, coro ''compute_state_digest'' [] 0,
    coro ''record_continuity_exposure'' [''exposure_id'', ''node_id'', ''substitute_status'', ''quarantine_non_empty'', ''exposure_record''] 0,
    coro ''get_continuity_exposures'' [] 0, coro ''record_reintegration_evidence'' [''node_id'', ''pre_digest'', ''post_digest'', ''gate_evidence''] 0,
    coro ''add_substitute_declaration'' [''declaration''] 0, coro ''get_substitute_declarations'' [] 0, coro ''record_detector_event'' [''event''] 0,
    coro ''get_detector_events'' [] 0, coro ''get_critical_dependents'' [''quarantined_node_ids''] 0,
    coro ''record_tainted_rejection'' [''node_id'', ''parent_id'', ''rejected_at_utc'', ''author_identity''] 1,
    coro ''record_tainted_offer'' [''rejection_node_id'', ''replacement_node_id'', ''replacement_type''] 0,
    coro ''record_tainted_completion'' [''rejection_node_id'', ''completed_by_node_id''] 0, coro ''check_retry_completion'' [''payload''] 0,
    coro ''get_tainted_action_stats'' [] 0, coro ''find_continuity_replacement'' [''tainted_node_id''] 0]"

definition sqlite_state_backend :: "signature list" where
  "sqlite_state_backend = [
    plain ''__init__'' [''db_path''] 1, coro ''transaction'' [] 0, coro ''_connect'' [] 0, coro ''init_db'' [] 0, coro ''get_dag'' [] 0,
    coro ''get_quarantine_ledger'' [] 0, coro ''get_repair_candidates'' [] 0, coro ''update_repair_candidate'' [''node_id'', ''data''] 0,
    coro ''commit_node'' [''payload''] 0, coro ''log_quarantine_event'' [''event''] 0, coro ''add_to_quarantine_ledger'' [''node_id''] 0,
    coro ''apply_quarantine_transaction'' [''event'', ''c_p''] 0, coro ''get_quarantine_events'' [] 0, coro ''compute_blast_radius'' [''poisoned_root_id''] 0,
    coro ''_set_repair_candidate'' [''db'', ''node_id'', ''data''] 0, coro ''add_checkpoint'' [''checkpoint''] 0, coro ''get_checkpoints'' [] 0,
    coro ''add_external_effect'' [''idempotency_key'', ''node_id'', ''effect_type''] 0, coro ''check_external_effect'' [''idempotency_key''] 0,
    coro ''has_external_effects'' [''node_ids''] 0, coro ''reset'' [] 0, coro ''record_reintegration'' [''node_id'', ''predecessor_id'', ''horizon_seconds''] 0,
    coro ''record_reintegration_evidence'' [''node_id'', ''pre_digest'', ''post_digest'', ''gate_evidence''] 0, coro ''get_active_horizon_set'' [] 0,
    coro ''get_expired_horizon_set'' [] 0, coro ''renew_trust'' [''node_id'', ''horizon_seconds''] 0, coro ''apply_withdrawal_transaction'' [''event'', ''w_r''] 0,
    coro ''get_withdrawal_ledger'' [] 0, coro ''record_calibration_run'' [''run''] 0, coro ''get_calibration_runs'' [] 0,
    coro ''record_signal_attempt'' [''signal_source'', ''node_id'', ''signal_kind'', ''outcome''] 0, coro ''count_recent_signals'' [''signal_source'', ''since_utc''] 0,
    coro ''count_recent_signals_global'' [''since_utc''] 0, coro ''get_signal_outcome_counts'' [] 0,
    coro ''record_shadow_decision'' [''decision_id'', ''node_id'', ''evaluated_at_utc'', ''would_have_blocked'', ''reason'', ''parent_status_json'', ''policy_bundle_digest'', ''writer_identity''] 0,
    coro ''nodes_exist'' [''node_ids''] 0, coro ''get_node_content_hashes'' [''node_ids''] 0, coro ''are_quarantined'' [''node_ids''] 0,
    coro ''compute_quarantine_digest'' [''additional_node_ids''] 0, coro ''compute_state_digest'' [] 0,
    coro ''record_continuity_exposure'' [''exposure_id'', ''node_id'', ''substitute_status'', ''quarantine_non_empty'', ''exposure_record''] 0,
    coro ''get_continuity_exposures'' [] 0, coro ''compute_covers_interval_gap'' [''covers''] 0, coro ''add_substitute_declaration'' [''declaration''] 0,
    coro ''get_substitute_declarations'' [] 0, coro ''record_detector_event'' [''event''] 0, coro ''get_detector_events'' [] 0,
    coro ''get_critical_dependents'' [''quarantined_node_ids''] 0,
    coro ''record_tainted_rejection'' [''node_id'', ''parent_id'', ''rejected_at_utc'', ''author_identity''] 1,
    coro ''record_tainted_offer'' [''rejection_node_id'', ''replacement_node_id'', ''replacement_type''] 0,
    coro ''record_tainted_completion'' [''rejection_node_id'', ''completed_by_node_id''] 0, coro ''check_retry_completion'' [''payload''] 0,
    coro ''get_tainted_action_stats'' [] 0, coro ''find_continuity_replacement'' [''tainted_node_id''] 0]"

definition postgres_state_backend :: "signature list" where
  "postgres_state_backend = [
    plain ''__init__'' [''dsn''] 1, coro ''_setup_connection'' [''conn''] 0, coro ''_get_pool'' [] 0, coro ''close'' [] 0, coro ''advisory_shared'' [] 0,
    coro ''advisory_exclusive'' [] 0, coro ''init_db'' [] 0, coro ''get_dag'' [] 0, coro ''commit_node'' [''payload''] 0, coro ''nodes_exist'' [''node_ids''] 0,
    coro ''get_node_content_hashes'' [''node_ids''] 0, coro ''are_quarantined'' [''node_ids''] 0, coro ''get_quarantine_ledger'' [] 0,
    coro ''log_quarantine_event'' [''event''] 0, coro ''add_to_quarantine_ledger'' [''node_id''] 0, coro ''apply_quarantine_transaction'' [''event'', ''c_p''] 0,
    coro ''get_quarantine_events'' [] 0, coro ''compute_blast_radius'' [''poisoned_root_id''] 0, coro ''_set_repair_candidate'' [''node_id'', ''data''] 0,
    coro ''get_repair_candidates'' [] 0, coro ''update_repair_candidate'' [''node_id'', ''data''] 0, coro ''add_checkpoint'' [''checkpoint''] 0,
    coro ''get_checkpoints'' [] 0, coro ''add_external_effect'' [''idempotency_key'', ''node_id'', ''effect_type''] 0,
    coro ''check_external_effect'' [''idempotency_key''] 0, coro ''has_external_effects'' [''node_ids''] 0,
    coro ''record_reintegration_evidence'' [''node_id'', ''pre_digest'', ''post_digest'', ''gate_evidence''] 0, coro ''compute_state_digest'' [] 0,
    coro ''record_continuity_exposure'' [''exposure_id'', ''node_id'', ''substitute_status'', ''quarantine_non_empty'', ''exposure_record''] 0,
    coro ''get_continuity_exposures'' [] 0, coro ''record_reintegration'' [''node_id'', ''predecessor_id'', ''horizon_seconds''] 0, coro ''get_active_horizon_set'' [] 0,
    coro ''get_expired_horizon_set'' [] 0, coro ''renew_trust'' [''node_id'', ''horizon_seconds''] 0, coro ''apply_withdrawal_transaction'' [''event'', ''w_r''] 0,
    coro ''get_withdrawal_ledger'' [] 0, coro ''record_calibration_run'' [''run''] 0, coro ''get_calibration_runs'' [] 0,
    coro ''record_signal_attempt'' [''signal_source'', ''node_id'', ''signal_kind'', ''outcome''] 0, coro ''count_recent_signals'' [''signal_source'', ''since_utc''] 0,
    coro ''count_recent_signals_global'' [''since_utc''] 0, coro ''get_signal_outcome_counts'' [] 0,
    coro ''record_shadow_decision'' [''decision_id'', ''node_id'', ''evaluated_at_utc'', ''would_have_blocked'', ''reason'', ''parent_status_json'', ''policy_bundle_digest'', ''writer_identity''] 0,
    coro ''compute_quarantine_digest'' [''additional_node_ids''] 0, coro ''compute_covers_interval_gap'' [''covers''] 0,
    coro ''add_substitute_declaration'' [''declaration''] 0, coro ''get_substitute_declarations'' [] 0, coro ''record_detector_event'' [''event''] 0,
    coro ''get_detector_events'' [] 0, coro ''get_critical_dependents'' [''quarantined_node_ids''] 0,
    coro ''record_tainted_rejection'' [''node_id'', ''parent_id'', ''rejected_at_utc'', ''author_identity''] 1,
    coro ''record_tainted_offer'' [''rejection_node_id'', ''replacement_node_id'', ''replacement_type''] 0,
    coro ''record_tainted_completion'' [''rejection_node_id'', ''completed_by_node_id''] 0, coro ''check_retry_completion'' [''payload''] 0,
    coro ''get_tainted_action_stats'' [] 0, coro ''find_continuity_replacement'' [''tainted_node_id''] 0, coro ''reset'' [] 0]"

definition stale_state_backend :: "signature list" where
  "stale_state_backend = [
    coro ''get_dag'' [] 0, coro ''get_quarantine_ledger'' [] 0, coro ''get_repair_candidates'' [] 0, coro ''commit_node'' [''payload''] 0,
    coro ''apply_quarantine_transaction'' [''event'', ''c_p''] 0, coro ''compute_blast_radius'' [''poisoned_root_id''] 0, coro ''add_checkpoint'' [''checkpoint''] 0,
    coro ''get_checkpoints'' [] 0, coro ''reset'' [] 0, coro ''record_reintegration'' [''node_id'', ''predecessor_id'', ''horizon_seconds''] 0,
    coro ''get_active_horizon_set'' [] 0, coro ''get_expired_horizon_set'' [] 0, coro ''renew_trust'' [''node_id'', ''horizon_seconds''] 0,
    coro ''apply_withdrawal_transaction'' [''event'', ''w_r''] 0, coro ''get_withdrawal_ledger'' [] 0, coro ''record_calibration_run'' [''run''] 0,
    coro ''get_calibration_runs'' [] 0, coro ''record_signal_attempt'' [''signal_source'', ''node_id'', ''signal_kind'', ''outcome''] 0,
    coro ''count_recent_signals'' [''signal_source'', ''since_utc''] 0, coro ''count_recent_signals_global'' [''since_utc''] 0, coro ''get_signal_outcome_counts'' [] 0,
    coro ''record_shadow_decision'' [''decision_id'', ''node_id'', ''evaluated_at_utc'', ''would_have_blocked'', ''reason'', ''parent_status_json'', ''policy_bundle_digest'', ''writer_identity''] 0,
    coro ''nodes_exist'' [''node_ids''] 0, coro ''are_quarantined'' [''node_ids''] 0, coro ''compute_covers_interval_gap'' [''covers''] 0,
    coro ''compute_quarantine_digest'' [''additional_node_ids''] 0]"

definition detector_base :: "signature list" where
  "detector_base = [
    plain ''source_class'' [] 0, coro ''to_designation'' [''raw_event''] 0]"

definition human_report_adapter :: "signature list" where
  "human_report_adapter = [
    plain ''source_class'' [] 0, coro ''to_designation'' [''raw_event''] 0]"

definition amg_adapter :: "signature list" where
  "amg_adapter = [
    plain ''source_class'' [] 0, coro ''to_designation'' [''raw_event''] 0]"

section \<open>The choice when the module is loaded\<close>

definition backend_class :: "string \<Rightarrow> signature list" where
  "backend_class backend_type =
     (if backend_type = ''postgres'' then postgres_state_backend else if backend_type = ''sqlite'' then sqlite_state_backend else memory_state_backend)"

definition load_backend :: "string \<Rightarrow> string list + signature list" where
  "load_backend backend_type = instantiate base_state_backend (backend_class backend_type)"

lemma memory_abstract: "left_abstract base_state_backend memory_state_backend = [''transaction'']"
  by code_simp

lemma sqlite_abstract: "left_abstract base_state_backend sqlite_state_backend = []"
  by code_simp

lemma postgres_abstract: "left_abstract base_state_backend postgres_state_backend = [''transaction'']"
  by code_simp

lemma memory_signatures: "list_all (\<lambda>m. m_name m \<noteq> ''transaction'' \<longrightarrow> overrides_well memory_state_backend m) base_state_backend"
  by code_simp

lemma sqlite_signatures: "list_all (overrides_well sqlite_state_backend) base_state_backend"
  by code_simp

lemma postgres_signatures: "list_all (\<lambda>m. m_name m \<noteq> ''transaction'' \<longrightarrow> overrides_well postgres_state_backend m) base_state_backend"
  by code_simp

lemma memory_stale: "left_abstract stale_state_backend memory_state_backend = []"
  by code_simp

lemma sqlite_stale: "left_abstract stale_state_backend sqlite_state_backend = []"
  by code_simp

lemma postgres_stale: "left_abstract stale_state_backend postgres_state_backend = []"
  by code_simp

lemmas class_facts = memory_abstract sqlite_abstract postgres_abstract memory_stale sqlite_stale postgres_stale

text \<open>The detector adapters are created when their package is loaded.\<close>

lemma detectors_load:
  "instantiate detector_base human_report_adapter = Inr human_report_adapter" "instantiate detector_base amg_adapter = Inr amg_adapter"
  "list_all (overrides_well human_report_adapter) detector_base" "list_all (overrides_well amg_adapter) detector_base"
  by code_simp+


end
