(* ===== verification/Pool_Life.thy ===== *)
theory Pool_Life
  imports Gateway_State
begin

text \<open>
  The connection pool of the PostgreSQL backend: \<open>_get_pool\<close> and \<open>close\<close> of \<open>src/postgres_backend.py\<close>. The pool is made on first use and bound to the event loop that made it; a pool of another loop is
  terminated and replaced. Creating a pool is awaited, so other tasks run between the check and the assignment; each stretch between two awaits is one step.
\<close>

section \<open>Operations\<close>

datatype pool_status = Open | Terminated | Closed

type_synonym pool_id = nat
type_synonym event_loop = nat

record pool_backend =
  pb_pool :: "pool_id option" \<comment> \<open>\<open>_pool\<close>\<close>
  pb_loop :: "event_loop option" \<comment> \<open>\<open>_pool_loop\<close>\<close>
  pools :: "(event_loop \<times> pool_status) list" \<comment> \<open>every pool ever made, with its loop\<close>

definition fresh_backend :: pool_backend where
  "fresh_backend = \<lparr>pb_pool = None, pb_loop = None, pools = []\<rparr>"

definition set_status :: "pool_id \<Rightarrow> pool_status \<Rightarrow> pool_backend \<Rightarrow> pool_backend" where
  "set_status i st b = b\<lparr>pools := (pools b)[i := (fst (pools b ! i), st)]\<rparr>"

text \<open>\<open>_get_pool\<close> up to the await: the pool, or the need to create one. \<open>terminate\<close> may raise, which is swallowed.\<close>

definition get_pool_check :: "event_loop \<Rightarrow> bool \<Rightarrow> pool_backend \<Rightarrow> pool_id option \<times> pool_backend" where
  "get_pool_check l terminate_raises b =
     (let b' = (case pb_pool b of
          None \<Rightarrow> b
        | Some i \<Rightarrow> if pb_loop b \<noteq> Some l then (if terminate_raises then b else set_status i Terminated b)\<lparr>pb_pool := None\<rparr> else b)
      in (pb_pool b', b'))"

text \<open>What the awaited call does, and what follows it. If it raises, nothing is assigned.\<close>

definition create_pool :: "event_loop \<Rightarrow> pool_backend \<Rightarrow> pool_id \<times> pool_backend" where
  "create_pool l b = (length (pools b), b\<lparr>pools := pools b @ [(l, Open)]\<rparr>)"

definition assign_pool :: "event_loop \<Rightarrow> pool_id \<Rightarrow> pool_backend \<Rightarrow> pool_backend" where
  "assign_pool l i b = b\<lparr>pb_pool := Some i, pb_loop := Some l\<rparr>"

text \<open>A call that no other task interrupts; \<open>ok\<close> says whether the server accepts the connection.\<close>

definition get_pool :: "event_loop \<Rightarrow> bool \<Rightarrow> bool \<Rightarrow> pool_backend \<Rightarrow> pool_id option \<times> pool_backend" where
  "get_pool l terminate_raises ok b =
     (case get_pool_check l terminate_raises b of
        (Some i, b1) \<Rightarrow> (Some i, b1)
      | (None, b1) \<Rightarrow> if ok then (let (i, b2) = create_pool l b1 in (Some i, assign_pool l i b2)) else (None, b1))"

definition close_backend :: "pool_backend \<Rightarrow> pool_backend" where
  "close_backend b = (case pb_pool b of None \<Rightarrow> b | Some i \<Rightarrow> (set_status i Closed b)\<lparr>pb_pool := None\<rparr>)"

section \<open>Uninterrupted calls\<close>

datatype pool_call =
    Call_Get event_loop bool bool
  | Call_Close

fun run_call :: "pool_call \<Rightarrow> pool_backend \<Rightarrow> pool_backend" where
  "run_call (Call_Get l tr ok) b = snd (get_pool l tr ok b)"
| "run_call Call_Close b = close_backend b"

definition open_pools :: "pool_backend \<Rightarrow> pool_id list" where
  "open_pools b = filter (\<lambda>i. snd (pools b ! i) = Open) [0..<length (pools b)]"

text \<open>The backend refers to an open pool of the loop it has noted, and no other pool is open.\<close>

definition pool_ok :: "pool_backend \<Rightarrow> bool" where
  "pool_ok b \<longleftrightarrow> (case pb_pool b of
     None \<Rightarrow> \<forall>i<length (pools b). snd (pools b ! i) \<noteq> Open
   | Some i \<Rightarrow> i < length (pools b) \<and> snd (pools b ! i) = Open \<and> pb_loop b = Some (fst (pools b ! i)) \<and> (\<forall>j<length (pools b). snd (pools b ! j) = Open \<longrightarrow> j = i))"

definition terminates :: "pool_call \<Rightarrow> bool" where
  "terminates c \<longleftrightarrow> (case c of Call_Get l tr ok \<Rightarrow> \<not> tr | Call_Close \<Rightarrow> True)"

lemma set_status_sel [simp]:
  "pb_pool (set_status i st b) = pb_pool b" "pb_loop (set_status i st b) = pb_loop b" "length (pools (set_status i st b)) = length (pools b)"
  by (simp_all add: set_status_def)

lemma pools_set_status: "i < length (pools b) \<Longrightarrow> j < length (pools b) \<Longrightarrow> pools (set_status i st b) ! j = (if i = j then (fst (pools b ! i), st) else pools b ! j)"
  by (simp add: set_status_def)

lemma pool_ok_fresh: "pool_ok fresh_backend"
  by (simp add: pool_ok_def fresh_backend_def)

lemma pool_ok_check: "pool_ok b \<Longrightarrow> pool_ok (snd (get_pool_check l False b))"
  by (auto simp: get_pool_check_def pool_ok_def Let_def pools_set_status split: option.splits if_splits)

lemma check_loop: "pb_pool (snd (get_pool_check l tr b)) = Some i \<Longrightarrow> pb_loop (snd (get_pool_check l tr b)) = Some l"
  by (auto simp: get_pool_check_def Let_def split: option.splits if_splits)

lemma pool_ok_create: "pool_ok b \<Longrightarrow> pb_pool b = None \<Longrightarrow> pool_ok (assign_pool l (fst (create_pool l b)) (snd (create_pool l b)))"
  by (auto simp: pool_ok_def assign_pool_def create_pool_def nth_append less_Suc_eq)

lemma fst_check: "fst (get_pool_check l tr b) = pb_pool (snd (get_pool_check l tr b))"
  by (simp add: get_pool_check_def Let_def)

lemma get_pool_cases:
  "get_pool l tr ok b = (let b1 = snd (get_pool_check l tr b) in
     case pb_pool b1 of Some i \<Rightarrow> (Some i, b1)
     | None \<Rightarrow> if ok then (Some (fst (create_pool l b1)), assign_pool l (fst (create_pool l b1)) (snd (create_pool l b1))) else (None, b1))"
  by (simp add: get_pool_def split_beta Let_def fst_check split: option.split)

lemma pool_ok_get: "pool_ok b \<Longrightarrow> pool_ok (snd (get_pool l False ok b))"
  using pool_ok_check [of b l] pool_ok_create [of "snd (get_pool_check l False b)" l] by (simp add: get_pool_cases Let_def split: option.split)

lemma pool_ok_close: "pool_ok b \<Longrightarrow> pool_ok (close_backend b)"
  by (auto simp: close_backend_def pool_ok_def pools_set_status split: option.splits)

lemma pool_ok_call: "pool_ok b \<Longrightarrow> terminates c \<Longrightarrow> pool_ok (run_call c b)"
  by (cases c) (simp_all add: terminates_def pool_ok_get pool_ok_close)

lemma pool_ok_calls: "pool_ok b \<Longrightarrow> list_all terminates cs \<Longrightarrow> pool_ok (fold run_call cs b)"
  by (induction cs arbitrary: b) (auto intro: pool_ok_call)

text \<open>One pool at a time. As long as calls are not interleaved and termination works, after any sequence of calls from any event loops at most one pool is open, a call that gets a pool gets an open one of
  its own event loop, and after \<open>close\<close> none is open.\<close>

theorem pool_life:
  assumes "list_all terminates cs" and "b = fold run_call cs fresh_backend"
  shows "length (open_pools b) \<le> 1 \<and> open_pools (close_backend b) = [] \<and>
    (case get_pool l False ok b of (None, _) \<Rightarrow> \<not> ok | (Some i, b') \<Rightarrow> open_pools b' = [i] \<and> fst (pools b' ! i) = l)"
proof -
  have single: "open_pools x = (case pb_pool x of None \<Rightarrow> [] | Some i \<Rightarrow> [i])" if ok: "pool_ok x" for x
  proof (cases "pb_pool x")
    case (Some i)
    have "distinct (open_pools x)" by (simp add: open_pools_def)
    moreover have "set (open_pools x) = {i}" using ok Some by (auto simp: open_pools_def pool_ok_def)
    ultimately have "length (open_pools x) = 1" using distinct_card by fastforce
    then obtain j where "open_pools x = [j]" by (auto simp: length_Suc_conv)
    then show ?thesis using \<open>set (open_pools x) = {i}\<close> Some by simp
  qed (use ok in \<open>auto simp: open_pools_def pool_ok_def filter_empty_conv\<close>)
  have ok: "pool_ok b" using pool_ok_calls [OF pool_ok_fresh assms(1)] assms(2) by simp
  have c: "pb_pool (close_backend b) = None" by (simp add: close_backend_def split: option.split)
  have "pool_ok (close_backend b)" using pool_ok_call [OF ok, of Call_Close] by (simp add: terminates_def)
  then have "open_pools (close_backend b) = []" using single c by simp
  moreover have "length (open_pools b) \<le> 1" using single [OF ok] by (simp split: option.split)
  moreover have "case get_pool l False ok b of (None, _) \<Rightarrow> \<not> ok | (Some i, b') \<Rightarrow> open_pools b' = [i] \<and> fst (pools b' ! i) = l"
  proof (cases "get_pool l False ok b")
    case (Pair r b')
    have ok': "pool_ok b'" using pool_ok_get [OF ok, of l ok] Pair by simp
    have "r = None \<longrightarrow> \<not> ok" using Pair by (auto simp: get_pool_cases Let_def split: option.splits if_splits)
    moreover have "pb_pool b' = Some i \<and> pb_loop b' = Some l" if "r = Some i" for i
      using Pair that ok by (auto simp: get_pool_cases Let_def assign_pool_def check_loop split: option.splits if_splits)
    ultimately show ?thesis using Pair ok' single [OF ok'] by (auto simp: pool_ok_def split: option.split)
  qed
  ultimately show ?thesis by blast
qed

theorem pool_life_witness:
  "open_pools (close_backend (fold run_call [Call_Get 0 False True, Call_Get 1 False True, Call_Close] fresh_backend)) = []"
  using pool_life [OF _ refl, of "[Call_Get 0 False True, Call_Get 1 False True, Call_Close]" True 0] by (simp add: terminates_def)

section \<open>Interleaved calls\<close>

text \<open>The calls that wait for their pool are kept as the list of their loops.\<close>

inductive pool_step :: "pool_backend \<times> event_loop list \<Rightarrow> pool_backend \<times> event_loop list \<Rightarrow> bool" where
  found: "get_pool_check l tr b = (Some i, b') \<Longrightarrow> pool_step (b, ws) (b', ws)"
| await: "get_pool_check l tr b = (None, b') \<Longrightarrow> pool_step (b, ws) (b', l # ws)"
| created: "create_pool l b = (i, b') \<Longrightarrow> pool_step (b, us @ l # vs) (assign_pool l i b', us @ vs)"
| refused: "pool_step (b, us @ l # vs) (b, us @ vs)"
| closed: "pool_step (b, ws) (close_backend b, ws)"

lemma all_await: "pool_step\<^sup>*\<^sup>* (fresh_backend, []) (fresh_backend, replicate k l)"
proof (induction k)
  case (Suc k)
  have "pool_step (fresh_backend, replicate k l) (fresh_backend, l # replicate k l)" by (rule await [where tr = False]) (simp add: get_pool_check_def fresh_backend_def)
  then show ?case using Suc by (simp add: rtranclp.rtrancl_into_rtrancl)
qed simp

lemma all_created:
  "\<exists>b'. pool_step\<^sup>*\<^sup>* (b, replicate (Suc k) l) (b', []) \<and> pools b' = pools b @ replicate (Suc k) (l, Open) \<and> pb_pool b' = Some (length (pools b) + k)"
proof (induction k arbitrary: b)
  case 0
  have "pool_step (b, [] @ l # []) (assign_pool l (fst (create_pool l b)) (snd (create_pool l b)), [] @ [])" by (rule created) simp
  then have "pool_step\<^sup>*\<^sup>* (b, replicate (Suc 0) l) (assign_pool l (fst (create_pool l b)) (snd (create_pool l b)), [])" by (simp add: r_into_rtranclp)
  then show ?case by (intro exI conjI, assumption) (simp_all add: assign_pool_def create_pool_def)
next
  case (Suc k)
  let ?b = "assign_pool l (fst (create_pool l b)) (snd (create_pool l b))"
  have s: "pool_step (b, [] @ l # replicate (Suc k) l) (?b, [] @ replicate (Suc k) l)" by (rule created) simp
  obtain b' where b': "pool_step\<^sup>*\<^sup>* (?b, replicate (Suc k) l) (b', [])" "pools b' = pools ?b @ replicate (Suc k) (l, Open)" "pb_pool b' = Some (length (pools ?b) + k)"
    using Suc.IH by blast
  have "pool_step\<^sup>*\<^sup>* (b, replicate (Suc (Suc k)) l) (b', [])" using converse_rtranclp_into_rtranclp [of pool_step, OF s, of "(b', [])"] b'(1) by simp
  then show ?case using b'(2,3) by (intro exI [of _ b'] conjI) (simp_all add: assign_pool_def create_pool_def)
qed

text \<open>Concurrent first calls leak pools. There is no lock around the check and the creation: if \<open>n\<close> further calls arrive while the first pool is being made, the backend makes \<open>n + 1\<close> pools, keeps the last, and after \<open>close\<close>
  the other \<open>n\<close> are still open and nothing refers to them.\<close>

theorem concurrent_gets_leak:
  "\<exists>b. pool_step\<^sup>*\<^sup>* (fresh_backend, []) (b, []) \<and> length (open_pools (close_backend b)) = n \<and> pb_pool (close_backend b) = None"
proof -
  obtain b where b: "pool_step\<^sup>*\<^sup>* (fresh_backend, replicate (Suc n) 0) (b, [])" "pools b = pools fresh_backend @ replicate (Suc n) (0, Open)" "pb_pool b = Some (length (pools fresh_backend) + n)"
    using all_created by blast
  have pools: "pools b = replicate (Suc n) (0, Open)" "pb_pool b = Some n" using b(2,3) by (simp_all add: fresh_backend_def)
  have "open_pools (close_backend b) = filter (\<lambda>i. i \<noteq> n) [0..<Suc n]"
    unfolding open_pools_def by (simp add: pools close_backend_def) (auto simp: set_status_def pools nth_list_update intro!: filter_cong simp del: replicate.simps upt_Suc)
  then have "length (open_pools (close_backend b)) = n" by (simp add: filter_id_conv)
  moreover have "pool_step\<^sup>*\<^sup>* (fresh_backend, []) (b, [])" using all_await b(1) by (rule rtranclp_trans)
  ultimately show ?thesis using pools by (intro exI [of _ b]) (simp add: close_backend_def)
qed

end
