(* ===== verification/Migrate_Env.thy ===== *)
theory Migrate_Env
  imports Schema
begin

text \<open>
  \<open>migrations/env.py\<close>, the module that Alembic runs for every migration command: the choice of the database, and the calls of the two modes with the \<open>with\<close> blocks that end them. Alembic and the engine are not under
  \<open>src/\<close>: which of their calls raise, and what a failing migration has already done, are parameters. What is relied on is documented: \<open>begin_transaction\<close> commits at the end of its block and rolls back if the block raises, and a connection
  is closed at the end of its block.
\<close>

section \<open>Calls\<close>

datatype alembic_call =
    File_Config string
  | Create_Engine "string option"
  | Connect
  | Disconnect
  | Configure_Url "string option"
  | Configure_Connection
  | Begin
  | Run
  | Commit
  | Rollback

record alembic_config =
  config_file_name :: "string option"
  sqlalchemy_url :: "string option"

definition get_url :: "(string, string) dict \<Rightarrow> alembic_config \<Rightarrow> string option" where
  "get_url environ cfg = (case map_of environ ''POSTGRES_DSN'' of Some u \<Rightarrow> Some u | None \<Rightarrow> sqlalchemy_url cfg)"

datatype env_script =
    Call alembic_call
  | Then env_script env_script
  | With alembic_call alembic_call alembic_call env_script \<comment> \<open>enter, exit, exit after an exception\<close>

definition run_migrations_offline :: "string option \<Rightarrow> env_script" where
  "run_migrations_offline url = Then (Call (Configure_Url url)) (With Begin Commit Rollback (Call Run))"

definition run_migrations_online :: "string option \<Rightarrow> env_script" where
  "run_migrations_online url =
     Then (Call (Create_Engine url)) (With Connect Disconnect Disconnect (Then (Call Configure_Connection) (With Begin Commit Rollback (Call Run))))"

definition env_module :: "bool \<Rightarrow> (string, string) dict \<Rightarrow> alembic_config \<Rightarrow> env_script" where
  "env_module is_offline_mode environ cfg =
     (let mode = (if is_offline_mode then run_migrations_offline (get_url environ cfg) else run_migrations_online (get_url environ cfg))
      in case config_file_name cfg of None \<Rightarrow> mode | Some f \<Rightarrow> Then (Call (File_Config f)) mode)"

section \<open>Execution\<close>

record 'd target =
  stored :: 'd \<comment> \<open>what other sessions see\<close>
  pending :: "'d option" \<comment> \<open>inside a transaction\<close>
  connected :: bool
  calls :: "alembic_call list"

text \<open>\<open>up\<close> is what the migrations do; a run that raises has done some part of it. Offline the migrations only print their statements.\<close>

definition effect :: "('d \<Rightarrow> 'd) \<Rightarrow> ('d \<Rightarrow> 'd) \<Rightarrow> bool \<Rightarrow> alembic_call \<Rightarrow> 'd target \<Rightarrow> 'd target" where
  "effect up part raised c s =
     (case c of
        Connect \<Rightarrow> if raised then s else s\<lparr>connected := True\<rparr>
      | Disconnect \<Rightarrow> s\<lparr>connected := False, pending := None\<rparr>
      | Begin \<Rightarrow> if raised then s else s\<lparr>pending := Some (stored s)\<rparr>
      | Run \<Rightarrow> if connected s then s\<lparr>pending := map_option (if raised then part else up) (pending s)\<rparr> else s
      | Commit \<Rightarrow> if raised then s else s\<lparr>stored := (case pending s of None \<Rightarrow> stored s | Some d \<Rightarrow> d), pending := None\<rparr>
      | Rollback \<Rightarrow> s\<lparr>pending := None\<rparr>
      | _ \<Rightarrow> s)\<lparr>calls := calls s @ [c]\<rparr>"

fun exec_env :: "('d \<Rightarrow> 'd) \<Rightarrow> ('d \<Rightarrow> 'd) \<Rightarrow> (alembic_call \<Rightarrow> bool) \<Rightarrow> env_script \<Rightarrow> 'd target \<Rightarrow> bool \<times> 'd target" where
  "exec_env up part raises (Call c) s = (\<not> raises c, effect up part (raises c) c s)"
| "exec_env up part raises (Then a b) s =
     (case exec_env up part raises a s of (ok, s1) \<Rightarrow> if ok then exec_env up part raises b s1 else (False, s1))"
| "exec_env up part raises (With enter leave leave_exc body) s =
     (if raises enter then (False, effect up part True enter s)
      else case exec_env up part raises body (effect up part False enter s) of
        (ok, s1) \<Rightarrow> (let l = (if ok then leave else leave_exc) in (ok \<and> \<not> raises l, effect up part (raises l) l s1)))"

definition target_of :: "'d \<Rightarrow> 'd target" where
  "target_of d = \<lparr>stored = d, pending = None, connected = False, calls = []\<rparr>"

lemma effect_simps [simp]:
  "effect up part r (File_Config f) s = s\<lparr>calls := calls s @ [File_Config f]\<rparr>"
  "effect up part r (Create_Engine u) s = s\<lparr>calls := calls s @ [Create_Engine u]\<rparr>"
  "effect up part r (Configure_Url u) s = s\<lparr>calls := calls s @ [Configure_Url u]\<rparr>"
  "effect up part r Configure_Connection s = s\<lparr>calls := calls s @ [Configure_Connection]\<rparr>"
  by (simp_all add: effect_def)

text \<open>What the two modes do, from a target without a connection.\<close>

definition only_url :: "string option \<Rightarrow> alembic_call list \<Rightarrow> bool" where
  "only_url u cs \<longleftrightarrow> set cs \<inter> (range Create_Engine \<union> range Configure_Url) \<subseteq> {Create_Engine u, Configure_Url u}"

lemma only_url_simps [simp]:
  "only_url u []" "only_url u (c # c' # cs) \<longleftrightarrow> only_url u [c] \<and> only_url u (c' # cs)"
  "only_url u [File_Config f]" "only_url u [Create_Engine u]" "only_url u [Configure_Url u]" "only_url u [Connect]" "only_url u [Disconnect]" "only_url u [Configure_Connection]"
  "only_url u [Begin]" "only_url u [Run]" "only_url u [Commit]" "only_url u [Rollback]"
  by (auto simp: only_url_def)

lemma offline_run:
  assumes "exec_env up part raises (run_migrations_offline url) \<lparr>stored = d, pending = None, connected = False, calls = fs\<rparr> = (ok, s)"
  shows "\<not> connected s \<and> stored s = d \<and>
    (let cs = drop (length fs) (calls s) in calls s = fs @ cs \<and> only_url url cs \<and> (ok \<longrightarrow> {Run, Commit} \<subseteq> set cs))"
  using assms
  by (cases "raises (Configure_Url url)"; cases "raises Begin"; cases "raises Run"; cases "raises Commit")
    (auto simp: run_migrations_offline_def effect_def)

lemma online_run:
  assumes "exec_env up part raises (run_migrations_online url) \<lparr>stored = d, pending = None, connected = False, calls = fs\<rparr> = (ok, s)"
  shows "\<not> connected s \<and> pending s = None \<and>
    (let cs = drop (length fs) (calls s) in calls s = fs @ cs \<and> only_url url cs \<and> (ok \<longrightarrow> {Run, Commit} \<subseteq> set cs) \<and>
      stored s = (if Commit \<in> set cs \<and> \<not> raises Commit then up d else d))"
  using assms
  by (cases "raises (Create_Engine url)"; cases "raises Connect"; cases "raises Configure_Connection"; cases "raises Begin"; cases "raises Run"; cases "raises Commit")
    (auto simp: run_migrations_online_def effect_def)

text \<open>C16: A migration is all or nothing. Whichever calls raise, wherever the migrations stop and in either mode, the module leaves no connection and no open transaction, the database is the upgraded one if the commit was reached and went through
  and is untouched otherwise, always untouched offline, and only the database of \<open>get_url\<close> is named, which the environment decides if it names one.\<close>

theorem migration_all_or_nothing:
  assumes "exec_env up part raises (env_module off environ cfg) (target_of d) = (ok, s)"
  shows "\<not> connected s \<and> (off \<or> pending s = None) \<and>
    stored s = (if \<not> off \<and> Commit \<in> set (calls s) \<and> \<not> raises Commit then up d else d) \<and>
    (ok \<longrightarrow> Run \<in> set (calls s) \<and> Commit \<in> set (calls s)) \<and>
    set (calls s) \<inter> (range Create_Engine \<union> range Configure_Url) \<subseteq> {Create_Engine (get_url environ cfg), Configure_Url (get_url environ cfg)}"
proof -
  let ?url = "get_url environ cfg"
  have mode: "\<not> connected s \<and> (off \<or> pending s = None) \<and>
      (\<exists>cs. calls s = fs @ cs \<and> only_url ?url cs \<and> (ok \<longrightarrow> {Run, Commit} \<subseteq> set cs) \<and> stored s = (if \<not> off \<and> Commit \<in> set cs \<and> \<not> raises Commit then up d else d))"
    if "exec_env up part raises (if off then run_migrations_offline ?url else run_migrations_online ?url) \<lparr>stored = d, pending = None, connected = False, calls = fs\<rparr> = (ok, s)" for fs
    using that offline_run [of up part raises ?url d fs ok s] online_run [of up part raises ?url d fs ok s] by (cases off) (simp_all add: Let_def, blast+)
  show ?thesis
  proof (cases "config_file_name cfg")
    case None
    then show ?thesis using mode [of "[]"] assms by (auto simp: env_module_def target_of_def only_url_def)
  next
    case (Some f)
    then show ?thesis using mode [of "[File_Config f]"] assms by (auto simp: env_module_def target_of_def only_url_def split: if_splits)
  qed
qed

theorem migration_all_or_nothing_witness:
  "\<exists>s. exec_env (\<lambda>db. case exec_all upgrade db of None \<Rightarrow> db | Some db' \<Rightarrow> db') (\<lambda>db. db) (\<lambda>c. c = Commit) (env_module False [(''POSTGRES_DSN'', ''postgres://db'')] \<lparr>config_file_name = None, sqlalchemy_url = None\<rparr>) (target_of empty_db)
      = (False, s) \<and> \<not> connected s \<and> stored s = empty_db"
proof -
  let ?x = "exec_env (\<lambda>db. case exec_all upgrade db of None \<Rightarrow> db | Some db' \<Rightarrow> db') (\<lambda>db. db) (\<lambda>c. c = Commit) (env_module False [(''POSTGRES_DSN'', ''postgres://db'')] \<lparr>config_file_name = None, sqlalchemy_url = None\<rparr>) (target_of empty_db)"
  have "?x = (False, snd ?x)" by (simp add: env_module_def run_migrations_online_def prod_eq_iff split_beta Let_def)
  from migration_all_or_nothing [OF this] this show ?thesis by auto
qed

end
